(* ===== verification/Prelude.thy ===== *)
theory Prelude
  imports Complex_Main "HOL-Library.Monad_Syntax" "HOL-Library.Char_ord"
    "HOL-Library.List_Lexorder"
begin

text \<open>
  Shared vocabulary of the development: the result type of Python code that may raise, the
  short-circuiting operators and loops of Python over that type, and the generic facts the
  component theories use.

  A computation that may raise has type \<open>'a py\<close>: \<open>None\<close> stands for an exception
  that leaves the function, \<open>Some v\<close> for a normal return of \<open>v\<close>. Components in which the
  kind of the error matters use a sum type of their own.
\<close>

type_synonym 'a py = "'a option"

named_theorems py_defs \<open>unfolding rules of the operators below\<close>

subsection \<open>Short-circuiting connectives and quantifiers\<close>

definition py_and :: "bool py \<Rightarrow> bool py \<Rightarrow> bool py" where
  "py_and a b = do { x \<leftarrow> a; if x then b else Some False }"

definition py_or :: "bool py \<Rightarrow> bool py \<Rightarrow> bool py" where
  "py_or a b = do { x \<leftarrow> a; if x then Some True else b }"

definition py_not :: "bool py \<Rightarrow> bool py" where
  "py_not a = map_option Not a"

text \<open>\<open>any(f(x) for x in xs)\<close> stops at the first true element, \<open>all\<close> at the first false one.\<close>

fun py_any :: "('a \<Rightarrow> bool py) \<Rightarrow> 'a list \<Rightarrow> bool py" where
  "py_any f [] = Some False"
| "py_any f (x # xs) = py_or (f x) (py_any f xs)"

fun py_all :: "('a \<Rightarrow> bool py) \<Rightarrow> 'a list \<Rightarrow> bool py" where
  "py_all f [] = Some True"
| "py_all f (x # xs) = py_and (f x) (py_all f xs)"

text \<open>\<open>[x for x in xs if f(x)]\<close> and \<open>[f(x) for x in xs]\<close> with a raising \<open>f\<close>.\<close>

fun py_filter :: "('a \<Rightarrow> bool py) \<Rightarrow> 'a list \<Rightarrow> 'a list py" where
  "py_filter f [] = Some []"
| "py_filter f (x # xs) =
     do { b \<leftarrow> f x; ys \<leftarrow> py_filter f xs; Some (if b then x # ys else ys) }"

fun py_map :: "('a \<Rightarrow> 'b py) \<Rightarrow> 'a list \<Rightarrow> 'b list py" where
  "py_map f [] = Some []"
| "py_map f (x # xs) = do { y \<leftarrow> f x; ys \<leftarrow> py_map f xs; Some (y # ys) }"

text \<open>\<open>max(xs, key=k)\<close>: the first element whose key is maximal.\<close>

fun py_max_by :: "('a \<Rightarrow> 'k::linorder) \<Rightarrow> 'a \<Rightarrow> 'a list \<Rightarrow> 'a" where
  "py_max_by k m [] = m"
| "py_max_by k m (x # xs) = py_max_by k (if k m < k x then x else m) xs"

declare py_and_def [py_defs] py_or_def [py_defs] py_not_def [py_defs]

lemma py_and_simps [simp]:
  "py_and (Some True) b = b"
  "py_and (Some False) b = Some False"
  "py_and None b = None"
  by (simp_all add: py_and_def)

lemma py_or_simps [simp]:
  "py_or (Some True) b = Some True"
  "py_or (Some False) b = b"
  "py_or None b = None"
  by (simp_all add: py_or_def)

lemma py_not_simps [simp]:
  "py_not (Some b) = Some (\<not> b)"
  "py_not None = None"
  by (simp_all add: py_not_def)

lemma py_and_True [simp]: "py_and a b = Some True \<longleftrightarrow> a = Some True \<and> b = Some True"
  by (cases a) (auto simp: py_and_def split: if_splits)

lemma py_or_False [simp]: "py_or a b = Some False \<longleftrightarrow> a = Some False \<and> b = Some False"
  by (cases a) (auto simp: py_or_def split: if_splits)

lemma py_or_TrueD: "py_or a b = Some True \<Longrightarrow> a = Some True \<or> b = Some True"
  by (cases a) (auto simp: py_or_def split: if_splits)

lemma py_not_eq [simp]: "py_not a = Some b \<longleftrightarrow> a = Some (\<not> b)"
  by (cases a) (auto simp: py_not_def)

lemma py_any_False [simp]: "py_any f xs = Some False \<longleftrightarrow> (\<forall>x\<in>set xs. f x = Some False)"
  by (induction xs) auto

lemma py_any_TrueD: "py_any f xs = Some True \<Longrightarrow> \<exists>x\<in>set xs. f x = Some True"
  by (induction xs) (auto dest: py_or_TrueD)

lemma py_all_True [simp]: "py_all f xs = Some True \<longleftrightarrow> (\<forall>x\<in>set xs. f x = Some True)"
  by (induction xs) auto

lemma py_any_total: "\<forall>x\<in>set xs. f x \<noteq> None \<Longrightarrow> py_any f xs \<noteq> None"
  by (induction xs) (auto simp: py_or_def)

lemma py_any_Some_iff:
  "\<forall>x\<in>set xs. f x \<noteq> None \<Longrightarrow> py_any f xs = Some (\<exists>x\<in>set xs. f x = Some True)"
  by (induction xs) (auto simp: py_or_def)

lemma py_any_cong [fundef_cong]:
  "xs = ys \<Longrightarrow> (\<And>x. x \<in> set ys \<Longrightarrow> f x = g x) \<Longrightarrow> py_any f xs = py_any g ys"
  by (induction ys arbitrary: xs) (auto simp: py_or_def)

lemma py_map_cong [fundef_cong]:
  "xs = ys \<Longrightarrow> (\<And>x. x \<in> set ys \<Longrightarrow> f x = g x) \<Longrightarrow> py_map f xs = py_map g ys"
  by (induction ys arbitrary: xs) auto

lemma py_map_SomeD: "py_map f xs = Some ys \<Longrightarrow> list_all2 (\<lambda>x y. f x = Some y) xs ys"
  by (induction xs arbitrary: ys) (auto simp: bind_eq_Some_conv)

lemma py_map_length: "py_map f xs = Some ys \<Longrightarrow> length ys = length xs"
  by (metis py_map_SomeD list_all2_lengthD)

lemma py_map_total: "(\<And>x. x \<in> set xs \<Longrightarrow> f x = Some (g x)) \<Longrightarrow> py_map f xs = Some (map g xs)"
  by (induction xs) auto

lemma py_filter_SomeD:
  "py_filter f xs = Some ys \<Longrightarrow> set ys = {x \<in> set xs. f x = Some True}"
  by (induction xs arbitrary: ys) (auto simp: bind_eq_Some_conv split: if_splits)

lemma py_filter_append:
  "py_filter f (xs @ ys) = do { us \<leftarrow> py_filter f xs; vs \<leftarrow> py_filter f ys; Some (us @ vs) }"
proof (induction xs)
  case Nil
  show ?case by (cases "py_filter f ys") simp_all
next
  case (Cons x xs)
  then show ?case
    by (cases "f x"; cases "py_filter f xs"; cases "py_filter f ys") simp_all
qed

subsection \<open>Agreement of computations that may raise\<close>

text \<open>
  Two computations agree when they return the same value wherever both return. Short-circuit
  evaluation in a different order may raise in one run and return in the other, so agreement
  is what a property of "the order does not matter" can promise.
\<close>

definition agree :: "'a py \<Rightarrow> 'a py \<Rightarrow> bool" where
  "agree a b \<longleftrightarrow> (\<forall>x y. a = Some x \<longrightarrow> b = Some y \<longrightarrow> x = y)"

named_theorems agree_intros \<open>agreement is a congruence\<close>

lemma agreeD: "agree a b \<Longrightarrow> a = Some x \<Longrightarrow> b = Some y \<Longrightarrow> x = y"
  by (auto simp: agree_def)

lemma agree_refl [agree_intros, simp]: "agree a a"
  by (simp add: agree_def)

lemma agree_and [agree_intros]: "agree a a' \<Longrightarrow> agree b b' \<Longrightarrow> agree (py_and a b) (py_and a' b')"
  by (cases a; cases a') (auto simp: agree_def py_and_def split: if_splits)

lemma agree_or [agree_intros]: "agree a a' \<Longrightarrow> agree b b' \<Longrightarrow> agree (py_or a b) (py_or a' b')"
  by (cases a; cases a') (auto simp: agree_def py_or_def split: if_splits)

lemma agree_not [agree_intros]: "agree a a' \<Longrightarrow> agree (py_not a) (py_not a')"
  by (cases a; cases a') (auto simp: agree_def)

lemma agree_any [agree_intros]:
  assumes "set xs = set ys" and "\<And>x. x \<in> set xs \<Longrightarrow> agree (f x) (g x)"
  shows "agree (py_any f xs) (py_any g ys)"
  unfolding agree_def
proof (intro allI impI)
  fix b c
  assume b: "py_any f xs = Some b" and c: "py_any g ys = Some c"
  show "b = c"
  proof (cases b)
    case True
    with b obtain x where "x \<in> set xs" "f x = Some True" by (auto dest: py_any_TrueD)
    with assms c show ?thesis using True by (cases c) (auto simp: agree_def)
  next
    case False
    have "c \<Longrightarrow> \<exists>x\<in>set ys. g x = Some True" using c by (auto dest: py_any_TrueD)
    with False b assms show ?thesis by (auto simp: agree_def)
  qed
qed

lemma agree_filter_set:
  assumes "set xs = set ys"
    and "\<And>x. x \<in> set xs \<Longrightarrow> f x = g x"
    and "py_filter f xs = Some us" and "py_filter g ys = Some vs"
  shows "set us = set vs"
  using assms py_filter_SomeD [of f xs us] py_filter_SomeD [of g ys vs] by auto

subsection \<open>Maxima\<close>

lemma py_max_by_in: "py_max_by k m xs \<in> insert m (set xs)"
proof (induction xs arbitrary: m)
  case Nil
  then show ?case by simp
next
  case (Cons x xs)
  from Cons.IH [of "if k m < k x then x else m"] show ?case
    by (auto split: if_splits)
qed

lemma py_max_by_ge: "y \<in> insert m (set xs) \<Longrightarrow> k y \<le> k (py_max_by k m xs)"
proof (induction xs arbitrary: m y)
  case Nil
  then show ?case by simp
next
  case (Cons x xs)
  let ?m = "if k m < k x then x else m"
  have step: "k ?m \<le> k (py_max_by k ?m xs)" by (rule Cons.IH) simp
  show ?case
  proof (cases "y \<in> set xs")
    case True
    then have "k y \<le> k (py_max_by k ?m xs)" by (intro Cons.IH) simp
    then show ?thesis by simp
  next
    case False
    with Cons.prems have "k y \<le> k ?m" by auto
    from order_trans [OF this step] show ?thesis by simp
  qed
qed

text \<open>The key of the maximum does not depend on the order of the elements.\<close>

lemma py_max_by_key_unique:
  assumes "insert m (set xs) = insert n (set ys)"
  shows "k (py_max_by k m xs) = k (py_max_by k n ys)"
proof (rule antisym)
  show "k (py_max_by k m xs) \<le> k (py_max_by k n ys)"
    using py_max_by_in [of k m xs] assms by (intro py_max_by_ge) simp
  show "k (py_max_by k n ys) \<le> k (py_max_by k m xs)"
    using py_max_by_in [of k n ys] assms by (intro py_max_by_ge) simp
qed

subsection \<open>Association lists as Python dictionaries\<close>

text \<open>
  A dictionary is an association list in insertion order. \<open>dset\<close> overwrites in place and
  appends a new key, as \<open>d[k] = v\<close> does; lookup is \<open>map_of\<close>.
\<close>

fun dset :: "'k \<Rightarrow> 'v \<Rightarrow> ('k \<times> 'v) list \<Rightarrow> ('k \<times> 'v) list" where
  "dset k v [] = [(k, v)]"
| "dset k v ((k', v') # d) = (if k = k' then (k, v) # d else (k', v') # dset k v d)"

fun ddel :: "'k \<Rightarrow> ('k \<times> 'v) list \<Rightarrow> ('k \<times> 'v) list" where
  "ddel k [] = []"
| "ddel k ((k', v') # d) = (if k = k' then ddel k d else (k', v') # ddel k d)"

lemma map_of_dset [simp]: "map_of (dset k v d) = (map_of d)(k \<mapsto> v)"
  by (induction k v d rule: dset.induct) (auto simp: fun_eq_iff)

lemma map_of_ddel [simp]: "map_of (ddel k d) = (map_of d)(k := None)"
  by (induction k d rule: ddel.induct) (auto simp: fun_eq_iff)

lemma dset_keys: "fst ` set (dset k v d) = insert k (fst ` set d)"
  by (induction k v d rule: dset.induct) auto

lemma dset_distinct: "distinct (map fst d) \<Longrightarrow> distinct (map fst (dset k v d))"
proof (induction k v d rule: dset.induct)
  case (2 k v k' v' d)
  then show ?case using dset_keys [of k v d] by (auto simp flip: set_map)
qed simp

lemma find_SomeD: "find p xs = Some x \<Longrightarrow> x \<in> set xs \<and> p x"
  by (auto simp: find_Some_iff)

end
