(* ===== verification/PyValue.thy ===== *)
theory PyValue
  imports Prelude
begin

text \<open>
  The part of Python's dynamic values the program computes with: JSON-like values, truth
  testing, \<open>==\<close>, the order comparisons with their \<open>TypeError\<close>, \<open>in\<close>, \<open>dict.get\<close>,
  \<open>str\<close>, \<open>int\<close>, and the string methods \<open>lower\<close>, \<open>upper\<close>, \<open>strip\<close>, \<open>split\<close>.
  Strings are ASCII text. A float is a rational or one of the IEEE specials: the rounding
  of double arithmetic is not modelled. \<open>str\<close> of a float or a container is outside the
  model and counts as raising.
\<close>

datatype pyfloat = Fin rat | PosInf | NegInf | NaN

datatype pyval =
    PNone
  | PBool bool
  | PInt int
  | PFloat pyfloat
  | PStr string
  | PList "pyval list"
  | PDict "(string \<times> pyval) list"

type_synonym pydict = "(string \<times> pyval) list"

subsection \<open>Truth, numbers, equality\<close>

fun truthy :: "pyval \<Rightarrow> bool" where
  "truthy PNone = False"
| "truthy (PBool b) = b"
| "truthy (PInt i) = (i \<noteq> 0)"
| "truthy (PFloat x) = (x \<noteq> Fin 0)"
| "truthy (PStr s) = (s \<noteq> [])"
| "truthy (PList xs) = (xs \<noteq> [])"
| "truthy (PDict d) = (d \<noteq> [])"

text \<open>\<open>a or b\<close> on values.\<close>

definition py_or_else :: "pyval \<Rightarrow> pyval \<Rightarrow> pyval" where
  "py_or_else a b = (if truthy a then a else b)"

fun num_of :: "pyval \<Rightarrow> pyfloat option" where
  "num_of (PBool b) = Some (Fin (if b then 1 else 0))"
| "num_of (PInt i) = Some (Fin (of_int i))"
| "num_of (PFloat x) = Some x"
| "num_of _ = None"

datatype cmpop = CmpLt | CmpLe | CmpGt | CmpGe

fun cmp_ord :: "cmpop \<Rightarrow> 'a::linorder \<Rightarrow> 'a \<Rightarrow> bool" where
  "cmp_ord CmpLt a b = (a < b)"
| "cmp_ord CmpLe a b = (a \<le> b)"
| "cmp_ord CmpGt a b = (b < a)"
| "cmp_ord CmpGe a b = (b \<le> a)"

text \<open>Infinities as ranks beyond every rational; a NaN compares false with everything.\<close>

fun float_rank :: "pyfloat \<Rightarrow> int" where
  "float_rank NegInf = -1"
| "float_rank PosInf = 1"
| "float_rank _ = 0"

fun float_val :: "pyfloat \<Rightarrow> rat" where
  "float_val (Fin q) = q"
| "float_val _ = 0"

definition float_cmp :: "cmpop \<Rightarrow> pyfloat \<Rightarrow> pyfloat \<Rightarrow> bool" where
  "float_cmp op x y \<longleftrightarrow> x \<noteq> NaN \<and> y \<noteq> NaN \<and>
     (if float_rank x = float_rank y then cmp_ord op (float_val x) (float_val y)
      else cmp_ord op (float_rank x) (float_rank y))"

definition float_eq :: "pyfloat \<Rightarrow> pyfloat \<Rightarrow> bool" where
  "float_eq x y \<longleftrightarrow> x = y \<and> x \<noteq> NaN"

fun py_eq :: "pyval \<Rightarrow> pyval \<Rightarrow> bool" where
  "py_eq PNone PNone = True"
| "py_eq (PStr s) (PStr t) = (s = t)"
| "py_eq (PList xs) (PList ys) = list_all2 py_eq xs ys"
| "py_eq (PDict d) (PDict e) =
     (length d = length e \<and>
      list_all (\<lambda>(k, v). case map_of e k of None \<Rightarrow> False | Some w \<Rightarrow> py_eq v w) d)"
| "py_eq a b =
     (case (num_of a, num_of b) of (Some x, Some y) \<Rightarrow> float_eq x y | _ \<Rightarrow> False)"

text \<open>
  \<open>a < b\<close> and its kin: numbers, strings and lists compare with their own kind, anything
  else is a \<open>TypeError\<close>. Two lists compare at the first position where they differ.
\<close>

fun py_cmp :: "cmpop \<Rightarrow> pyval \<Rightarrow> pyval \<Rightarrow> bool py"
  and py_cmp_list :: "cmpop \<Rightarrow> pyval list \<Rightarrow> pyval list \<Rightarrow> bool py" where
  "py_cmp op (PStr s) (PStr t) = Some (cmp_ord op s t)"
| "py_cmp op (PList xs) (PList ys) = py_cmp_list op xs ys"
| "py_cmp op a b =
     (case (num_of a, num_of b) of
        (Some x, Some y) \<Rightarrow> Some (float_cmp op x y)
      | _ \<Rightarrow> None)"
| "py_cmp_list op (x # xs) (y # ys) =
     (if py_eq x y then py_cmp_list op xs ys else py_cmp op x y)"
| "py_cmp_list op xs ys = Some (cmp_ord op (length xs) (length ys))"

subsection \<open>Dictionaries\<close>

text \<open>\<open>d.get(k)\<close>: \<open>None\<close> for a missing key, an \<open>AttributeError\<close> off a dictionary.\<close>

definition dget :: "string \<Rightarrow> pydict \<Rightarrow> pyval" where
  "dget k d = (case map_of d k of None \<Rightarrow> PNone | Some v \<Rightarrow> v)"

fun py_get :: "string \<Rightarrow> pyval \<Rightarrow> pyval py" where
  "py_get k (PDict d) = Some (dget k d)"
| "py_get k _ = None"

fun is_dict :: "pyval \<Rightarrow> bool" where
  "is_dict (PDict d) = True"
| "is_dict _ = False"

fun is_str :: "pyval \<Rightarrow> bool" where
  "is_str (PStr s) = True"
| "is_str _ = False"

text \<open>Iterating a list, or a dictionary or string as the sequence of its keys or characters.\<close>

fun py_iter :: "pyval \<Rightarrow> pyval list py" where
  "py_iter (PList xs) = Some xs"
| "py_iter (PDict d) = Some (map (PStr \<circ> fst) d)"
| "py_iter (PStr s) = Some (map (\<lambda>c. PStr [c]) s)"
| "py_iter _ = None"

text \<open>\<open>for x in (v or [])\<close>.\<close>

definition py_iter_or_empty :: "pyval \<Rightarrow> pyval list py" where
  "py_iter_or_empty v = py_iter (py_or_else v (PList []))"

lemma dget_dset [simp]: "dget k (dset k' v d) = (if k = k' then v else dget k d)"
  by (simp add: dget_def)

lemma dget_ddel [simp]: "dget k (ddel k' d) = (if k = k' then PNone else dget k d)"
  by (simp add: dget_def)

lemma dget_Cons [simp]: "dget k ((k', v) # d) = (if k = k' then v else dget k d)"
  by (simp add: dget_def)

lemma dget_Nil [simp]: "dget k [] = PNone"
  by (simp add: dget_def)

lemma py_iter_or_empty_simps [simp]:
  "py_iter_or_empty (PList xs) = Some xs"
  "py_iter_or_empty PNone = Some []"
  by (simp_all add: py_iter_or_empty_def py_or_else_def)

subsection \<open>Strings\<close>

definition char_lower :: "char \<Rightarrow> char" where
  "char_lower c = (let n = of_char c :: nat in if 65 \<le> n \<and> n \<le> 90 then char_of (n + 32) else c)"

definition char_upper :: "char \<Rightarrow> char" where
  "char_upper c = (let n = of_char c :: nat in if 97 \<le> n \<and> n \<le> 122 then char_of (n - 32) else c)"

definition str_lower :: "string \<Rightarrow> string" where
  "str_lower = map char_lower"

definition str_upper :: "string \<Rightarrow> string" where
  "str_upper = map char_upper"

definition is_space :: "char \<Rightarrow> bool" where
  "is_space c = (let n = of_char c :: nat in n \<in> {9, 10, 11, 12, 13, 28, 29, 30, 31, 32})"

definition str_strip :: "string \<Rightarrow> string" where
  "str_strip s = rev (dropWhile is_space (rev (dropWhile is_space s)))"

text \<open>\<open>s.split(c)\<close> on a single separator character: always at least one piece.\<close>

fun str_split :: "char \<Rightarrow> string \<Rightarrow> string list" where
  "str_split c [] = [[]]"
| "str_split c (x # xs) =
     (if x = c then [] # str_split c xs
      else case str_split c xs of [] \<Rightarrow> [[x]] | p # ps \<Rightarrow> (x # p) # ps)"

definition is_digit :: "char \<Rightarrow> bool" where
  "is_digit c = (let n = of_char c :: nat in 48 \<le> n \<and> n \<le> 57)"

definition digit_val :: "char \<Rightarrow> int" where
  "digit_val c = int (of_char c) - 48"

text \<open>
  \<open>int(s)\<close>: surrounding whitespace, one sign, decimal digits, and single underscores
  between digits; anything else is a \<open>ValueError\<close>.
\<close>

fun parse_digits :: "int \<Rightarrow> string \<Rightarrow> int py" where
  "parse_digits acc [] = Some acc"
| "parse_digits acc (c # cs) =
     (if is_digit c then parse_digits (acc * 10 + digit_val c) cs
      else if c = CHR ''_'' then
        (case cs of d # ds \<Rightarrow> if is_digit d then parse_digits (acc * 10 + digit_val d) ds else None
                  | [] \<Rightarrow> None)
      else None)"

definition parse_nat :: "string \<Rightarrow> int py" where
  "parse_nat s = (case s of c # cs \<Rightarrow> if is_digit c then parse_digits 0 s else None | [] \<Rightarrow> None)"

definition py_int_of_str :: "string \<Rightarrow> int py" where
  "py_int_of_str s =
     (case str_strip s of
        c # cs \<Rightarrow>
          (if c = CHR ''-'' then map_option uminus (parse_nat cs)
           else if c = CHR ''+'' then parse_nat cs
           else parse_nat (c # cs))
      | [] \<Rightarrow> None)"

text \<open>\<open>str(i)\<close> for an integer: decimal digits, no leading zeros.\<close>

fun show_nat :: "nat \<Rightarrow> string" where
  "show_nat n = (if n < 10 then [char_of (48 + n)] else show_nat (n div 10) @ [char_of (48 + n mod 10)])"

declare show_nat.simps [simp del]

definition show_int :: "int \<Rightarrow> string" where
  "show_int i = (if i < 0 then CHR ''-'' # show_nat (nat (- i)) else show_nat (nat i))"

fun py_str :: "pyval \<Rightarrow> string py" where
  "py_str PNone = Some ''None''"
| "py_str (PBool b) = Some (if b then ''True'' else ''False'')"
| "py_str (PInt i) = Some (show_int i)"
| "py_str (PStr s) = Some s"
| "py_str _ = None"

text \<open>\<open>int(v)\<close>: truncates a finite float towards zero, parses a string.\<close>

fun py_int :: "pyval \<Rightarrow> int py" where
  "py_int (PBool b) = Some (if b then 1 else 0)"
| "py_int (PInt i) = Some i"
| "py_int (PFloat (Fin q)) = Some (if q < 0 then \<lceil>q\<rceil> else \<lfloor>q\<rfloor>)"
| "py_int (PStr s) = py_int_of_str s"
| "py_int _ = None"

text \<open>The one character that stands for the dash in the program's messages.\<close>

definition dash :: char where
  "dash = CHR 0x97"

text \<open>\<open>x in container\<close> for a list, a dictionary (its keys) or a string (a substring).\<close>

fun is_substring :: "string \<Rightarrow> string \<Rightarrow> bool" where
  "is_substring s [] = (s = [])"
| "is_substring s (c # cs) = (take (length s) (c # cs) = s \<or> is_substring s cs)"

subsection \<open>Round trip of decimal integers\<close>

lemma parse_digits_append:
  "\<forall>c\<in>set cs. is_digit c \<Longrightarrow>
   parse_digits acc (cs @ ds) = parse_digits (foldl (\<lambda>a c. a * 10 + digit_val c) acc cs) ds"
  by (induction cs arbitrary: acc) auto

lemma is_digit_char_of: "n < 10 \<Longrightarrow> is_digit (char_of (48 + n)) \<and> digit_val (char_of (48 + n)) = int n"
  by (simp add: is_digit_def digit_val_def of_char_of)

lemma show_nat_digits: "\<forall>c\<in>set (show_nat n). is_digit c"
proof (induction n rule: show_nat.induct)
  case (1 n)
  then show ?case
    by (subst show_nat.simps) (auto simp: is_digit_char_of)
qed

lemma show_nat_nonempty: "show_nat n \<noteq> []"
  by (subst show_nat.simps) auto

lemma parse_show_nat_acc:
  "\<exists>k. foldl (\<lambda>a c. a * 10 + digit_val c) acc (show_nat n) = acc * 10 ^ k + int n"
proof (induction n arbitrary: acc rule: show_nat.induct)
  case (1 n)
  show ?case
  proof (cases "n < 10")
    case True
    then show ?thesis
      by (subst show_nat.simps) (auto simp: is_digit_char_of intro!: exI [of _ 1])
  next
    case False
    with "1.IH" obtain k where
      "foldl (\<lambda>a c. a * 10 + digit_val c) acc (show_nat (n div 10)) = acc * 10 ^ k + int (n div 10)"
      by blast
    with False have "foldl (\<lambda>a c. a * 10 + digit_val c) acc (show_nat n)
        = (acc * 10 ^ k + int (n div 10)) * 10 + int (n mod 10)"
      by (subst show_nat.simps) (simp add: is_digit_char_of)
    also have "\<dots> = acc * 10 ^ Suc k + int n"
    proof -
      have "int n = 10 * int (n div 10) + int (n mod 10)" by presburger
      then show ?thesis by (simp add: algebra_simps)
    qed
    finally show ?thesis by blast
  qed
qed

lemma parse_nat_show_nat [simp]: "parse_nat (show_nat n) = Some (int n)"
proof -
  obtain c cs where s: "show_nat n = c # cs" using show_nat_nonempty by (cases "show_nat n") auto
  have "parse_digits 0 (show_nat n @ []) = Some (int n)"
    using parse_show_nat_acc [of 0 n] by (subst parse_digits_append) (auto simp: show_nat_digits)
  with s show_nat_digits [of n] show ?thesis by (simp add: parse_nat_def)
qed

text \<open>\<open>int(str(i)) == i\<close>.\<close>

lemma digit_not_special:
  "is_digit c \<Longrightarrow> \<not> is_space c \<and> c \<noteq> CHR ''-'' \<and> c \<noteq> CHR ''+''"
  by (auto simp: is_digit_def is_space_def Let_def)

lemma str_strip_no_space:
  "s \<noteq> [] \<Longrightarrow> \<not> is_space (hd s) \<Longrightarrow> \<not> is_space (last s) \<Longrightarrow> str_strip s = s"
proof -
  assume "s \<noteq> []" "\<not> is_space (hd s)" "\<not> is_space (last s)"
  then have "dropWhile is_space s = s" by (cases s) auto
  moreover from \<open>s \<noteq> []\<close> \<open>\<not> is_space (last s)\<close> have "dropWhile is_space (rev s) = rev s"
    by (cases s rule: rev_cases) auto
  ultimately show ?thesis by (simp add: str_strip_def)
qed

lemma py_int_of_show_int: "py_int_of_str (show_int i) = Some i"
proof (cases "i < 0")
  case True
  let ?s = "show_nat (nat (- i))"
  have "last ?s \<in> set ?s" by (rule last_in_set [OF show_nat_nonempty])
  with show_nat_digits have "is_digit (last ?s)" by blast
  then have l: "\<not> is_space (last ?s)" by (simp add: digit_not_special)
  have "\<not> is_space CHR ''-''" by (simp add: is_space_def)
  with l have "str_strip (CHR ''-'' # ?s) = CHR ''-'' # ?s"
    by (intro str_strip_no_space) (simp_all add: show_nat_nonempty)
  with True show ?thesis by (simp add: show_int_def py_int_of_str_def)
next
  case False
  let ?s = "show_nat (nat i)"
  have d: "\<forall>c\<in>set ?s. is_digit c" by (rule show_nat_digits)
  obtain c cs where s: "?s = c # cs" using show_nat_nonempty by (cases ?s) auto
  have "last ?s \<in> set ?s" by (rule last_in_set [OF show_nat_nonempty])
  with d s have c: "is_digit c" "is_digit (last ?s)" by auto
  have "str_strip ?s = ?s"
    using c s by (intro str_strip_no_space) (simp_all add: digit_not_special)
  moreover have "parse_nat (c # cs) = Some (int (nat i))" using s parse_nat_show_nat by metis
  ultimately show ?thesis using False s c digit_not_special [of c]
    by (simp add: show_int_def py_int_of_str_def)
qed

end
