(* ===== verification/Authz_Model.thy ===== *)
theory Authz_Model
  imports PyValue
begin

text \<open>
  The authorization data model (\<open>models/authorization.py\<close>): the enumerations, the fact
  envelope and the four kinds of fact that extend it, the activity, the four expectedness
  components and the authorization context, with the model validators as functions that
  return the instance or the error they raise.
\<close>

subsection \<open>Enumerations\<close>

datatype authorization_track = ACCOUNT | FIM

datatype authorization_source_type =
  TENANT_ASSERTED | TELEMETRY_ROUTINE | ANALYST_ASSERTED | SYSTEM_ASSERTED | CONNECTOR_VERIFIED

datatype grant_class = CHANGE_TICKET | STANDING_BASELINE | ROUTINE_OBSERVATION

datatype grant_status = APPROVED | PENDING | REJECTED

datatype policy_priority = P_HIGH | P_MEDIUM | P_LOW

datatype account_kind = SERVICE | HUMAN

datatype authorization_entity_kind = E_ASSET | E_ACCOUNT | E_WATCHED_PATH | E_ORG

datatype change_kind = MODIFY | ADD | DELETE | ANY

datatype compromise_status = CLEAN | SUSPECTED | COMPROMISED | CONTAINED

fun account_kind_value :: "account_kind \<Rightarrow> string" where
  "account_kind_value SERVICE = ''service''"
| "account_kind_value HUMAN = ''human''"

fun change_kind_value :: "change_kind \<Rightarrow> string" where
  "change_kind_value MODIFY = ''modify''"
| "change_kind_value ADD = ''add''"
| "change_kind_value DELETE = ''delete''"
| "change_kind_value ANY = ''any''"

fun compromise_value :: "compromise_status \<Rightarrow> string" where
  "compromise_value CLEAN = ''clean''"
| "compromise_value SUSPECTED = ''suspected''"
| "compromise_value COMPROMISED = ''compromised''"
| "compromise_value CONTAINED = ''contained''"

text \<open>Default trust per source tier; only the order matters.\<close>

fun trust_tier :: "authorization_source_type \<Rightarrow> int" where
  "trust_tier TENANT_ASSERTED = 20"
| "trust_tier TELEMETRY_ROUTINE = 40"
| "trust_tier ANALYST_ASSERTED = 60"
| "trust_tier SYSTEM_ASSERTED = 80"
| "trust_tier CONNECTOR_VERIFIED = 100"

subsection \<open>Instants\<close>

text \<open>
  An aware \<open>datetime\<close>: the instant in microseconds since the epoch and the zone's offset
  in microseconds. Comparison is on the instant; \<open>t.time()\<close> is the wall clock of the zone.
\<close>

record datetime =
  instant :: int
  utcoffset :: int

definition dt_le :: "datetime \<Rightarrow> datetime \<Rightarrow> bool" where
  "dt_le s t \<longleftrightarrow> instant s \<le> instant t"

definition dt_time :: "datetime \<Rightarrow> int" where
  "dt_time t = (instant t + utcoffset t) mod 86400000000"

subsection \<open>Facts\<close>

record recurring_window =
  win_start :: string
  win_end :: string

record fact_scope =
  subject :: "string option"
  target :: "string option"
  action :: "string option"
  change_type :: "change_kind option"
  recurring_window :: "recurring_window option"

record policy_applicability =
  ap_env :: "string list option"
  ap_criticality :: "string list option"
  ap_data_class :: "string list option"
  ap_config_class :: "string list option"

record freeze_scope =
  fz_envs :: "string list"
  fz_config_classes :: "string list"

text \<open>
  The envelope every fact carries. The audit-only fields of the source (provenance, authorship,
  review dates) take no part in any decision and are left out.
\<close>

record fact_base =
  fact_id :: string
  track :: authorization_track
  tenant :: "string option"
  scope :: fact_scope
  source_type :: authorization_source_type
  trust :: int
  valid_from :: "datetime option"
  valid_until :: "datetime option"
  superseded_by :: "string option"

record grant_fact = fact_base +
  grant_class :: grant_class
  status :: grant_status
  cab_required :: bool
  cab_approved :: bool
  emergency :: bool
  freeze_exception :: bool
  seen_count :: "int option"
  ioc :: "bool option"

record prohibition_fact = fact_base +
  forbid_action :: "string option"
  forbid_change_type :: "string list option"
  forbid_account_type :: "account_kind option"
  applies_to :: policy_applicability
  priority :: policy_priority
  waiver_present :: bool
  break_glass_exception :: bool

record change_freeze_fact = fact_base +
  freeze_scope :: freeze_scope
  fz_start :: datetime
  fz_end :: datetime
  allowed_exception_ids :: "string list"

record entity_context_fact = fact_base +
  entity_type :: authorization_entity_kind
  ent_name :: string
  environment :: "string option"
  criticality :: "string option"
  data_classification :: "string option"
  config_class :: "string option"
  owner_org :: "string option"
  custodian_account :: "string option"
  approver :: "string option"
  service_owner :: "string option"
  account_type :: "account_kind option"
  privileged :: "bool option"
  on_call :: "bool option"
  break_glass :: "bool option"
  compromise_status :: "compromise_status option"
  linked_orgs :: "string list option"

datatype authorization_fact =
    Grant grant_fact
  | Prohibition prohibition_fact
  | ChangeFreeze change_freeze_fact
  | EntityContext entity_context_fact

text \<open>The envelope of a fact of any kind.\<close>

fun envelope :: "authorization_fact \<Rightarrow> fact_base" where
  "envelope (Grant g) = fact_base.truncate g"
| "envelope (Prohibition p) = fact_base.truncate p"
| "envelope (ChangeFreeze z) = fact_base.truncate z"
| "envelope (EntityContext e) = fact_base.truncate e"

subsection \<open>Activity, components, context\<close>

record authorization_activity =
  act_track :: authorization_track
  host :: "string option"
  account :: "string option"
  act_action :: "string option"
  path :: "string option"
  act_change_type :: "change_kind option"
  act_time :: datetime
  interactive :: bool

record authorization_components =
  sanctioned_or_routine :: bool
  in_scope :: bool
  actor_genuine :: bool
  policy_allowed :: bool

definition expected :: "authorization_components \<Rightarrow> bool" where
  "expected c \<longleftrightarrow> sanctioned_or_routine c \<and> in_scope c \<and> actor_genuine c \<and> policy_allowed c"

definition decision :: "authorization_components \<Rightarrow> string" where
  "decision c = (if expected c then ''close'' else ''escalate'')"

record authorization_context =
  ctx_tenant :: "string option"
  activity :: authorization_activity
  facts :: "authorization_fact list"

subsection \<open>Model validators\<close>

text \<open>
  Each validator runs on a constructed instance and either raises a \<open>ValueError\<close> with the
  message below or returns the instance.
\<close>

definition grant_class_legality :: "grant_fact \<Rightarrow> string + grant_fact" where
  "grant_class_legality g =
     (case grant_class g of
        CHANGE_TICKET \<Rightarrow>
          (if valid_until g = None then Inl ''change_ticket grants require valid_until''
           else if seen_count g \<noteq> None \<or> ioc g \<noteq> None
             then Inl ''seen_count/ioc are routine_observation-only fields''
           else Inr g)
      | c \<Rightarrow>
          (if status g \<noteq> APPROVED \<or> cab_required g \<or> emergency g
             then Inl ''carries no status/CAB/emergency fields''
           else if freeze_exception g then Inl ''cannot carry a freeze exception''
           else if c = STANDING_BASELINE
             then (if seen_count g \<noteq> None \<or> ioc g \<noteq> None
                   then Inl ''seen_count/ioc are routine_observation-only fields'' else Inr g)
           else if seen_count g = None then Inl ''routine_observation requires seen_count''
           else Inr g))"

definition prohibition_track_legality :: "prohibition_fact \<Rightarrow> string + prohibition_fact" where
  "prohibition_track_legality p =
     (if track p = ACCOUNT then
        (if forbid_action p = None then Inl ''account prohibitions require forbid_action''
         else if forbid_change_type p \<noteq> None \<or> ap_config_class (applies_to p) \<noteq> None
           then Inl ''forbid_change_type/config_class are FIM-track fields''
         else Inr p)
      else
        (if forbid_action p \<noteq> None \<or> forbid_account_type p \<noteq> None
           then Inl ''forbid_action/forbid_account_type are account-track fields''
         else if ap_env (applies_to p) \<noteq> None \<or> ap_criticality (applies_to p) \<noteq> None
             \<or> ap_data_class (applies_to p) \<noteq> None
           then Inl ''applies_to env/criticality/data_class are account-track fields''
         else Inr p))"

definition freeze_track_legality :: "change_freeze_fact \<Rightarrow> string + change_freeze_fact" where
  "freeze_track_legality z =
     (if track z = ACCOUNT \<and> (fz_envs (freeze_scope z) = [] \<or> fz_config_classes (freeze_scope z) \<noteq> [])
        then Inl ''account freezes scope by envs only''
      else if track z = FIM \<and> (fz_config_classes (freeze_scope z) = [] \<or> fz_envs (freeze_scope z) \<noteq> [])
        then Inl ''FIM freezes scope by config_classes only''
      else Inr z)"

definition entity_legality :: "entity_context_fact \<Rightarrow> string + entity_context_fact" where
  "entity_legality e =
     (if entity_type e \<noteq> E_ACCOUNT \<and>
         (account_type e \<noteq> None \<or> privileged e \<noteq> None \<or> on_call e \<noteq> None \<or>
          break_glass e \<noteq> None \<or> service_owner e \<noteq> None)
        then Inl ''account attributes on a non-account entity''
      else if entity_type e \<noteq> E_ORG \<and> linked_orgs e \<noteq> None
        then Inl ''linked_orgs is an org-entity field''
      else if entity_type e \<noteq> E_WATCHED_PATH \<and> (config_class e \<noteq> None \<or> approver e \<noteq> None)
        then Inl ''config_class/approver are watched_path fields''
      else Inr e)"

definition activity_track_fields :: "authorization_activity \<Rightarrow> string + authorization_activity" where
  "activity_track_fields a =
     (if act_track a = ACCOUNT then
        (if host a = None \<or> account a = None \<or> act_action a = None
           then Inl ''account activity requires host, account, action'' else Inr a)
      else if path a = None \<or> act_change_type a = None
        then Inl ''fim activity requires path and change_type''
      else Inr a)"

text \<open>Every fact of a list has passed its validator.\<close>

fun fact_legal :: "authorization_fact \<Rightarrow> bool" where
  "fact_legal (Grant g) = (grant_class_legality g = Inr g)"
| "fact_legal (Prohibition p) = (prohibition_track_legality p = Inr p)"
| "fact_legal (ChangeFreeze z) = (freeze_track_legality z = Inr z)"
| "fact_legal (EntityContext e) = (entity_legality e = Inr e)"

declare envelope.simps [simp del]

lemma envelope_sel [simp]:
  "track (envelope (Grant g)) = track g"
  "tenant (envelope (Grant g)) = tenant g"
  "superseded_by (envelope (Grant g)) = superseded_by g"
  "track (envelope (Prohibition p)) = track p"
  "tenant (envelope (Prohibition p)) = tenant p"
  "superseded_by (envelope (Prohibition p)) = superseded_by p"
  "track (envelope (ChangeFreeze z)) = track z"
  "tenant (envelope (ChangeFreeze z)) = tenant z"
  "superseded_by (envelope (ChangeFreeze z)) = superseded_by z"
  "track (envelope (EntityContext e)) = track e"
  "tenant (envelope (EntityContext e)) = tenant e"
  "superseded_by (envelope (EntityContext e)) = superseded_by e"
  by (simp_all add: envelope.simps fact_base.truncate_def)

lemma legal_ticket_bounded:
  "fact_legal (Grant g) \<Longrightarrow> grant_class g = CHANGE_TICKET \<Longrightarrow> \<exists>u. valid_until g = Some u"
  by (auto simp: grant_class_legality_def split: if_splits)

lemma legal_non_ticket:
  "fact_legal (Grant g) \<Longrightarrow> grant_class g \<noteq> CHANGE_TICKET \<Longrightarrow>
   status g = APPROVED \<and> \<not> cab_required g \<and> \<not> emergency g \<and> \<not> freeze_exception g"
  by (cases "grant_class g") (auto simp: grant_class_legality_def split: if_splits)

end
