(* ===== verification/PyGlob.thy ===== *)
theory PyGlob
  imports PyValue
begin

text \<open>
  Python's \<open>fnmatch.fnmatch\<close> on a POSIX system: \<open>*\<close>, \<open>?\<close> and \<open>[...]\<close> classes with
  ranges and leading \<open>!\<close>. A class without its closing bracket is a literal bracket, inverted
  ranges are dropped before the leading \<open>!\<close> is looked for, as the library's translation to a
  regular expression does.
\<close>

datatype cls_elem = Single char | Range char char

datatype glob_tok = Lit char | AnyChar | Star | Cls bool "cls_elem list"

fun cls_elems :: "string \<Rightarrow> cls_elem list" where
  "cls_elems (a # h # b # r) =
     (if h = CHR ''-'' then Range a b # cls_elems r else Single a # cls_elems (h # b # r))"
| "cls_elems (a # r) = Single a # cls_elems r"
| "cls_elems [] = []"

fun inverted :: "cls_elem \<Rightarrow> bool" where
  "inverted (Range a b) = (b < a)"
| "inverted (Single a) = False"

definition cls_token :: "string \<Rightarrow> glob_tok" where
  "cls_token stuff =
     (case stuff of
        c # r \<Rightarrow>
          (if c = CHR ''!'' then Cls True (filter (\<lambda>e. \<not> inverted e) (cls_elems r))
           else case filter (\<lambda>e. \<not> inverted e) (cls_elems stuff) of
               e # es \<Rightarrow>
                 (if e = Single (CHR ''!'') then Cls True es
                  else case e of
                      Range a b \<Rightarrow> if a = CHR ''!'' then Cls True (Single (CHR ''-'') # Single b # es)
                                   else Cls False (e # es)
                    | Single a \<Rightarrow> Cls False (e # es))
             | [] \<Rightarrow> Cls False [])
      | [] \<Rightarrow> Cls False [])"

text \<open>The text of a class after its opening bracket, and what follows the closing one.\<close>

definition split_class :: "string \<Rightarrow> (string \<times> string) option" where
  "split_class cs =
     (let (pre, r) = (case cs of c # cs' \<Rightarrow> if c = CHR ''!'' then ([c], cs') else ([], cs) | [] \<Rightarrow> ([], []));
          (pre, r) = (case r of c # r' \<Rightarrow> if c = CHR '']'' then (pre @ [c], r') else (pre, r) | [] \<Rightarrow> (pre, []));
          body = takeWhile (\<lambda>c. c \<noteq> CHR '']'') r
      in case dropWhile (\<lambda>c. c \<noteq> CHR '']'') r of
           [] \<Rightarrow> None
         | _ # rest \<Rightarrow> Some (pre @ body, rest))"

lemma split_class_shorter:
  assumes "split_class cs = Some (b, rest)"
  shows "length rest < length cs"
proof -
  have *: "dropWhile P r = c # rest' \<Longrightarrow> length rest' < length r" for P r c and rest' :: string
    using length_dropWhile_le [of P r] by simp
  from assms show ?thesis
    unfolding split_class_def Let_def
    by (auto dest!: * split: list.splits prod.splits if_splits)
qed

function glob_tokens :: "string \<Rightarrow> glob_tok list" where
  "glob_tokens [] = []"
| "glob_tokens (c # cs) =
     (if c = CHR ''*'' then Star # glob_tokens cs
      else if c = CHR ''?'' then AnyChar # glob_tokens cs
      else if c = CHR ''['' then
        (case split_class cs of
           None \<Rightarrow> Lit c # glob_tokens cs
         | Some (body, rest) \<Rightarrow> cls_token body # glob_tokens rest)
      else Lit c # glob_tokens cs)"
  by pat_completeness auto
termination
  by (relation "measure length") (auto dest: split_class_shorter)

fun elem_has :: "char \<Rightarrow> cls_elem \<Rightarrow> bool" where
  "elem_has c (Single a) = (c = a)"
| "elem_has c (Range a b) = (a \<le> c \<and> c \<le> b)"

fun tok_ok :: "glob_tok \<Rightarrow> char \<Rightarrow> bool" where
  "tok_ok (Lit a) c = (c = a)"
| "tok_ok AnyChar c = True"
| "tok_ok Star c = True"
| "tok_ok (Cls neg es) c = (list_ex (elem_has c) es \<noteq> neg)"

fun glob_match :: "glob_tok list \<Rightarrow> string \<Rightarrow> bool" where
  "glob_match [] s = (s = [])"
| "glob_match (Star # ts) [] = glob_match ts []"
| "glob_match (Star # ts) (c # cs) = (glob_match ts (c # cs) \<or> glob_match (Star # ts) cs)"
| "glob_match (t # ts) [] = False"
| "glob_match (t # ts) (c # cs) = (tok_ok t c \<and> glob_match ts cs)"

definition fnmatch :: "string \<Rightarrow> string \<Rightarrow> bool" where
  "fnmatch name pat = glob_match (glob_tokens pat) name"

lemma glob_tokens_plain:
  "\<forall>c\<in>set p. c \<notin> {CHR ''*'', CHR ''?'', CHR ''[''} \<Longrightarrow> glob_tokens p = map Lit p"
  by (induction p) auto

lemma glob_match_lits: "glob_match (map Lit p) s \<longleftrightarrow> s = p"
proof (induction p arbitrary: s)
  case (Cons a p)
  then show ?case by (cases s) auto
qed simp

text \<open>A pattern without wildcards matches exactly itself; \<open>*\<close> matches everything.\<close>

lemma fnmatch_plain:
  "\<forall>c\<in>set p. c \<notin> {CHR ''*'', CHR ''?'', CHR ''[''} \<Longrightarrow> fnmatch s p \<longleftrightarrow> s = p"
  by (simp add: fnmatch_def glob_tokens_plain glob_match_lits)

lemma fnmatch_star: "fnmatch s ''*''"
proof -
  have "glob_match [Star] s" by (induction s) auto
  then show ?thesis by (simp add: fnmatch_def)
qed

text \<open>A literal directory prefix followed by \<open>*\<close> matches everything under it.\<close>

lemma glob_match_lits_star: "glob_match (map Lit p @ [Star]) s \<longleftrightarrow> (\<exists>t. s = p @ t)"
proof (induction p arbitrary: s)
  case Nil
  have "glob_match [Star] s" by (induction s) auto
  then show ?case by simp
next
  case (Cons a p)
  then show ?case by (cases s) auto
qed

end
