(* ===== verification/Authz_Engine.thy ===== *)
theory Authz_Engine
  imports Authz_Model PyGlob
begin

text \<open>
  The deterministic authorization evaluator (\<open>authorization/engine.py\<close>): the fail-closed
  selection of facts, trust resolution of entities with its canonical-JSON tiebreak, coverage
  of an activity by a single grant on the account and the file-integrity track, the four
  expectedness components, and the covered / contradicted / absent classification.

  The evaluator may raise: a grant's recurring window holds unparsed text, and
  \<open>parse_hhmm\<close> rejects what is not a time of day. That exception is the \<open>None\<close> of the
  result, and every \<open>and\<close>, \<open>or\<close> and \<open>any\<close> around it short-circuits as in the source.
\<close>

definition ROUTINE_MIN :: int where
  "ROUTINE_MIN = 5"

definition is_compromised :: "string \<Rightarrow> bool" where
  "is_compromised s \<longleftrightarrow> s \<in> {''compromised'', ''contained''}"

subsection \<open>The canonical key of an entity record\<close>

datatype jfield = JStr string | JBool bool | JStrs "string list" | JInt int

definition hex_digit :: "nat \<Rightarrow> char" where
  "hex_digit n = char_of (if n < 10 then 48 + n else 87 + n)"

text \<open>One character of a JSON string under \<open>ensure_ascii\<close>.\<close>

definition json_char :: "char \<Rightarrow> string" where
  "json_char c =
     (let n = of_char c :: nat in
      if n = 34 then [CHR 0x5C, CHR 0x22]
      else if n = 92 then [CHR 0x5C, CHR 0x5C]
      else if n = 10 then [CHR 0x5C, CHR ''n'']
      else if n = 13 then [CHR 0x5C, CHR ''r'']
      else if n = 9 then [CHR 0x5C, CHR ''t'']
      else if n = 12 then [CHR 0x5C, CHR ''f'']
      else if n = 8 then [CHR 0x5C, CHR ''b'']
      else if 32 \<le> n \<and> n \<le> 126 then [c]
      else [CHR 0x5C, CHR ''u'', CHR ''0'', CHR ''0'', hex_digit (n div 16), hex_digit (n mod 16)])"

definition json_str :: "string \<Rightarrow> string" where
  "json_str s = CHR 0x22 # concat (map json_char s) @ [CHR 0x22]"

fun json_list :: "string list \<Rightarrow> string" where
  "json_list [] = '']''"
| "json_list [s] = json_str s @ '']''"
| "json_list (s # ss) = json_str s @ '','' @ json_list ss"

fun json_field :: "jfield \<Rightarrow> string" where
  "json_field (JStr s) = json_str s"
| "json_field (JBool b) = (if b then ''true'' else ''false'')"
| "json_field (JStrs ss) = CHR ''['' # json_list ss"
| "json_field (JInt i) = show_int i"

fun json_fields :: "(string \<times> jfield) list \<Rightarrow> string" where
  "json_fields [] = ''}''"
| "json_fields [(k, v)] = json_str k @ '':'' @ json_field v @ ''}''"
| "json_fields ((k, v) # fs) = json_str k @ '':'' @ json_field v @ '','' @ json_fields fs"

definition dflt :: "'a option \<Rightarrow> 'a \<Rightarrow> 'a" where
  "dflt v d = (case v of None \<Rightarrow> d | Some x \<Rightarrow> x)"

text \<open>The attributes of an entity in the order of its type, defaults filled.\<close>

definition key_order :: "entity_context_fact \<Rightarrow> (string \<times> jfield) list" where
  "key_order e =
     (case entity_type e of
        E_ASSET \<Rightarrow>
          [(''name'', JStr (ent_name e)),
           (''environment'', JStr (dflt (environment e) ''prod'')),
           (''criticality'', JStr (dflt (criticality e) ''medium'')),
           (''owner_org'', JStr (dflt (owner_org e) [])),
           (''custodian_account'', JStr (dflt (custodian_account e) [])),
           (''data_classification'', JStr (dflt (data_classification e) ''none'')),
           (''compromise_status'', JStr (dflt (map_option compromise_value (compromise_status e)) ''clean''))]
      | E_WATCHED_PATH \<Rightarrow>
          [(''name'', JStr (ent_name e)),
           (''config_class'', JStr (dflt (config_class e) ''app'')),
           (''criticality'', JStr (dflt (criticality e) ''medium'')),
           (''environment'', JStr (dflt (environment e) ''prod'')),
           (''owner_org'', JStr (dflt (owner_org e) [])),
           (''approver'', JStr (dflt (approver e) [])),
           (''compromise_status'', JStr (dflt (map_option compromise_value (compromise_status e)) ''clean''))]
      | E_ACCOUNT \<Rightarrow>
          [(''name'', JStr (ent_name e)),
           (''account_type'', JStr (dflt (map_option account_kind_value (account_type e)) [])),
           (''owner_org'', JStr (dflt (owner_org e) [])),
           (''privileged'', JBool (dflt (privileged e) False)),
           (''break_glass'', JBool (dflt (break_glass e) False)),
           (''service_owner'', JStr (dflt (service_owner e) [])),
           (''on_call'', JBool (dflt (on_call e) True))]
      | E_ORG \<Rightarrow>
          [(''name'', JStr (ent_name e)),
           (''linked_orgs'', JStrs (dflt (linked_orgs e) []))])"

definition entity_resolution_key :: "entity_context_fact \<Rightarrow> string" where
  "entity_resolution_key e = CHR ''{'' # json_fields (key_order e @ [(''trust'', JInt (trust e))])"

subsection \<open>Selection and entity resolution\<close>

definition select_facts ::
    "authorization_fact list \<Rightarrow> authorization_track \<Rightarrow> string option \<Rightarrow> authorization_fact list" where
  "select_facts fs trk tn =
     filter (\<lambda>f. track (envelope f) = trk \<and> (tn = None \<or> tenant (envelope f) = tn)
               \<and> superseded_by (envelope f) = None) fs"

fun is_grant :: "authorization_fact \<Rightarrow> bool" where
  "is_grant (Grant g) = True"
| "is_grant _ = False"

definition grants :: "authorization_fact list \<Rightarrow> grant_fact list" where
  "grants fs = concat (map (\<lambda>f. case f of Grant g \<Rightarrow> [g] | _ \<Rightarrow> []) fs)"

definition prohibitions :: "authorization_fact list \<Rightarrow> prohibition_fact list" where
  "prohibitions fs = concat (map (\<lambda>f. case f of Prohibition p \<Rightarrow> [p] | _ \<Rightarrow> []) fs)"

definition freezes :: "authorization_fact list \<Rightarrow> change_freeze_fact list" where
  "freezes fs = concat (map (\<lambda>f. case f of ChangeFreeze z \<Rightarrow> [z] | _ \<Rightarrow> []) fs)"

definition entities :: "authorization_fact list \<Rightarrow> entity_context_fact list" where
  "entities fs = concat (map (\<lambda>f. case f of EntityContext e \<Rightarrow> [e] | _ \<Rightarrow> []) fs)"

text \<open>The key under which the maximum is taken: trust, then the canonical text.\<close>

datatype rank = Rank int string

instantiation rank :: linorder
begin
fun less_eq_rank :: "rank \<Rightarrow> rank \<Rightarrow> bool" where
  "less_eq_rank (Rank i s) (Rank j t) \<longleftrightarrow> i < j \<or> (i = j \<and> s \<le> t)"
definition less_rank :: "rank \<Rightarrow> rank \<Rightarrow> bool" where
  "less_rank a b \<longleftrightarrow> a \<le> b \<and> \<not> b \<le> (a :: rank)"
instance
proof
  fix x y z :: rank
  show "x < y \<longleftrightarrow> x \<le> y \<and> \<not> y \<le> x" by (rule less_rank_def)
  show "x \<le> x" by (cases x) simp
  show "x \<le> y \<Longrightarrow> y \<le> z \<Longrightarrow> x \<le> z" by (cases x; cases y; cases z) auto
  show "x \<le> y \<Longrightarrow> y \<le> x \<Longrightarrow> x = y" by (cases x; cases y) auto
  show "x \<le> y \<or> y \<le> x" by (cases x; cases y) auto
qed
end

definition entity_rank :: "entity_context_fact \<Rightarrow> rank" where
  "entity_rank e = Rank (trust e) (entity_resolution_key e)"

definition max_entity :: "entity_context_fact list \<Rightarrow> entity_context_fact option" where
  "max_entity es = (case es of [] \<Rightarrow> None | e # es' \<Rightarrow> Some (py_max_by entity_rank e es'))"

definition resolved_entity ::
    "authorization_fact list \<Rightarrow> authorization_entity_kind \<Rightarrow> string \<Rightarrow> entity_context_fact option" where
  "resolved_entity fs k n =
     max_entity (filter (\<lambda>e. entity_type e = k \<and> ent_name e = n) (entities fs))"

definition account_fact :: "authorization_fact list \<Rightarrow> string \<Rightarrow> entity_context_fact option" where
  "account_fact fs n =
     max_entity (filter (\<lambda>e. entity_type e = E_ACCOUNT \<and> ent_name e = n \<and> account_type e \<noteq> None)
                   (entities fs))"

definition account_compromised :: "authorization_fact list \<Rightarrow> string \<Rightarrow> bool" where
  "account_compromised fs n \<longleftrightarrow>
     list_ex (\<lambda>e. entity_type e = E_ACCOUNT \<and> ent_name e = n \<and>
                  (case compromise_status e of None \<Rightarrow> False | Some c \<Rightarrow> is_compromised (compromise_value c)))
       (entities fs)"

text \<open>An entity attribute as text, the source model's default when the record or value is absent.\<close>

definition attr :: "entity_context_fact option \<Rightarrow> (entity_context_fact \<Rightarrow> string option) \<Rightarrow> string \<Rightarrow> string" where
  "attr e f d = (case e of None \<Rightarrow> d | Some e \<Rightarrow> dflt (f e) d)"

definition compromise_attr :: "entity_context_fact option \<Rightarrow> string" where
  "compromise_attr e = attr e (\<lambda>e. map_option compromise_value (compromise_status e)) ''clean''"

subsection \<open>Windows, validity, approval\<close>

definition parse_hhmm :: "string \<Rightarrow> int py" where
  "parse_hhmm v =
     (case str_split (CHR '':'') v of
        [hs, ms] \<Rightarrow> do {
          h \<leftarrow> py_int_of_str hs;
          m \<leftarrow> py_int_of_str ms;
          if 0 \<le> h \<and> h \<le> 23 \<and> 0 \<le> m \<and> m \<le> 59 then Some ((h * 60 + m) * 60000000) else None }
      | _ \<Rightarrow> None)"

definition in_window :: "datetime \<Rightarrow> string \<Rightarrow> string \<Rightarrow> bool py" where
  "in_window t s e = do {
     lo \<leftarrow> parse_hhmm s;
     if lo \<le> dt_time t then do { hi \<leftarrow> parse_hhmm e; Some (dt_time t \<le> hi) } else Some False }"

definition in_recurring_window :: "grant_fact \<Rightarrow> datetime \<Rightarrow> bool py" where
  "in_recurring_window g t =
     (case recurring_window (scope g) of
        None \<Rightarrow> Some True
      | Some w \<Rightarrow> in_window t (win_start w) (win_end w))"

definition in_validity :: "grant_fact \<Rightarrow> datetime \<Rightarrow> bool" where
  "in_validity g t \<longleftrightarrow>
     (case valid_from g of None \<Rightarrow> True | Some f \<Rightarrow> dt_le f t) \<and>
     (case valid_until g of None \<Rightarrow> True | Some u \<Rightarrow> dt_le t u)"

definition grant_ok :: "grant_fact \<Rightarrow> bool" where
  "grant_ok g \<longleftrightarrow> status g = APPROVED \<and> (\<not> cab_required g \<or> cab_approved g)"

definition org_linked :: "authorization_fact list \<Rightarrow> string \<Rightarrow> string \<Rightarrow> bool" where
  "org_linked fs a b \<longleftrightarrow> a = b \<or>
     list_ex (\<lambda>(n, other).
        case resolved_entity fs E_ORG n of
          None \<Rightarrow> False
        | Some org \<Rightarrow> (case linked_orgs org of None \<Rightarrow> False | Some ls \<Rightarrow> other \<in> set ls))
      [(a, b), (b, a)]"

subsection \<open>Account track\<close>

definition acct_freeze_blocks :: "authorization_fact list \<Rightarrow> string \<Rightarrow> grant_fact \<Rightarrow> datetime \<Rightarrow> bool" where
  "acct_freeze_blocks fs env g t \<longleftrightarrow> \<not> freeze_exception g \<and>
     list_ex (\<lambda>z. env \<in> set (fz_envs (freeze_scope z)) \<and> dt_le (fz_start z) t \<and> dt_le t (fz_end z)
                \<and> fact_id g \<notin> set (allowed_exception_ids z)) (freezes fs)"

definition scope_is :: "grant_fact \<Rightarrow> authorization_activity \<Rightarrow> bool" where
  "scope_is g a \<longleftrightarrow> target (scope g) = host a \<and> subject (scope g) = account a
                  \<and> action (scope g) = act_action a"

definition acct_ticket_covers ::
    "authorization_fact list \<Rightarrow> grant_fact \<Rightarrow> authorization_activity \<Rightarrow> string \<Rightarrow> bool py" where
  "acct_ticket_covers fs g a env =
     py_and (Some (grant_class g = CHANGE_TICKET \<and> grant_ok g \<and> scope_is g a))
       (py_and (in_recurring_window g (act_time a))
          (Some (in_validity g (act_time a) \<and> \<not> acct_freeze_blocks fs env g (act_time a))))"

definition acct_baseline_covers :: "grant_fact \<Rightarrow> authorization_activity \<Rightarrow> bool py" where
  "acct_baseline_covers g a =
     py_and (Some (grant_class g = STANDING_BASELINE \<and> scope_is g a))
       (py_and (in_recurring_window g (act_time a)) (Some (in_validity g (act_time a))))"

definition acct_routine :: "grant_fact \<Rightarrow> authorization_activity \<Rightarrow> bool py" where
  "acct_routine g a =
     py_and (Some (grant_class g = ROUTINE_OBSERVATION \<and> scope_is g a
                   \<and> dflt (seen_count g) 0 \<ge> ROUTINE_MIN \<and> ioc g \<noteq> Some True))
       (py_and (in_recurring_window g (act_time a)) (Some (in_validity g (act_time a))))"

definition acct_sanctioned :: "grant_fact list \<Rightarrow> authorization_activity \<Rightarrow> bool py" where
  "acct_sanctioned gs a =
     py_or (Some (list_ex (\<lambda>g. subject (scope g) = account a \<and> action (scope g) = act_action a \<and>
                      (grant_class g = CHANGE_TICKET \<and> grant_ok g \<or> grant_class g = STANDING_BASELINE)) gs))
       (py_any (\<lambda>g. acct_routine g a) gs)"

definition acct_covered ::
    "authorization_fact list \<Rightarrow> authorization_activity \<Rightarrow> string \<Rightarrow> bool py" where
  "acct_covered fs a env =
     py_or (py_any (\<lambda>g. acct_ticket_covers fs g a env) (grants fs))
       (py_or (py_any (\<lambda>g. acct_baseline_covers g a) (grants fs))
          (py_any (\<lambda>g. acct_routine g a) (grants fs)))"

definition acct_actor_genuine ::
    "authorization_fact list \<Rightarrow> authorization_activity \<Rightarrow> bool" where
  "acct_actor_genuine fs a =
     (let asset = resolved_entity fs E_ASSET (dflt (host a) []);
          acct = account_fact fs (dflt (account a) [])
      in if account_compromised fs (dflt (account a) []) then False
         else if is_compromised (compromise_attr asset) then False
         else case acct of
             None \<Rightarrow> True
           | Some c \<Rightarrow>
               (if account_type c = Some SERVICE \<and> interactive a then False
                else if account_type c = Some HUMAN \<and> dflt (privileged c) False
                        \<and> \<not> dflt (on_call c) True \<and> \<not> dflt (break_glass c) False then False
                else True))"

text \<open>A set-valued scope restricts only when present.\<close>

definition scope_excludes :: "string list option \<Rightarrow> string \<Rightarrow> bool" where
  "scope_excludes s v = (case s of None \<Rightarrow> False | Some vs \<Rightarrow> v \<notin> set vs)"

definition acct_prohibition_blocks ::
    "authorization_fact list \<Rightarrow> authorization_activity \<Rightarrow> prohibition_fact \<Rightarrow> bool py" where
  "acct_prohibition_blocks fs a p =
     (let asset = resolved_entity fs E_ASSET (dflt (host a) []);
          env = attr asset environment ''prod'';
          acct = account_fact fs (dflt (account a) [])
      in if forbid_action p \<noteq> act_action a \<or> priority p \<noteq> P_HIGH \<or> waiver_present p then Some False
         else if forbid_account_type p \<noteq> None
                 \<and> Option.bind acct account_type \<noteq> forbid_account_type p then Some False
         else if scope_excludes (ap_env (applies_to p)) env then Some False
         else if scope_excludes (ap_criticality (applies_to p)) (attr asset criticality ''medium'') then Some False
         else if scope_excludes (ap_data_class (applies_to p)) (attr asset data_classification ''none'') then Some False
         else py_not (py_and
                (Some (break_glass_exception p
                       \<and> (case acct of None \<Rightarrow> False | Some c \<Rightarrow> dflt (break_glass c) False)))
                (py_any (\<lambda>g. py_and (Some (emergency g)) (acct_ticket_covers fs g a env)) (grants fs))))"

definition acct_components ::
    "authorization_fact list \<Rightarrow> authorization_activity \<Rightarrow> authorization_components py" where
  "acct_components fs a =
     (let asset = resolved_entity fs E_ASSET (dflt (host a) []);
          env = attr asset environment ''prod'';
          acct = account_fact fs (dflt (account a) []);
          acct_org = (case acct of None \<Rightarrow> [] | Some c \<Rightarrow> dflt (owner_org c) []);
          asset_org = attr asset owner_org []
      in do {
        covered \<leftarrow> acct_covered fs a env;
        blocked \<leftarrow> py_any (acct_prohibition_blocks fs a) (prohibitions fs);
        sanctioned \<leftarrow> acct_sanctioned (grants fs) a;
        Some \<lparr> sanctioned_or_routine = sanctioned,
               in_scope = covered \<and> org_linked fs acct_org asset_org,
               actor_genuine = acct_actor_genuine fs a,
               policy_allowed = \<not> blocked \<rparr> })"

subsection \<open>File-integrity track\<close>

definition fim_type_matches :: "grant_fact \<Rightarrow> change_kind option \<Rightarrow> bool" where
  "fim_type_matches g c \<longleftrightarrow> change_type (scope g) = None \<or> change_type (scope g) = Some ANY
                          \<or> change_type (scope g) = c"

definition fim_target_matches :: "grant_fact \<Rightarrow> authorization_activity \<Rightarrow> bool" where
  "fim_target_matches g a =
     (case target (scope g) of None \<Rightarrow> False | Some p \<Rightarrow> fnmatch (dflt (path a) []) p)"

definition fim_cr_covers :: "grant_fact \<Rightarrow> authorization_activity \<Rightarrow> bool py" where
  "fim_cr_covers g a =
     py_and (Some (grant_class g = CHANGE_TICKET \<and> grant_ok g \<and> fim_target_matches g a
                   \<and> fim_type_matches g (act_change_type a)))
       (py_and (in_recurring_window g (act_time a)) (Some (in_validity g (act_time a))))"

definition fim_baseline_covers :: "grant_fact \<Rightarrow> authorization_activity \<Rightarrow> bool py" where
  "fim_baseline_covers g a =
     py_and (Some (grant_class g = STANDING_BASELINE \<and> fim_target_matches g a
                   \<and> fim_type_matches g (act_change_type a)))
       (py_and (in_recurring_window g (act_time a)) (Some (in_validity g (act_time a))))"

definition fim_sanctioned :: "grant_fact list \<Rightarrow> authorization_activity \<Rightarrow> bool" where
  "fim_sanctioned gs a =
     list_ex (\<lambda>g. fim_target_matches g a \<and> fim_type_matches g (act_change_type a) \<and>
                  (grant_class g = CHANGE_TICKET \<and> status g = APPROVED \<or> grant_class g = STANDING_BASELINE)) gs"

text \<open>A freeze of the path's configuration class that no covering change is excepted from.\<close>

definition fim_freeze_blocks ::
    "grant_fact list \<Rightarrow> string \<Rightarrow> datetime \<Rightarrow> change_freeze_fact \<Rightarrow> bool" where
  "fim_freeze_blocks crs cls t z \<longleftrightarrow>
     cls \<in> set (fz_config_classes (freeze_scope z)) \<and> dt_le (fz_start z) t \<and> dt_le t (fz_end z) \<and>
     \<not> list_ex (\<lambda>g. freeze_exception g \<or> fact_id g \<in> set (allowed_exception_ids z)) crs"

definition fim_prohibition_blocks ::
    "authorization_fact list \<Rightarrow> authorization_activity \<Rightarrow> string \<Rightarrow> prohibition_fact \<Rightarrow> bool py" where
  "fim_prohibition_blocks fs a cls p =
     (let change = (case act_change_type a of None \<Rightarrow> [] | Some c \<Rightarrow> change_kind_value c)
      in if priority p \<noteq> P_HIGH \<or> waiver_present p then Some False
         else if (case ap_config_class (applies_to p) of None \<Rightarrow> False
                  | Some cs \<Rightarrow> cs \<noteq> [] \<and> cls \<notin> set cs) then Some False
         else if scope_excludes (forbid_change_type p) change then Some False
         else py_not (py_and (Some (break_glass_exception p))
                (py_any (\<lambda>g. py_and (Some (emergency g)) (fim_cr_covers g a)) (grants fs))))"

definition fim_components ::
    "authorization_fact list \<Rightarrow> authorization_activity \<Rightarrow> authorization_components py" where
  "fim_components fs a =
     (let gs = grants fs;
          wp = resolved_entity fs E_WATCHED_PATH (dflt (path a) []);
          cls = attr wp config_class ''app''
      in do {
        crs \<leftarrow> py_filter (\<lambda>g. fim_cr_covers g a) gs;
        covered \<leftarrow> py_or (Some (crs \<noteq> [])) (py_any (\<lambda>g. fim_baseline_covers g a) gs);
        blocked \<leftarrow> py_any (fim_prohibition_blocks fs a cls) (prohibitions fs);
        Some \<lparr> sanctioned_or_routine = fim_sanctioned gs a,
               in_scope = covered \<and> \<not> list_ex (fim_freeze_blocks crs cls (act_time a)) (freezes fs),
               actor_genuine = \<not> is_compromised (compromise_attr wp),
               policy_allowed = \<not> blocked \<rparr> })"

subsection \<open>The public surface\<close>

definition evaluate_authorization ::
    "authorization_activity \<Rightarrow> authorization_fact list \<Rightarrow> string option \<Rightarrow> authorization_components py" where
  "evaluate_authorization a fs tn =
     (let sel = select_facts fs (act_track a) tn
      in if act_track a = FIM then fim_components sel a else acct_components sel a)"

definition find_covering_grants ::
    "authorization_activity \<Rightarrow> authorization_fact list \<Rightarrow> string option \<Rightarrow> grant_fact list py" where
  "find_covering_grants a fs tn =
     (let sel = select_facts fs (act_track a) tn;
          env = attr (resolved_entity sel E_ASSET (dflt (host a) [])) environment ''prod''
      in if act_track a = FIM
         then py_filter (\<lambda>g. py_or (fim_cr_covers g a) (fim_baseline_covers g a)) (grants sel)
         else py_filter (\<lambda>g. py_or (acct_ticket_covers sel g a env)
                               (py_or (acct_baseline_covers g a) (acct_routine g a))) (grants sel))"

datatype authz_class = Covered | Contradicted | Absent

fun authz_class_value :: "authz_class \<Rightarrow> string" where
  "authz_class_value Covered = ''covered''"
| "authz_class_value Contradicted = ''contradicted''"
| "authz_class_value Absent = ''absent''"

definition derive_authz_class ::
    "authorization_context option \<Rightarrow> (authz_class \<times> authorization_components option) py" where
  "derive_authz_class ctx =
     (case ctx of
        None \<Rightarrow> Some (Absent, None)
      | Some c \<Rightarrow>
          (let sel = select_facts (facts c) (act_track (activity c)) (ctx_tenant c)
           in if sel = [] then Some (Absent, None)
              else do {
                comps \<leftarrow> evaluate_authorization (activity c) (facts c) (ctx_tenant c);
                Some (if \<not> policy_allowed comps then (Contradicted, Some comps)
                      else if in_scope comps then (Covered, Some comps)
                      else if list_ex is_grant sel then (Contradicted, Some comps)
                      else (Absent, Some comps)) }))"

end
