(* ===== verification/Authz_Order.thy ===== *)
theory Authz_Order
  imports Authz_Engine
begin

text \<open>
  The canonical key of an entity record determines every attribute the evaluator reads, so
  the winner of a trust tie, and with it the whole evaluation, does not depend on the order
  in which the facts are stored.
\<close>

subsection \<open>JSON text is self-delimiting\<close>

text \<open>Reading one encoded character back, the inverse of \<open>json_char\<close>.\<close>

definition hex_val :: "char \<Rightarrow> nat" where
  "hex_val c = (let n = of_char c in if n < 58 then n - 48 else n - 87)"

fun json_unchar :: "string \<Rightarrow> (char \<times> string) option" where
  "json_unchar (c # r) =
     (if c \<noteq> CHR 0x5C then Some (c, r)
      else case r of
          [] \<Rightarrow> None
        | x # r2 \<Rightarrow>
            (if x = CHR ''n'' then Some (CHR 0x0A, r2)
             else if x = CHR ''r'' then Some (CHR 0x0D, r2)
             else if x = CHR ''t'' then Some (CHR 0x09, r2)
             else if x = CHR ''f'' then Some (CHR 0x0C, r2)
             else if x = CHR ''b'' then Some (CHR 0x08, r2)
             else if x = CHR ''u'' then
               (case r2 of _ # _ # h # l # r3 \<Rightarrow> Some (char_of (hex_val h * 16 + hex_val l), r3) | _ \<Rightarrow> None)
             else Some (x, r2)))"
| "json_unchar [] = None"

lemma hex_val_digit: "n < 16 \<Longrightarrow> hex_val (hex_digit n) = n"
  by (simp add: hex_val_def hex_digit_def of_char_of Let_def)

lemma json_unchar_char: "json_unchar (json_char c @ r) = Some (c, r)"
proof -
  let ?n = "of_char c :: nat"
  have lt: "?n < 256" by simp
  consider "?n \<in> {34, 92, 10, 13, 9, 12, 8}"
    | "?n \<notin> {34, 92, 10, 13, 9, 12, 8}" "32 \<le> ?n" "?n \<le> 126"
    | "?n \<notin> {34, 92, 10, 13, 9, 12, 8}" "\<not> (32 \<le> ?n \<and> ?n \<le> 126)" by blast
  then show ?thesis
  proof cases
    case 1
    then have "c \<in> {CHR 0x22, CHR 0x5C, CHR 0x0A, CHR 0x0D, CHR 0x09, CHR 0x0C, CHR 0x08}"
    proof -
      from 1 have "?n \<in> of_char ` {CHR 0x22, CHR 0x5C, CHR 0x0A, CHR 0x0D, CHR 0x09, CHR 0x0C, CHR 0x08}"
        by simp
      then show ?thesis by (auto simp only: image_iff of_char_eq_iff)
    qed
    then show ?thesis
      by (elim insertE) (simp_all add: json_char_def Let_def)
  next
    case 2
    then have "c \<noteq> CHR 0x5C" by auto
    with 2 show ?thesis by (simp add: json_char_def Let_def)
  next
    case 3
    have "?n div 16 < 16" "?n mod 16 < 16" using lt by (arith, simp)
    with 3 show ?thesis
      by (auto simp: json_char_def Let_def hex_val_digit simp del: mod_less_divisor)
  qed
qed

lemma json_char_inj: "json_char c @ r = json_char d @ r' \<Longrightarrow> c = d \<and> r = r'"
  by (metis json_unchar_char option.inject prod.inject)

lemma json_char_first: "json_char c @ r = x # r' \<Longrightarrow> x \<noteq> CHR 0x22"
  by (auto simp: json_char_def Let_def split: if_splits)

lemma json_str_inj: "json_str s @ r = json_str t @ r' \<Longrightarrow> s = t \<and> r = r'"
proof -
  have "concat (map json_char s) @ CHR 0x22 # r = concat (map json_char t) @ CHR 0x22 # r'
        \<Longrightarrow> s = t \<and> r = r'"
  proof (induction s arbitrary: t)
    case Nil
    then show ?case
      by (cases t) (auto dest: json_char_first [OF sym])
  next
    case (Cons c s)
    show ?case
    proof (cases t)
      case Nil
      with Cons.prems show ?thesis by (auto dest: json_char_first)
    next
      case (Cons d t')
      with Cons.prems have
        "json_char c @ (concat (map json_char s) @ CHR 0x22 # r)
         = json_char d @ (concat (map json_char t') @ CHR 0x22 # r')" by simp
      then have "c = d" "concat (map json_char s) @ CHR 0x22 # r = concat (map json_char t') @ CHR 0x22 # r'"
        using json_char_inj by blast+
      with Cons.IH Cons show ?thesis by blast
    qed
  qed
  then show "json_str s @ r = json_str t @ r' \<Longrightarrow> s = t \<and> r = r'"
    by (simp add: json_str_def)
qed

lemma json_str_first: "json_str s @ r = c # r' \<Longrightarrow> c = CHR 0x22"
  by (simp add: json_str_def)

lemma json_list_inj: "json_list ss @ r = json_list ts @ r' \<Longrightarrow> ss = ts \<and> r = r'"
proof (induction ss arbitrary: ts rule: json_list.induct)
  case 1
  then show ?case
    by (cases ts rule: json_list.cases) (auto dest: json_str_first simp: json_str_def)
next
  case (2 s)
  then have *: "json_str s @ '']'' @ r = json_list ts @ r'" by simp
  show ?case
  proof (cases ts rule: json_list.cases)
    case 1
    with * show ?thesis by (simp add: json_str_def)
  next
    case (2 t)
    with * show ?thesis by (auto dest: json_str_inj)
  next
    case (3 t t' ts')
    with * show ?thesis by (auto dest: json_str_inj)
  qed
next
  case (3 s s' ss)
  then have *: "json_str s @ '','' @ json_list (s' # ss) @ r = json_list ts @ r'" by simp
  show ?case
  proof (cases ts rule: json_list.cases)
    case 1
    with * show ?thesis by (simp add: json_str_def)
  next
    case (2 t)
    with * show ?thesis by (auto dest: json_str_inj)
  next
    case (3 t t' ts')
    with * have "s = t" "json_list (s' # ss) @ r = json_list (t' # ts') @ r'"
      by (auto dest: json_str_inj)
    with "3.IH" 3 show ?thesis by blast
  qed
qed


subsection \<open>Equal keys, equal attributes\<close>

fun same_kind :: "jfield \<Rightarrow> jfield \<Rightarrow> bool" where
  "same_kind (JStr s) (JStr t) = True"
| "same_kind (JBool a) (JBool b) = True"
| "same_kind (JStrs ss) (JStrs ts) = True"
| "same_kind (JInt i) (JInt j) = (i = j)"
| "same_kind _ _ = False"

lemma json_field_inj:
  "same_kind u v \<Longrightarrow> json_field u @ r = json_field v @ r' \<Longrightarrow> u = v \<and> r = r'"
  by (induction u v rule: same_kind.induct)
    (auto dest: json_str_inj json_list_inj split: if_splits)

lemma json_fields_inj:
  "list_all2 (\<lambda>p q. fst p = fst q \<and> same_kind (snd p) (snd q)) fs gs \<Longrightarrow>
   json_fields fs = json_fields gs \<Longrightarrow> fs = gs"
proof (induction fs arbitrary: gs rule: json_fields.induct)
  case 1
  then show ?case by simp
next
  case (2 k v)
  then show ?case
    by (auto simp: list_all2_Cons1 dest!: json_str_inj dest: json_field_inj)
next
  case (3 k v f fs)
  then obtain k' v' g gs' where gs: "gs = (k', v') # g # gs'"
    by (auto simp: list_all2_Cons1)
  with "3.prems" have "k = k'" "same_kind v v'"
    "json_field v @ '','' @ json_fields (f # fs) = json_field v' @ '','' @ json_fields (g # gs')"
    by (auto dest: json_str_inj)
  then have "v = v'" "json_fields (f # fs) = json_fields (g # gs')"
    by (auto dest: json_field_inj)
  with "3.IH" "3.prems" gs \<open>k = k'\<close> show ?case by auto
qed

definition same_record :: "entity_context_fact \<Rightarrow> entity_context_fact \<Rightarrow> bool" where
  "same_record d e \<longleftrightarrow> entity_type d = entity_type e \<and> key_order d = key_order e"

lemma rank_eq_same_record:
  assumes "entity_rank d = entity_rank e" and "entity_type d = entity_type e"
  shows "same_record d e"
proof -
  from assms(1) have t: "trust d = trust e"
    and k: "json_fields (key_order d @ [(''trust'', JInt (trust d))])
          = json_fields (key_order e @ [(''trust'', JInt (trust e))])"
    by (auto simp: entity_rank_def entity_resolution_key_def)
  have "key_order d @ [(''trust'', JInt (trust d))] = key_order e @ [(''trust'', JInt (trust e))]"
    using k
  proof (rule json_fields_inj [rotated])
    show "list_all2 (\<lambda>p q. fst p = fst q \<and> same_kind (snd p) (snd q))
        (key_order d @ [(''trust'', JInt (trust d))]) (key_order e @ [(''trust'', JInt (trust e))])"
      using assms(2) t by (cases "entity_type e") (simp_all add: key_order_def)
  qed
  with assms(2) show ?thesis by (simp add: same_record_def)
qed

text \<open>What the evaluator reads of a resolved record, on the types it reads it from.\<close>

lemma same_record_attrs:
  assumes "same_record d e"
  shows "entity_type d = E_ASSET \<Longrightarrow>
      dflt (environment d) ''prod'' = dflt (environment e) ''prod''
      \<and> dflt (criticality d) ''medium'' = dflt (criticality e) ''medium''
      \<and> dflt (data_classification d) ''none'' = dflt (data_classification e) ''none''
      \<and> dflt (owner_org d) [] = dflt (owner_org e) []
      \<and> dflt (map_option compromise_value (compromise_status d)) ''clean''
        = dflt (map_option compromise_value (compromise_status e)) ''clean''"
    and "entity_type d = E_WATCHED_PATH \<Longrightarrow>
      dflt (config_class d) ''app'' = dflt (config_class e) ''app''
      \<and> dflt (map_option compromise_value (compromise_status d)) ''clean''
        = dflt (map_option compromise_value (compromise_status e)) ''clean''"
    and "entity_type d = E_ACCOUNT \<Longrightarrow>
      dflt (map_option account_kind_value (account_type d)) []
        = dflt (map_option account_kind_value (account_type e)) []
      \<and> dflt (owner_org d) [] = dflt (owner_org e) []
      \<and> dflt (privileged d) False = dflt (privileged e) False
      \<and> dflt (break_glass d) False = dflt (break_glass e) False
      \<and> dflt (on_call d) True = dflt (on_call e) True"
    and "entity_type d = E_ORG \<Longrightarrow> dflt (linked_orgs d) [] = dflt (linked_orgs e) []"
proof -
  from assms have t: "entity_type e = entity_type d" and k: "key_order d = key_order e"
    by (simp_all add: same_record_def)
  show "entity_type d = E_ASSET \<Longrightarrow>
      dflt (environment d) ''prod'' = dflt (environment e) ''prod''
      \<and> dflt (criticality d) ''medium'' = dflt (criticality e) ''medium''
      \<and> dflt (data_classification d) ''none'' = dflt (data_classification e) ''none''
      \<and> dflt (owner_org d) [] = dflt (owner_org e) []
      \<and> dflt (map_option compromise_value (compromise_status d)) ''clean''
        = dflt (map_option compromise_value (compromise_status e)) ''clean''"
    using k t by (simp add: key_order_def)
  show "entity_type d = E_WATCHED_PATH \<Longrightarrow>
      dflt (config_class d) ''app'' = dflt (config_class e) ''app''
      \<and> dflt (map_option compromise_value (compromise_status d)) ''clean''
        = dflt (map_option compromise_value (compromise_status e)) ''clean''"
    using k t by (simp add: key_order_def)
  show "entity_type d = E_ACCOUNT \<Longrightarrow>
      dflt (map_option account_kind_value (account_type d)) []
        = dflt (map_option account_kind_value (account_type e)) []
      \<and> dflt (owner_org d) [] = dflt (owner_org e) []
      \<and> dflt (privileged d) False = dflt (privileged e) False
      \<and> dflt (break_glass d) False = dflt (break_glass e) False
      \<and> dflt (on_call d) True = dflt (on_call e) True"
    using k t by (simp add: key_order_def)
  show "entity_type d = E_ORG \<Longrightarrow> dflt (linked_orgs d) [] = dflt (linked_orgs e) []"
    using k t by (simp add: key_order_def)
qed


subsection \<open>Evaluation does not depend on the order of the facts\<close>

lemma set_kinds:
  assumes "set fs = set fs'"
  shows "set (grants fs) = set (grants fs')" "set (prohibitions fs) = set (prohibitions fs')"
    "set (freezes fs) = set (freezes fs')" "set (entities fs) = set (entities fs')"
  using assms by (simp_all add: grants_def prohibitions_def freezes_def entities_def)

lemma list_ex_set_eq:
  "set xs = set ys \<Longrightarrow> (\<And>x. x \<in> set ys \<Longrightarrow> f x = g x) \<Longrightarrow> list_ex f xs = list_ex g ys"
  by (auto simp: list_ex_iff)

lemma max_entity_same:
  assumes "set es = set es'" and "\<And>e. e \<in> set es \<Longrightarrow> entity_type e = k"
  shows "rel_option (\<lambda>d e. same_record d e \<and> d \<in> set es \<and> e \<in> set es) (max_entity es) (max_entity es')"
proof (cases es)
  case Nil
  with assms show ?thesis by (simp add: max_entity_def)
next
  case (Cons d ds)
  with assms obtain d' ds' where es': "es' = d' # ds'" by (cases es') auto
  let ?m = "py_max_by entity_rank d ds" and ?m' = "py_max_by entity_rank d' ds'"
  have "?m \<in> set es" using py_max_by_in [of entity_rank d ds] Cons by simp
  moreover have "?m' \<in> set es"
    using py_max_by_in [of entity_rank d' ds'] es' unfolding assms(1) by simp
  moreover have "entity_rank ?m = entity_rank ?m'"
    using Cons es' assms(1) by (intro py_max_by_key_unique) simp
  ultimately show ?thesis
    using assms(2) Cons es' by (simp add: max_entity_def rank_eq_same_record)
qed

lemma resolved_entity_same:
  assumes "set fs = set fs'"
  shows "rel_option (\<lambda>d e. same_record d e \<and> entity_type d = k) (resolved_entity fs k n) (resolved_entity fs' k n)"
  unfolding resolved_entity_def
  by (rule option.rel_mono_strong [OF max_entity_same [where k = k]])
    (use set_kinds [OF assms] in auto)

lemma account_fact_same:
  assumes "set fs = set fs'"
  shows "rel_option (\<lambda>d e. same_record d e \<and> entity_type d = E_ACCOUNT
           \<and> account_type d = account_type e \<and> account_type d \<noteq> None)
          (account_fact fs n) (account_fact fs' n)"
  unfolding account_fact_def
proof (rule option.rel_mono_strong [OF max_entity_same [where k = E_ACCOUNT]])
  fix d e
  assume *: "same_record d e \<and>
      d \<in> set (filter (\<lambda>e. entity_type e = E_ACCOUNT \<and> ent_name e = n \<and> account_type e \<noteq> None) (entities fs)) \<and>
      e \<in> set (filter (\<lambda>e. entity_type e = E_ACCOUNT \<and> ent_name e = n \<and> account_type e \<noteq> None) (entities fs))"
  then obtain x y where "account_type d = Some x" "account_type e = Some y" by auto
  with * same_record_attrs(3) [of d e] show "same_record d e \<and> entity_type d = E_ACCOUNT
      \<and> account_type d = account_type e \<and> account_type d \<noteq> None"
    by (cases x; cases y) (auto simp: dflt_def)
qed (use set_kinds [OF assms] in auto)

lemma asset_attrs_same:
  assumes "set fs = set fs'"
  shows "attr (resolved_entity fs E_ASSET n) environment ''prod'' = attr (resolved_entity fs' E_ASSET n) environment ''prod''"
    "attr (resolved_entity fs E_ASSET n) criticality ''medium'' = attr (resolved_entity fs' E_ASSET n) criticality ''medium''"
    "attr (resolved_entity fs E_ASSET n) data_classification ''none'' = attr (resolved_entity fs' E_ASSET n) data_classification ''none''"
    "attr (resolved_entity fs E_ASSET n) owner_org [] = attr (resolved_entity fs' E_ASSET n) owner_org []"
    "compromise_attr (resolved_entity fs E_ASSET n) = compromise_attr (resolved_entity fs' E_ASSET n)"
  using resolved_entity_same [OF assms, of E_ASSET n]
  by (auto simp: attr_def compromise_attr_def elim!: option.rel_cases dest: same_record_attrs(1))

lemma path_attrs_same:
  assumes "set fs = set fs'"
  shows "attr (resolved_entity fs E_WATCHED_PATH n) config_class ''app'' = attr (resolved_entity fs' E_WATCHED_PATH n) config_class ''app''"
    "compromise_attr (resolved_entity fs E_WATCHED_PATH n) = compromise_attr (resolved_entity fs' E_WATCHED_PATH n)"
  using resolved_entity_same [OF assms, of E_WATCHED_PATH n]
  by (auto simp: attr_def compromise_attr_def elim!: option.rel_cases dest: same_record_attrs(2))

lemma org_linked_same:
  assumes "set fs = set fs'"
  shows "org_linked fs a b = org_linked fs' a b"
proof -
  have "(case resolved_entity fs E_ORG n of None \<Rightarrow> False
         | Some org \<Rightarrow> (case linked_orgs org of None \<Rightarrow> False | Some ls \<Rightarrow> other \<in> set ls))
      = (case resolved_entity fs' E_ORG n of None \<Rightarrow> False
         | Some org \<Rightarrow> (case linked_orgs org of None \<Rightarrow> False | Some ls \<Rightarrow> other \<in> set ls))"
    for n other
    using resolved_entity_same [OF assms, of E_ORG n]
    by (auto elim!: option.rel_cases dest!: same_record_attrs(4) simp: dflt_def split: option.splits)
  then show ?thesis by (simp add: org_linked_def)
qed

lemma account_attrs_same:
  assumes "set fs = set fs'"
  shows "(case account_fact fs n of None \<Rightarrow> [] | Some c \<Rightarrow> dflt (owner_org c) [])
       = (case account_fact fs' n of None \<Rightarrow> [] | Some c \<Rightarrow> dflt (owner_org c) [])"
    "Option.bind (account_fact fs n) account_type = Option.bind (account_fact fs' n) account_type"
    "(case account_fact fs n of None \<Rightarrow> False | Some c \<Rightarrow> dflt (break_glass c) False)
       = (case account_fact fs' n of None \<Rightarrow> False | Some c \<Rightarrow> dflt (break_glass c) False)"
  using account_fact_same [OF assms, of n]
  by (auto elim!: option.rel_cases dest: same_record_attrs(3))

lemma actor_genuine_same:
  assumes "set fs = set fs'"
  shows "acct_actor_genuine fs a = acct_actor_genuine fs' a"
proof -
  have "account_compromised fs n = account_compromised fs' n" for n
    unfolding account_compromised_def by (rule list_ex_set_eq [OF set_kinds(4) [OF assms]]) simp
  then show ?thesis
    using account_fact_same [OF assms, of "dflt (account a) []"] asset_attrs_same(5) [OF assms]
    by (auto simp: acct_actor_genuine_def Let_def elim!: option.rel_cases dest: same_record_attrs(3))
qed

lemma ticket_covers_same:
  assumes "set fs = set fs'"
  shows "acct_ticket_covers fs g a env = acct_ticket_covers fs' g a env"
proof -
  have "acct_freeze_blocks fs env g t = acct_freeze_blocks fs' env g t" for t
    unfolding acct_freeze_blocks_def
    by (rule arg_cong [OF list_ex_set_eq [OF set_kinds(3) [OF assms]]]) simp
  then show ?thesis by (simp add: acct_ticket_covers_def)
qed

end
