(* ===== verification/Authz_Correct.thy ===== *)
theory Authz_Correct
  imports Authz_Order
begin

text \<open>
  What the authorization evaluator guarantees: it is independent of the order of the facts,
  isolated between tenants, needs one single record to cover an activity, and never lets
  authorization evidence outweigh a compromise, a prohibition or a freeze.
\<close>

subsection \<open>Order independence\<close>

lemma acct_components_agree:
  assumes eq: "set fs = set fs'"
  shows "agree (acct_components fs a) (acct_components fs' a)"
proof -
  let ?n = "dflt (host a) []" and ?c = "dflt (account a) []"
  let ?env = "attr (resolved_entity fs E_ASSET ?n) environment ''prod''"
  have env: "attr (resolved_entity fs' E_ASSET ?n) environment ''prod'' = ?env"
    using asset_attrs_same(1) [OF eq] by metis
  have gs: "set (grants fs) = set (grants fs')" using set_kinds(1) [OF eq] .
  have 1: "agree (acct_covered fs a ?env) (acct_covered fs' a ?env)"
    unfolding acct_covered_def
    by (intro agree_intros gs) (simp_all add: ticket_covers_same [OF eq])
  have 2: "agree (py_any (acct_prohibition_blocks fs a) (prohibitions fs))
                 (py_any (acct_prohibition_blocks fs' a) (prohibitions fs'))"
  proof (rule agree_any [OF set_kinds(2) [OF eq]])
    fix p
    have "agree (py_any (\<lambda>g. py_and (Some (emergency g)) (acct_ticket_covers fs g a ?env)) (grants fs))
                (py_any (\<lambda>g. py_and (Some (emergency g)) (acct_ticket_covers fs' g a ?env)) (grants fs'))"
      by (intro agree_intros gs) (simp add: ticket_covers_same [OF eq])
    then show "agree (acct_prohibition_blocks fs a p) (acct_prohibition_blocks fs' a p)"
      using asset_attrs_same [OF eq, of ?n] account_attrs_same [OF eq, of ?c]
      unfolding acct_prohibition_blocks_def Let_def env
      by (simp add: agree_intros)
  qed
  have 3: "agree (acct_sanctioned (grants fs) a) (acct_sanctioned (grants fs') a)"
  proof -
    have ex: "list_ex f (grants fs) = list_ex f (grants fs')" for f
      by (rule list_ex_set_eq [OF gs]) simp
    show ?thesis
      unfolding acct_sanctioned_def ex by (intro agree_intros gs)
  qed
  show ?thesis
    unfolding agree_def
  proof (intro allI impI)
    fix x y
    assume x: "acct_components fs a = Some x" and y: "acct_components fs' a = Some y"
    from x obtain c b s where x': "acct_covered fs a ?env = Some c"
      "py_any (acct_prohibition_blocks fs a) (prohibitions fs) = Some b"
      "acct_sanctioned (grants fs) a = Some s"
      "x = \<lparr> sanctioned_or_routine = s,
         in_scope = c \<and> org_linked fs (case account_fact fs ?c of None \<Rightarrow> [] | Some c \<Rightarrow> dflt (owner_org c) [])
                           (attr (resolved_entity fs E_ASSET ?n) owner_org []),
         actor_genuine = acct_actor_genuine fs a, policy_allowed = \<not> b \<rparr>"
      by (auto simp: acct_components_def Let_def bind_eq_Some_conv)
    from y obtain c' b' s' where y': "acct_covered fs' a ?env = Some c'"
      "py_any (acct_prohibition_blocks fs' a) (prohibitions fs') = Some b'"
      "acct_sanctioned (grants fs') a = Some s'"
      "y = \<lparr> sanctioned_or_routine = s',
         in_scope = c' \<and> org_linked fs' (case account_fact fs' ?c of None \<Rightarrow> [] | Some c \<Rightarrow> dflt (owner_org c) [])
                           (attr (resolved_entity fs' E_ASSET ?n) owner_org []),
         actor_genuine = acct_actor_genuine fs' a, policy_allowed = \<not> b' \<rparr>"
      unfolding acct_components_def Let_def env by (auto simp: bind_eq_Some_conv)
    have "c = c'" "b = b'" "s = s'"
      using agreeD [OF 1 x'(1) y'(1)] agreeD [OF 2 x'(2) y'(2)] agreeD [OF 3 x'(3) y'(3)] by blast+
    then show "x = y"
      unfolding x'(4) y'(4) asset_attrs_same(4) [OF eq, of ?n] account_attrs_same(1) [OF eq, of ?c]
        actor_genuine_same [OF eq, of a] org_linked_same [OF eq]
      by (simp only:)
  qed
qed

lemma fim_components_agree:
  assumes eq: "set fs = set fs'"
  shows "agree (fim_components fs a) (fim_components fs' a)"
proof -
  let ?n = "dflt (path a) []"
  let ?cls = "attr (resolved_entity fs E_WATCHED_PATH ?n) config_class ''app''"
  have cls: "attr (resolved_entity fs' E_WATCHED_PATH ?n) config_class ''app'' = ?cls"
    using path_attrs_same(1) [OF eq] by metis
  have gs: "set (grants fs) = set (grants fs')" using set_kinds(1) [OF eq] .
  have 1: "agree (py_any (fim_prohibition_blocks fs a ?cls) (prohibitions fs))
                 (py_any (fim_prohibition_blocks fs' a ?cls) (prohibitions fs'))"
  proof (rule agree_any [OF set_kinds(2) [OF eq]])
    fix p
    have "agree (py_any (\<lambda>g. py_and (Some (emergency g)) (fim_cr_covers g a)) (grants fs))
                (py_any (\<lambda>g. py_and (Some (emergency g)) (fim_cr_covers g a)) (grants fs'))"
      by (intro agree_intros gs)
    then show "agree (fim_prohibition_blocks fs a ?cls p) (fim_prohibition_blocks fs' a ?cls p)"
      unfolding fim_prohibition_blocks_def Let_def by (simp add: agree_intros)
  qed
  have 2: "agree (py_any (\<lambda>g. fim_baseline_covers g a) (grants fs)) (py_any (\<lambda>g. fim_baseline_covers g a) (grants fs'))"
    by (intro agree_intros gs)
  have 3: "fim_sanctioned (grants fs) a = fim_sanctioned (grants fs') a"
    unfolding fim_sanctioned_def by (rule list_ex_set_eq [OF gs]) simp
  show ?thesis
    unfolding agree_def
  proof (intro allI impI)
    fix x y
    assume x: "fim_components fs a = Some x" and y: "fim_components fs' a = Some y"
    from x obtain crs c b where x': "py_filter (\<lambda>g. fim_cr_covers g a) (grants fs) = Some crs"
      "py_or (Some (crs \<noteq> [])) (py_any (\<lambda>g. fim_baseline_covers g a) (grants fs)) = Some c"
      "py_any (fim_prohibition_blocks fs a ?cls) (prohibitions fs) = Some b"
      "x = \<lparr> sanctioned_or_routine = fim_sanctioned (grants fs) a,
         in_scope = c \<and> \<not> list_ex (fim_freeze_blocks crs ?cls (act_time a)) (freezes fs),
         actor_genuine = \<not> is_compromised (compromise_attr (resolved_entity fs E_WATCHED_PATH ?n)),
         policy_allowed = \<not> b \<rparr>"
      by (auto simp: fim_components_def Let_def bind_eq_Some_conv)
    from y obtain crs' c' b' where y': "py_filter (\<lambda>g. fim_cr_covers g a) (grants fs') = Some crs'"
      "py_or (Some (crs' \<noteq> [])) (py_any (\<lambda>g. fim_baseline_covers g a) (grants fs')) = Some c'"
      "py_any (fim_prohibition_blocks fs' a ?cls) (prohibitions fs') = Some b'"
      "y = \<lparr> sanctioned_or_routine = fim_sanctioned (grants fs') a,
         in_scope = c' \<and> \<not> list_ex (fim_freeze_blocks crs' ?cls (act_time a)) (freezes fs'),
         actor_genuine = \<not> is_compromised (compromise_attr (resolved_entity fs' E_WATCHED_PATH ?n)),
         policy_allowed = \<not> b' \<rparr>"
      unfolding fim_components_def Let_def cls by (auto simp: bind_eq_Some_conv)
    have crs: "set crs = set crs'" by (rule agree_filter_set [OF gs _ x'(1) y'(1)]) simp
    then have "crs = [] \<longleftrightarrow> crs' = []" by (metis set_empty)
    with x'(2) y'(2) 2 have "c = c'" by (auto simp: agree_def py_or_def split: if_splits)
    moreover have "b = b'" using 1 x'(3) y'(3) by (rule agreeD)
    moreover have "list_ex (fim_freeze_blocks crs ?cls (act_time a)) (freezes fs)
         = list_ex (fim_freeze_blocks crs' ?cls (act_time a)) (freezes fs')"
    proof (rule list_ex_set_eq [OF set_kinds(3) [OF eq]])
      show "fim_freeze_blocks crs ?cls (act_time a) z = fim_freeze_blocks crs' ?cls (act_time a) z" for z
        using crs by (auto simp: fim_freeze_blocks_def list_ex_iff)
    qed
    ultimately show "x = y"
      unfolding x'(4) y'(4) 3 path_attrs_same(2) [OF eq, of ?n] by (simp only:)
  qed
qed

lemma set_select: "set fs = set fs' \<Longrightarrow> set (select_facts fs t n) = set (select_facts fs' t n)"
  by (simp add: select_facts_def)

lemma evaluate_agree:
  "set fs = set fs' \<Longrightarrow> agree (evaluate_authorization a fs n) (evaluate_authorization a fs' n)"
  unfolding evaluate_authorization_def Let_def
  by (cases "act_track a = FIM")
    (simp_all only: if_True if_False refl acct_components_agree [OF set_select] fim_components_agree [OF set_select])

text \<open>
  Property C27. The classification of an activity depends on the set of facts on file and not on
  their order or multiplicity: whenever the engine returns for two orderings, it returns the
  same class and the same four components. Ties between equally trusted records of one entity
  are settled by their canonical key, and records with equal keys agree on everything the engine
  reads.
\<close>

theorem authz_class_order_independent:
  assumes "set (facts c) = set (facts c')" and "activity c = activity c'" and "ctx_tenant c = ctx_tenant c'"
    and "derive_authz_class (Some c) = Some r" and "derive_authz_class (Some c') = Some r'"
  shows "r = r'"
proof -
  let ?sel = "\<lambda>c. select_facts (facts c) (act_track (activity c)) (ctx_tenant c)"
  have sel: "set (?sel c) = set (?sel c')" unfolding assms(2,3) by (rule set_select [OF assms(1)])
  then have e: "?sel c = [] \<longleftrightarrow> ?sel c' = []" by (metis set_empty)
  have g: "list_ex is_grant (?sel c) = list_ex is_grant (?sel c')"
    by (rule list_ex_set_eq [OF sel]) simp
  have ag: "agree (evaluate_authorization (activity c) (facts c) (ctx_tenant c))
              (evaluate_authorization (activity c') (facts c') (ctx_tenant c'))"
    unfolding assms(2,3) by (rule evaluate_agree [OF assms(1)])
  show ?thesis
  proof (cases "?sel c = []")
    case True
    with assms(4,5) e show ?thesis by (simp add: derive_authz_class_def)
  next
    case False
    with assms(4) obtain k where k: "evaluate_authorization (activity c) (facts c) (ctx_tenant c) = Some k"
      "r = (if \<not> policy_allowed k then (Contradicted, Some k) else if in_scope k then (Covered, Some k)
            else if list_ex is_grant (?sel c) then (Contradicted, Some k) else (Absent, Some k))"
      by (auto simp: derive_authz_class_def Let_def bind_eq_Some_conv)
    from False e have "?sel c' \<noteq> []" by simp
    with assms(5) obtain k' where k': "evaluate_authorization (activity c') (facts c') (ctx_tenant c') = Some k'"
      "r' = (if \<not> policy_allowed k' then (Contradicted, Some k') else if in_scope k' then (Covered, Some k')
            else if list_ex is_grant (?sel c') then (Contradicted, Some k') else (Absent, Some k'))"
      by (auto simp: derive_authz_class_def Let_def bind_eq_Some_conv)
    have "k = k'" by (rule agreeD [OF ag k(1) k'(1)])
    then show ?thesis unfolding k(2) k'(2) g by (simp only:)
  qed
qed


subsection \<open>Selection is fail-closed\<close>

lemma select_insert_irrelevant:
  "tenant (envelope f) \<noteq> Some t \<or> superseded_by (envelope f) \<noteq> None \<or> track (envelope f) \<noteq> k \<Longrightarrow>
   select_facts (xs @ f # ys) k (Some t) = select_facts (xs @ ys) k (Some t)"
  by (auto simp: select_facts_def)

text \<open>
  Property C28. In a tenant-scoped evaluation a fact that carries another tenant's stamp, no
  stamp at all, a superseding record or the other track changes nothing, wherever it stands in
  the list: not the components, not the class, and not the covering grants.
\<close>

theorem authz_tenant_isolation:
  assumes "tenant (envelope f) \<noteq> Some t \<or> superseded_by (envelope f) \<noteq> None
           \<or> track (envelope f) \<noteq> act_track a"
  shows "evaluate_authorization a (xs @ f # ys) (Some t) = evaluate_authorization a (xs @ ys) (Some t)
    \<and> find_covering_grants a (xs @ f # ys) (Some t) = find_covering_grants a (xs @ ys) (Some t)
    \<and> derive_authz_class (Some \<lparr> ctx_tenant = Some t, activity = a, facts = xs @ f # ys \<rparr>)
      = derive_authz_class (Some \<lparr> ctx_tenant = Some t, activity = a, facts = xs @ ys \<rparr>)"
  using select_insert_irrelevant [OF assms, of xs ys]
  by (simp add: evaluate_authorization_def find_covering_grants_def derive_authz_class_def Let_def)

subsection \<open>Evidence is needed\<close>

lemma grants_empty_iff: "grants fs = [] \<longleftrightarrow> \<not> list_ex is_grant fs"
proof -
  have "set (grants fs) = {} \<longleftrightarrow> \<not> list_ex is_grant fs"
    by (auto simp: grants_def list_ex_iff split: authorization_fact.splits elim: is_grant.elims)
  then show ?thesis by simp
qed

lemma in_grants_iff: "g \<in> set (grants fs) \<longleftrightarrow> Grant g \<in> set fs"
  by (auto simp: grants_def split: authorization_fact.splits)

lemma prohibition_blocks_no_grants:
  "grants fs = [] \<Longrightarrow> acct_prohibition_blocks fs a p \<noteq> None"
  "grants fs = [] \<Longrightarrow> fim_prohibition_blocks fs a cls p \<noteq> None"
  by (auto simp: acct_prohibition_blocks_def fim_prohibition_blocks_def Let_def py_and_def)

text \<open>
  Absence of evidence is never authorization: with no selected grant the evaluation returns (it
  cannot raise), the activity is neither in scope nor sanctioned, the decision is to escalate,
  and the class is not \<open>Covered\<close>.
\<close>

theorem no_grant_never_authorizes:
  assumes "\<not> list_ex is_grant (select_facts fs (act_track a) tn)"
  shows "\<exists>k. evaluate_authorization a fs tn = Some k \<and> \<not> in_scope k \<and> \<not> sanctioned_or_routine k
             \<and> decision k = ''escalate''
             \<and> (\<forall>m. derive_authz_class (Some \<lparr> ctx_tenant = tn, activity = a, facts = fs \<rparr>) \<noteq> Some (Covered, m))"
proof -
  let ?sel = "select_facts fs (act_track a) tn"
  have g: "grants ?sel = []" using assms by (simp add: grants_empty_iff)
  obtain b where b: "py_any (acct_prohibition_blocks ?sel a) (prohibitions ?sel) = Some b"
    using py_any_total [of "prohibitions ?sel" "acct_prohibition_blocks ?sel a"]
      prohibition_blocks_no_grants(1) [OF g] by auto
  obtain b' where b': "py_any (fim_prohibition_blocks ?sel a
       (attr (resolved_entity ?sel E_WATCHED_PATH (dflt (path a) [])) config_class ''app''))
       (prohibitions ?sel) = Some b'"
    using py_any_total [of "prohibitions ?sel" "fim_prohibition_blocks ?sel a
       (attr (resolved_entity ?sel E_WATCHED_PATH (dflt (path a) [])) config_class ''app'')"]
      prohibition_blocks_no_grants(2) [OF g] by auto
  have "\<exists>k. evaluate_authorization a fs tn = Some k \<and> \<not> in_scope k \<and> \<not> sanctioned_or_routine k"
    by (cases "act_track a")
      (use b b' g in \<open>simp_all add: evaluate_authorization_def Let_def acct_components_def
        fim_components_def acct_covered_def acct_sanctioned_def fim_sanctioned_def\<close>)
  then obtain k where k: "evaluate_authorization a fs tn = Some k" "\<not> in_scope k" "\<not> sanctioned_or_routine k"
    by blast
  moreover from k have "derive_authz_class (Some \<lparr> ctx_tenant = tn, activity = a, facts = fs \<rparr>) \<noteq> Some (Covered, m)" for m
    using assms by (simp add: derive_authz_class_def Let_def)
  ultimately show ?thesis by (auto simp: decision_def expected_def)
qed

subsection \<open>One record must cover the activity\<close>

text \<open>A single grant that satisfies every condition of its class at the activity's time.\<close>

definition single_record :: "authorization_activity \<Rightarrow> grant_fact \<Rightarrow> bool" where
  "single_record a g \<longleftrightarrow>
     in_recurring_window g (act_time a) = Some True \<and> in_validity g (act_time a) \<and>
     (if act_track a = FIM then fim_target_matches g a \<and> fim_type_matches g (act_change_type a) else scope_is g a) \<and>
     (case grant_class g of
        CHANGE_TICKET \<Rightarrow> status g = APPROVED \<and> (cab_required g \<longrightarrow> cab_approved g)
      | STANDING_BASELINE \<Rightarrow> True
      | ROUTINE_OBSERVATION \<Rightarrow> act_track a = ACCOUNT \<and> ROUTINE_MIN \<le> dflt (seen_count g) 0 \<and> ioc g \<noteq> Some True)"

lemma acct_covered_record:
  assumes "acct_covered fs a env = Some True" and "act_track a = ACCOUNT"
  shows "\<exists>g\<in>set (grants fs). single_record a g"
proof -
  from assms(1) consider
      g where "g \<in> set (grants fs)" "acct_ticket_covers fs g a env = Some True"
    | g where "g \<in> set (grants fs)" "acct_baseline_covers g a = Some True"
    | g where "g \<in> set (grants fs)" "acct_routine g a = Some True"
    unfolding acct_covered_def by (blast dest: py_or_TrueD py_any_TrueD)
  then show ?thesis
    by cases (use assms(2) in \<open>force simp: acct_ticket_covers_def acct_baseline_covers_def
        acct_routine_def single_record_def grant_ok_def\<close>)+
qed

lemma fim_covered_record:
  assumes "fim_components fs a = Some k" and "in_scope k" and "act_track a = FIM"
  shows "\<exists>g\<in>set (grants fs). single_record a g"
proof -
  from assms(1,2) obtain crs where crs: "py_filter (\<lambda>g. fim_cr_covers g a) (grants fs) = Some crs"
    and c: "py_or (Some (crs \<noteq> [])) (py_any (\<lambda>g. fim_baseline_covers g a) (grants fs)) = Some True"
    by (auto simp: fim_components_def Let_def bind_eq_Some_conv)
  from py_or_TrueD [OF c] consider g where "g \<in> set crs"
    | g where "g \<in> set (grants fs)" "fim_baseline_covers g a = Some True"
    by (cases crs) (auto dest: py_any_TrueD)
  then show ?thesis
  proof cases
    case 1
    with py_filter_SomeD [OF crs] assms(3) show ?thesis
      by (force simp: fim_cr_covers_def single_record_def grant_ok_def)
  next
    case 2
    with assms(3) show ?thesis by (force simp: fim_baseline_covers_def single_record_def)
  qed
qed

text \<open>
  Property C29. The class \<open>Covered\<close> always rests on one live record of the right
  tenant that by itself matches the activity's scope, contains its time in the calendar validity
  and the recurring window, and carries the approvals its class needs. Partial records are never
  combined.
\<close>

theorem covered_rests_on_one_record:
  assumes "derive_authz_class (Some c) = Some (Covered, k)"
  shows "\<exists>g. Grant g \<in> set (facts c) \<and> track g = act_track (activity c) \<and> superseded_by g = None
             \<and> (ctx_tenant c = None \<or> tenant g = ctx_tenant c) \<and> single_record (activity c) g"
proof -
  let ?a = "activity c"
  let ?sel = "select_facts (facts c) (act_track ?a) (ctx_tenant c)"
  from assms obtain m where m: "evaluate_authorization ?a (facts c) (ctx_tenant c) = Some m" "in_scope m"
    by (auto simp: derive_authz_class_def Let_def bind_eq_Some_conv split: if_splits)
  have "\<exists>g\<in>set (grants ?sel). single_record ?a g"
  proof (cases "act_track ?a")
    case ACCOUNT
    with m have "acct_covered ?sel ?a
        (attr (resolved_entity ?sel E_ASSET (dflt (host ?a) [])) environment ''prod'') = Some True"
      by (auto simp: evaluate_authorization_def acct_components_def Let_def bind_eq_Some_conv)
    then show ?thesis using ACCOUNT by (rule acct_covered_record)
  next
    case FIM
    with m have "fim_components ?sel ?a = Some m" by (simp add: evaluate_authorization_def)
    then show ?thesis using m(2) FIM by (rule fim_covered_record)
  qed
  then obtain g where "Grant g \<in> set ?sel" "single_record ?a g" by (auto simp: in_grants_iff)
  then show ?thesis by (auto simp: select_facts_def)
qed


subsection \<open>A concrete tenant\<close>

text \<open>An administrator's privileged action at noon, a standing baseline for it, and an asset record.\<close>

definition any_scope :: fact_scope where
  "any_scope = \<lparr> subject = None, target = None, action = None, change_type = None, recurring_window = None \<rparr>"

definition sudo_scope :: fact_scope where
  "sudo_scope = \<lparr> subject = Some ''alice'', target = Some ''web1'', action = Some ''sudo'',
     change_type = None, recurring_window = Some \<lparr> win_start = ''08:00'', win_end = ''18:00'' \<rparr> \<rparr>"

definition noon :: datetime where
  "noon = \<lparr> instant = 43200000000, utcoffset = 0 \<rparr>"

definition sudo_activity :: authorization_activity where
  "sudo_activity = \<lparr> act_track = ACCOUNT, host = Some ''web1'', account = Some ''alice'',
     act_action = Some ''sudo'', path = None, act_change_type = None, act_time = noon, interactive = True \<rparr>"

definition baseline_grant :: grant_fact where
  "baseline_grant = \<lparr> fact_id = ''g1'', track = ACCOUNT, tenant = Some ''acme'', scope = sudo_scope,
     source_type = SYSTEM_ASSERTED, trust = 80, valid_from = None, valid_until = None, superseded_by = None,
     grant_class = STANDING_BASELINE, status = APPROVED, cab_required = False, cab_approved = True,
     emergency = False, freeze_exception = False, seen_count = None, ioc = None \<rparr>"

definition asset_record :: "string option \<Rightarrow> entity_context_fact" where
  "asset_record cls = \<lparr> fact_id = ''e1'', track = ACCOUNT, tenant = Some ''acme'', scope = any_scope,
     source_type = SYSTEM_ASSERTED, trust = 80, valid_from = None, valid_until = None, superseded_by = None,
     entity_type = E_ASSET, ent_name = ''web1'', environment = None, criticality = None,
     data_classification = cls, config_class = None, owner_org = None, custodian_account = None,
     approver = None, service_owner = None, account_type = None, privileged = None, on_call = None,
     break_glass = None, compromise_status = None, linked_orgs = None \<rparr>"

definition covered_context :: authorization_context where
  "covered_context = \<lparr> ctx_tenant = Some ''acme'', activity = sudo_activity,
     facts = [Grant baseline_grant, EntityContext (asset_record (Some ''pci'')), EntityContext (asset_record (Some ''pii''))] \<rparr>"

definition all_hold :: authorization_components where
  "all_hold = \<lparr> sanctioned_or_routine = True, in_scope = True, actor_genuine = True, policy_allowed = True \<rparr>"

lemma covered_context_class:
  "derive_authz_class (Some covered_context) = Some (Covered, Some all_hold)"
  by code_simp

lemma covered_context_rev_class:
  "derive_authz_class (Some (covered_context\<lparr>facts := rev (facts covered_context)\<rparr>)) = Some (Covered, Some all_hold)"
  by code_simp


theorem authz_class_order_independent_witness:
  "\<exists>r r'. derive_authz_class (Some covered_context) = Some r
        \<and> derive_authz_class (Some (covered_context\<lparr>facts := rev (facts covered_context)\<rparr>)) = Some r' \<and> r = r'"
proof -
  have "(Covered, Some all_hold) = (Covered, Some all_hold)"
    by (rule authz_class_order_independent [OF _ _ _ covered_context_class covered_context_rev_class])
      simp_all
  then show ?thesis using covered_context_class covered_context_rev_class by blast
qed

theorem authz_tenant_isolation_witness:
  "tenant (envelope (Grant baseline_grant)) \<noteq> Some ''globex''
   \<and> evaluate_authorization sudo_activity [Grant baseline_grant] (Some ''globex'')
     = evaluate_authorization sudo_activity [] (Some ''globex'')"
proof -
  have h: "tenant (envelope (Grant baseline_grant)) \<noteq> Some ''globex''"
    by (simp add: baseline_grant_def)
  then show ?thesis
    using authz_tenant_isolation [of "Grant baseline_grant" "''globex''" sudo_activity "[]" "[]"] by simp
qed

theorem no_grant_never_authorizes_witness:
  "\<exists>k. evaluate_authorization sudo_activity [Grant baseline_grant] (Some ''globex'') = Some k
       \<and> decision k = ''escalate''"
proof -
  have "\<not> list_ex is_grant (select_facts [Grant baseline_grant] (act_track sudo_activity) (Some ''globex''))"
    by (simp add: select_facts_def baseline_grant_def)
  from no_grant_never_authorizes [OF this] show ?thesis by blast
qed

theorem covered_rests_on_one_record_witness:
  "\<exists>g. Grant g \<in> set (facts covered_context) \<and> single_record sudo_activity g"
  using covered_rests_on_one_record [OF covered_context_class] by (auto simp: covered_context_def)

subsection \<open>What authorization cannot outweigh\<close>

text \<open>
  A compromise flag on any live record of the acting account is decisive: no number of more
  trusted clean records and no grant makes the activity expected.
\<close>

theorem compromise_never_trusted_away:
  assumes "act_track a = ACCOUNT" and "account a = Some (ent_name e)"
    and "EntityContext e \<in> set (select_facts fs ACCOUNT tn)" and "entity_type e = E_ACCOUNT"
    and "compromise_status e = Some s" and "s = COMPROMISED \<or> s = CONTAINED"
    and "evaluate_authorization a fs tn = Some k"
  shows "\<not> actor_genuine k \<and> decision k = ''escalate''"
proof -
  have "e \<in> set (entities (select_facts fs ACCOUNT tn))"
    using assms(3) by (auto simp: entities_def)
  then have "account_compromised (select_facts fs ACCOUNT tn) (ent_name e)"
    using assms(4-6) by (auto simp: account_compromised_def list_ex_iff is_compromised_def intro!: bexI [of _ e])
  then have "\<not> actor_genuine k"
    using assms(1,2,7)
    by (auto simp: evaluate_authorization_def acct_components_def acct_actor_genuine_def Let_def
        bind_eq_Some_conv dflt_def)
  then show ?thesis by (simp add: decision_def expected_def)
qed

definition compromised_account :: entity_context_fact where
  "compromised_account = (asset_record None)\<lparr>entity_type := E_ACCOUNT, ent_name := ''alice'',
     compromise_status := Some CONTAINED, trust := 0\<rparr>"

theorem compromise_never_trusted_away_witness:
  "\<exists>k. evaluate_authorization sudo_activity [Grant baseline_grant, EntityContext compromised_account] (Some ''acme'') = Some k
       \<and> in_scope k \<and> decision k = ''escalate''"
proof -
  let ?fs = "[Grant baseline_grant, EntityContext compromised_account]"
  have e: "evaluate_authorization sudo_activity ?fs (Some ''acme'') = Some (all_hold\<lparr>actor_genuine := False\<rparr>)"
    by code_simp
  have "decision (all_hold\<lparr>actor_genuine := False\<rparr>) = ''escalate''"
    using compromise_never_trusted_away [where e = compromised_account and s = CONTAINED, OF _ _ _ _ _ _ e]
    by (simp add: sudo_activity_def compromised_account_def asset_record_def select_facts_def)
  with e show ?thesis by (auto simp: all_hold_def)
qed

text \<open>
  On the file-integrity track an active freeze of the path's configuration class stops every
  coverage, standing baselines included, unless a covering change is excepted from it.
\<close>

theorem fim_freeze_gates_all_coverage:
  assumes "act_track a = FIM" and "ChangeFreeze z \<in> set (select_facts fs FIM tn)"
    and "attr (resolved_entity (select_facts fs FIM tn) E_WATCHED_PATH (dflt (path a) [])) config_class ''app''
         \<in> set (fz_config_classes (freeze_scope z))"
    and "dt_le (fz_start z) (act_time a)" and "dt_le (act_time a) (fz_end z)"
    and "\<forall>g. Grant g \<in> set (select_facts fs FIM tn) \<longrightarrow> fim_cr_covers g a = Some True \<longrightarrow>
             \<not> freeze_exception g \<and> fact_id g \<notin> set (allowed_exception_ids z)"
    and "evaluate_authorization a fs tn = Some k"
  shows "\<not> in_scope k \<and> decision k = ''escalate''"
proof -
  let ?sel = "select_facts fs FIM tn"
  let ?cls = "attr (resolved_entity ?sel E_WATCHED_PATH (dflt (path a) [])) config_class ''app''"
  from assms(1,7) have "fim_components ?sel a = Some k" by (simp add: evaluate_authorization_def)
  then obtain crs c where crs: "py_filter (\<lambda>g. fim_cr_covers g a) (grants ?sel) = Some crs"
    and k: "in_scope k \<longleftrightarrow> c \<and> \<not> list_ex (fim_freeze_blocks crs ?cls (act_time a)) (freezes ?sel)"
    by (auto simp: fim_components_def Let_def bind_eq_Some_conv)
  have "\<forall>g\<in>set crs. \<not> freeze_exception g \<and> fact_id g \<notin> set (allowed_exception_ids z)"
    using py_filter_SomeD [OF crs] assms(6) by (auto simp: in_grants_iff)
  then have "fim_freeze_blocks crs ?cls (act_time a) z"
    using assms(3-5) by (auto simp: fim_freeze_blocks_def list_ex_iff)
  moreover have "z \<in> set (freezes ?sel)" using assms(2) by (auto simp: freezes_def)
  ultimately have "\<not> in_scope k" using k by (auto simp: list_ex_iff)
  then show ?thesis by (simp add: decision_def expected_def)
qed

definition passwd_change :: authorization_activity where
  "passwd_change = \<lparr> act_track = FIM, host = None, account = None, act_action = None,
     path = Some ''/etc/passwd'', act_change_type = Some MODIFY, act_time = noon, interactive = False \<rparr>"

definition etc_baseline :: grant_fact where
  "etc_baseline = baseline_grant\<lparr>track := FIM, scope := any_scope\<lparr>target := Some ''/etc/*''\<rparr>\<rparr>"

definition app_freeze :: change_freeze_fact where
  "app_freeze = \<lparr> fact_id = ''f1'', track = FIM, tenant = Some ''acme'', scope = any_scope,
     source_type = SYSTEM_ASSERTED, trust = 80, valid_from = None, valid_until = None, superseded_by = None,
     freeze_scope = \<lparr> fz_envs = [], fz_config_classes = [''app''] \<rparr>,
     fz_start = noon, fz_end = noon, allowed_exception_ids = [] \<rparr>"

lemma etc_baseline_in_scope_without_freeze:
  "evaluate_authorization passwd_change [Grant etc_baseline] (Some ''acme'') = Some all_hold"
  by code_simp

theorem fim_freeze_gates_all_coverage_witness:
  "\<exists>k. evaluate_authorization passwd_change [Grant etc_baseline, ChangeFreeze app_freeze] (Some ''acme'') = Some k
       \<and> \<not> in_scope k"
proof -
  let ?fs = "[Grant etc_baseline, ChangeFreeze app_freeze]"
  have e: "evaluate_authorization passwd_change ?fs (Some ''acme'') = Some (all_hold\<lparr>in_scope := False\<rparr>)"
    by code_simp
  have sel: "select_facts ?fs FIM (Some ''acme'') = ?fs" by code_simp
  have cls: "attr (resolved_entity ?fs E_WATCHED_PATH (dflt (path passwd_change) [])) config_class ''app'' = ''app''"
    by code_simp
  have "\<not> in_scope (all_hold\<lparr>in_scope := False\<rparr>)"
    using fim_freeze_gates_all_coverage [where z = app_freeze, OF _ _ _ _ _ _ e]
    unfolding sel cls
    by (auto simp: passwd_change_def app_freeze_def dt_le_def etc_baseline_def fim_cr_covers_def baseline_grant_def)
  with e show ?thesis by blast
qed

text \<open>
  A live high-priority prohibition of the action that is neither waived nor narrowed nor open to
  break-glass makes the class \<open>Contradicted\<close>, whatever grants cover it.
\<close>

theorem prohibition_contradicts:
  assumes "act_track (activity c) = ACCOUNT"
    and "Prohibition p \<in> set (select_facts (facts c) ACCOUNT (ctx_tenant c))"
    and "forbid_action p = act_action (activity c)" and "priority p = P_HIGH" and "\<not> waiver_present p"
    and "forbid_account_type p = None" and "\<not> break_glass_exception p"
    and "ap_env (applies_to p) = None" and "ap_criticality (applies_to p) = None" and "ap_data_class (applies_to p) = None"
    and "derive_authz_class (Some c) = Some (cls, k)"
  shows "cls = Contradicted"
proof -
  let ?a = "activity c"
  let ?sel = "select_facts (facts c) ACCOUNT (ctx_tenant c)"
  from assms(2) have ne: "?sel \<noteq> []" by auto
  have blocks: "acct_prohibition_blocks ?sel ?a p = Some True"
    using assms(3-10) by (simp add: acct_prohibition_blocks_def Let_def scope_excludes_def)
  from assms(1,11) ne obtain m where m: "acct_components ?sel ?a = Some m"
    and cls: "(cls, k) = (if \<not> policy_allowed m then (Contradicted, Some m) else if in_scope m then (Covered, Some m)
            else if list_ex is_grant ?sel then (Contradicted, Some m) else (Absent, Some m))"
    by (auto simp: derive_authz_class_def evaluate_authorization_def Let_def bind_eq_Some_conv)
  from m obtain b where b: "py_any (acct_prohibition_blocks ?sel ?a) (prohibitions ?sel) = Some b"
    and pa: "policy_allowed m \<longleftrightarrow> \<not> b"
    by (auto simp: acct_components_def Let_def bind_eq_Some_conv)
  have "p \<in> set (prohibitions ?sel)" using assms(2) by (auto simp: prohibitions_def)
  with b blocks have b by (cases b) auto
  with pa cls show ?thesis by simp
qed

definition no_sudo :: prohibition_fact where
  "no_sudo = \<lparr> fact_id = ''p1'', track = ACCOUNT, tenant = Some ''acme'', scope = any_scope,
     source_type = SYSTEM_ASSERTED, trust = 80, valid_from = None, valid_until = None, superseded_by = None,
     forbid_action = Some ''sudo'', forbid_change_type = None, forbid_account_type = None,
     applies_to = \<lparr> ap_env = None, ap_criticality = None, ap_data_class = None, ap_config_class = None \<rparr>,
     priority = P_HIGH, waiver_present = False, break_glass_exception = False \<rparr>"

theorem prohibition_contradicts_witness:
  "\<exists>k. derive_authz_class (Some (covered_context\<lparr>facts := Prohibition no_sudo # facts covered_context\<rparr>))
       = Some (Contradicted, k)"
proof -
  let ?c = "covered_context\<lparr>facts := Prohibition no_sudo # facts covered_context\<rparr>"
  have e: "derive_authz_class (Some ?c) = Some (Contradicted, Some (all_hold\<lparr>policy_allowed := False\<rparr>))"
    by code_simp
  have "Contradicted = Contradicted"
    by (rule prohibition_contradicts [where p = no_sudo, OF _ _ _ _ _ _ _ _ _ _ e])
      (simp_all add: covered_context_def sudo_activity_def no_sudo_def select_facts_def)
  with e show ?thesis by blast
qed

text \<open>
  A window bound written as hours and minutes parses to that time of day when it is one, and
  raises when the hour or the minute is out of range.
\<close>

theorem parse_hhmm_show:
  assumes "0 \<le> h" and "0 \<le> m"
  shows "parse_hhmm (show_int h @ '':'' @ show_int m)
       = (if h \<le> 23 \<and> m \<le> 59 then Some ((h * 60 + m) * 60000000) else None)"
proof -
  have no_colon: "CHR '':'' \<notin> set (show_int i)" if "0 \<le> i" for i
    using that show_nat_digits [of "nat i"] by (auto simp: show_int_def is_digit_def)
  have plain: "CHR '':'' \<notin> set s \<Longrightarrow> str_split CHR '':'' s = [s]" for s
    by (induction s) auto
  have split: "CHR '':'' \<notin> set s \<Longrightarrow> str_split CHR '':'' (s @ CHR '':'' # t) = s # str_split CHR '':'' t" for s t
    by (induction s) auto
  show ?thesis
    using assms no_colon by (simp add: parse_hhmm_def split plain py_int_of_show_int)
qed

theorem parse_hhmm_show_witness:
  "parse_hhmm (show_int 9 @ '':'' @ show_int 5) = Some 32700000000
   \<and> parse_hhmm (show_int 24 @ '':'' @ show_int 0) = None"
  using parse_hhmm_show [of 9 5] parse_hhmm_show [of 24 0] by simp

end
