(* ===== verification/Conditions.thy ===== *)
theory Conditions
  imports PyValue
begin

text \<open>
  The sandboxed condition language of triage policies (\<open>triage_policy/conditions.py\<close>): the
  author-time validator, which threads a node counter, and the evaluator over nested
  dictionaries. The evaluator raises where Python would, and \<open>evaluate_condition\<close> turns every
  raise into "does not fire".
\<close>

definition STATE_CONTRACT :: "string list" where
  "STATE_CONTRACT =
     [''authz.class'', ''authz.in_scope'', ''authz.sanctioned_or_routine'', ''authz.actor_genuine'',
      ''authz.policy_allowed'', ''verdict'', ''verdict_confidence'', ''asset.data_classification'',
      ''asset.environment'', ''asset.criticality'', ''enrichment.ioc'', ''correlation.active_incident'']"

definition COMPARISONS :: "string list" where
  "COMPARISONS = [''=='', ''!='', ''<'', ''<='', ''>'', ''>='']"

definition ALLOWED_OPERATORS :: "string list" where
  "ALLOWED_OPERATORS = ''var'' # COMPARISONS @ [''and'', ''or'', ''!'', ''!!''] @ [''in'']"

definition MAX_DEPTH :: nat where
  "MAX_DEPTH = 8"

definition MAX_NODES :: nat where
  "MAX_NODES = 64"

definition MAX_LIST_LITERAL :: nat where
  "MAX_LIST_LITERAL = 32"

datatype condition_error =
    TooManyNodes | TooDeep | NotSingleMapping | OperatorNotAllowed string | VarNotString
  | UndeclaredField string | WrongArity string nat | ListLiteralTooLong | ListLiteralNotScalar
  | RootNotMapping

subsection \<open>Author-time validation\<close>

fun is_scalar :: "pyval \<Rightarrow> bool" where
  "is_scalar (PList xs) = False"
| "is_scalar (PDict d) = False"
| "is_scalar _ = True"

fun args_list :: "pyval \<Rightarrow> pyval list" where
  "args_list (PList xs) = xs"
| "args_list v = [v]"

definition arity_ok :: "string \<Rightarrow> nat \<Rightarrow> bool" where
  "arity_ok op n \<longleftrightarrow>
     (op \<in> set COMPARISONS \<or> op = ''in'' \<longrightarrow> n = 2) \<and> (op = ''!'' \<or> op = ''!!'' \<longrightarrow> n = 1)"

lemma size_args_list: "x \<in> set (args_list v) \<Longrightarrow> size x \<le> size v"
  by (cases v) (auto dest: size_list_estimation' [where f = size, OF _ le_refl])

lemma size_args_list_sum: "size_list size (args_list v) \<le> Suc (size v)"
  by (cases v) auto

text \<open>\<open>walk_validate\<close> returns the counter after the node; \<open>walk_list\<close> folds it over arguments.\<close>

function (sequential) walk_validate :: "string list \<Rightarrow> nat \<Rightarrow> nat \<Rightarrow> pyval \<Rightarrow> condition_error + nat"
  and walk_list :: "string list \<Rightarrow> nat \<Rightarrow> nat \<Rightarrow> pyval list \<Rightarrow> condition_error + nat" where
  "walk_validate contract depth n node =
     (if Suc n > MAX_NODES then Inl TooManyNodes
      else if depth > MAX_DEPTH then Inl TooDeep
      else case node of
          PDict [(op, args)] \<Rightarrow>
            (if op \<notin> set ALLOWED_OPERATORS then Inl (OperatorNotAllowed op)
             else if op = ''var'' then
               (case args of
                  PStr f \<Rightarrow> if f \<in> set contract then Inr (Suc n) else Inl (UndeclaredField f)
                | _ \<Rightarrow> Inl VarNotString)
             else if \<not> arity_ok op (length (args_list args)) then Inl (WrongArity op (length (args_list args)))
             else walk_list contract (Suc depth) (Suc n) (args_list args))
        | PDict _ \<Rightarrow> Inl NotSingleMapping
        | PList xs \<Rightarrow>
            (if length xs > MAX_LIST_LITERAL then Inl ListLiteralTooLong
             else if \<not> list_all is_scalar xs then Inl ListLiteralNotScalar
             else Inr (Suc n))
        | _ \<Rightarrow> Inr (Suc n))"
| "walk_list contract depth n [] = Inr n"
| "walk_list contract depth n (x # xs) =
     (case walk_validate contract depth n x of
        Inl e \<Rightarrow> Inl e
      | Inr n' \<Rightarrow> walk_list contract depth n' xs)"
  by pat_completeness auto
termination
  by (relation "measure (\<lambda>x. case x of Inl (c, d, n, v) \<Rightarrow> 2 * size v + 1 | Inr (c, d, n, vs) \<Rightarrow> 2 * size_list size vs)")
    (auto intro: le_less_trans [OF mult_le_mono2 [OF size_args_list_sum]])

declare walk_validate.simps [simp del]

definition validate_condition :: "string list \<Rightarrow> pyval \<Rightarrow> condition_error + unit" where
  "validate_condition contract cond =
     (if \<not> is_dict cond then Inl RootNotMapping
      else case walk_validate contract 0 0 cond of Inl e \<Rightarrow> Inl e | Inr _ \<Rightarrow> Inr ())"

subsection \<open>Evaluation\<close>

fun lookup_path :: "pyval \<Rightarrow> string list \<Rightarrow> pyval" where
  "lookup_path node [] = node"
| "lookup_path (PDict d) (p # ps) = lookup_path (dget p d) ps"
| "lookup_path _ (p # ps) = PNone"

definition lookup :: "pyval \<Rightarrow> string \<Rightarrow> pyval" where
  "lookup ctx dotted = lookup_path ctx (str_split CHR ''.'' dotted)"

fun py_in :: "pyval \<Rightarrow> pyval \<Rightarrow> bool py" where
  "py_in x (PList ys) = Some (list_ex (py_eq x) ys)"
| "py_in x (PStr s) = (case x of PStr t \<Rightarrow> Some (is_substring t s) | _ \<Rightarrow> None)"
| "py_in x _ = Some False"

definition cmp_of :: "string \<Rightarrow> cmpop option" where
  "cmp_of op = (if op = ''<'' then Some CmpLt else if op = ''<='' then Some CmpLe
                else if op = ''>'' then Some CmpGt else if op = ''>='' then Some CmpGe else None)"

text \<open>One operator applied to its evaluated arguments.\<close>

definition apply_op :: "string \<Rightarrow> pyval list \<Rightarrow> pyval py" where
  "apply_op op vals =
     (if op = ''=='' then (case vals of a # b # _ \<Rightarrow> Some (PBool (py_eq a b)) | _ \<Rightarrow> None)
      else if op = ''!='' then (case vals of a # b # _ \<Rightarrow> Some (PBool (\<not> py_eq a b)) | _ \<Rightarrow> None)
      else case cmp_of op of
          Some c \<Rightarrow>
            (case vals of
               [a, b] \<Rightarrow> if a = PNone \<or> b = PNone then Some (PBool False) else map_option PBool (py_cmp c a b)
             | _ \<Rightarrow> None)
        | None \<Rightarrow>
            (if op = ''and'' then Some (PBool (list_all truthy vals))
             else if op = ''or'' then Some (PBool (list_ex truthy vals))
             else if op = ''!'' then (case vals of a # _ \<Rightarrow> Some (PBool (\<not> truthy a)) | _ \<Rightarrow> None)
             else if op = ''!!'' then (case vals of a # _ \<Rightarrow> Some (PBool (truthy a)) | _ \<Rightarrow> None)
             else if op = ''in'' then (case vals of a # b # _ \<Rightarrow> map_option PBool (py_in a b) | _ \<Rightarrow> None)
             else None))"

function (sequential) eval_node :: "pyval \<Rightarrow> pyval \<Rightarrow> pyval py" where
  "eval_node ctx (PDict d) =
     (case d of
        [(op, args)] \<Rightarrow>
          (if op = ''var'' then (case args of PStr f \<Rightarrow> Some (lookup ctx f) | _ \<Rightarrow> None)
           else do { vals \<leftarrow> py_map (eval_node ctx) (args_list args); apply_op op vals })
      | _ \<Rightarrow> None)"
| "eval_node ctx node = Some node"
  by pat_completeness auto
termination
  by (relation "measure (\<lambda>(ctx, v). size v)") (auto dest: size_args_list)

declare eval_node.simps(1) [simp del]

definition evaluate_condition :: "pyval \<Rightarrow> pyval \<Rightarrow> bool" where
  "evaluate_condition cond ctx = (case eval_node ctx cond of Some v \<Rightarrow> truthy v | None \<Rightarrow> False)"

end
