(* ===== verification/Conditions_Correct.thy ===== *)
theory Conditions_Correct
  imports Conditions
begin

text \<open>
  The sandbox of the condition language: an accepted condition is small and reads nothing but
  the declared contract fields.
\<close>

subsection \<open>Only declared fields are read\<close>

lemma walk_eval_same:
  "walk_validate contract depth n node = Inr m \<Longrightarrow>
     (\<forall>f\<in>set contract. lookup ctx f = lookup ctx' f) \<Longrightarrow> eval_node ctx node = eval_node ctx' node"
  "walk_list contract depth n nodes = Inr m \<Longrightarrow>
     (\<forall>f\<in>set contract. lookup ctx f = lookup ctx' f) \<Longrightarrow>
     \<forall>x\<in>set nodes. eval_node ctx x = eval_node ctx' x"
proof (induction contract depth n node and contract depth n nodes arbitrary: m and m
    rule: walk_validate_walk_list.induct)
  case (1 contract depth n node)
  show ?case
  proof (cases node)
    case (PDict d)
    show ?thesis
    proof (cases "\<exists>op args. d = [(op, args)]")
      case True
      then obtain op args where d: "d = [(op, args)]" by blast
      note w = "1.prems"(1) [unfolded PDict d walk_validate.simps [of contract depth n]]
      show ?thesis
      proof (cases "op = ''var''")
        case True
        with w obtain f where "args = PStr f" "f \<in> set contract"
          by (auto split: if_splits pyval.splits)
        with True "1.prems"(2) show ?thesis by (simp add: PDict d eval_node.simps(1))
      next
        case False
        with w have l: "walk_list contract (Suc depth) (Suc n) (args_list args) = Inr m"
          by (auto split: if_splits)
        have "\<forall>x\<in>set (args_list args). eval_node ctx x = eval_node ctx' x"
        proof (rule "1.IH" [OF _ _ PDict d refl refl _ False _ l "1.prems"(2)])
          show "\<not> MAX_NODES < Suc n" "\<not> MAX_DEPTH < depth" "\<not> op \<notin> set ALLOWED_OPERATORS"
            "\<not> \<not> arity_ok op (length (args_list args))"
            using w False by (auto split: if_splits)
        qed
        then have "py_map (eval_node ctx) (args_list args) = py_map (eval_node ctx') (args_list args)"
          by (intro py_map_cong) auto
        with False show ?thesis by (simp add: PDict d eval_node.simps(1))
      qed
    next
      case False
      then have "\<And>c. eval_node c node = None"
        by (auto simp: PDict eval_node.simps(1) split: list.splits)
      then show ?thesis by simp
    qed
  qed simp_all
next
  case (2 contract depth n)
  then show ?case by simp
next
  case (3 contract depth n x xs)
  then show ?case by (auto split: sum.splits)
qed

text \<open>
  Property C34. A condition the validator accepts cannot observe anything outside its declared
  contract: two contexts that agree on the contract's fields make it fire alike.
\<close>

theorem condition_sandboxed:
  assumes "validate_condition contract cond = Inr ()"
    and "\<forall>f\<in>set contract. lookup ctx f = lookup ctx' f"
  shows "evaluate_condition cond ctx = evaluate_condition cond ctx'"
proof -
  from assms(1) obtain m where "walk_validate contract 0 0 cond = Inr m"
    by (auto simp: validate_condition_def split: if_splits sum.splits)
  from walk_eval_same(1) [OF this assms(2)] show ?thesis by (simp add: evaluate_condition_def)
qed

subsection \<open>Accepted conditions are small\<close>

text \<open>The nodes the validator visits, and how deep they lie.\<close>

function node_count :: "pyval \<Rightarrow> nat" where
  "node_count v =
     (case v of
        PDict [(op, args)] \<Rightarrow>
          Suc (if op = ''var'' then 0 else sum_list (map node_count (args_list args)))
      | _ \<Rightarrow> 1)"
  by pat_completeness auto
termination
  by (relation "measure size") (auto dest: size_args_list)

function node_depth :: "pyval \<Rightarrow> nat" where
  "node_depth v =
     (case v of
        PDict [(op, args)] \<Rightarrow>
          (if op = ''var'' then 0 else fold max (map (\<lambda>a. Suc (node_depth a)) (args_list args)) 0)
      | _ \<Rightarrow> 0)"
  by pat_completeness auto
termination
  by (relation "measure size") (auto dest: size_args_list)

declare node_count.simps [simp del] node_depth.simps [simp del]

lemma fold_max_le: "fold max xs (a :: nat) \<le> b \<longleftrightarrow> a \<le> b \<and> (\<forall>x\<in>set xs. x \<le> b)"
  by (induction xs arbitrary: a) auto

lemma node_depth_le_iff:
  "node_depth (PDict [(op, args)]) \<le> b \<longleftrightarrow>
     op = ''var'' \<or> (\<forall>a\<in>set (args_list args). Suc (node_depth a) \<le> b)"
  by (simp add: node_depth.simps [of "PDict [(op, args)]"] fold_max_le)

lemma walk_counts:
  "walk_validate contract depth n node = Inr m \<Longrightarrow>
     m = n + node_count node \<and> m \<le> MAX_NODES \<and> depth + node_depth node \<le> MAX_DEPTH"
  "walk_list contract depth n nodes = Inr m \<Longrightarrow> n \<le> MAX_NODES \<Longrightarrow>
     m = n + sum_list (map node_count nodes) \<and> m \<le> MAX_NODES
     \<and> (\<forall>x\<in>set nodes. depth + node_depth x \<le> MAX_DEPTH)"
proof (induction contract depth n node and contract depth n nodes arbitrary: m and m
    rule: walk_validate_walk_list.induct)
  case (1 contract depth n node)
  show ?case
  proof (cases "\<exists>op args. node = PDict [(op, args)]")
    case True
    then obtain op args where node: "node = PDict [(op, args)]" by blast
    note w = "1.prems" [unfolded node walk_validate.simps [of contract depth n]]
    have small: "Suc n \<le> MAX_NODES" "depth \<le> MAX_DEPTH" using w by (auto split: if_splits)
    show ?thesis
    proof (cases "op = ''var''")
      case True
      with w have "m = Suc n" by (auto split: if_splits pyval.splits)
      with True small show ?thesis
        by (simp add: node node_count.simps [of "PDict [(''var'', args)]"] node_depth.simps [of "PDict [(''var'', args)]"])
    next
      case False
      with w have l: "walk_list contract (Suc depth) (Suc n) (args_list args) = Inr m"
        by (auto split: if_splits)
      have "m = Suc n + sum_list (map node_count (args_list args)) \<and> m \<le> MAX_NODES
            \<and> (\<forall>x\<in>set (args_list args). Suc depth + node_depth x \<le> MAX_DEPTH)"
      proof (rule "1.IH" [OF _ _ node refl refl refl _ False _ l small(1)])
        show "\<not> MAX_NODES < Suc n" "\<not> MAX_DEPTH < depth" "\<not> op \<notin> set ALLOWED_OPERATORS"
          "\<not> \<not> arity_ok op (length (args_list args))"
          using w False by (auto split: if_splits)
      qed
      moreover from this have "node_depth node \<le> MAX_DEPTH - depth"
        unfolding node node_depth_le_iff by force
      ultimately show ?thesis
        using False small(2) by (simp add: node node_count.simps [of "PDict [(op, args)]"])
    qed
  next
    case False
    then have "node_count node = 1" "node_depth node = 0"
      by (auto simp: node_count.simps [of node] node_depth.simps [of node] split: pyval.splits list.splits)
    moreover have "m = Suc n" "Suc n \<le> MAX_NODES" "depth \<le> MAX_DEPTH"
      using "1.prems" False
      by (auto simp: walk_validate.simps [of contract depth n] split: if_splits pyval.splits list.splits)
    ultimately show ?thesis by simp
  qed
next
  case (2 contract depth n)
  then show ?case by simp
next
  case (3 contract depth n x xs)
  then obtain k where "walk_validate contract depth n x = Inr k" "walk_list contract depth k xs = Inr m"
    by (auto split: sum.splits)
  with "3.IH"(1) [of k] "3.IH"(2) [of k m] show ?case by simp
qed

text \<open>
  An accepted condition has at most 64 nodes and nests at most 8 deep, so evaluating it is
  bounded work.
\<close>

theorem condition_bounded:
  assumes "validate_condition contract cond = Inr ()"
  shows "node_count cond \<le> 64 \<and> node_depth cond \<le> 8"
proof -
  from assms obtain m where "walk_validate contract 0 0 cond = Inr m"
    by (auto simp: validate_condition_def split: if_splits sum.splits)
  from walk_counts(1) [OF this] show ?thesis by (simp add: MAX_NODES_def MAX_DEPTH_def)
qed

definition ioc_condition :: pyval where
  "ioc_condition = PDict [(''and'', PList [
     PDict [(''=='', PList [PDict [(''var'', PStr ''enrichment.ioc'')], PBool True])],
     PDict [(''<'', PList [PDict [(''var'', PStr ''verdict_confidence'')], PInt 1])]])]"

lemma ioc_condition_valid: "validate_condition STATE_CONTRACT ioc_condition = Inr ()"
  by code_simp

theorem condition_bounded_witness:
  "validate_condition STATE_CONTRACT ioc_condition = Inr () \<and> node_count ioc_condition \<le> 64"
  using condition_bounded [OF ioc_condition_valid] ioc_condition_valid by blast

theorem condition_sandboxed_witness:
  "evaluate_condition ioc_condition (PDict [(''secret'', PInt 1)]) = evaluate_condition ioc_condition (PDict [])"
proof (rule condition_sandboxed [OF ioc_condition_valid])
  show "\<forall>f\<in>set STATE_CONTRACT. lookup (PDict [(''secret'', PInt 1)]) f = lookup (PDict []) f"
    by code_simp
qed

text \<open>
  Absent evidence can make an accepted condition fire: equality is defined on the missing value,
  so \<open>!=\<close> against a literal holds when the field is missing, while the four order
  comparisons are false there.
\<close>

theorem inequality_fires_on_absent_field:
  assumes "lookup ctx f = PNone" and "lit \<noteq> PNone" and "is_scalar lit"
  shows "evaluate_condition (PDict [(''!='', PList [PDict [(''var'', PStr f)], lit])]) ctx
    \<and> (\<forall>op\<in>{''<'', ''<='', ''>'', ''>=''}.
         \<not> evaluate_condition (PDict [(op, PList [PDict [(''var'', PStr f)], lit])]) ctx)"
proof -
  have lit: "eval_node c lit = Some lit" for c using assms(3) by (cases lit) simp_all
  have v: "eval_node ctx (PDict [(''var'', PStr f)]) = Some PNone"
    using assms(1) by (simp add: eval_node.simps(1))
  have ne: "\<not> py_eq PNone lit" using assms(2) by (cases lit) simp_all
  have ev: "op \<noteq> ''var'' \<Longrightarrow> eval_node ctx (PDict [(op, PList [PDict [(''var'', PStr f)], lit])])
        = apply_op op [PNone, lit]" for op
    using lit v by (simp add: eval_node.simps(1) [of ctx "[(op, PList [PDict [(''var'', PStr f)], lit])]"])
  show ?thesis
    using ne by (auto simp: evaluate_condition_def ev apply_op_def cmp_of_def)
qed

theorem inequality_fires_on_absent_field_witness:
  "lookup (PDict []) ''asset.environment'' = PNone
   \<and> evaluate_condition (PDict [(''!='', PList [PDict [(''var'', PStr ''asset.environment'')], PStr ''prod''])]) (PDict [])"
proof -
  have "lookup (PDict []) ''asset.environment'' = PNone" by code_simp
  then show ?thesis using inequality_fires_on_absent_field [of "PDict []" _ "PStr ''prod''"] by simp
qed

end
