(* ===== verification/Guard.thy ===== *)
theory Guard
  imports Authz_Engine Conditions
begin

text \<open>
  The post-verdict guard (\<open>triage_policy/guard.py\<close>) and the malicious-signal test it shares
  with the safety floor (\<open>authorization/render.py\<close>): a pure function that decides whether a
  drafted verdict commits, is overridden upwards, or is interrupted for human sign-off.

  Enumeration members that the source keeps in state dictionaries are represented by their
  string values.
\<close>

subsection \<open>Malicious signal\<close>

definition verdict_value :: "pyval \<Rightarrow> string py" where
  "verdict_value enrichment =
     (let v = (case enrichment of PDict d \<Rightarrow> dget ''verdict'' d | _ \<Rightarrow> PNone)
      in if v = PNone then Some [] else map_option str_lower (py_str v))"

definition has_malicious_signal :: "pyval \<Rightarrow> bool py" where
  "has_malicious_signal investigation = do {
     e \<leftarrow> py_get ''enrichments'' investigation;
     enrichments \<leftarrow> py_iter_or_empty e;
     hit \<leftarrow> py_any (\<lambda>e. map_option (\<lambda>s. s = ''malicious'') (verdict_value e)) enrichments;
     if hit then Some True
     else do {
       m \<leftarrow> py_get ''misp_context'' investigation;
       let misp = py_or_else m (PDict []);
       Some (case misp of PDict d \<Rightarrow> truthy (dget ''matches'' d) | _ \<Rightarrow> False) } }"

subsection \<open>The guard\<close>

record guard_override =
  guardrail :: string
  effect :: string
  from_decision :: string
  to_decision :: string
  reason :: string

record guard_result =
  final_decision :: string
  authz_class :: authz_class
  components :: "authorization_components option"
  overrides :: "guard_override list"
  interrupted :: bool
  condition_ctx :: pyval

definition overridden :: "guard_result \<Rightarrow> bool" where
  "overridden r \<longleftrightarrow> list_ex (\<lambda>ov. effect ov = ''override'') (overrides r)"

text \<open>The raise-only ladder close < needs\_more\_info < escalate, with \<open>dict.get\<close>'s default.\<close>

definition decision_rank :: "string \<Rightarrow> int \<Rightarrow> int" where
  "decision_rank s d = (if s = ''close'' then 0 else if s = ''needs_more_info'' then 1
                        else if s = ''escalate'' then 2 else d)"

definition asset_data_classification :: "authorization_context option \<Rightarrow> string option" where
  "asset_data_classification context =
     (case context of
        None \<Rightarrow> None
      | Some c \<Rightarrow>
          (if act_track (activity c) \<noteq> ACCOUNT then None
           else case host (activity c) of
               None \<Rightarrow> None
             | Some h \<Rightarrow>
                 (if h = [] then None
                  else map_option str_lower
                    (Option.bind
                      (resolved_entity (select_facts (facts c) ACCOUNT (ctx_tenant c)) E_ASSET h)
                      data_classification))))"

fun opt_str :: "string option \<Rightarrow> pyval" where
  "opt_str None = PNone"
| "opt_str (Some s) = PStr s"

definition condition_context ::
    "string \<Rightarrow> pyval \<Rightarrow> authz_class \<Rightarrow> authorization_components option \<Rightarrow> authorization_context option
     \<Rightarrow> bool \<Rightarrow> bool \<Rightarrow> pyval" where
  "condition_context verdict_decision verdict_confidence cls comps context malicious_signal active_incident =
     (let asset = (case context of
            None \<Rightarrow> None
          | Some c \<Rightarrow>
              (if act_track (activity c) = ACCOUNT
               then resolved_entity (select_facts (facts c) ACCOUNT (ctx_tenant c)) E_ASSET
                      (dflt (host (activity c)) [])
               else None));
          flag = (\<lambda>f d. PBool (case comps of None \<Rightarrow> d | Some k \<Rightarrow> f k))
      in PDict
          [(''authz'', PDict
             [(''class'', PStr (authz_class_value cls)),
              (''in_scope'', flag in_scope False),
              (''sanctioned_or_routine'', flag sanctioned_or_routine False),
              (''actor_genuine'', flag actor_genuine True),
              (''policy_allowed'', flag policy_allowed True)]),
           (''verdict'', PStr verdict_decision),
           (''verdict_confidence'', verdict_confidence),
           (''asset'', PDict
             [(''data_classification'', opt_str (asset_data_classification context)),
              (''environment'', opt_str (Option.bind asset environment)),
              (''criticality'', opt_str (Option.bind asset criticality))]),
           (''enrichment'', PDict [(''ioc'', PBool malicious_signal)]),
           (''correlation'', PDict [(''active_incident'', PBool active_incident)])])"

definition guardrail_name :: "nat \<Rightarrow> string" where
  "guardrail_name i = ''triage_policy_guardrail_'' @ show_nat i"

text \<open>The declarative guardrails in order: the first that fires, or none.\<close>

fun guard_rules :: "nat \<Rightarrow> string \<Rightarrow> pyval \<Rightarrow> pyval list \<Rightarrow> guard_override option py" where
  "guard_rules i verdict ctx [] = Some None"
| "guard_rules i verdict ctx (rule # rules) =
     (case rule of
        PDict d \<Rightarrow>
          (if \<not> evaluate_condition (dget ''when'' d) ctx then guard_rules (Suc i) verdict ctx rules
           else do {
             to \<leftarrow> py_str (py_or_else (dget ''to'' d) (PStr []));
             rsn \<leftarrow> py_str (py_or_else (dget ''reason'' d) (PStr ''triage policy guardrail''));
             if dget ''effect'' d = PStr ''override'' then
               (if decision_rank to (-1) \<le> decision_rank verdict 99
                then guard_rules (Suc i) verdict ctx rules
                else Some (Some \<lparr> guardrail = guardrail_name i, effect = ''override'', from_decision = verdict,
                            to_decision = to, reason = take 512 rsn \<rparr>))
             else if dget ''effect'' d = PStr ''interrupt'' then
               Some (Some \<lparr> guardrail = guardrail_name i, effect = ''interrupt'', from_decision = verdict,
                        to_decision = ''human_review'', reason = take 512 rsn \<rparr>)
             else guard_rules (Suc i) verdict ctx rules })
      | _ \<Rightarrow> guard_rules (Suc i) verdict ctx rules)"

definition ioc_override :: guard_override where
  "ioc_override = \<lparr> guardrail = ''ioc_over_close'', effect = ''override'', from_decision = ''close'',
     to_decision = ''escalate'',
     reason = ''malicious indicators present '' @ [dash] @ '' authorization/benign evidence never overrides an IOC'' \<rparr>"

definition contradicted_override :: guard_override where
  "contradicted_override = \<lparr> guardrail = ''authorization_contradicted_close'', effect = ''override'',
     from_decision = ''close'', to_decision = ''escalate'',
     reason = ''authorization records present but do not cover this activity '' @ [dash]
       @ '' acting outside the terms of an authorization is the finding'' \<rparr>"

definition signoff_interrupt :: "string \<Rightarrow> guard_override" where
  "signoff_interrupt data_class = \<lparr> guardrail = ''sensitive_asset_close_signoff'', effect = ''interrupt'',
     from_decision = ''close'', to_decision = ''human_review'',
     reason = ''close on a '' @ data_class @ ''-classified asset requires human sign-off '' @ [dash]
       @ '' the draft stands, a human disposes'' \<rparr>"

text \<open>The two code edges, checked before anything declarative.\<close>

definition floor_override :: "string \<Rightarrow> bool \<Rightarrow> authz_class \<Rightarrow> guard_override option" where
  "floor_override verdict malicious cls =
     (if verdict = ''close'' \<and> malicious then Some ioc_override
      else if verdict = ''close'' \<and> cls = Contradicted then Some contradicted_override
      else None)"

definition evaluate_guard ::
    "string \<Rightarrow> authorization_context option \<Rightarrow> bool \<Rightarrow> string list \<Rightarrow> pyval list \<Rightarrow> pyval \<Rightarrow> bool \<Rightarrow> bool
     \<Rightarrow> guard_result py" where
  "evaluate_guard verdict context malicious signoff guardrails confidence active_incident intel_unavailable = do {
     (cls, comps) \<leftarrow> derive_authz_class context;
     let ctx = condition_context verdict confidence cls comps context malicious active_incident;
     case floor_override verdict malicious cls of
       Some ov \<Rightarrow> Some \<lparr> final_decision = ''escalate'', authz_class = cls, components = comps,
                     overrides = [ov], interrupted = False, condition_ctx = ctx \<rparr>
     | None \<Rightarrow> do {
         let intel = (verdict = ''close'' \<and> intel_unavailable);
         fired \<leftarrow> guard_rules 0 verdict ctx guardrails;
         Some (case fired of
           Some ov \<Rightarrow> \<lparr> final_decision = (if effect ov = ''override'' then to_decision ov else verdict),
                      authz_class = cls, components = comps, overrides = [ov],
                      interrupted = (intel \<or> effect ov = ''interrupt''), condition_ctx = ctx \<rparr>
         | None \<Rightarrow>
             (case asset_data_classification context of
                Some dc \<Rightarrow>
                  (if verdict = ''close'' \<and> dc \<in> set (map str_lower signoff)
                   then \<lparr> final_decision = verdict, authz_class = cls, components = comps,
                          overrides = [signoff_interrupt dc], interrupted = True, condition_ctx = ctx \<rparr>
                   else \<lparr> final_decision = verdict, authz_class = cls, components = comps,
                          overrides = [], interrupted = intel, condition_ctx = ctx \<rparr>)
              | None \<Rightarrow> \<lparr> final_decision = verdict, authz_class = cls, components = comps,
                          overrides = [], interrupted = intel, condition_ctx = ctx \<rparr>)) } }"

subsection \<open>Shadow policies\<close>

text \<open>The first rule of a shadow policy that would fire on the guard's context.\<close>

fun shadow_rules :: "nat \<Rightarrow> pyval \<Rightarrow> string \<Rightarrow> pyval \<Rightarrow> pyval list \<Rightarrow> pydict option py" where
  "shadow_rules i pid draft ctx [] = Some None"
| "shadow_rules i pid draft ctx (rule # rules) =
     (case rule of
        PDict d \<Rightarrow>
          (if \<not> evaluate_condition (dget ''when'' d) ctx then shadow_rules (Suc i) pid draft ctx rules
           else do {
             to \<leftarrow> py_str (py_or_else (dget ''to'' d) (PStr []));
             if dget ''effect'' d = PStr ''override'' \<and> decision_rank to (-1) \<le> decision_rank draft 99
             then shadow_rules (Suc i) pid draft ctx rules
             else do {
               rsn \<leftarrow> py_str (py_or_else (dget ''reason'' d) (PStr []));
               Some (Some [(''shadow'', PBool True), (''triage_policy'', pid),
                 (''guardrail'', PStr (guardrail_name i)), (''would_effect'', dget ''effect'' d),
                 (''would_to'', PStr to), (''reason'', PStr (take 512 rsn))]) } })
      | _ \<Rightarrow> shadow_rules (Suc i) pid draft ctx rules)"

fun shadow_audits :: "pyval list \<Rightarrow> string \<Rightarrow> pyval \<Rightarrow> pydict list py" where
  "shadow_audits [] draft ctx = Some []"
| "shadow_audits (pb # pbs) draft ctx =
     (case pb of
        PDict d \<Rightarrow> do {
          rules \<leftarrow> py_iter_or_empty (dget ''guardrails'' d);
          hit \<leftarrow> shadow_rules 0 (dget ''id'' d) draft ctx rules;
          rest \<leftarrow> shadow_audits pbs draft ctx;
          Some (case hit of None \<Rightarrow> rest | Some a \<Rightarrow> a # rest) }
      | _ \<Rightarrow> shadow_audits pbs draft ctx)"

definition shadow_guardrail_audits :: "pyval list \<Rightarrow> pyval \<Rightarrow> pydict list py" where
  "shadow_guardrail_audits policies ctx =
     (if \<not> truthy ctx then Some []
      else do {
        v \<leftarrow> py_get ''verdict'' ctx;
        draft \<leftarrow> py_str (py_or_else v (PStr []));
        shadow_audits policies draft ctx })"

definition decision_value :: "pyval \<Rightarrow> string py" where
  "decision_value raw = map_option str_lower (py_str (py_or_else raw (PStr [])))"

end
