(* ===== verification/Guard_Correct.thy ===== *)
theory Guard_Correct
  imports Guard Authz_Correct
begin

text \<open>
  What the guard promises: it only moves a decision up the ladder, its code edges cannot be
  overridden, authored guardrails only add strictness, a close that commits has passed every
  check, and shadow policies are judged as active ones would be.
\<close>

lemma guard_rules_sound:
  "guard_rules i v ctx rules = Some (Some ov) \<Longrightarrow>
   (effect ov = ''override'' \<and> decision_rank v 99 < decision_rank (to_decision ov) (-1)) \<or>
   (effect ov = ''interrupt'' \<and> to_decision ov = ''human_review'')"
proof (induction rules arbitrary: i)
  case (Cons rule rules)
  show ?case
  proof (cases "guard_rules i v ctx (rule # rules) = guard_rules (Suc i) v ctx rules")
    case True
    with Cons show ?thesis by simp
  next
    case False
    with Cons.prems show ?thesis
      by (cases rule) (auto simp: bind_eq_Some_conv not_le split: if_splits)
  qed
qed simp

lemma decision_rank_less:
  "decision_rank v 99 < decision_rank s (-1) \<Longrightarrow>
   s \<in> {''needs_more_info'', ''escalate''} \<and> decision_rank v 99 < decision_rank s 99"
  by (auto simp: decision_rank_def split: if_splits)

text \<open>The outcome of the guard, by cases: a code edge, a guardrail, a sign-off, or none.\<close>

lemma evaluate_guard_cases:
  assumes "evaluate_guard v c mal so gs conf act intel = Some r"
  obtains (floor) ov where "floor_override v mal (authz_class r) = Some ov" "overrides r = [ov]"
      "final_decision r = ''escalate''" "\<not> interrupted r"
  | (rule) ov where "floor_override v mal (authz_class r) = None"
      "guard_rules 0 v (condition_ctx r) gs = Some (Some ov)" "overrides r = [ov]"
      "final_decision r = (if effect ov = ''override'' then to_decision ov else v)"
      "interrupted r \<longleftrightarrow> v = ''close'' \<and> intel \<or> effect ov = ''interrupt''"
  | (signoff) dc where "floor_override v mal (authz_class r) = None"
      "guard_rules 0 v (condition_ctx r) gs = Some None" "v = ''close''"
      "asset_data_classification c = Some dc" "dc \<in> set (map str_lower so)"
      "overrides r = [signoff_interrupt dc]" "final_decision r = v" "interrupted r"
  | (pass) "floor_override v mal (authz_class r) = None"
      "guard_rules 0 v (condition_ctx r) gs = Some None"
      "\<forall>dc. asset_data_classification c = Some dc \<longrightarrow> v = ''close'' \<longrightarrow> dc \<notin> set (map str_lower so)"
      "overrides r = []" "final_decision r = v" "interrupted r \<longleftrightarrow> v = ''close'' \<and> intel"
proof -
  from assms obtain cls comps where d: "derive_authz_class c = Some (cls, comps)"
    by (auto simp: evaluate_guard_def bind_eq_Some_conv)
  note e = assms [unfolded evaluate_guard_def d Let_def]
  show ?thesis
  proof (cases "floor_override v mal cls")
    case (Some ov)
    with e show ?thesis by (intro floor [of ov]) auto
  next
    case None
    with e obtain fired where g: "guard_rules 0 v (condition_context v conf cls comps c mal act) gs = Some fired"
      by (auto simp: bind_eq_Some_conv)
    show ?thesis
    proof (cases fired)
      case (Some ov)
      with e None g show ?thesis by (intro rule [of ov]) auto
    next
      case fired: None
      show ?thesis
      proof (cases "\<exists>dc. asset_data_classification c = Some dc \<and> v = ''close'' \<and> dc \<in> set (map str_lower so)")
        case True
        then obtain dc where "asset_data_classification c = Some dc" "v = ''close''" "dc \<in> set (map str_lower so)" by blast
        with e None g fired show ?thesis by (intro signoff [of dc]) auto
      next
        case False
        with e None g fired show ?thesis by (intro pass) (auto split: option.splits if_splits)
      qed
    qed
  qed
qed

text \<open>
  Property C1. The guard only raises suspicion: the final decision never ranks below the drafted
  one, and where it differs the draft was overridden upwards to asking for more information or
  to escalation. Suppressing a detection is inexpressible.
\<close>

theorem guard_raises_only:
  assumes "evaluate_guard v c mal so gs conf act intel = Some r"
  shows "decision_rank v 99 \<le> decision_rank (final_decision r) 99 \<and>
    (final_decision r \<noteq> v \<longrightarrow>
       overridden r \<and> decision_rank v 99 < decision_rank (final_decision r) 99
       \<and> final_decision r \<in> {''needs_more_info'', ''escalate''})"
  using assms
proof (cases rule: evaluate_guard_cases)
  case (floor ov)
  then show ?thesis
    by (auto simp: floor_override_def decision_rank_def overridden_def ioc_override_def
        contradicted_override_def split: if_splits)
next
  case (rule ov)
  with guard_rules_sound [OF rule(2)] decision_rank_less [of v "to_decision ov"] show ?thesis
    by (auto simp: overridden_def)
qed simp_all


text \<open>
  The code edges cannot be overridden: whatever an authored policy contains, a close drafted
  over a malicious signal or over contradicted authorization is escalated, with exactly that
  edge in the audit record.
\<close>

theorem guard_floor_not_overridable:
  assumes "evaluate_guard ''close'' c mal so gs conf act intel = Some r"
    and "mal \<or> authz_class r = Contradicted"
  shows "final_decision r = ''escalate'' \<and> overridden r \<and>
    overrides r = [if mal then ioc_override else contradicted_override]"
  using assms(1)
  by (cases rule: evaluate_guard_cases)
    (use assms(2) in \<open>auto simp: floor_override_def overridden_def ioc_override_def
       contradicted_override_def split: if_splits\<close>)

lemma evaluate_guard_ctx:
  "evaluate_guard v c mal so gs conf act intel = Some r \<Longrightarrow>
   \<exists>cls comps. derive_authz_class c = Some (cls, comps) \<and> authz_class r = cls
     \<and> condition_ctx r = condition_context v conf cls comps c mal act"
  by (auto simp: evaluate_guard_def bind_eq_Some_conv Let_def split: option.splits if_splits)

text \<open>
  Property C33. Authored guardrails and sign-off classes can only make triage stricter: a close
  that commits automatically under them also commits without them, and the final decision never
  ranks lower than it would without them.
\<close>

theorem authored_policy_only_stricter:
  assumes "evaluate_guard v c mal so gs conf act intel = Some r"
    and "evaluate_guard v c mal [] [] conf act intel = Some r0"
  shows "decision_rank (final_decision r0) 99 \<le> decision_rank (final_decision r) 99 \<and>
    (final_decision r = ''close'' \<and> \<not> interrupted r \<longrightarrow> final_decision r0 = ''close'' \<and> \<not> interrupted r0)"
proof -
  have "authz_class r = authz_class r0"
    using evaluate_guard_ctx [OF assms(1)] evaluate_guard_ctx [OF assms(2)] by auto
  with assms(2) have r0: "final_decision r0 = (case floor_override v mal (authz_class r) of Some _ \<Rightarrow> ''escalate'' | None \<Rightarrow> v)"
    "interrupted r0 \<longrightarrow> v = ''close'' \<and> intel"
    by (cases rule: evaluate_guard_cases; auto)+
  show ?thesis
    using assms(1)
  proof (cases rule: evaluate_guard_cases)
    case (rule ov)
    with r0 guard_rules_sound [OF rule(2)] decision_rank_less [of v "to_decision ov"] show ?thesis by auto
  qed (use r0 in auto)
qed

subsection \<open>Shadow policies mirror active ones\<close>

definition well_formed_rule :: "pyval \<Rightarrow> bool" where
  "well_formed_rule rule \<longleftrightarrow>
     (\<exists>d to rsn. rule = PDict d \<and> dget ''to'' d = PStr to \<and> dget ''reason'' d = PStr rsn
        \<and> dget ''effect'' d \<in> {PStr ''override'', PStr ''interrupt''})"

text \<open>
  A shadow policy logs exactly what it would do if it were active: over rules with the schema's
  shape it stays silent when the live guard would, and otherwise records the same rule with the
  same effect.
\<close>

theorem shadow_mirrors_active:
  assumes "\<forall>rule\<in>set rules. well_formed_rule rule"
  shows "case guard_rules i v ctx rules of
      Some None \<Rightarrow> shadow_rules i pid v ctx rules = Some None
    | Some (Some ov) \<Rightarrow> (\<exists>a. shadow_rules i pid v ctx rules = Some (Some a)
        \<and> dget ''guardrail'' a = PStr (guardrail ov) \<and> dget ''would_effect'' a = PStr (effect ov)
        \<and> (effect ov = ''override'' \<longrightarrow> dget ''would_to'' a = PStr (to_decision ov)))
    | None \<Rightarrow> False"
  using assms
proof (induction rules arbitrary: i)
  case (Cons rule rules)
  then obtain d to rsn where d: "rule = PDict d" "dget ''to'' d = PStr to" "dget ''reason'' d = PStr rsn"
    "dget ''effect'' d = PStr ''override'' \<or> dget ''effect'' d = PStr ''interrupt''"
    by (auto simp: well_formed_rule_def)
  from Cons have IH: "case guard_rules (Suc i) v ctx rules of
      Some None \<Rightarrow> shadow_rules (Suc i) pid v ctx rules = Some None
    | Some (Some ov) \<Rightarrow> (\<exists>a. shadow_rules (Suc i) pid v ctx rules = Some (Some a)
        \<and> dget ''guardrail'' a = PStr (guardrail ov) \<and> dget ''would_effect'' a = PStr (effect ov)
        \<and> (effect ov = ''override'' \<longrightarrow> dget ''would_to'' a = PStr (to_decision ov)))
    | None \<Rightarrow> False" by simp
  have or_else: "py_str (py_or_else (PStr t) (PStr [])) = Some t" for t
    by (simp add: py_or_else_def)
  have rsn: "\<exists>t. py_str (py_or_else (PStr rsn) (PStr ''triage policy guardrail'')) = Some t"
    by (simp add: py_or_else_def)
  then obtain t where t: "py_str (py_or_else (PStr rsn) (PStr ''triage policy guardrail'')) = Some t" by blast
  note eqs = d(1-3) or_else t
  show ?case
  proof (cases "evaluate_condition (dget ''when'' d) ctx")
    case False
    then have "guard_rules i v ctx (rule # rules) = guard_rules (Suc i) v ctx rules"
      "shadow_rules i pid v ctx (rule # rules) = shadow_rules (Suc i) pid v ctx rules"
      by (simp_all add: eqs)
    with IH show ?thesis by (simp only:)
  next
    case fires: True
    from d(4) show ?thesis
    proof
      assume e: "dget ''effect'' d = PStr ''override''"
      show ?thesis
      proof (cases "decision_rank to (-1) \<le> decision_rank v 99")
        case True
        with fires e have "guard_rules i v ctx (rule # rules) = guard_rules (Suc i) v ctx rules"
          "shadow_rules i pid v ctx (rule # rules) = shadow_rules (Suc i) pid v ctx rules"
          by (simp_all add: eqs)
        with IH show ?thesis by (simp only:)
      next
        case False
        with fires e show ?thesis by (simp add: eqs)
      qed
    next
      assume e: "dget ''effect'' d = PStr ''interrupt''"
      with fires show ?thesis by (simp add: eqs)
    qed
  qed
qed simp

subsection \<open>Concrete runs\<close>

definition stricter_rule :: pyval where
  "stricter_rule = PDict
     [(''when'', PDict [(''=='', PList [PDict [(''var'', PStr ''authz.class'')], PStr ''covered''])]),
      (''effect'', PStr ''override''), (''to'', PStr ''needs_more_info''), (''reason'', PStr ''look again'')]"

definition guard_run :: "bool \<Rightarrow> string list \<Rightarrow> pyval list \<Rightarrow> guard_result py" where
  "guard_run mal so gs = evaluate_guard ''close'' (Some covered_context) mal so gs (PFloat (Fin (9 / 10))) False False"

lemma guard_run_pass: "map_option (\<lambda>r. (final_decision r, interrupted r)) (guard_run False [] []) = Some (''close'', False)"
  by code_simp

lemma guard_run_rule:
  "map_option (\<lambda>r. (final_decision r, interrupted r)) (guard_run False [] [stricter_rule]) = Some (''needs_more_info'', False)"
  by code_simp

lemma guard_run_ioc: "map_option final_decision (guard_run True [] [stricter_rule]) = Some ''escalate''"
  by code_simp

theorem guard_raises_only_witness:
  "\<exists>r. guard_run False [] [stricter_rule] = Some r \<and> final_decision r = ''needs_more_info'' \<and> overridden r"
proof -
  from guard_run_rule obtain r where r: "guard_run False [] [stricter_rule] = Some r"
    "final_decision r = ''needs_more_info''" by auto
  with guard_raises_only [OF r(1) [unfolded guard_run_def]] show ?thesis by auto
qed


theorem guard_floor_not_overridable_witness:
  "\<exists>r. guard_run True [] [stricter_rule] = Some r \<and> overrides r = [ioc_override]"
proof -
  from guard_run_ioc obtain r where r: "guard_run True [] [stricter_rule] = Some r" by auto
  with guard_floor_not_overridable [OF r [unfolded guard_run_def]] show ?thesis by simp
qed

theorem authored_policy_only_stricter_witness:
  "\<exists>r r0. guard_run False [] [stricter_rule] = Some r \<and> guard_run False [] [] = Some r0
     \<and> decision_rank (final_decision r0) 99 \<le> decision_rank (final_decision r) 99"
proof -
  from guard_run_rule obtain r where r: "guard_run False [] [stricter_rule] = Some r" by auto
  from guard_run_pass obtain r0 where r0: "guard_run False [] [] = Some r0" by auto
  from r r0 authored_policy_only_stricter [OF r [unfolded guard_run_def] r0 [unfolded guard_run_def]]
  show ?thesis by blast
qed

theorem shadow_mirrors_active_witness:
  "well_formed_rule stricter_rule \<and>
   (\<exists>a. shadow_rules 0 PNone ''close'' (PDict [(''authz'', PDict [(''class'', PStr ''covered'')])]) [stricter_rule] = Some (Some a))"
proof -
  have w: "well_formed_rule stricter_rule" by (simp add: well_formed_rule_def stricter_rule_def)
  have g: "map_option (map_option effect)
      (guard_rules 0 ''close'' (PDict [(''authz'', PDict [(''class'', PStr ''covered'')])]) [stricter_rule])
      = Some (Some ''override'')" by code_simp
  have "\<forall>rule\<in>set [stricter_rule]. well_formed_rule rule" using w by simp
  from shadow_mirrors_active [OF this, where i = 0 and v = "''close''"
      and ctx = "PDict [(''authz'', PDict [(''class'', PStr ''covered'')])]" and pid = PNone] g w
  show ?thesis by (auto split: option.splits)
qed

end
