(* ===== verification/PyState.thy ===== *)
theory PyState
  imports PyValue
begin

text \<open>
  Access to the state dictionaries that the graph nodes and the worker pass around: chained
  lookups with defaults, canonical keys with a deprecated alias, sets of hashable values,
  \<open>float\<close>, and the list both alias keys share.
\<close>

subsection \<open>Lookups\<close>

text \<open>\<open>d.get(k) or {}\<close> and \<open>d.get(canonical) or d.get(legacy)\<close>.\<close>

definition get_dict :: "string \<Rightarrow> pydict \<Rightarrow> pyval" where
  "get_dict k d = py_or_else (dget k d) (PDict [])"

definition get_alias :: "string \<Rightarrow> string \<Rightarrow> pydict \<Rightarrow> pyval" where
  "get_alias canonical legacy d = py_or_else (dget canonical d) (dget legacy d)"

text \<open>\<open>d.get(k, default)\<close>: the default only when the key is absent.\<close>

definition dget_default :: "string \<Rightarrow> pyval \<Rightarrow> pydict \<Rightarrow> pyval" where
  "dget_default k v d = (case map_of d k of None \<Rightarrow> v | Some w \<Rightarrow> w)"

fun py_get_default :: "string \<Rightarrow> pyval \<Rightarrow> pyval \<Rightarrow> pyval py" where
  "py_get_default k v (PDict d) = Some (dget_default k v d)"
| "py_get_default k v _ = None"

text \<open>\<open>d.setdefault(k, v)\<close>.\<close>

definition dsetdefault :: "string \<Rightarrow> pyval \<Rightarrow> pydict \<Rightarrow> pydict" where
  "dsetdefault k v d = (case map_of d k of None \<Rightarrow> dset k v d | Some _ \<Rightarrow> d)"

lemma dget_dsetdefault [simp]:
  "dget k (dsetdefault k' v d) = (if k = k' \<and> map_of d k' = None then v else dget k d)"
  by (auto simp: dsetdefault_def dget_def split: option.splits)

lemma dget_default_dset [simp]:
  "dget_default k w (dset k' v d) = (if k = k' then v else dget_default k w d)"
  by (simp add: dget_default_def)

lemma dget_default_ddel [simp]:
  "dget_default k w (ddel k' d) = (if k = k' then w else dget_default k w d)"
  by (simp add: dget_default_def)

lemma get_dict_dset [simp]:
  "get_dict k (dset k' v d) = (if k = k' then py_or_else v (PDict []) else get_dict k d)"
  by (simp add: get_dict_def)

lemma get_dict_ddel [simp]:
  "get_dict k (ddel k' d) = (if k = k' then PDict [] else get_dict k d)"
  by (simp add: get_dict_def py_or_else_def)

lemma get_alias_dset [simp]:
  "k \<noteq> c \<Longrightarrow> k \<noteq> l \<Longrightarrow> get_alias c l (dset k v d) = get_alias c l d"
  by (simp add: get_alias_def)

lemma get_alias_ddel [simp]:
  "k \<noteq> c \<Longrightarrow> k \<noteq> l \<Longrightarrow> get_alias c l (ddel k d) = get_alias c l d"
  by (simp add: get_alias_def)

subsection \<open>Hashing and membership\<close>

text \<open>\<open>x in s\<close> for a set raises when \<open>x\<close> is unhashable; lists and dictionaries are.\<close>

fun py_hash :: "pyval \<Rightarrow> pyval py" where
  "py_hash (PList xs) = None"
| "py_hash (PDict d) = None"
| "py_hash v = Some v"

definition py_member :: "pyval \<Rightarrow> pyval list \<Rightarrow> bool py" where
  "py_member x s = do { h \<leftarrow> py_hash x; Some (list_ex (py_eq h) s) }"

text \<open>\<open>x.lower()\<close> and \<open>str(x).lower()\<close>.\<close>

fun py_lower :: "pyval \<Rightarrow> string py" where
  "py_lower (PStr s) = Some (str_lower s)"
| "py_lower _ = None"

definition py_str_lower :: "pyval \<Rightarrow> string py" where
  "py_str_lower v = map_option str_lower (py_str v)"

subsection \<open>float\<close>

text \<open>
  \<open>float(s)\<close> on a decimal literal: sign, digits with an optional fraction and exponent, or
  one of the names of the special values. Underscores between digits are not modelled and
  count as a \<open>ValueError\<close>.
\<close>

definition digits_val :: "string \<Rightarrow> int" where
  "digits_val s = foldl (\<lambda>a c. a * 10 + digit_val c) 0 s"

definition pow10 :: "int \<Rightarrow> rat" where
  "pow10 e = (if e < 0 then 1 / 10 ^ nat (- e) else 10 ^ nat e)"

definition float_exponent :: "string \<Rightarrow> int py" where
  "float_exponent s =
     (case s of
        [] \<Rightarrow> Some 0
      | c # cs \<Rightarrow>
          (if c \<noteq> CHR ''e'' then None
           else case cs of
               [] \<Rightarrow> None
             | d # ds \<Rightarrow>
                 (if d = CHR ''-'' then (if ds \<noteq> [] \<and> list_all is_digit ds then Some (- digits_val ds) else None)
                  else if d = CHR ''+'' then (if ds \<noteq> [] \<and> list_all is_digit ds then Some (digits_val ds) else None)
                  else if list_all is_digit cs then Some (digits_val cs) else None)))"

definition parse_decimal :: "string \<Rightarrow> rat py" where
  "parse_decimal s =
     (let whole = takeWhile is_digit s; rest = dropWhile is_digit s;
          frac = (case rest of c # cs \<Rightarrow> if c = CHR ''.'' then takeWhile is_digit cs else [] | [] \<Rightarrow> []);
          tail = (case rest of c # cs \<Rightarrow> if c = CHR ''.'' then dropWhile is_digit cs else rest | [] \<Rightarrow> [])
      in if whole = [] \<and> frac = [] then None
         else do { e \<leftarrow> float_exponent tail;
                   Some (of_int (digits_val (whole @ frac)) * pow10 (e - int (length frac))) })"

definition py_float_of_str :: "string \<Rightarrow> pyfloat py" where
  "py_float_of_str s =
     (let t = str_lower (str_strip s);
          neg = (case t of c # _ \<Rightarrow> c = CHR ''-'' | [] \<Rightarrow> False);
          body = (case t of c # cs \<Rightarrow> if c = CHR ''-'' \<or> c = CHR ''+'' then cs else t | [] \<Rightarrow> [])
      in if body = ''inf'' \<or> body = ''infinity'' then Some (if neg then NegInf else PosInf)
         else if body = ''nan'' then Some NaN
         else map_option (\<lambda>q. Fin (if neg then - q else q)) (parse_decimal body))"

fun py_float :: "pyval \<Rightarrow> pyfloat py" where
  "py_float (PBool b) = Some (Fin (if b then 1 else 0))"
| "py_float (PInt i) = Some (Fin (of_int i))"
| "py_float (PFloat x) = Some x"
| "py_float (PStr s) = py_float_of_str s"
| "py_float _ = None"

subsection \<open>Lists kept under a canonical and a legacy key\<close>

text \<open>
  \<open>state.setdefault(c, state.setdefault(l, [])).append(x)\<close>. The first call stores one list
  object under both keys, and the nodes only ever store it that way, so an append is seen
  through both.
\<close>

definition alias_append :: "string \<Rightarrow> string \<Rightarrow> pyval \<Rightarrow> pydict \<Rightarrow> pydict py" where
  "alias_append c l x st =
     (let legacy = dsetdefault l (PList []) st;
          both = dsetdefault c (dget l legacy) legacy
      in case dget c both of
           PList xs \<Rightarrow> Some (dset l (PList (xs @ [x])) (dset c (PList (xs @ [x])) both))
         | _ \<Rightarrow> None)"

lemma dget_alias_append:
  "alias_append c l x st = Some st' \<Longrightarrow> k \<noteq> c \<Longrightarrow> k \<noteq> l \<Longrightarrow> dget k st' = dget k st"
  by (auto simp: alias_append_def Let_def split: pyval.splits)

lemma map_of_alias_append:
  "alias_append c l x st = Some st' \<Longrightarrow> k \<noteq> c \<Longrightarrow> k \<noteq> l \<Longrightarrow> map_of st' k = map_of st k"
  by (auto simp: alias_append_def Let_def dsetdefault_def split: pyval.splits option.splits)

end
