(* ===== verification/Policy_Model.thy ===== *)
theory Policy_Model
  imports PyState Conditions
begin

text \<open>
  Triage policies as data (\<open>triage_policy/models.py\<close>): guardrails, matching rules, the policy
  itself with the constraints its schema states, and its dictionary form. The schema library's
  coercion of raw mappings is not repository code: a parser is a parameter where it is used.
\<close>

definition GATHER_AUTHORIZATION_CONTEXT :: string where
  "GATHER_AUTHORIZATION_CONTEXT = ''gather_authorization_context''"

definition KNOWN_STEP_NODES :: "string list" where
  "KNOWN_STEP_NODES = [GATHER_AUTHORIZATION_CONTEXT]"

definition CLOSE_OPERATIONAL :: string where
  "CLOSE_OPERATIONAL = ''close_operational''"

definition KNOWN_DISPOSITIONS :: "string list" where
  "KNOWN_DISPOSITIONS = [CLOSE_OPERATIONAL]"

text \<open>The members of the supervisor's action enumeration, sorted.\<close>

definition SUPERVISOR_ACTIONS :: "string list" where
  "SUPERVISOR_ACTIONS = [''CLOSE'', ''CONTEXTUALIZE'', ''ENRICH'', ''INVESTIGATE'', ''VERDICT'']"

record guardrail_rule =
  gr_when :: pyval
  gr_effect :: string
  gr_to :: string
  gr_reason :: string

record triage_policy_match =
  rule_groups :: "string list"
  rule_ids :: "string list"
  authorization_tracks :: "string list"

record triage_policy =
  tp_id :: string
  tp_version :: int
  tp_tenant :: string
  tp_status :: string
  tp_priority :: int
  tp_applies_to :: triage_policy_match
  required_steps :: "string list"
  decision_modules :: "string list"
  deterministic_disposition :: "string option"
  legal_actions :: "(string \<times> string list) list"
  close_signoff_data_classes :: "string list"
  guardrails :: "guardrail_rule list"

datatype guardrail_error = BadCondition condition_error | InterruptTarget | OverrideTarget

definition guardrail_legality :: "guardrail_rule \<Rightarrow> guardrail_error + guardrail_rule" where
  "guardrail_legality g =
     (case validate_condition STATE_CONTRACT (gr_when g) of
        Inl e \<Rightarrow> Inl (BadCondition e)
      | Inr _ \<Rightarrow>
          (if gr_effect g = ''interrupt'' \<and> gr_to g \<noteq> ''human_review'' then Inl InterruptTarget
           else if gr_effect g = ''override'' \<and> gr_to g = ''human_review'' then Inl OverrideTarget
           else Inr g))"

text \<open>The literal and length constraints of the two schemas.\<close>

definition guardrail_schema :: "guardrail_rule \<Rightarrow> bool" where
  "guardrail_schema g \<longleftrightarrow>
     gr_effect g \<in> {''override'', ''interrupt''} \<and>
     gr_to g \<in> {''escalate'', ''needs_more_info'', ''human_review''} \<and>
     1 \<le> length (gr_reason g) \<and> length (gr_reason g) \<le> 512 \<and>
     (case guardrail_legality g of Inl _ \<Rightarrow> False | Inr _ \<Rightarrow> True)"

definition policy_schema :: "triage_policy \<Rightarrow> bool" where
  "policy_schema p \<longleftrightarrow>
     1 \<le> length (tp_id p) \<and> length (tp_id p) \<le> 128 \<and>
     tp_status p \<in> {''active'', ''shadow''} \<and>
     list_all guardrail_schema (guardrails p) \<and> length (guardrails p) \<le> 16"

definition default_policy :: "string \<Rightarrow> triage_policy" where
  "default_policy i = \<lparr> tp_id = i, tp_version = 1, tp_tenant = ''*'', tp_status = ''active'',
     tp_priority = 100, tp_applies_to = \<lparr> rule_groups = [], rule_ids = [], authorization_tracks = [] \<rparr>,
     required_steps = [], decision_modules = [], deterministic_disposition = None,
     legal_actions = [], close_signoff_data_classes = [], guardrails = [] \<rparr>"

subsection \<open>Dictionary form\<close>

definition pstrs :: "string list \<Rightarrow> pyval" where
  "pstrs ss = PList (map PStr ss)"

definition dump_guardrail :: "guardrail_rule \<Rightarrow> pyval" where
  "dump_guardrail g = PDict [(''when'', gr_when g), (''effect'', PStr (gr_effect g)),
     (''to'', PStr (gr_to g)), (''reason'', PStr (gr_reason g))]"

definition dump_policy :: "triage_policy \<Rightarrow> pydict" where
  "dump_policy p =
     [(''id'', PStr (tp_id p)), (''version'', PInt (tp_version p)), (''tenant'', PStr (tp_tenant p)),
      (''status'', PStr (tp_status p)), (''priority'', PInt (tp_priority p)),
      (''applies_to'', PDict
         [(''rule_groups'', pstrs (rule_groups (tp_applies_to p))),
          (''rule_ids'', pstrs (rule_ids (tp_applies_to p))),
          (''authorization_tracks'', pstrs (authorization_tracks (tp_applies_to p)))]),
      (''required_steps'', pstrs (required_steps p)),
      (''decision_modules'', pstrs (decision_modules p)),
      (''deterministic_disposition'', case deterministic_disposition p of None \<Rightarrow> PNone | Some s \<Rightarrow> PStr s),
      (''legal_actions'', PDict (map (\<lambda>(ph, as). (ph, pstrs as)) (legal_actions p))),
      (''close_signoff_data_classes'', pstrs (close_signoff_data_classes p)),
      (''guardrails'', PList (map dump_guardrail (guardrails p)))]"

end
