(* ===== verification/Policy_Registry.thy ===== *)
theory Policy_Registry
  imports Policy_Model
begin

text \<open>
  The policy registry (\<open>triage_policy/registry.py\<close>): the built-in policies, the fail-closed
  loading of policy files, the priority order and the matching of an investigation. Parsing a
  YAML document and coercing a mapping into the schema are library code: they are the
  parameters \<open>yaml_load\<close> and \<open>model_validate\<close>.
\<close>

definition PRIVILEGED_EXEC_TRIAGE_POLICY :: triage_policy where
  "PRIVILEGED_EXEC_TRIAGE_POLICY = (default_policy ''dual-use-privileged-exec'')
     \<lparr> tp_version := 2, tp_priority := 10,
       tp_applies_to := \<lparr> rule_groups = [''sudo'', ''su''], rule_ids = [], authorization_tracks = [''account''] \<rparr>,
       required_steps := [GATHER_AUTHORIZATION_CONTEXT],
       decision_modules := [''authorization_engine''],
       legal_actions :=
         [(''triage'', [''ENRICH'', ''CONTEXTUALIZE'', ''INVESTIGATE'', ''VERDICT'']),
          (''decide'', [''ENRICH'', ''CONTEXTUALIZE'', ''INVESTIGATE'', ''VERDICT''])],
       close_signoff_data_classes := [''pci''] \<rparr>"

definition AGENT_HEALTH_TRIAGE_POLICY :: triage_policy where
  "AGENT_HEALTH_TRIAGE_POLICY = (default_policy ''agent-health-operational'')
     \<lparr> tp_version := 1, tp_priority := 50,
       tp_applies_to := \<lparr> rule_groups = [''agent_flooding'', ''agent_buffer''], rule_ids = [''202''],
                         authorization_tracks = [] \<rparr>,
       deterministic_disposition := Some CLOSE_OPERATIONAL \<rparr>"

definition BUILTIN_TRIAGE_POLICIES :: "triage_policy list" where
  "BUILTIN_TRIAGE_POLICIES = [PRIVILEGED_EXEC_TRIAGE_POLICY, AGENT_HEALTH_TRIAGE_POLICY]"

definition FILE_PRIORITY_FLOOR :: int where
  "FILE_PRIORITY_FLOOR = 60"

definition MAX_FILE_BYTES :: int where
  "MAX_FILE_BYTES = 64 * 1024"

subsection \<open>Loading policy files\<close>

datatype policy_error =
    FileTooLarge | YamlInvalid | RootNotDict | SchemaInvalid | PriorityBelowFloor int | DispositionNotAllowed

definition parse_triage_policy_text ::
    "(string \<Rightarrow> pyval option) \<Rightarrow> (pyval \<Rightarrow> triage_policy option) \<Rightarrow> string \<Rightarrow> policy_error + triage_policy" where
  "parse_triage_policy_text yaml_load model_validate txt =
     (if int (length txt) > MAX_FILE_BYTES then Inl FileTooLarge
      else case yaml_load txt of
          None \<Rightarrow> Inl YamlInvalid
        | Some raw \<Rightarrow>
            (case raw of
               PDict d \<Rightarrow>
                 (case model_validate (PDict (dsetdefault ''status'' (PStr ''shadow'') d)) of
                    None \<Rightarrow> Inl SchemaInvalid
                  | Some pb \<Rightarrow>
                      (if tp_priority pb < FILE_PRIORITY_FLOOR then Inl (PriorityBelowFloor (tp_priority pb))
                       else if deterministic_disposition pb \<noteq> None then Inl DispositionNotAllowed
                       else Inr pb))
             | _ \<Rightarrow> Inl RootNotDict))"

text \<open>A file as the loader sees it: its size on disk and its text.\<close>

record policy_file =
  st_size :: int
  content :: string

definition load_triage_policy_file ::
    "(string \<Rightarrow> pyval option) \<Rightarrow> (pyval \<Rightarrow> triage_policy option) \<Rightarrow> policy_file \<Rightarrow> policy_error + triage_policy" where
  "load_triage_policy_file yaml_load model_validate f =
     (if st_size f > MAX_FILE_BYTES then Inl FileTooLarge
      else parse_triage_policy_text yaml_load model_validate (content f))"

definition is_builtin :: "string \<Rightarrow> bool" where
  "is_builtin i \<longleftrightarrow> list_ex (\<lambda>b. i = tp_id b) BUILTIN_TRIAGE_POLICIES"

text \<open>The process environment the loader reads; unset variables are \<open>None\<close>.\<close>

record load_env =
  env_tenant_id :: "string option"
  env_tenant_slug :: "string option"
  env_policy_dir :: "string option"
  env_playbook_dir :: "string option"

definition process_tenant_identifiers :: "load_env \<Rightarrow> string list" where
  "process_tenant_identifiers env =
     List.filter (\<lambda>v. v \<noteq> []) (List.map_filter id [env_tenant_id env, env_tenant_slug env])"

text \<open>The listing of a directory: \<open>None\<close> when it is not one, else its policy files by name.\<close>

type_synonym dir_listing = "string \<Rightarrow> policy_file list option"

fun load_files ::
    "(string \<Rightarrow> pyval option) \<Rightarrow> (pyval \<Rightarrow> triage_policy option) \<Rightarrow> string list \<Rightarrow> policy_file list \<Rightarrow> triage_policy list" where
  "load_files yaml_load model_validate tenants [] = []"
| "load_files yaml_load model_validate tenants (f # fs) =
     (case load_triage_policy_file yaml_load model_validate f of
        Inl _ \<Rightarrow> load_files yaml_load model_validate tenants fs
      | Inr pb \<Rightarrow>
          (if tp_tenant pb \<noteq> ''*'' \<and> tp_tenant pb \<notin> set tenants then load_files yaml_load model_validate tenants fs
           else if list_ex (\<lambda>b. tp_id pb = tp_id b) BUILTIN_TRIAGE_POLICIES
             then load_files yaml_load model_validate tenants fs
           else pb # load_files yaml_load model_validate tenants fs))"

definition load_file_triage_policies ::
    "(string \<Rightarrow> pyval option) \<Rightarrow> (pyval \<Rightarrow> triage_policy option) \<Rightarrow> dir_listing \<Rightarrow> load_env \<Rightarrow> triage_policy list" where
  "load_file_triage_policies yaml_load model_validate listing env =
     (let nonempty = (\<lambda>v. case v of None \<Rightarrow> [] | Some s \<Rightarrow> s);
          directory = (if nonempty (env_policy_dir env) \<noteq> [] then nonempty (env_policy_dir env)
                       else nonempty (env_playbook_dir env))
      in if directory = [] then []
         else case listing directory of
             None \<Rightarrow> []
           | Some fs \<Rightarrow> load_files yaml_load model_validate (process_tenant_identifiers env) fs)"

text \<open>Built-ins first, then files; the sort by priority is stable.\<close>

definition registry :: "triage_policy list \<Rightarrow> triage_policy list" where
  "registry loaded = sort_key tp_priority (BUILTIN_TRIAGE_POLICIES @ loaded)"

subsection \<open>Matching\<close>

fun alert_groups :: "pyval list \<Rightarrow> string list py" where
  "alert_groups [] = Some []"
| "alert_groups (PDict a # as) = do {
     gs \<leftarrow> py_iter_or_empty (dget ''rule_groups'' a);
     ls \<leftarrow> py_map py_str_lower gs;
     rest \<leftarrow> alert_groups as;
     Some (ls @ rest) }"
| "alert_groups (_ # as) = alert_groups as"

definition alert_rule_groups :: "pydict \<Rightarrow> string list py" where
  "alert_rule_groups investigation =
     do { alerts \<leftarrow> py_iter_or_empty (dget ''alerts'' investigation); alert_groups alerts }"

fun alert_ids :: "pyval list \<Rightarrow> string list py" where
  "alert_ids [] = Some []"
| "alert_ids (PDict a # as) =
     (if truthy (dget ''rule_id'' a)
      then do { i \<leftarrow> py_str (dget ''rule_id'' a); rest \<leftarrow> alert_ids as; Some (i # rest) }
      else alert_ids as)"
| "alert_ids (_ # as) = alert_ids as"

definition alert_rule_ids :: "pydict \<Rightarrow> string list py" where
  "alert_rule_ids investigation =
     do { alerts \<leftarrow> py_iter_or_empty (dget ''alerts'' investigation); alert_ids alerts }"

definition authorization_track_of :: "pydict \<Rightarrow> string option py" where
  "authorization_track_of investigation =
     (case dget ''authorization_context'' investigation of
        PDict ctx \<Rightarrow>
          (case dget ''activity'' ctx of
             PDict activity \<Rightarrow>
               (let track = dget ''track'' activity
                in if truthy track then map_option Some (py_str track) else Some None)
           | _ \<Rightarrow> Some None)
      | _ \<Rightarrow> Some None)"

definition policy_matches :: "triage_policy \<Rightarrow> string list \<Rightarrow> string list \<Rightarrow> string option \<Rightarrow> bool" where
  "policy_matches pb groups ids track \<longleftrightarrow>
     list_ex (\<lambda>g. str_lower g \<in> set groups) (rule_groups (tp_applies_to pb)) \<or>
     list_ex (\<lambda>i. i \<in> set ids) (rule_ids (tp_applies_to pb)) \<or>
     (case track of None \<Rightarrow> False | Some t \<Rightarrow> t \<in> set (authorization_tracks (tp_applies_to pb)))"

definition match_triage_policy :: "triage_policy list \<Rightarrow> pydict \<Rightarrow> triage_policy option py" where
  "match_triage_policy reg investigation = do {
     groups \<leftarrow> alert_rule_groups investigation;
     ids \<leftarrow> alert_rule_ids investigation;
     track \<leftarrow> authorization_track_of investigation;
     Some (List.find (\<lambda>pb. tp_status pb = ''active'' \<and> policy_matches pb groups ids track) reg) }"

definition match_shadow_triage_policies :: "triage_policy list \<Rightarrow> pydict \<Rightarrow> triage_policy list py" where
  "match_shadow_triage_policies reg investigation = do {
     groups \<leftarrow> alert_rule_groups investigation;
     ids \<leftarrow> alert_rule_ids investigation;
     track \<leftarrow> authorization_track_of investigation;
     Some (List.filter (\<lambda>pb. tp_status pb = ''shadow'' \<and> policy_matches pb groups ids track) reg) }"

subsection \<open>What loading admits\<close>

lemma load_files_sound:
  "pb \<in> set (load_files yaml_load model_validate tenants fs) \<Longrightarrow>
   FILE_PRIORITY_FLOOR \<le> tp_priority pb \<and> deterministic_disposition pb = None \<and>
   \<not> is_builtin (tp_id pb) \<and> (tp_tenant pb = ''*'' \<or> tp_tenant pb \<in> set tenants)"
proof (induction fs)
  case (Cons f fs)
  then show ?case
    by (auto simp: load_triage_policy_file_def parse_triage_policy_text_def is_builtin_def
        split: sum.splits if_splits option.splits pyval.splits)
qed simp

lemma load_file_triage_policies_sound:
  "pb \<in> set (load_file_triage_policies yaml_load model_validate listing env) \<Longrightarrow>
   FILE_PRIORITY_FLOOR \<le> tp_priority pb \<and> deterministic_disposition pb = None \<and>
   \<not> is_builtin (tp_id pb) \<and>
   (tp_tenant pb = ''*'' \<or> tp_tenant pb \<in> set (process_tenant_identifiers env))"
  by (auto simp: load_file_triage_policies_def Let_def dest: load_files_sound
      split: if_splits option.splits)

lemma set_registry [simp]: "set (registry loaded) = set BUILTIN_TRIAGE_POLICIES \<union> set loaded"
  by (simp add: registry_def)

text \<open>The first match in a sorted list has the least priority among the matches.\<close>

lemma find_sorted_least:
  assumes "sorted (map f xs)" and "List.find P xs = Some x" and "y \<in> set xs" and "P y"
  shows "f x \<le> f y"
  using assms by (induction xs) (auto split: if_splits)

lemma find_exists: "y \<in> set xs \<Longrightarrow> P y \<Longrightarrow> \<exists>x. List.find P xs = Some x \<and> P x \<and> x \<in> set xs"
  by (induction xs) auto

lemma builtin_priority: "b \<in> set BUILTIN_TRIAGE_POLICIES \<Longrightarrow> tp_priority b < FILE_PRIORITY_FLOOR"
  by (auto simp: BUILTIN_TRIAGE_POLICIES_def PRIVILEGED_EXEC_TRIAGE_POLICY_def
      AGENT_HEALTH_TRIAGE_POLICY_def default_policy_def FILE_PRIORITY_FLOOR_def)

lemma builtin_active: "b \<in> set BUILTIN_TRIAGE_POLICIES \<Longrightarrow> tp_status b = ''active''"
  by (auto simp: BUILTIN_TRIAGE_POLICIES_def PRIVILEGED_EXEC_TRIAGE_POLICY_def
      AGENT_HEALTH_TRIAGE_POLICY_def default_policy_def)

lemma match_triage_policy_SomeD:
  "match_triage_policy reg i = Some (Some pb) \<Longrightarrow>
   pb \<in> set reg \<and> tp_status pb = ''active'' \<and>
   (\<exists>groups ids track. alert_rule_groups i = Some groups \<and> alert_rule_ids i = Some ids
      \<and> authorization_track_of i = Some track \<and> policy_matches pb groups ids track)"
  by (auto simp: match_triage_policy_def bind_eq_Some_conv dest!: find_SomeD)

end
