(* ===== verification/Policy_Gate.thy ===== *)
theory Policy_Gate
  imports Policy_Registry Guard
begin

text \<open>
  The pure checks around a run: required steps and legal actions (\<open>triage_policy/gate.py\<close>), the
  vetoes on the deterministic operational close (\<open>triage_policy/operational.py\<close>) and the
  safety floor on the automatic close (\<open>triage_policy/floor.py\<close>).

  Validating a raw authorization payload into the typed context is the schema library's work:
  the parameter \<open>parse\<close>.
\<close>

subsection \<open>Required steps and legal actions\<close>

definition policy_of :: "pydict \<Rightarrow> pyval" where
  "policy_of state = py_or_else (get_alias ''triage_policy'' ''playbook'' state) (PDict [])"

fun missing_steps :: "pyval list \<Rightarrow> pyval list \<Rightarrow> string list py" where
  "missing_steps seen [] = Some []"
| "missing_steps seen (step # steps) = do {
     d \<leftarrow> py_member step seen;
     rest \<leftarrow> missing_steps seen steps;
     Some (if d then rest
           else case step of
               PStr s \<Rightarrow> if s \<in> set KNOWN_STEP_NODES then s # rest else rest
             | _ \<Rightarrow> rest) }"

definition missing_required_steps :: "pydict \<Rightarrow> string list py" where
  "missing_required_steps state = do {
     r \<leftarrow> py_get ''required_steps'' (policy_of state);
     required \<leftarrow> py_iter_or_empty r;
     s \<leftarrow> py_iter_or_empty (get_alias ''triage_policy_steps_run'' ''playbook_steps_run'' state);
     seen \<leftarrow> py_map py_hash s;
     missing_steps seen required }"

definition triage_policy_phase :: "pydict \<Rightarrow> string py" where
  "triage_policy_phase state =
     map_option (\<lambda>m. if m \<noteq> [] then ''triage'' else ''decide'') (missing_required_steps state)"

text \<open>A frozenset of actions is the sorted list of its members.\<close>

definition legal_actions_for :: "pydict \<Rightarrow> string list option py" where
  "legal_actions_for state = do {
     lm \<leftarrow> py_get ''legal_actions'' (policy_of state);
     if \<not> truthy lm then Some None
     else do {
       phase \<leftarrow> triage_policy_phase state;
       actions \<leftarrow> py_get phase lm;
       if \<not> truthy actions then Some None
       else do {
         as \<leftarrow> py_iter actions;
         names \<leftarrow> py_map (\<lambda>a. map_option str_upper (py_str a)) as;
         let valid = List.filter (\<lambda>a. a \<in> set names) SUPERVISOR_ACTIONS;
         Some (if valid = [] then None else Some valid) } } }"

lemma legal_actions_forD:
  "legal_actions_for state = Some (Some legal) \<Longrightarrow>
   legal \<noteq> [] \<and> set legal \<subseteq> set SUPERVISOR_ACTIONS \<and> sorted legal"
  by (auto simp: legal_actions_for_def bind_eq_Some_conv Let_def SUPERVISOR_ACTIONS_def
      split: if_splits)

lemma missing_steps_subset:
  "missing_steps seen steps = Some m \<Longrightarrow>
   set m \<subseteq> set KNOWN_STEP_NODES \<and> (\<forall>s\<in>set m. PStr s \<in> set steps \<and> PStr s \<notin> set seen)"
proof (induction steps arbitrary: m)
  case (Cons step steps)
  then show ?case
    by (auto simp: bind_eq_Some_conv py_member_def list_ex_iff split: if_splits pyval.splits)
qed simp

lemma missing_required_subset:
  "missing_required_steps state = Some m \<Longrightarrow> set m \<subseteq> set KNOWN_STEP_NODES"
  by (auto simp: missing_required_steps_def bind_eq_Some_conv dest: missing_steps_subset)

subsection \<open>The operational close\<close>

definition VETO_MITRE :: string where "VETO_MITRE = ''mitre_mapped''"
definition VETO_OBSERVABLES :: string where "VETO_OBSERVABLES = ''ioc_present''"
definition VETO_SEVERITY :: string where "VETO_SEVERITY = ''severity_too_high''"
definition VETO_MALICIOUS :: string where "VETO_MALICIOUS = ''malicious_signal''"
definition VETO_UNATTESTED_CLASS :: string where "VETO_UNATTESTED_CLASS = ''unattested_alert_class''"

definition OPERATIONAL_MAX_LEVEL :: int where
  "OPERATIONAL_MAX_LEVEL = 11"

definition MITRE_KEYS :: "string list" where
  "MITRE_KEYS = [''ids'', ''tactics'', ''techniques'', ''id'', ''tactic'', ''technique'']"

definition has_mitre :: "pyval \<Rightarrow> bool py" where
  "has_mitre mitre =
     (if \<not> truthy mitre then Some False
      else py_any (\<lambda>k. map_option truthy (py_get k mitre)) MITRE_KEYS)"

fun dicts_of :: "pyval list \<Rightarrow> pydict list" where
  "dicts_of [] = []"
| "dicts_of (PDict d # vs) = d # dicts_of vs"
| "dicts_of (_ # vs) = dicts_of vs"

definition attests :: "string list \<Rightarrow> pydict \<Rightarrow> bool py" where
  "attests class_groups a = do {
     gs \<leftarrow> py_iter_or_empty (dget ''rule_groups'' a);
     ls \<leftarrow> py_map py_str_lower gs;
     Some (\<exists>g\<in>set ls. g \<in> set class_groups) }"

definition too_severe :: "pydict \<Rightarrow> bool py" where
  "too_severe a = map_option (\<lambda>l. OPERATIONAL_MAX_LEVEL < l) (py_int (py_or_else (dget ''level'' a) (PInt 0)))"

definition operational_close_vetoes :: "pydict \<Rightarrow> pyval \<Rightarrow> string list py" where
  "operational_close_vetoes investigation class_rule_groups = do {
     al \<leftarrow> py_iter_or_empty (dget ''alerts'' investigation);
     let alerts = dicts_of al;
     cg \<leftarrow> py_iter_or_empty class_rule_groups;
     class_groups \<leftarrow> py_map py_lower cg;
     attested \<leftarrow> (if class_groups = [] then Some True
                  else if alerts = [] then Some False else py_all (attests class_groups) alerts);
     mitre \<leftarrow> py_any (\<lambda>a. has_mitre (dget ''mitre'' a)) alerts;
     severe \<leftarrow> py_any too_severe alerts;
     malicious \<leftarrow> has_malicious_signal (PDict investigation);
     Some ((if attested then [] else [VETO_UNATTESTED_CLASS]) @
           (if mitre then [VETO_MITRE] else []) @
           (if truthy (dget ''observables'' investigation) then [VETO_OBSERVABLES] else []) @
           (if severe then [VETO_SEVERITY] else []) @
           (if malicious then [VETO_MALICIOUS] else [])) }"

subsection \<open>The safety floor\<close>

definition parse_authorization_context ::
    "(pyval \<Rightarrow> authorization_context option) \<Rightarrow> pydict \<Rightarrow> authorization_context option" where
  "parse_authorization_context parse investigation =
     (let raw = dget ''authorization_context'' investigation
      in if raw = PNone then None else parse raw)"

definition auto_close_killed :: "string option \<Rightarrow> pydict \<Rightarrow> bool" where
  "auto_close_killed env policy =
     (str_lower (case env of None \<Rightarrow> [] | Some s \<Rightarrow> s) \<in> {''1'', ''true'', ''yes''} \<or>
      policy \<noteq> [] \<and> dget ''auto_close_kill'' policy = PBool True)"

text \<open>\<open>(e.get("observable") or {}).get("value")\<close> of every enrichment that is a mapping, as a set.\<close>

fun enriched_values :: "pyval list \<Rightarrow> pyval list py" where
  "enriched_values [] = Some []"
| "enriched_values (PDict e # es) = do {
     v \<leftarrow> py_get ''value'' (get_dict ''observable'' e);
     h \<leftarrow> py_hash v;
     rest \<leftarrow> enriched_values es;
     Some (h # rest) }"
| "enriched_values (_ # es) = enriched_values es"

definition unenriched :: "pyval list \<Rightarrow> pyval \<Rightarrow> bool py" where
  "unenriched enriched obs =
     (case obs of
        PDict d \<Rightarrow>
          (let v = dget ''value'' d
           in if truthy v then py_not (py_member v enriched) else Some False)
      | _ \<Rightarrow> Some False)"

definition has_unenriched_observables :: "pydict \<Rightarrow> bool py" where
  "has_unenriched_observables investigation =
     (let observables = py_or_else (dget ''observables'' investigation) (PList [])
      in if \<not> truthy observables then Some False
         else do {
           es \<leftarrow> py_iter_or_empty (dget ''enrichments'' investigation);
           enriched \<leftarrow> enriched_values es;
           obs \<leftarrow> py_iter observables;
           py_any (unenriched enriched) obs })"

definition VETO_IOC :: string where "VETO_IOC = ''ioc_present''"
definition VETO_UNVERIFIED_IOC :: string where "VETO_UNVERIFIED_IOC = ''ioc_unverified''"
definition VETO_ACTIVE_INCIDENT :: string where "VETO_ACTIVE_INCIDENT = ''active_incident''"
definition VETO_AUTHZ_CONTRADICTED :: string where "VETO_AUTHZ_CONTRADICTED = ''authorization_contradicted''"

text \<open>\<open>correlation = state.get("correlation") or {}\<close>, read only when it is a mapping.\<close>

definition active_incident_of :: "pydict \<Rightarrow> bool" where
  "active_incident_of state =
     (case get_dict ''correlation'' state of
        PDict c \<Rightarrow> truthy (dget ''active_incident'' c)
      | _ \<Rightarrow> False)"

definition worker_close_vetoes ::
    "(pyval \<Rightarrow> authorization_context option) \<Rightarrow> pydict \<Rightarrow> string list py" where
  "worker_close_vetoes parse final_state =
     (case get_dict ''investigation'' final_state of
        PDict investigation \<Rightarrow> do {
          malicious \<leftarrow> has_malicious_signal (PDict investigation);
          unverified \<leftarrow> (if truthy (dget ''verdict'' final_state) then Some False
                         else has_unenriched_observables investigation);
          (cls, _) \<leftarrow> derive_authz_class (parse_authorization_context parse investigation);
          Some ((if malicious then [VETO_IOC] else []) @
                (if unverified then [VETO_UNVERIFIED_IOC] else []) @
                (if cls = Contradicted then [VETO_AUTHZ_CONTRADICTED] else []) @
                (if active_incident_of final_state then [VETO_ACTIVE_INCIDENT] else [])) }
      | _ \<Rightarrow> None)"

definition apply_worker_floor ::
    "(pyval \<Rightarrow> authorization_context option) \<Rightarrow> pydict \<Rightarrow> string option \<Rightarrow> (string option \<times> string list) py" where
  "apply_worker_floor parse final_state disposition =
     (if disposition \<noteq> Some ''close_fp'' then Some (disposition, [])
      else do {
        vetoes \<leftarrow> worker_close_vetoes parse final_state;
        Some (if vetoes \<noteq> [] then (Some ''escalate'', vetoes) else (disposition, [])) })"

end
