(* ===== verification/Policy_Correct.thy ===== *)
theory Policy_Correct
  imports Policy_Gate Guard_Correct
begin

text \<open>
  What the registry, the gate, the operational close and the worker floor promise: files cannot
  outrank or weaken the built-in policies, and an automatic close has passed every check of its
  plane.
\<close>

subsection \<open>Registry\<close>

text \<open>
  Built-in protections cannot be outranked: whatever policy files a process loads, an
  investigation that some built-in policy matches is governed by a built-in policy.
\<close>

theorem builtin_never_outranked:
  assumes "match_triage_policy (registry (load_file_triage_policies yaml_load model_validate listing env)) i = Some m"
    and "b \<in> set BUILTIN_TRIAGE_POLICIES"
    and "alert_rule_groups i = Some groups" and "alert_rule_ids i = Some ids"
    and "authorization_track_of i = Some trk" and "policy_matches b groups ids trk"
  shows "\<exists>pb\<in>set BUILTIN_TRIAGE_POLICIES. m = Some pb"
proof -
  let ?files = "load_file_triage_policies yaml_load model_validate listing env"
  let ?P = "\<lambda>pb. tp_status pb = ''active'' \<and> policy_matches pb groups ids trk"
  have m: "m = List.find ?P (registry ?files)"
    using assms(1,3-5) by (simp add: match_triage_policy_def)
  have b: "b \<in> set (registry ?files)" "?P b"
    using assms(2,6) builtin_active by auto
  obtain pb where pb: "List.find ?P (registry ?files) = Some pb"
    using find_exists [where P = ?P, OF b] by auto
  have "sorted (map tp_priority (registry ?files))" by (simp add: registry_def)
  from find_sorted_least [where P = ?P, OF this pb b] have "tp_priority pb \<le> tp_priority b" .
  also have "\<dots> < FILE_PRIORITY_FLOOR" using assms(2) by (rule builtin_priority)
  finally have "pb \<notin> set ?files" using load_file_triage_policies_sound by fastforce
  moreover have "pb \<in> set (registry ?files)" using find_SomeD [OF pb] by blast
  ultimately show ?thesis using m pb by auto
qed

text \<open>
  Closing a class of alerts without a model is a built-in capability: a governing policy that
  carries a deterministic disposition is a built-in, and any other governing policy applies
  everywhere or names this process's tenant.
\<close>

theorem governing_policy_provenance:
  assumes "match_triage_policy (registry (load_file_triage_policies yaml_load model_validate listing env)) i = Some (Some pb)"
  shows "(deterministic_disposition pb \<noteq> None \<longrightarrow> pb \<in> set BUILTIN_TRIAGE_POLICIES) \<and>
    (pb \<notin> set BUILTIN_TRIAGE_POLICIES \<longrightarrow>
       \<not> is_builtin (tp_id pb) \<and> FILE_PRIORITY_FLOOR \<le> tp_priority pb \<and>
       (tp_tenant pb = ''*'' \<or> tp_tenant pb \<in> set (process_tenant_identifiers env)))"
  using match_triage_policy_SomeD [OF assms]
    load_file_triage_policies_sound [of pb yaml_load model_validate listing env] by auto

subsection \<open>Operational close\<close>

lemma py_all_attests:
  "py_all (attests cg) alerts = Some True \<longleftrightarrow> (\<forall>a\<in>set alerts. attests cg a = Some True)"
  by simp

text \<open>
  A deterministic operational close is only available to an alert that is its class and nothing
  more: with no veto, there is an alert, every alert attests the class, none carries a MITRE
  mapping or a level above 11, and neither an observable nor a malicious signal is on the
  investigation.
\<close>

theorem operational_close_only_its_class:
  assumes "operational_close_vetoes investigation (pstrs class_groups) = Some []"
    and "class_groups \<noteq> []"
    and "dget ''alerts'' investigation = PList al"
  shows "dicts_of al \<noteq> [] \<and>
    (\<forall>a\<in>set (dicts_of al). attests (map str_lower class_groups) a = Some True
       \<and> has_mitre (dget ''mitre'' a) = Some False \<and> too_severe a = Some False) \<and>
    \<not> truthy (dget ''observables'' investigation) \<and>
    has_malicious_signal (PDict investigation) = Some False"
proof -
  have lower: "py_map py_lower (map PStr class_groups) = Some (map str_lower class_groups)"
    by (induction class_groups) auto
  from assms(3) have al: "py_iter_or_empty (dget ''alerts'' investigation) = Some al" by simp
  have cg: "py_iter_or_empty (pstrs class_groups) = Some (map PStr class_groups)" by (simp add: pstrs_def)
  from assms(1,2) show ?thesis
    unfolding operational_close_vetoes_def al cg
    by (auto simp: lower bind_eq_Some_conv Let_def split: if_splits)
qed

subsection \<open>Worker floor\<close>

lemma floor_cases:
  assumes "apply_worker_floor parse final (Some ''close_fp'') = Some (d, vetoes)"
  shows "(d = Some ''close_fp'' \<and> vetoes = [] \<and>
      (\<exists>invd comps cls. get_dict ''investigation'' final = PDict invd
        \<and> has_malicious_signal (PDict invd) = Some False
        \<and> derive_authz_class (parse_authorization_context parse invd) = Some (cls, comps) \<and> cls \<noteq> Contradicted
        \<and> \<not> active_incident_of final
        \<and> (truthy (dget ''verdict'' final) \<or> has_unenriched_observables invd = Some False)))
    \<or> (d = Some ''escalate'' \<and> vetoes \<noteq> [])"
proof -
  from assms obtain vs where vs: "worker_close_vetoes parse final = Some vs"
    and d: "(d, vetoes) = (if vs \<noteq> [] then (Some ''escalate'', vs) else (Some ''close_fp'', []))"
    by (auto simp: apply_worker_floor_def bind_eq_Some_conv split: if_splits)
  show ?thesis
  proof (cases "vs = []")
    case False
    with d show ?thesis by simp
  next
    case True
    from vs obtain invd where invd: "get_dict ''investigation'' final = PDict invd"
      by (auto simp: worker_close_vetoes_def split: pyval.splits)
    from vs True show ?thesis
      using d by (auto simp: worker_close_vetoes_def invd bind_eq_Some_conv split: if_splits)
  qed
qed

lemma floor_passed:
  assumes "apply_worker_floor parse final (Some ''close_fp'') = Some (Some ''close_fp'', vetoes)"
  shows "vetoes = [] \<and> \<not> active_incident_of final \<and>
      (\<exists>invd comps cls. get_dict ''investigation'' final = PDict invd
        \<and> has_malicious_signal (PDict invd) = Some False
        \<and> derive_authz_class (parse_authorization_context parse invd) = Some (cls, comps) \<and> cls \<noteq> Contradicted
        \<and> (truthy (dget ''verdict'' final) \<or> has_unenriched_observables invd = Some False))"
  using floor_cases [OF assms] by auto

text \<open>
  Property C35. The floor on the worker's automatic close holds for every terminal state,
  however it was reached: a close that passes it has no malicious signal, no contradicted
  authorization, no active incident, and rests on a verdict or has no unenriched indicator;
  otherwise a close becomes an escalation with its reasons, never dropped.
\<close>

theorem worker_floor_sound:
  assumes "apply_worker_floor parse final (Some ''close_fp'') = Some (d, vetoes)"
  shows "(d = Some ''close_fp'' \<and> vetoes = [] \<and>
      (\<exists>invd comps cls. get_dict ''investigation'' final = PDict invd
        \<and> has_malicious_signal (PDict invd) = Some False
        \<and> derive_authz_class (parse_authorization_context parse invd) = Some (cls, comps) \<and> cls \<noteq> Contradicted
        \<and> \<not> active_incident_of final
        \<and> (truthy (dget ''verdict'' final) \<or> has_unenriched_observables invd = Some False)))
    \<or> (d = Some ''escalate'' \<and> vetoes \<noteq> [])"
  using assms by (rule floor_cases)

text \<open>Dispositions other than an automatic close pass the floor untouched.\<close>

lemma worker_floor_other: "d \<noteq> Some ''close_fp'' \<Longrightarrow> apply_worker_floor parse final d = Some (d, [])"
  by (simp add: apply_worker_floor_def)

subsection \<open>Concrete runs\<close>

text \<open>A loader that accepts one document, and a policy a tenant might author.\<close>

definition strict_sudo :: triage_policy where
  "strict_sudo = (default_policy ''strict-sudo'')
     \<lparr> tp_tenant := ''acme'', tp_priority := 60,
       tp_applies_to := \<lparr> rule_groups = [''Sudo'', ''web''], rule_ids = [], authorization_tracks = [] \<rparr> \<rparr>"

definition sample_yaml :: "string \<Rightarrow> pyval option" where
  "sample_yaml t = Some (PDict [(''id'', PStr t)])"

definition sample_validate :: "pyval \<Rightarrow> triage_policy option" where
  "sample_validate v = (if v = PDict [(''id'', PStr ''strict-sudo''), (''status'', PStr ''shadow'')] then Some strict_sudo else None)"

definition sample_listing :: dir_listing where
  "sample_listing d = (if d = ''/etc/policies'' then Some [\<lparr> st_size = 11, content = ''strict-sudo'' \<rparr>] else None)"

definition sample_env :: load_env where
  "sample_env = \<lparr> env_tenant_id = None, env_tenant_slug = Some ''acme'', env_policy_dir = Some ''/etc/policies'',
     env_playbook_dir = None \<rparr>"

definition alert_investigation :: "string list \<Rightarrow> pydict" where
  "alert_investigation gs = [(''alerts'', PList [PDict [(''rule_groups'', pstrs gs), (''level'', PInt 3)]])]"

definition sample_registry :: "triage_policy list" where
  "sample_registry = registry (load_file_triage_policies sample_yaml sample_validate sample_listing sample_env)"

lemma sample_registry_ids:
  "map tp_id sample_registry = [''dual-use-privileged-exec'', ''agent-health-operational'', ''strict-sudo'']"
  by code_simp

theorem builtin_never_outranked_witness:
  "\<exists>m. match_triage_policy sample_registry (alert_investigation [''sudo'']) = Some m
     \<and> (\<exists>pb\<in>set BUILTIN_TRIAGE_POLICIES. m = Some pb)"
proof -
  let ?i = "alert_investigation [''sudo'']"
  have "map_option (\<lambda>_. ()) (match_triage_policy sample_registry ?i) = Some ()" by code_simp
  then obtain m where m: "match_triage_policy sample_registry ?i = Some m" by auto
  have g: "alert_rule_groups ?i = Some [''sudo'']" "alert_rule_ids ?i = Some []"
    "authorization_track_of ?i = Some None" by code_simp+
  have b: "PRIVILEGED_EXEC_TRIAGE_POLICY \<in> set BUILTIN_TRIAGE_POLICIES"
    by (simp add: BUILTIN_TRIAGE_POLICIES_def)
  have p: "policy_matches PRIVILEGED_EXEC_TRIAGE_POLICY [''sudo''] [] None" by code_simp
  from m builtin_never_outranked [OF m [unfolded sample_registry_def] b g p] show ?thesis by blast
qed

theorem governing_policy_provenance_witness:
  "\<exists>pb. match_triage_policy sample_registry (alert_investigation [''web'']) = Some (Some pb)
     \<and> pb \<notin> set BUILTIN_TRIAGE_POLICIES \<and> deterministic_disposition pb = None"
proof -
  let ?i = "alert_investigation [''web'']"
  have "map_option (map_option tp_id) (match_triage_policy sample_registry ?i) = Some (Some ''strict-sudo'')"
    by code_simp
  then obtain pb where pb: "match_triage_policy sample_registry ?i = Some (Some pb)" "tp_id pb = ''strict-sudo''"
    by auto
  have "pb \<notin> set BUILTIN_TRIAGE_POLICIES"
    using pb(2) by (auto simp: BUILTIN_TRIAGE_POLICIES_def PRIVILEGED_EXEC_TRIAGE_POLICY_def
        AGENT_HEALTH_TRIAGE_POLICY_def default_policy_def)
  with pb governing_policy_provenance [OF pb(1) [unfolded sample_registry_def]] show ?thesis
    by (intro exI [of _ pb]) auto
qed

theorem operational_close_only_its_class_witness:
  "operational_close_vetoes (alert_investigation [''agent_flooding'']) (pstrs [''agent_flooding'']) = Some []
   \<and> has_malicious_signal (PDict (alert_investigation [''agent_flooding''])) = Some False"
proof -
  have v: "operational_close_vetoes (alert_investigation [''agent_flooding'']) (pstrs [''agent_flooding'']) = Some []"
    by code_simp
  have a: "dget ''alerts'' (alert_investigation [''agent_flooding''])
      = PList [PDict [(''rule_groups'', pstrs [''agent_flooding'']), (''level'', PInt 3)]]"
    by (simp add: alert_investigation_def)
  from v operational_close_only_its_class [OF v _ a] show ?thesis by simp
qed

definition closable_state :: pydict where
  "closable_state = [(''investigation'', PDict []), (''verdict'', PDict [(''decision'', PStr ''close'')])]"

theorem worker_floor_sound_witness:
  "apply_worker_floor (\<lambda>_. None) closable_state (Some ''close_fp'') = Some (Some ''close_fp'', [])
   \<and> \<not> active_incident_of closable_state"
proof -
  have a: "apply_worker_floor (\<lambda>_. None) closable_state (Some ''close_fp'') = Some (Some ''close_fp'', [])"
    by code_simp
  from a worker_floor_sound [OF a] show ?thesis by auto
qed

end
