(* ===== verification/Revision_Store.thy ===== *)
theory Revision_Store
  imports Prelude
begin

text \<open>
  The contract of an append-only revision table: a row has a key and a revision number, an
  insert that repeats both is refused, and the newest row of a key is its current state. Two
  components keep such a table, authored triage policies and authored response playbooks; the
  facts about editing through it are proved once here.
\<close>

locale revision_store =
  fixes key :: "'r \<Rightarrow> 'k"
    and rev_no :: "'r \<Rightarrow> int"
    and insert_row :: "'r list \<Rightarrow> 'r \<Rightarrow> 'r list option"
    and newest :: "'r list \<Rightarrow> 'k \<Rightarrow> 'r option"
  assumes insert_appends: "insert_row t r = Some t' \<Longrightarrow> t' = t @ [r]"
    and insert_refused: "insert_row t r = None \<longleftrightarrow> (\<exists>q\<in>set t. key q = key r \<and> rev_no q = rev_no r)"
    and newest_None: "newest t k = None \<longleftrightarrow> (\<forall>q\<in>set t. key q \<noteq> k)"
    and newest_Some: "newest t k = Some r \<Longrightarrow>
      r \<in> set t \<and> key r = k \<and> (\<forall>q\<in>set t. key q = k \<longrightarrow> rev_no q \<le> rev_no r)"
begin

text \<open>An insert keeps (key, revision) a key of the table.\<close>

lemma insert_unique:
  assumes "distinct (map (\<lambda>r. (key r, rev_no r)) t)" and "insert_row t r = Some t'"
  shows "distinct (map (\<lambda>r. (key r, rev_no r)) t')"
  using assms insert_refused [of t r] by (auto simp: insert_appends [OF assms(2)])

text \<open>An edit on top of the newest revision succeeds and becomes the newest.\<close>

lemma next_becomes_newest:
  assumes "\<forall>q\<in>set t. key q = key n \<longrightarrow> rev_no q < rev_no n"
  shows "insert_row t n = Some (t @ [n]) \<and> newest (t @ [n]) (key n) = Some n"
proof -
  have "insert_row t n \<noteq> None" using assms by (auto simp: insert_refused)
  then obtain t' where t': "insert_row t n = Some t'" by auto
  have "newest (t @ [n]) (key n) \<noteq> None" by (simp add: newest_None)
  then obtain r where r: "newest (t @ [n]) (key n) = Some r" by auto
  from newest_Some [OF r] assms have "r = n" by fastforce
  with t' r insert_appends [OF t'] show ?thesis by simp
qed

lemma edit_newest:
  assumes "newest t (key n) = Some r" and "rev_no n = rev_no r + 1"
  shows "insert_row t n = Some (t @ [n]) \<and> newest (t @ [n]) (key n) = Some n"
  by (rule next_becomes_newest) (use newest_Some [OF assms(1)] assms(2) in fastforce)

lemma first_newest:
  assumes "newest t (key n) = None"
  shows "insert_row t n = Some (t @ [n]) \<and> newest (t @ [n]) (key n) = Some n"
  by (rule next_becomes_newest) (use assms newest_None in fastforce)

text \<open>An edit made on a stale read is refused: the newer revision is never overwritten.\<close>

lemma stale_edit_refused:
  assumes "q \<in> set t" and "key q = key n" and "rev_no q = rev_no n"
  shows "insert_row t n = None"
  using assms by (auto simp: insert_refused)

text \<open>Other keys keep their newest row.\<close>

lemma other_key_newest:
  assumes "distinct (map (\<lambda>r. (key r, rev_no r)) t)" and "key n \<noteq> k"
  shows "newest (t @ [n]) k = newest t k"
proof (cases "newest t k")
  case None
  with assms(2) have "newest (t @ [n]) k = None" by (simp add: newest_None)
  with None show ?thesis by simp
next
  case (Some r)
  from newest_Some [OF this] have r: "r \<in> set t" "key r = k" "\<forall>q\<in>set t. key q = k \<longrightarrow> rev_no q \<le> rev_no r"
    by auto
  have "newest (t @ [n]) k \<noteq> None" using r by (auto simp: newest_None)
  then obtain s where s: "newest (t @ [n]) k = Some s" by auto
  from newest_Some [OF s] assms(2) r have "s \<in> set t" "key s = k" "rev_no s = rev_no r" by fastforce+
  with r assms(1) have "s = r" by (auto simp: distinct_map dest!: inj_onD)
  with s Some show ?thesis by simp
qed

end

end
