(* ===== verification/Policy_Authoring.thy ===== *)
theory Policy_Authoring
  imports Policy_Gate Revision_Store
begin

text \<open>
  Authored triage policies (\<open>triage_policy/authoring.py\<close>): the fail-closed validator and the
  append-only revision store. Every operation reads the latest revision and then inserts the
  next one under a uniqueness constraint; the table it reads may already be older than the
  one it inserts into, so an operation takes both.

  Schema coercion (\<open>model_validate\<close>), YAML (\<open>yaml_load\<close>, \<open>yaml_dump\<close>) and the shortest
  decimal form of a float (\<open>float_repr\<close>, which only the size check reads) are parameters.
\<close>

subsection \<open>JSON text\<close>

definition join :: "string \<Rightarrow> string list \<Rightarrow> string" where
  "join sep ss = concat (case ss of [] \<Rightarrow> [] | t # ts \<Rightarrow> t # map (\<lambda>u. sep @ u) ts)"

fun json_dumps :: "(pyfloat \<Rightarrow> string) \<Rightarrow> pyval \<Rightarrow> string" where
  "json_dumps fr PNone = ''null''"
| "json_dumps fr (PBool b) = (if b then ''true'' else ''false'')"
| "json_dumps fr (PInt i) = show_int i"
| "json_dumps fr (PFloat x) = fr x"
| "json_dumps fr (PStr s) = json_str s"
| "json_dumps fr (PList xs) = ''['' @ join '', '' (map (json_dumps fr) xs) @ '']''"
| "json_dumps fr (PDict d) =
     ''{'' @ join '', '' (map (\<lambda>(k, v). json_str k @ '': '' @ json_dumps fr v) d) @ ''}''"

subsection \<open>Validation\<close>

definition KNOWN_DECISION_MODULES :: "string list" where
  "KNOWN_DECISION_MODULES = [''authorization_engine'']"

definition UNGRANTABLE_ACTIONS :: "string list" where
  "UNGRANTABLE_ACTIONS = [''CLOSE'']"

definition KNOWN_PHASES :: "string list" where
  "KNOWN_PHASES = [''triage'', ''decide'']"

definition AUTHORED_STATUSES :: "string list" where
  "AUTHORED_STATUSES = [''draft'', ''shadow'']"

definition MAX_AUTHORED_BYTES :: int where
  "MAX_AUTHORED_BYTES = 64 * 1024"

definition slug_head :: "char \<Rightarrow> bool" where
  "slug_head c = (let n = of_char c :: nat in 97 \<le> n \<and> n \<le> 122 \<or> 48 \<le> n \<and> n \<le> 57)"

text \<open>
  \<open>^[a-z0-9][a-z0-9-]{0,127}$\<close> under \<open>re.match\<close>: the dollar also matches just before a
  newline that ends the string.
\<close>

definition slug_core :: "string \<Rightarrow> bool" where
  "slug_core s =
     (case s of
        [] \<Rightarrow> False
      | c # cs \<Rightarrow> slug_head c \<and> list_all (\<lambda>d. slug_head d \<or> d = CHR ''-'') cs \<and> int (length cs) \<le> 127)"

definition slug_match :: "string \<Rightarrow> bool" where
  "slug_match s = (slug_core s \<or> (s \<noteq> [] \<and> last s = CHR 0x0A \<and> slug_core (butlast s)))"

datatype authoring_error =
    NotAMapping | DefinitionTooLarge | InvalidSchema | BadSlug | UnknownPhases | BelowPriorityFloor
  | DispositionBuiltinOnly | BuiltinIdCollision | UnknownSteps | UnknownModules
  | UnknownActions string | CloseNotGrantable string | BadStatus | Conflict | IntegrityViolation

fun check_legal_actions :: "(string \<times> string list) list \<Rightarrow> authoring_error option" where
  "check_legal_actions [] = None"
| "check_legal_actions ((phase, actions) # rest) =
     (if list_ex (\<lambda>a. a \<notin> set SUPERVISOR_ACTIONS) actions then Some (UnknownActions phase)
      else if list_ex (\<lambda>a. a \<in> set UNGRANTABLE_ACTIONS) actions then Some (CloseNotGrantable phase)
      else check_legal_actions rest)"

definition validate_authored ::
    "(pyfloat \<Rightarrow> string) \<Rightarrow> (pyval \<Rightarrow> triage_policy option) \<Rightarrow> pyval \<Rightarrow> authoring_error + triage_policy" where
  "validate_authored float_repr model_validate raw =
     (case raw of
        PDict d \<Rightarrow>
          (if int (length (json_dumps float_repr raw)) > MAX_AUTHORED_BYTES then Inl DefinitionTooLarge
           else case model_validate (PDict (dset ''status'' (PStr ''shadow'') d)) of
               None \<Rightarrow> Inl InvalidSchema
             | Some pb \<Rightarrow>
                 (if \<not> slug_match (tp_id pb) then Inl BadSlug
                  else if list_ex (\<lambda>p. fst p \<notin> set KNOWN_PHASES) (legal_actions pb) then Inl UnknownPhases
                  else if tp_priority pb < FILE_PRIORITY_FLOOR then Inl BelowPriorityFloor
                  else if deterministic_disposition pb \<noteq> None then Inl DispositionBuiltinOnly
                  else if is_builtin (tp_id pb) then Inl BuiltinIdCollision
                  else if list_ex (\<lambda>s. s \<notin> set KNOWN_STEP_NODES) (required_steps pb) then Inl UnknownSteps
                  else if list_ex (\<lambda>m. m \<notin> set KNOWN_DECISION_MODULES) (decision_modules pb) then Inl UnknownModules
                  else case check_legal_actions (legal_actions pb) of
                      Some e \<Rightarrow> Inl e
                    | None \<Rightarrow> Inr pb))
      | _ \<Rightarrow> Inl NotAMapping)"

subsection \<open>The revision store\<close>

record revision_row =
  rr_tenant :: string
  rr_policy :: string
  rr_revision :: int
  rr_status :: string
  rr_definition :: pyval
  rr_created_by :: "string option"

definition rows_of :: "string \<Rightarrow> string \<Rightarrow> revision_row list \<Rightarrow> revision_row list" where
  "rows_of t p tbl = List.filter (\<lambda>r. rr_tenant r = t \<and> rr_policy r = p) tbl"

definition latest_revision :: "revision_row list \<Rightarrow> string \<Rightarrow> string \<Rightarrow> revision_row option" where
  "latest_revision tbl t p =
     (case rows_of t p tbl of [] \<Rightarrow> None | r # rs \<Rightarrow> Some (py_max_by rr_revision r rs))"

text \<open>The identifiers of a tenant's policies, one per policy, in order.\<close>

definition policy_ids :: "revision_row list \<Rightarrow> string \<Rightarrow> string list" where
  "policy_ids tbl t = sort (remdups (map rr_policy (List.filter (\<lambda>r. rr_tenant r = t) tbl)))"

definition list_authored :: "revision_row list \<Rightarrow> string \<Rightarrow> revision_row list" where
  "list_authored tbl t =
     List.filter (\<lambda>r. rr_status r \<noteq> ''retired'') (List.map_filter (latest_revision tbl t) (policy_ids tbl t))"

definition get_authored :: "revision_row list \<Rightarrow> string \<Rightarrow> string \<Rightarrow> revision_row option" where
  "get_authored tbl t p =
     (case latest_revision tbl t p of
        None \<Rightarrow> None
      | Some r \<Rightarrow> if rr_status r = ''retired'' then None else Some r)"

text \<open>An insert that repeats a tenant's policy and revision violates the unique constraint.\<close>

definition insert_revision :: "revision_row list \<Rightarrow> revision_row \<Rightarrow> revision_row list option" where
  "insert_revision tbl row =
     (if list_ex (\<lambda>r. rr_tenant r = rr_tenant row \<and> rr_policy r = rr_policy row
                    \<and> rr_revision r = rr_revision row) tbl
      then None else Some (tbl @ [row]))"

definition upsert_authored ::
    "(pyfloat \<Rightarrow> string) \<Rightarrow> (pyval \<Rightarrow> triage_policy option) \<Rightarrow> revision_row list \<Rightarrow> revision_row list
     \<Rightarrow> string \<Rightarrow> pydict \<Rightarrow> string \<Rightarrow> string option \<Rightarrow> authoring_error + (revision_row \<times> revision_row list)" where
  "upsert_authored float_repr model_validate snapshot tbl tenant_id defn new_status created_by =
     (if new_status \<notin> set AUTHORED_STATUSES then Inl BadStatus
      else case validate_authored float_repr model_validate
                  (PDict (dset ''tenant'' (PStr tenant_id) defn)) of
          Inl e \<Rightarrow> Inl e
        | Inr pb \<Rightarrow>
            (let revision = (case latest_revision snapshot tenant_id (tp_id pb) of
                               None \<Rightarrow> 1 | Some r \<Rightarrow> rr_revision r + 1);
                 row = \<lparr> rr_tenant = tenant_id, rr_policy = tp_id pb, rr_revision = revision,
                         rr_status = new_status, rr_definition = PDict (dump_policy pb), rr_created_by = created_by \<rparr>
             in case insert_revision tbl row of
                 None \<Rightarrow> Inl Conflict
               | Some tbl' \<Rightarrow> Inr (row, tbl')))"

definition retire_authored ::
    "revision_row list \<Rightarrow> revision_row list \<Rightarrow> string \<Rightarrow> string \<Rightarrow> string option
     \<Rightarrow> authoring_error + (bool \<times> revision_row list)" where
  "retire_authored snapshot tbl tenant_id policy_id retired_by =
     (case latest_revision snapshot tenant_id policy_id of
        None \<Rightarrow> Inr (False, tbl)
      | Some r \<Rightarrow>
          (if rr_status r = ''retired'' then Inr (False, tbl)
           else case insert_revision tbl
                  \<lparr> rr_tenant = tenant_id, rr_policy = policy_id, rr_revision = rr_revision r + 1,
                    rr_status = ''retired'', rr_definition = rr_definition r, rr_created_by = retired_by \<rparr> of
               None \<Rightarrow> Inl IntegrityViolation
             | Some tbl' \<Rightarrow> Inr (True, tbl')))"

definition set_authored_status ::
    "(pyfloat \<Rightarrow> string) \<Rightarrow> (pyval \<Rightarrow> triage_policy option) \<Rightarrow> revision_row list \<Rightarrow> revision_row list
     \<Rightarrow> string \<Rightarrow> string \<Rightarrow> string \<Rightarrow> string option \<Rightarrow> authoring_error + (revision_row option \<times> revision_row list)" where
  "set_authored_status float_repr model_validate snapshot tbl tenant_id policy_id new_status created_by =
     (if new_status \<noteq> ''active'' \<and> new_status \<noteq> ''shadow'' then Inl BadStatus
      else case latest_revision snapshot tenant_id policy_id of
          None \<Rightarrow> Inr (None, tbl)
        | Some r \<Rightarrow>
            (if rr_status r = ''retired'' then Inr (None, tbl)
             else case (if new_status = ''active''
                        then (case validate_authored float_repr model_validate (rr_definition r) of
                                Inl e \<Rightarrow> Some e | Inr _ \<Rightarrow> None)
                        else None) of
                 Some e \<Rightarrow> Inl e
               | None \<Rightarrow>
                   (let row = \<lparr> rr_tenant = tenant_id, rr_policy = policy_id, rr_revision = rr_revision r + 1,
                                rr_status = new_status, rr_definition = rr_definition r, rr_created_by = created_by \<rparr>
                    in case insert_revision tbl row of
                        None \<Rightarrow> Inl Conflict
                      | Some tbl' \<Rightarrow> Inr (Some row, tbl'))))"

text \<open>The files shipped to the workers; any row that no longer validates fails the rendering.\<close>

fun render_rows ::
    "(pyfloat \<Rightarrow> string) \<Rightarrow> (string \<Rightarrow> pyval option) \<Rightarrow> (pyval \<Rightarrow> string) \<Rightarrow> (pyval \<Rightarrow> triage_policy option)
     \<Rightarrow> string \<Rightarrow> revision_row list \<Rightarrow> (string \<times> string) list option" where
  "render_rows float_repr yaml_load yaml_dump model_validate tenant_id [] = Some []"
| "render_rows float_repr yaml_load yaml_dump model_validate tenant_id (r # rs) =
     (if rr_status r \<noteq> ''active'' then render_rows float_repr yaml_load yaml_dump model_validate tenant_id rs
      else case (validate_authored float_repr model_validate (rr_definition r), rr_definition r) of
          (Inr _, PDict d) \<Rightarrow>
            (let yaml_text = yaml_dump (PDict (dset ''tenant'' (PStr tenant_id) (dset ''status'' (PStr ''active'') d)))
             in case parse_triage_policy_text yaml_load model_validate yaml_text of
                 Inl _ \<Rightarrow> None
               | Inr _ \<Rightarrow>
                   map_option (Cons (''authored-'' @ rr_policy r @ ''.yaml'', yaml_text))
                     (render_rows float_repr yaml_load yaml_dump model_validate tenant_id rs))
        | _ \<Rightarrow> None)"

definition render_active_authored_values ::
    "(pyfloat \<Rightarrow> string) \<Rightarrow> (string \<Rightarrow> pyval option) \<Rightarrow> (pyval \<Rightarrow> string) \<Rightarrow> (pyval \<Rightarrow> triage_policy option)
     \<Rightarrow> revision_row list \<Rightarrow> string \<Rightarrow> (string \<times> string) list option" where
  "render_active_authored_values float_repr yaml_load yaml_dump model_validate tbl tenant_id =
     render_rows float_repr yaml_load yaml_dump model_validate tenant_id
       (List.map_filter (latest_revision tbl tenant_id) (policy_ids tbl tenant_id))"

subsection \<open>The store meets the revision contract\<close>

lemma latest_revision_None:
  "latest_revision tbl t p = None \<longleftrightarrow> (\<forall>q\<in>set tbl. \<not> (rr_tenant q = t \<and> rr_policy q = p))"
proof -
  have "latest_revision tbl t p = None \<longleftrightarrow> rows_of t p tbl = []"
    by (simp add: latest_revision_def split: list.splits)
  then show ?thesis by (auto simp: rows_of_def filter_empty_conv)
qed

lemma latest_revision_Some:
  assumes "latest_revision tbl t p = Some r"
  shows "r \<in> set tbl \<and> rr_tenant r = t \<and> rr_policy r = p \<and>
    (\<forall>q\<in>set tbl. rr_tenant q = t \<and> rr_policy q = p \<longrightarrow> rr_revision q \<le> rr_revision r)"
proof -
  from assms obtain h hs where h: "rows_of t p tbl = h # hs" and r: "r = py_max_by rr_revision h hs"
    by (auto simp: latest_revision_def split: list.splits)
  have s: "set (rows_of t p tbl) = {q \<in> set tbl. rr_tenant q = t \<and> rr_policy q = p}"
    by (auto simp: rows_of_def)
  have "r \<in> set (rows_of t p tbl)" using py_max_by_in [of rr_revision h hs] by (simp add: h r)
  moreover have "\<forall>q\<in>set (rows_of t p tbl). rr_revision q \<le> rr_revision r"
    using py_max_by_ge [of _ h hs rr_revision] by (simp add: h r)
  ultimately show ?thesis unfolding s by blast
qed

interpretation authored: revision_store "\<lambda>r. (rr_tenant r, rr_policy r)" rr_revision
    insert_revision "\<lambda>tbl (t, p). latest_revision tbl t p"
proof unfold_locales
  fix tbl k r
  show "(case k of (t, p) \<Rightarrow> latest_revision tbl t p) = None \<longleftrightarrow>
      (\<forall>q\<in>set tbl. (rr_tenant q, rr_policy q) \<noteq> k)"
    by (cases k) (auto simp: latest_revision_None)
  show "(case k of (t, p) \<Rightarrow> latest_revision tbl t p) = Some r \<Longrightarrow>
      r \<in> set tbl \<and> (rr_tenant r, rr_policy r) = k \<and>
      (\<forall>q\<in>set tbl. (rr_tenant q, rr_policy q) = k \<longrightarrow> rr_revision q \<le> rr_revision r)"
    by (cases k) (auto dest: latest_revision_Some)
qed (auto simp: insert_revision_def list_ex_iff split: if_splits)

end
