(* ===== verification/Authoring_Correct.thy ===== *)
theory Authoring_Correct
  imports Policy_Authoring Policy_Correct
begin

text \<open>
  What authoring promises: a validated policy cannot close, outrank or impersonate; concurrent
  editing of the store never loses a revision; what is activated was validated.
\<close>

subsection \<open>Validated policies\<close>

lemma validate_authored_InrD:
  "validate_authored fr mv raw = Inr pb \<Longrightarrow>
   slug_match (tp_id pb) \<and> FILE_PRIORITY_FLOOR \<le> tp_priority pb \<and> deterministic_disposition pb = None \<and>
   \<not> is_builtin (tp_id pb) \<and> set (required_steps pb) \<subseteq> set KNOWN_STEP_NODES \<and>
   (\<forall>(ph, as)\<in>set (legal_actions pb). ph \<in> set KNOWN_PHASES) \<and> check_legal_actions (legal_actions pb) = None"
  by (cases raw) (fastforce simp: validate_authored_def list_ex_iff split: if_splits option.splits)+

lemma check_legal_actions_NoneD:
  "check_legal_actions las = None \<Longrightarrow> (ph, as) \<in> set las \<Longrightarrow> ''CLOSE'' \<notin> set as \<and> set as \<subseteq> set SUPERVISOR_ACTIONS"
proof (induction las rule: check_legal_actions.induct)
  case (2 phase actions rest)
  then show ?case by (auto simp: list_ex_iff UNGRANTABLE_ACTIONS_def split: if_splits)
qed simp

lemma upper_action: "a \<in> set SUPERVISOR_ACTIONS \<Longrightarrow> str_upper a = a"
  by (auto simp: SUPERVISOR_ACTIONS_def str_upper_def char_upper_def)

lemma py_map_str: "py_map (\<lambda>a. map_option str_upper (py_str a)) (map PStr as) = Some (map str_upper as)"
  by (induction as) auto

lemma map_of_pstrs: "map_of (map (\<lambda>(ph, as). (ph, pstrs as)) las) ph = map_option pstrs (map_of las ph)"
  by (induction las) auto

text \<open>
  An authored policy can never force a close: whatever phase a run it governs is in, if the
  policy constrains the supervisor at all, CLOSE is not among the actions it grants.
\<close>

theorem authored_never_grants_close:
  assumes "validate_authored float_repr model_validate raw = Inr pb"
    and "dget ''triage_policy'' state = PDict (dump_policy pb)"
    and "legal_actions_for state = Some (Some legal)"
  shows "''CLOSE'' \<notin> set legal"
proof -
  have pol: "policy_of state = PDict (dump_policy pb)"
    using assms(2) by (simp add: policy_of_def get_alias_def py_or_else_def dump_policy_def)
  have la: "py_get ''legal_actions'' (policy_of state) = Some (PDict (map (\<lambda>(ph, as). (ph, pstrs as)) (legal_actions pb)))"
    by (simp add: pol dump_policy_def)
  from assms(3) obtain ph actions as names where
    g: "py_get ph (PDict (map (\<lambda>(ph, as). (ph, pstrs as)) (legal_actions pb))) = Some actions"
    "truthy actions" "py_iter actions = Some as"
    "py_map (\<lambda>a. map_option str_upper (py_str a)) as = Some names"
    and legal: "set legal = {a \<in> set SUPERVISOR_ACTIONS. a \<in> set names}"
    by (auto simp: legal_actions_for_def la bind_eq_Some_conv Let_def split: if_splits)
  from g(1,2) obtain acts where acts: "map_of (legal_actions pb) ph = Some acts" "actions = pstrs acts"
    by (auto simp: dget_def map_of_pstrs split: option.splits)
  from acts(1) have m: "(ph, acts) \<in> set (legal_actions pb)" by (rule map_of_SomeD)
  from validate_authored_InrD [OF assms(1)] have "check_legal_actions (legal_actions pb) = None" by blast
  from check_legal_actions_NoneD [OF this m] have a: "''CLOSE'' \<notin> set acts" "set acts \<subseteq> set SUPERVISOR_ACTIONS"
    by auto
  from g(3,4) acts(2) have "names = map str_upper acts" by (auto simp: pstrs_def py_map_str)
  with a(2) have "names = acts" by (auto intro!: map_idI upper_action)
  with a(1) legal show ?thesis by simp
qed

text \<open>
  The slug check admits an identifier that is not a slug: a trailing newline passes it, although
  the identifier is a path segment and a file name.
\<close>

theorem slug_admits_trailing_newline:
  "slug_match (s @ [CHR 0x0A]) \<longleftrightarrow> slug_core s"
  by (cases s) (auto simp: slug_match_def slug_core_def slug_head_def)

subsection \<open>The store under concurrent editing\<close>

text \<open>
  One committed operation on the table. The table an operation read is some earlier table of
  the same run: a prefix of the one it writes to.
\<close>

inductive store_step ::
    "(pyfloat \<Rightarrow> string) \<Rightarrow> (pyval \<Rightarrow> triage_policy option) \<Rightarrow> revision_row list \<Rightarrow> revision_row list \<Rightarrow> bool"
  for fr mv where
  upsert: "upsert_authored fr mv (take n tbl) tbl t d st au = Inr (row, tbl') \<Longrightarrow> store_step fr mv tbl tbl'"
| retire: "retire_authored (take n tbl) tbl t p au = Inr (True, tbl') \<Longrightarrow> store_step fr mv tbl tbl'"
| set_status: "set_authored_status fr mv (take n tbl) tbl t p st au = Inr (Some row, tbl') \<Longrightarrow> store_step fr mv tbl tbl'"

inductive store_reachable :: "(pyfloat \<Rightarrow> string) \<Rightarrow> (pyval \<Rightarrow> triage_policy option) \<Rightarrow> revision_row list \<Rightarrow> bool"
  for fr mv where
  empty: "store_reachable fr mv []"
| step: "store_reachable fr mv tbl \<Longrightarrow> store_step fr mv tbl tbl' \<Longrightarrow> store_reachable fr mv tbl'"

definition activated_rows_valid :: "(pyfloat \<Rightarrow> string) \<Rightarrow> (pyval \<Rightarrow> triage_policy option) \<Rightarrow> revision_row list \<Rightarrow> bool" where
  "activated_rows_valid fr mv tbl \<longleftrightarrow>
     (\<forall>r\<in>set tbl. rr_status r = ''active'' \<longrightarrow> (\<exists>pb. validate_authored fr mv (rr_definition r) = Inr pb))"

lemma store_step_appends:
  assumes "store_step fr mv tbl tbl'"
  obtains row where "insert_revision tbl row = Some tbl'" "tbl' = tbl @ [row]"
    "rr_status row = ''active'' \<longrightarrow> (\<exists>pb. validate_authored fr mv (rr_definition row) = Inr pb)"
proof -
  have "\<exists>row. insert_revision tbl row = Some tbl' \<and>
      (rr_status row = ''active'' \<longrightarrow> (\<exists>pb. validate_authored fr mv (rr_definition row) = Inr pb))"
    using assms
  proof (cases rule: store_step.cases)
    case (upsert n t d st au row)
    then show ?thesis
      by (auto simp: upsert_authored_def Let_def AUTHORED_STATUSES_def
          split: if_splits sum.splits option.splits)
  next
    case (retire n t p au)
    then show ?thesis
      by (auto simp: retire_authored_def split: if_splits option.splits)
  next
    case (set_status n t p st au row)
    then show ?thesis
      by (auto simp: set_authored_status_def Let_def split: if_splits sum.splits option.splits)
  qed
  then show thesis using that authored.insert_appends by blast
qed

text \<open>
  Property C36. Whatever operations of whatever authors interleave, on however stale reads, the
  store keeps one row per tenant, policy and revision, and every row that was ever activated
  holds a definition the validator accepts.
\<close>

theorem store_invariant:
  assumes "store_reachable float_repr model_validate tbl"
  shows "distinct (map (\<lambda>r. (rr_tenant r, rr_policy r, rr_revision r)) tbl) \<and>
    activated_rows_valid float_repr model_validate tbl"
proof -
  have "distinct (map (\<lambda>r. ((rr_tenant r, rr_policy r), rr_revision r)) tbl) \<and>
      activated_rows_valid float_repr model_validate tbl"
    using assms
  proof induction
    case empty
    then show ?case by (simp add: activated_rows_valid_def)
  next
    case (step tbl tbl')
    from step.hyps(2) obtain row where row: "insert_revision tbl row = Some tbl'" "tbl' = tbl @ [row]"
      "rr_status row = ''active'' \<longrightarrow> (\<exists>pb. validate_authored float_repr model_validate (rr_definition row) = Inr pb)"
      by (rule store_step_appends)
    with step.IH authored.insert_unique [OF _ row(1)] show ?case
      by (auto simp: activated_rows_valid_def)
  qed
  moreover have "distinct (map (\<lambda>r. ((rr_tenant r, rr_policy r), rr_revision r)) tbl)
      = distinct (map (\<lambda>r. (rr_tenant r, rr_policy r, rr_revision r)) tbl)"
    by (auto simp: distinct_map inj_on_def)
  ultimately show ?thesis by simp
qed

text \<open>
  Editing on an up-to-date read takes effect and nothing is lost: an accepted create or edit
  becomes the tenant's current definition of that policy, a retirement hides the policy while
  its definition stays in the table, and both leave every earlier row in place.
\<close>

theorem edits_take_effect:
  "(upsert_authored fr mv tbl tbl t d st au = Inr (row, tbl') \<longrightarrow>
      get_authored tbl' t (rr_policy row) = Some row \<and> rr_tenant row = t \<and> tbl' = tbl @ [row]) \<and>
   (retire_authored tbl tbl t p au = Inr (True, tbl'') \<longrightarrow>
      get_authored tbl'' t p = None \<and>
      (\<exists>old new. get_authored tbl t p = Some old \<and> tbl'' = tbl @ [new] \<and> rr_definition new = rr_definition old))"
proof (intro conjI impI)
  assume u: "upsert_authored fr mv tbl tbl t d st au = Inr (row, tbl')"
  then obtain pb where st: "st \<in> set AUTHORED_STATUSES"
    and v: "validate_authored fr mv (PDict (dset ''tenant'' (PStr t) d)) = Inr pb"
    by (cases "validate_authored fr mv (PDict (dset ''tenant'' (PStr t) d))")
      (auto simp: upsert_authored_def split: if_splits)
  define new where "new = \<lparr> rr_tenant = t, rr_policy = tp_id pb,
      rr_revision = (case latest_revision tbl t (tp_id pb) of None \<Rightarrow> 1 | Some r \<Rightarrow> rr_revision r + 1),
      rr_status = st, rr_definition = PDict (dump_policy pb), rr_created_by = au \<rparr>"
  have ins': "(case insert_revision tbl new of None \<Rightarrow> Inl Conflict | Some t' \<Rightarrow> Inr (new, t')) = Inr (row, tbl')"
    unfolding new_def using u st v by (simp add: upsert_authored_def Let_def)
  then have row: "row = new" and ins: "insert_revision tbl row = Some tbl'"
    by (cases "insert_revision tbl new"; simp)+
  note row = row [unfolded new_def]
  have "latest_revision (tbl @ [row]) t (rr_policy row) = Some row"
  proof (cases "latest_revision tbl t (tp_id pb)")
    case None
    with authored.first_newest [of tbl row] show ?thesis by (simp add: row)
  next
    case (Some r)
    with authored.edit_newest [of tbl row r] show ?thesis by (simp add: row)
  qed
  with authored.insert_appends [OF ins] st show "get_authored tbl' t (rr_policy row) = Some row"
    and "rr_tenant row = t" and "tbl' = tbl @ [row]"
    by (auto simp: get_authored_def row AUTHORED_STATUSES_def)
next
  assume "retire_authored tbl tbl t p au = Inr (True, tbl'')"
  then obtain r new where r: "latest_revision tbl t p = Some r" "rr_status r \<noteq> ''retired''"
    and new: "new = \<lparr> rr_tenant = t, rr_policy = p, rr_revision = rr_revision r + 1,
      rr_status = ''retired'', rr_definition = rr_definition r, rr_created_by = au \<rparr>"
    and ins: "insert_revision tbl new = Some tbl''"
    by (auto simp: retire_authored_def split: if_splits option.splits)
  from authored.edit_newest [of tbl new r] r(1) have "latest_revision (tbl @ [new]) t p = Some new"
    by (simp add: new)
  with authored.insert_appends [OF ins] r show "get_authored tbl'' t p = None"
    and "\<exists>old new. get_authored tbl t p = Some old \<and> tbl'' = tbl @ [new] \<and> rr_definition new = rr_definition old"
    by (auto simp: get_authored_def new)
qed

subsection \<open>Concrete runs\<close>

definition echo_validate :: "pyval \<Rightarrow> triage_policy option" where
  "echo_validate v =
     (case v of
        PDict d \<Rightarrow>
          (case dget ''id'' d of
             PStr i \<Rightarrow> Some ((default_policy i) \<lparr> tp_status := ''shadow'',
                        legal_actions := [(''decide'', [''VERDICT'', ''ENRICH''])] \<rparr>)
           | _ \<Rightarrow> None)
      | _ \<Rightarrow> None)"

definition zero_repr :: "pyfloat \<Rightarrow> string" where
  "zero_repr _ = ''0.0''"

definition authored_doc :: pydict where
  "authored_doc = [(''id'', PStr ''web-shells'')]"

lemma authored_doc_valid:
  "validate_authored zero_repr echo_validate (PDict authored_doc)
   = Inr ((default_policy ''web-shells'') \<lparr> tp_status := ''shadow'',
       legal_actions := [(''decide'', [''VERDICT'', ''ENRICH''])] \<rparr>)"
  by code_simp

theorem authored_never_grants_close_witness:
  "legal_actions_for [(''triage_policy'', PDict (dump_policy ((default_policy ''web-shells'') \<lparr> tp_status := ''shadow'',
       legal_actions := [(''decide'', [''VERDICT'', ''ENRICH''])] \<rparr>)))] = Some (Some [''ENRICH'', ''VERDICT''])
   \<and> ''CLOSE'' \<notin> set [''ENRICH'', ''VERDICT'']"
proof -
  let ?pb = "(default_policy ''web-shells'') \<lparr> tp_status := ''shadow'',
       legal_actions := [(''decide'', [''VERDICT'', ''ENRICH''])] \<rparr>"
  have l: "legal_actions_for [(''triage_policy'', PDict (dump_policy ?pb))] = Some (Some [''ENRICH'', ''VERDICT''])"
    by code_simp
  have d: "dget ''triage_policy'' [(''triage_policy'', PDict (dump_policy ?pb))] = PDict (dump_policy ?pb)" by simp
  from l authored_never_grants_close [OF authored_doc_valid d l] show ?thesis by blast
qed

definition first_row :: revision_row where
  "first_row = \<lparr> rr_tenant = ''acme'', rr_policy = ''web-shells'', rr_revision = 1, rr_status = ''shadow'',
     rr_definition = PDict (dump_policy ((default_policy ''web-shells'') \<lparr> tp_status := ''shadow'',
       legal_actions := [(''decide'', [''VERDICT'', ''ENRICH''])] \<rparr>)), rr_created_by = None \<rparr>"

lemma first_upsert:
  "upsert_authored zero_repr echo_validate [] [] ''acme'' authored_doc ''shadow'' None = Inr (first_row, [first_row])"
  by code_simp

theorem store_invariant_witness:
  "store_reachable zero_repr echo_validate [first_row] \<and>
   activated_rows_valid zero_repr echo_validate [first_row]"
proof -
  have "store_step zero_repr echo_validate [] [first_row]"
    by (rule store_step.upsert [where n = 0]) (use first_upsert in simp)
  then have r: "store_reachable zero_repr echo_validate [first_row]"
    by (rule store_reachable.step [OF store_reachable.empty])
  from r store_invariant [OF r] show ?thesis by blast
qed

theorem edits_take_effect_witness:
  "get_authored [first_row] ''acme'' ''web-shells'' = Some first_row"
  using edits_take_effect [of zero_repr echo_validate "[]" "''acme''" authored_doc "''shadow''" None first_row "[first_row]"
      "''web-shells''" "[]"] first_upsert
  by (simp add: first_row_def)

end
