(* ===== verification/Pricing_Usage.thy ===== *)
theory Pricing_Usage
  imports PyState
begin

text \<open>
  Model names and provider usage (\<open>core/pricing/names.py\<close>, \<open>core/pricing/usage.py\<close>): stripping
  a version suffix, and normalising the usage block of a response into canonical counts.
  Arithmetic on floats is exact on the finite values.
\<close>

subsection \<open>Model names\<close>

definition date8_suffix :: "string \<Rightarrow> bool" where
  "date8_suffix s \<longleftrightarrow> length s = 9 \<and> hd s = CHR ''-'' \<and> list_all is_digit (tl s)"

definition iso_suffix :: "string \<Rightarrow> bool" where
  "iso_suffix s \<longleftrightarrow> length s = 11 \<and> s ! 0 = CHR ''-'' \<and> s ! 5 = CHR ''-'' \<and> s ! 8 = CHR ''-'' \<and>
     list_all is_digit (take 4 (drop 1 s)) \<and> list_all is_digit (take 2 (drop 6 s)) \<and> list_all is_digit (drop 9 s)"

definition last_n :: "nat \<Rightarrow> string \<Rightarrow> string" where
  "last_n n s = drop (length s - n) s"

definition strip_end :: "string \<Rightarrow> string" where
  "strip_end s =
     (if date8_suffix (last_n 9 s) then take (length s - 9) s
      else if iso_suffix (last_n 11 s) then take (length s - 11) s
      else if last_n 7 s = ''-latest'' then take (length s - 7) s
      else s)"

text \<open>The dollar of the pattern matches at the end and before a final newline.\<close>

definition strip_version :: "string \<Rightarrow> string" where
  "strip_version s =
     (if s \<noteq> [] \<and> last s = CHR 0x0A then strip_end (butlast s) @ [CHR 0x0A] else strip_end s)"

definition base_model_id :: "string option \<Rightarrow> string" where
  "base_model_id model = (case model of None \<Rightarrow> [] | Some m \<Rightarrow> if m = [] then [] else strip_version m)"

subsection \<open>Float arithmetic\<close>

fun float_add :: "pyfloat \<Rightarrow> pyfloat \<Rightarrow> pyfloat" where
  "float_add (Fin a) (Fin b) = Fin (a + b)"
| "float_add NaN y = NaN"
| "float_add x NaN = NaN"
| "float_add PosInf NegInf = NaN"
| "float_add NegInf PosInf = NaN"
| "float_add PosInf y = PosInf"
| "float_add NegInf y = NegInf"
| "float_add x PosInf = PosInf"
| "float_add x NegInf = NegInf"

fun float_neg :: "pyfloat \<Rightarrow> pyfloat" where
  "float_neg (Fin a) = Fin (- a)"
| "float_neg PosInf = NegInf"
| "float_neg NegInf = PosInf"
| "float_neg NaN = NaN"

definition float_sub :: "pyfloat \<Rightarrow> pyfloat \<Rightarrow> pyfloat" where
  "float_sub x y = float_add x (float_neg y)"

definition inf_of_sign :: "bool \<Rightarrow> pyfloat" where
  "inf_of_sign pos = (if pos then PosInf else NegInf)"

fun float_mul :: "pyfloat \<Rightarrow> pyfloat \<Rightarrow> pyfloat" where
  "float_mul (Fin a) (Fin b) = Fin (a * b)"
| "float_mul NaN y = NaN"
| "float_mul x NaN = NaN"
| "float_mul (Fin a) PosInf = (if a = 0 then NaN else inf_of_sign (0 < a))"
| "float_mul (Fin a) NegInf = (if a = 0 then NaN else inf_of_sign (a < 0))"
| "float_mul PosInf (Fin a) = (if a = 0 then NaN else inf_of_sign (0 < a))"
| "float_mul NegInf (Fin a) = (if a = 0 then NaN else inf_of_sign (a < 0))"
| "float_mul PosInf PosInf = PosInf"
| "float_mul NegInf NegInf = PosInf"
| "float_mul PosInf NegInf = NegInf"
| "float_mul NegInf PosInf = NegInf"

text \<open>\<open>max(x, y)\<close> returns \<open>x\<close> unless \<open>y > x\<close>.\<close>

definition float_max :: "pyfloat \<Rightarrow> pyfloat \<Rightarrow> pyfloat" where
  "float_max x y = (if float_cmp CmpGt y x then y else x)"

subsection \<open>Canonical usage\<close>

record canonical_usage_rec =
  input_tokens :: int
  output_tokens :: int
  cache_read_tokens :: int
  cache_write_tokens :: int
  reasoning_tokens :: int
  actual_cost_usd :: "pyfloat option"
  reported_provider :: "string option"

text \<open>A response is a message object with two metadata attributes, or a raw body.\<close>

datatype llm_response =
    Message (usage_metadata: pyval) (response_metadata: pyval)
  | RawBody pydict

text \<open>
  \<open>int(value or 0)\<close> with \<open>TypeError\<close> and \<open>ValueError\<close> caught. An infinity makes \<open>int\<close> raise
  \<open>OverflowError\<close>, which is not caught.
\<close>

definition as_int :: "pyval \<Rightarrow> int py" where
  "as_int value =
     (let v = py_or_else value (PInt 0)
      in if v = PFloat PosInf \<or> v = PFloat NegInf then None
         else case py_int v of None \<Rightarrow> Some 0 | Some i \<Rightarrow> Some (max 0 i))"

definition usage_dicts :: "llm_response \<Rightarrow> pydict list" where
  "usage_dicts response =
     (case response of
        Message um rm \<Rightarrow>
          (case um of PDict d \<Rightarrow> [d] | _ \<Rightarrow> []) @
          (case rm of
             PDict m \<Rightarrow>
               (case dget ''usage'' m of PDict d \<Rightarrow> [d] | _ \<Rightarrow> []) @
               (case dget ''token_usage'' m of PDict d \<Rightarrow> [d] | _ \<Rightarrow> []) @
               [List.filter (\<lambda>(k, v). k = ''provider'' \<or> k = ''model_name'') m]
           | _ \<Rightarrow> [])
      | RawBody body \<Rightarrow>
          (case dget ''usage'' body of PDict d \<Rightarrow> [d] | _ \<Rightarrow> []) @
          (case dget ''provider'' body of PStr p \<Rightarrow> [[(''provider'', PStr p)]] | _ \<Rightarrow> []))"

text \<open>\<open>tot or _as_int(block[k])\<close> for the keys that are present, in order.\<close>

fun take_first :: "pydict \<Rightarrow> string list \<Rightarrow> int \<Rightarrow> int py" where
  "take_first block [] tot = Some tot"
| "take_first block (k # ks) tot =
     (if dget k block = PNone \<or> tot \<noteq> 0 then take_first block ks tot
      else do { i \<leftarrow> as_int (dget k block); take_first block ks i })"

text \<open>\<open>tot or _as_int(details.get(k))\<close> when \<open>details\<close> is a mapping.\<close>

definition take_detail :: "pydict \<Rightarrow> string \<Rightarrow> (pydict \<Rightarrow> pyval) \<Rightarrow> int \<Rightarrow> int py" where
  "take_detail block details f tot =
     (case dget details block of
        PDict d \<Rightarrow> if tot \<noteq> 0 then Some tot else as_int (f d)
      | _ \<Rightarrow> Some tot)"

definition valid_cost :: "pyval \<Rightarrow> pyfloat option" where
  "valid_cost v =
     (case py_float v of
        Some c \<Rightarrow> if c \<noteq> NaN \<and> float_cmp CmpGe c (Fin 0) \<and> c \<noteq> PosInf then Some c else None
      | None \<Rightarrow> None)"

definition read_block :: "canonical_usage_rec \<Rightarrow> pydict \<Rightarrow> canonical_usage_rec py" where
  "read_block usage block = do {
     i \<leftarrow> take_first block [''input_tokens'', ''prompt_tokens''] (input_tokens usage);
     t \<leftarrow> take_first block [''output_tokens'', ''completion_tokens''] (output_tokens usage);
     r1 \<leftarrow> take_detail block ''prompt_tokens_details'' (dget ''cached_tokens'') (cache_read_tokens usage);
     w1 \<leftarrow> take_detail block ''prompt_tokens_details'' (dget ''cache_write_tokens'') (cache_write_tokens usage);
     th1 \<leftarrow> take_detail block ''completion_tokens_details'' (dget ''reasoning_tokens'') (reasoning_tokens usage);
     r2 \<leftarrow> take_detail block ''input_token_details'' (dget ''cache_read'') r1;
     w2 \<leftarrow> take_detail block ''input_token_details'' (dget ''cache_creation'') w1;
     th2 \<leftarrow> take_detail block ''output_token_details''
             (\<lambda>d. py_or_else (dget ''reasoning'' d) (dget ''thinking_tokens'' d)) th1;
     Some \<lparr> input_tokens = i, output_tokens = t, cache_read_tokens = r2, cache_write_tokens = w2,
       reasoning_tokens = th2,
       actual_cost_usd = (case actual_cost_usd usage of Some c \<Rightarrow> Some c
                          | None \<Rightarrow> if dget ''cost'' block = PNone then None else valid_cost (dget ''cost'' block)),
       reported_provider = (case reported_provider usage of Some p \<Rightarrow> Some p
                            | None \<Rightarrow> (case dget ''provider'' block of PStr p \<Rightarrow> Some p | _ \<Rightarrow> None)) \<rparr> }"

fun read_blocks :: "canonical_usage_rec \<Rightarrow> pydict list \<Rightarrow> canonical_usage_rec py" where
  "read_blocks usage [] = Some usage"
| "read_blocks usage (b # bs) = do { u \<leftarrow> read_block usage b; read_blocks u bs }"

definition no_usage :: canonical_usage_rec where
  "no_usage = \<lparr> input_tokens = 0, output_tokens = 0, cache_read_tokens = 0, cache_write_tokens = 0,
     reasoning_tokens = 0, actual_cost_usd = None, reported_provider = None \<rparr>"

definition clamp_details :: "canonical_usage_rec \<Rightarrow> canonical_usage_rec" where
  "clamp_details usage =
     (let read = min (cache_read_tokens usage) (input_tokens usage)
      in usage \<lparr> cache_read_tokens := read,
                 cache_write_tokens := min (cache_write_tokens usage) (max 0 (input_tokens usage - read)),
                 reasoning_tokens := min (reasoning_tokens usage) (output_tokens usage) \<rparr>)"

definition canonical_usage :: "llm_response \<Rightarrow> canonical_usage_rec py" where
  "canonical_usage response = map_option clamp_details (read_blocks no_usage (usage_dicts response))"

subsection \<open>Counts are never negative\<close>

definition usage_ok :: "canonical_usage_rec \<Rightarrow> bool" where
  "usage_ok u \<longleftrightarrow> 0 \<le> input_tokens u \<and> 0 \<le> output_tokens u \<and> 0 \<le> cache_read_tokens u \<and>
     0 \<le> cache_write_tokens u \<and> 0 \<le> reasoning_tokens u \<and>
     (\<forall>c. actual_cost_usd u = Some c \<longrightarrow> (\<exists>q. c = Fin q \<and> 0 \<le> q))"

lemma as_int_nonneg: "as_int v = Some i \<Longrightarrow> 0 \<le> i"
  by (auto simp: as_int_def Let_def split: if_splits option.splits)

lemma take_first_nonneg: "take_first block ks t = Some i \<Longrightarrow> 0 \<le> t \<Longrightarrow> 0 \<le> i"
  by (induction ks arbitrary: t) (auto simp: bind_eq_Some_conv dest: as_int_nonneg split: if_splits)

lemma take_detail_nonneg: "take_detail block ds f t = Some i \<Longrightarrow> 0 \<le> t \<Longrightarrow> 0 \<le> i"
  by (auto simp: take_detail_def dest: as_int_nonneg split: pyval.splits if_splits)

lemma valid_cost_finite: "valid_cost v = Some c \<Longrightarrow> \<exists>q. c = Fin q \<and> 0 \<le> q"
  by (cases c) (auto simp: valid_cost_def float_cmp_def split: option.splits if_splits)

lemma cost_ok:
  "(case old of Some c \<Rightarrow> Some c | None \<Rightarrow> if v = PNone then None else valid_cost v) = Some c \<Longrightarrow>
   (\<forall>c. old = Some c \<longrightarrow> (\<exists>q. c = Fin q \<and> 0 \<le> q)) \<Longrightarrow> \<exists>q. c = Fin q \<and> 0 \<le> q"
  by (auto dest: valid_cost_finite split: option.splits if_splits)

lemma read_block_ok:
  assumes "read_block u b = Some u'" and "usage_ok u"
  shows "usage_ok u'"
proof -
  from assms(1) obtain i t r1 w1 th1 r2 w2 th2 where
    "take_first b [''input_tokens'', ''prompt_tokens''] (input_tokens u) = Some i"
    "take_first b [''output_tokens'', ''completion_tokens''] (output_tokens u) = Some t"
    "take_detail b ''prompt_tokens_details'' (dget ''cached_tokens'') (cache_read_tokens u) = Some r1"
    "take_detail b ''prompt_tokens_details'' (dget ''cache_write_tokens'') (cache_write_tokens u) = Some w1"
    "take_detail b ''completion_tokens_details'' (dget ''reasoning_tokens'') (reasoning_tokens u) = Some th1"
    "take_detail b ''input_token_details'' (dget ''cache_read'') r1 = Some r2"
    "take_detail b ''input_token_details'' (dget ''cache_creation'') w1 = Some w2"
    "take_detail b ''output_token_details''
             (\<lambda>d. py_or_else (dget ''reasoning'' d) (dget ''thinking_tokens'' d)) th1 = Some th2"
    and u': "input_tokens u' = i" "output_tokens u' = t" "cache_read_tokens u' = r2" "cache_write_tokens u' = w2"
      "reasoning_tokens u' = th2"
      "actual_cost_usd u' = (case actual_cost_usd u of Some c \<Rightarrow> Some c
          | None \<Rightarrow> if dget ''cost'' b = PNone then None else valid_cost (dget ''cost'' b))"
    unfolding read_block_def by (auto simp: bind_eq_Some_conv)
  note reads = this(1-8)
  have "0 \<le> i" using take_first_nonneg [OF reads(1)] assms(2) by (simp add: usage_ok_def)
  moreover have "0 \<le> t" using take_first_nonneg [OF reads(2)] assms(2) by (simp add: usage_ok_def)
  moreover have "0 \<le> r1" "0 \<le> w1" "0 \<le> th1"
    using reads(3-5) assms(2) by (auto simp: usage_ok_def dest: take_detail_nonneg)
  moreover from this have "0 \<le> r2" "0 \<le> w2" "0 \<le> th2" using reads(6-8) by (auto dest: take_detail_nonneg)
  moreover have "\<exists>q. c = Fin q \<and> 0 \<le> q" if "actual_cost_usd u' = Some c" for c
    by (rule cost_ok [OF that [unfolded u'(6)]]) (use assms(2) in \<open>simp add: usage_ok_def\<close>)
  ultimately show ?thesis unfolding usage_ok_def u'(1-5) by blast
qed

lemma read_blocks_ok: "read_blocks u bs = Some u' \<Longrightarrow> usage_ok u \<Longrightarrow> usage_ok u'"
  by (induction bs arbitrary: u) (auto simp: bind_eq_Some_conv dest: read_block_ok)

text \<open>No read raises where no infinity occurs.\<close>

definition no_inf :: "pydict \<Rightarrow> bool" where
  "no_inf d \<longleftrightarrow> (\<forall>k. dget k d \<noteq> PFloat PosInf \<and> dget k d \<noteq> PFloat NegInf)"

lemma as_int_total: "v \<noteq> PFloat PosInf \<Longrightarrow> v \<noteq> PFloat NegInf \<Longrightarrow> as_int v \<noteq> None"
  by (auto simp: as_int_def Let_def py_or_else_def split: option.splits)

lemma take_first_total:
  assumes "no_inf block"
  shows "\<exists>i. take_first block ks t = Some i"
proof (induction ks arbitrary: t)
  case (Cons k ks)
  from assms have "as_int (dget k block) \<noteq> None" by (intro as_int_total) (auto simp: no_inf_def)
  then obtain i where "as_int (dget k block) = Some i" by blast
  with Cons.IH show ?case by simp
qed simp

end
