(* ===== verification/Budget.thy ===== *)
theory Budget
  imports Pricing_Usage
begin

text \<open>
  The per-run cost budget (\<open>graph/budget.py\<close>): prices, the rates carried by the run's price
  snapshot, the cost of a call, the accumulation of usage in the run's state and the caps the
  supervisor consults. Money is an exact rational. The environment is a record of raw strings;
  decoding JSON text is the parameter \<open>json_loads\<close>.
\<close>

record budget_env =
  env_token_budget :: "string option"
  env_dollar_budget :: "string option"
  env_unknown_cost :: "string option"
  env_warn_ratio :: "string option"

subsection \<open>Prices\<close>

type_synonym rate_card = "(string \<times> pyfloat) list"

definition card :: "rat \<Rightarrow> rat \<Rightarrow> rate_card" where
  "card i t = [(''input'', Fin i), (''output'', Fin t)]"

definition MODEL_PRICES_PER_MTOK :: "(string \<times> rate_card) list" where
  "MODEL_PRICES_PER_MTOK =
     [(''claude-opus-4'', card 15 75), (''claude-opus-3'', card 15 75), (''claude-sonnet-4'', card 3 15),
      (''claude-3-5-sonnet'', card 3 15), (''claude-3-7-sonnet'', card 3 15), (''claude-haiku-4'', card 1 5),
      (''claude-haiku-4-5'', card 1 5), (''claude-3-5-haiku'', card (8/10) 4), (''claude-sonnet-4-6'', card 3 15),
      (''claude-opus-4-1'', card 15 75), (''gpt-4o-mini'', card (15/100) (6/10)), (''gpt-4o'', card (25/10) 10),
      (''gpt-4-turbo'', card 10 30), (''gpt-4'', card 30 60), (''o1-mini'', card 3 12), (''o1'', card 15 60)]"

definition UNKNOWN_MODEL_FALLBACK :: rate_card where
  "UNKNOWN_MODEL_FALLBACK = card 15 75"

definition ZERO_COST :: rate_card where
  "ZERO_COST = card 0 0"

definition unknown_model_cost :: "(string \<Rightarrow> pyval option) \<Rightarrow> budget_env \<Rightarrow> rate_card \<times> bool" where
  "unknown_model_cost json_loads env =
     (let raw = str_strip (case env_unknown_cost env of None \<Rightarrow> [] | Some s \<Rightarrow> s)
      in if raw = [] then (UNKNOWN_MODEL_FALLBACK, False)
         else if str_lower raw \<in> {''0'', ''zero'', ''free''} then (ZERO_COST, True)
         else case json_loads raw of
             Some (PDict d) \<Rightarrow>
               (case (map_of d ''input'', map_of d ''output'') of
                  (Some i, Some t) \<Rightarrow>
                    (case (py_float i, py_float t) of
                       (Some fi, Some ft) \<Rightarrow> ([(''input'', fi), (''output'', ft)], True)
                     | _ \<Rightarrow> (UNKNOWN_MODEL_FALLBACK, False))
                | _ \<Rightarrow> (UNKNOWN_MODEL_FALLBACK, False))
           | _ \<Rightarrow> (UNKNOWN_MODEL_FALLBACK, False))"

definition normalize_model :: "string option \<Rightarrow> (string \<times> rate_card) list \<Rightarrow> string" where
  "normalize_model model table =
     (case model of
        None \<Rightarrow> []
      | Some m \<Rightarrow> if m = [] then [] else if map_of table (strip_version m) \<noteq> None then strip_version m else m)"

subsection \<open>Budgets\<close>

definition token_budget_default :: "budget_env \<Rightarrow> int" where
  "token_budget_default env =
     (case env_token_budget env of
        None \<Rightarrow> 15000
      | Some raw \<Rightarrow> (case py_int_of_str raw of None \<Rightarrow> 15000 | Some v \<Rightarrow> if v > 0 then v else 15000))"

definition dollar_budget_default :: "budget_env \<Rightarrow> pyfloat" where
  "dollar_budget_default env =
     (case env_dollar_budget env of
        None \<Rightarrow> Fin 5
      | Some raw \<Rightarrow>
          (case py_float_of_str raw of
             None \<Rightarrow> Fin 5
           | Some v \<Rightarrow> if float_cmp CmpGt v (Fin 0) then v else Fin 5))"

definition ensure :: "budget_env \<Rightarrow> pydict \<Rightarrow> pydict" where
  "ensure env st =
     dsetdefault ''dollars_budget'' (PFloat (dollar_budget_default env))
      (dsetdefault ''dollars_used'' (PFloat (Fin 0))
       (dsetdefault ''tokens_budget'' (PInt (token_budget_default env))
        (dsetdefault ''tokens_used'' (PInt 0) st)))"

subsection \<open>Reading a response\<close>

definition int_or_zero :: "pyval \<Rightarrow> int py" where
  "int_or_zero v = py_int (py_or_else v (PInt 0))"

definition extract_usage :: "llm_response \<Rightarrow> (int \<times> int) py" where
  "extract_usage response =
     (case response of
        Message (PDict um) rm \<Rightarrow> do {
          i \<leftarrow> int_or_zero (dget ''input_tokens'' um);
          t \<leftarrow> int_or_zero (dget ''output_tokens'' um);
          Some (i, t) }
      | Message um (PDict rm) \<Rightarrow>
          (case py_or_else (py_or_else (dget ''usage'' rm) (dget ''token_usage'' rm)) (PDict []) of
             PDict u \<Rightarrow> do {
               i \<leftarrow> int_or_zero (py_or_else (dget ''input_tokens'' u) (dget ''prompt_tokens'' u));
               t \<leftarrow> int_or_zero (py_or_else (dget ''output_tokens'' u) (dget ''completion_tokens'' u));
               Some (i, t) }
           | _ \<Rightarrow> Some (0, 0))
      | _ \<Rightarrow> Some (0, 0))"

definition extract_cache_details :: "llm_response \<Rightarrow> (int \<times> int) py" where
  "extract_cache_details response =
     (case response of
        Message (PDict um) rm \<Rightarrow>
          (case get_dict ''input_token_details'' um of
             PDict d \<Rightarrow> do {
               r \<leftarrow> int_or_zero (dget ''cache_read'' d);
               w \<leftarrow> int_or_zero (dget ''cache_creation'' d);
               Some (r, w) }
           | _ \<Rightarrow> Some (0, 0))
      | _ \<Rightarrow> Some (0, 0))"

fun first_str :: "pydict \<Rightarrow> string list \<Rightarrow> string option" where
  "first_str d [] = None"
| "first_str d (k # ks) =
     (case dget k d of PStr s \<Rightarrow> if s = [] then first_str d ks else Some s | _ \<Rightarrow> first_str d ks)"

definition model_name :: "llm_response \<Rightarrow> string option" where
  "model_name response =
     (case response of
        Message um (PDict rm) \<Rightarrow> first_str rm [''model_name'', ''model'', ''model_id'']
      | _ \<Rightarrow> None)"

subsection \<open>The run's price snapshot\<close>

definition snapshot_entries :: "pydict \<Rightarrow> pydict list py" where
  "snapshot_entries snapshot =
     (case get_dict ''models'' snapshot of
        PDict d \<Rightarrow> Some (List.map_filter (\<lambda>(k, e). case e of PDict e \<Rightarrow> Some e | _ \<Rightarrow> None) d)
      | _ \<Rightarrow> None)"

fun source_of :: "string \<Rightarrow> pydict list \<Rightarrow> pyval py" where
  "source_of model [] = Some PNone"
| "source_of model (e # es) = do {
     candidate \<leftarrow> py_str (py_or_else (dget ''model'' e) (PStr []));
     if candidate = model \<or> strip_version candidate = strip_version model then Some (dget ''source'' e)
     else source_of model es }"

definition snapshot_source :: "pydict \<Rightarrow> string option \<Rightarrow> pyval py" where
  "snapshot_source st model =
     (case (dget ''price_snapshot'' st, model) of
        (PDict snapshot, Some m) \<Rightarrow>
          (if m = [] then Some PNone else do { es \<leftarrow> snapshot_entries snapshot; source_of m es })
      | _ \<Rightarrow> Some PNone)"

fun add_rates :: "pydict \<Rightarrow> (string \<times> string) list \<Rightarrow> rate_card \<Rightarrow> rate_card" where
  "add_rates entry [] rates = rates"
| "add_rates entry ((k, out) # ks) rates =
     (if dget k entry = PNone then add_rates entry ks rates
      else case py_float (dget k entry) of
          None \<Rightarrow> add_rates entry ks rates
        | Some x \<Rightarrow> add_rates entry ks (dset out x rates))"

definition rates_from_entry :: "pydict \<Rightarrow> rate_card option" where
  "rates_from_entry entry =
     (if dget ''source'' entry = PStr ''unknown'' then None
      else case (map_of entry ''input_per_mtok'', map_of entry ''output_per_mtok'') of
          (Some i, Some t) \<Rightarrow>
            (case (py_float i, py_float t) of
               (Some fi, Some ft) \<Rightarrow>
                 Some (add_rates entry
                   [(''cache_read_per_mtok'', ''cache_read''), (''cache_write_per_mtok'', ''cache_write''),
                    (''reasoning_per_mtok'', ''reasoning'')]
                   [(''input'', fi), (''output'', ft)])
             | _ \<Rightarrow> None)
        | _ \<Rightarrow> None)"

fun matching_entries :: "string \<Rightarrow> pydict list \<Rightarrow> pydict list py" where
  "matching_entries model [] = Some []"
| "matching_entries model (e # es) = do {
     rest \<leftarrow> matching_entries model es;
     let candidate = dget ''model'' e;
     if \<not> truthy candidate then Some rest
     else if candidate = PStr model then Some (e # rest)
     else do {
       s \<leftarrow> py_str candidate;
       Some (if strip_version s = strip_version model then e # rest else rest) } }"

text \<open>Equality of two rate cards, as dictionaries.\<close>

definition same_rates :: "rate_card \<Rightarrow> rate_card \<Rightarrow> bool" where
  "same_rates a b \<longleftrightarrow> length a = length b \<and>
     list_all (\<lambda>(k, x). case map_of b k of None \<Rightarrow> False | Some y \<Rightarrow> float_eq x y) a"

text \<open>No snapshot rate, the empty sentinel of a model resolved as unknown, or a rate card.\<close>

definition snapshot_rates :: "pydict \<Rightarrow> string option \<Rightarrow> rate_card option py" where
  "snapshot_rates st model =
     (case (dget ''price_snapshot'' st, model) of
        (PDict snapshot, Some m) \<Rightarrow>
          (if m = [] then Some None
           else do {
             es \<leftarrow> snapshot_entries snapshot;
             ms \<leftarrow> matching_entries m es;
             Some (if ms = [] then None
                   else if list_all (\<lambda>e. dget ''source'' e = PStr ''unknown'') ms then Some []
                   else case List.map_filter rates_from_entry ms of
                       [] \<Rightarrow> None
                     | r # rs \<Rightarrow> if list_ex (\<lambda>s. \<not> same_rates s r) rs then None else Some r) })
      | _ \<Rightarrow> Some None)"

subsection \<open>The cost of a call\<close>

definition rate :: "rate_card \<Rightarrow> string \<Rightarrow> pyfloat" where
  "rate price k = (case map_of price k of None \<Rightarrow> NaN | Some x \<Rightarrow> x)"

definition rate_or :: "rate_card \<Rightarrow> string \<Rightarrow> pyfloat \<Rightarrow> pyfloat" where
  "rate_or price k d = (case map_of price k of None \<Rightarrow> d | Some x \<Rightarrow> x)"

definition per_mtok :: "int \<Rightarrow> pyfloat \<Rightarrow> pyfloat" where
  "per_mtok n r = float_mul (Fin (of_int n / 1000000)) r"

text \<open>The card a call is priced with: snapshot, table, or the unknown-model policy.\<close>

definition effective_price ::
    "(string \<Rightarrow> pyval option) \<Rightarrow> budget_env \<Rightarrow> string option \<Rightarrow> rate_card option \<Rightarrow> rate_card" where
  "effective_price json_loads env model rates =
     (let price = (case rates of
            Some r \<Rightarrow> r
          | None \<Rightarrow> (case map_of MODEL_PRICES_PER_MTOK (normalize_model model MODEL_PRICES_PER_MTOK) of
                      None \<Rightarrow> [] | Some p \<Rightarrow> p))
      in if price = [] then fst (unknown_model_cost json_loads env) else price)"

definition cost_dollars ::
    "(string \<Rightarrow> pyval option) \<Rightarrow> budget_env \<Rightarrow> int \<Rightarrow> int \<Rightarrow> string option \<Rightarrow> int \<Rightarrow> int \<Rightarrow> int \<Rightarrow> rate_card option
     \<Rightarrow> pyfloat" where
  "cost_dollars json_loads env input output model cache_read cache_creation reasoning rates =
     (let price = effective_price json_loads env model rates;
          read = min (max cache_read 0) input;
          write = min (max cache_creation 0) (input - read);
          uncached = input - read - write;
          read_rate = rate_or price ''cache_read'' (float_mul (rate price ''input'') (Fin (1 / 10)));
          write_rate = rate_or price ''cache_write'' (float_mul (rate price ''input'') (Fin (125 / 100)));
          think = min (max reasoning 0) output;
          think_rate = rate_or price ''reasoning'' (rate price ''output'');
          plain = output - think
      in float_add (float_add (float_add (float_add
           (per_mtok uncached (rate price ''input'')) (per_mtok read read_rate))
           (per_mtok write write_rate)) (per_mtok plain (rate price ''output'')))
           (per_mtok think think_rate))"

subsection \<open>Accumulation\<close>

text \<open>\<open>a or b\<close> on counts.\<close>

definition nz :: "int \<Rightarrow> int \<Rightarrow> int" where
  "nz a b = (if a \<noteq> 0 then a else b)"

definition price_source_of :: "pydict \<Rightarrow> string option \<Rightarrow> pyval py" where
  "price_source_of st model = do {
     src \<leftarrow> snapshot_source st model;
     Some (if truthy src then src
           else if map_of MODEL_PRICES_PER_MTOK (normalize_model model MODEL_PRICES_PER_MTOK) \<noteq> None
             then PStr ''builtin'' else PStr ''unknown'') }"

text \<open>What a call cost, on which basis, and which rate card said so.\<close>

definition price_call ::
    "(string \<Rightarrow> pyval option) \<Rightarrow> budget_env \<Rightarrow> llm_response \<Rightarrow> canonical_usage_rec \<Rightarrow> int \<Rightarrow> int \<Rightarrow> int \<Rightarrow> int
     \<Rightarrow> pydict \<Rightarrow> (pyfloat \<times> string \<times> pyval) py" where
  "price_call json_loads env response usage i t cache_read cache_creation st =
     (case actual_cost_usd usage of
        Some c \<Rightarrow> Some (c, ''provider_reported'', PStr ''provider'')
      | None \<Rightarrow> do {
          rates \<leftarrow> snapshot_rates st (model_name response);
          src \<leftarrow> price_source_of st (model_name response);
          Some (cost_dollars json_loads env i t (model_name response) cache_read cache_creation
                  (reasoning_tokens usage) rates, ''estimated'', src) })"

text \<open>Adding a priced call to the run's meters.\<close>

definition record_call ::
    "int \<Rightarrow> pyfloat \<Rightarrow> string \<Rightarrow> pyval \<Rightarrow> int \<Rightarrow> int \<Rightarrow> pydict \<Rightarrow> (int \<times> pydict) py" where
  "record_call delta_tokens delta_dollars basis source cache_read cache_creation st = do {
     tu \<leftarrow> py_int (dget ''tokens_used'' st);
     du \<leftarrow> py_float (dget ''dollars_used'' st);
     let st1 = dset ''dollars_used'' (PFloat (float_add du delta_dollars))
               (dset ''tokens_used'' (PInt (tu + delta_tokens))
                (dset ''price_source'' source (dset ''cost_basis'' (PStr basis) st)));
     dn \<leftarrow> (if source = PStr ''unknown'' then py_float (dget_default ''dollars_unpriced'' (PFloat (Fin 0)) st1)
           else Some (Fin 0));
     let st2 = (if source = PStr ''unknown'' then dset ''dollars_unpriced'' (PFloat (float_add dn delta_dollars)) st1
                else st1);
     cr \<leftarrow> py_int (dget_default ''cache_read_tokens'' (PInt 0) st2);
     cc \<leftarrow> py_int (dget_default ''cache_creation_tokens'' (PInt 0) st2);
     Some (tu + delta_tokens,
       dset ''cache_creation_tokens'' (PInt (cc + cache_creation))
        (dset ''cache_read_tokens'' (PInt (cr + cache_read)) st2)) }"

definition track ::
    "(string \<Rightarrow> pyval option) \<Rightarrow> budget_env \<Rightarrow> llm_response \<Rightarrow> pydict \<Rightarrow> (int \<times> pydict) py" where
  "track json_loads env response st0 = do {
     let st = ensure env st0;
     usage \<leftarrow> canonical_usage response;
     (i0, t0) \<leftarrow> extract_usage response;
     let i = (if i0 = 0 \<and> t0 = 0 then input_tokens usage else i0);
     let t = (if i0 = 0 \<and> t0 = 0 then output_tokens usage else t0);
     (legacy_read, legacy_write) \<leftarrow> extract_cache_details response;
     let cache_read = nz (cache_read_tokens usage) legacy_read;
     let cache_creation = nz (cache_write_tokens usage) legacy_write;
     (delta_dollars, basis, source) \<leftarrow> price_call json_loads env response usage i t cache_read cache_creation st;
     record_call (i + t) delta_dollars basis source cache_read cache_creation st }"

subsection \<open>Enforcement\<close>

definition cost_tracking_off :: "pydict \<Rightarrow> bool" where
  "cost_tracking_off st =
     (case dget ''price_snapshot'' st of
        PDict snapshot \<Rightarrow> dget ''cost_tracking'' snapshot = PBool False
      | _ \<Rightarrow> False)"

definition enforceable_dollars :: "pydict \<Rightarrow> pyfloat py" where
  "enforceable_dollars st = do {
     tot \<leftarrow> py_float (dget_default ''dollars_used'' (PFloat (Fin 0)) st);
     un \<leftarrow> py_float (dget_default ''dollars_unpriced'' (PFloat (Fin 0)) st);
     Some (float_max (Fin 0) (float_sub tot un)) }"

text \<open>Both return the state, which \<open>ensure\<close> may extend.\<close>

definition over_budget :: "budget_env \<Rightarrow> pydict \<Rightarrow> (bool \<times> pydict) py" where
  "over_budget env st = do {
     let st = ensure env st;
     tu \<leftarrow> py_int (dget ''tokens_used'' st);
     tb \<leftarrow> py_int (dget ''tokens_budget'' st);
     if tb \<le> tu then Some (True, st)
     else if cost_tracking_off st then Some (False, st)
     else do {
       d \<leftarrow> enforceable_dollars st;
       db \<leftarrow> py_float (dget ''dollars_budget'' st);
       Some (float_cmp CmpGe d db, st) } }"

definition soft_warn_ratio :: "budget_env \<Rightarrow> pyfloat" where
  "soft_warn_ratio env =
     (let raw = (case env_warn_ratio env of None \<Rightarrow> [] | Some s \<Rightarrow> s)
      in if str_strip raw = [] then Fin (75 / 100)
         else case py_float_of_str raw of
             None \<Rightarrow> Fin (75 / 100)
           | Some r \<Rightarrow> if float_cmp CmpLt (Fin 0) r \<and> float_cmp CmpLt r (Fin 1) then r else Fin (75 / 100))"

definition crossed_soft_warn :: "budget_env \<Rightarrow> pydict \<Rightarrow> (bool \<times> pydict) py" where
  "crossed_soft_warn env st0 = do {
     (over, st) \<leftarrow> over_budget env st0;
     if over then Some (False, st)
     else do {
       let r = soft_warn_ratio env;
       tu \<leftarrow> py_int (dget ''tokens_used'' st);
       tb \<leftarrow> py_int (dget ''tokens_budget'' st);
       if float_cmp CmpGe (Fin (of_int tu)) (float_mul r (Fin (of_int tb))) then Some (True, st)
       else do {
         d \<leftarrow> enforceable_dollars st;
         db \<leftarrow> py_float (dget ''dollars_budget'' st);
         Some (float_cmp CmpGe d (float_mul r db), st) } } }"

text \<open>\<open>f"{q:.nf}"\<close> on a non-negative rational: rounded half to even, with n decimals.\<close>

definition round_half_even :: "rat \<Rightarrow> int" where
  "round_half_even q =
     (let f = \<lfloor>q\<rfloor>; r = q - of_int f
      in if r < 1 / 2 then f else if 1 / 2 < r then f + 1 else if even f then f else f + 1)"

definition pad_left :: "nat \<Rightarrow> string \<Rightarrow> string" where
  "pad_left n s = replicate (n - length s) CHR ''0'' @ s"

definition fmt_fixed :: "nat \<Rightarrow> pyfloat \<Rightarrow> string" where
  "fmt_fixed n x =
     (case x of
        Fin q \<Rightarrow>
          (let m = round_half_even (abs q * 10 ^ n); d = 10 ^ n
           in (if q < 0 then ''-'' else []) @ show_int (m div d) @ ''.'' @ pad_left n (show_int (m mod d)))
      | PosInf \<Rightarrow> ''inf'' | NegInf \<Rightarrow> ''-inf'' | NaN \<Rightarrow> ''nan'')"

definition fmt_dollars :: "pyfloat \<Rightarrow> string" where
  "fmt_dollars value =
     ''$'' @ fmt_fixed (case value of Fin q \<Rightarrow> if q \<noteq> 0 \<and> abs q < 1 / 100 then 6 else 2 | _ \<Rightarrow> 2) value"

fun join_parts :: "string list \<Rightarrow> string" where
  "join_parts [] = []"
| "join_parts [p] = p"
| "join_parts (p # ps) = p @ ''; '' @ join_parts ps"

definition budget_reason :: "budget_env \<Rightarrow> pydict \<Rightarrow> string py" where
  "budget_reason env st0 = do {
     let st = ensure env st0;
     tu \<leftarrow> py_int (dget ''tokens_used'' st);
     tb \<leftarrow> py_int (dget ''tokens_budget'' st);
     tus \<leftarrow> (if tb \<le> tu then py_str (dget ''tokens_used'' st) else Some []);
     tbs \<leftarrow> (if tb \<le> tu then py_str (dget ''tokens_budget'' st) else Some []);
     d \<leftarrow> enforceable_dollars st;
     db \<leftarrow> py_float (dget ''dollars_budget'' st);
     un \<leftarrow> py_float (dget_default ''dollars_unpriced'' (PFloat (Fin 0)) st);
     let parts = (if tb \<le> tu then [''tokens='' @ tus @ ''/'' @ tbs] else []) @
                 (if float_cmp CmpGe d db then [''dollars='' @ fmt_dollars d @ ''/'' @ fmt_dollars db] else []) @
                 (if un \<noteq> Fin 0 then [''unpriced='' @ fmt_dollars un @ '' (not enforced)''] else []);
     Some (if parts = [] then ''within budget'' else join_parts parts) }"

end
