(* ===== verification/Budget_Correct.thy ===== *)
theory Budget_Correct
  imports Budget
begin

text \<open>
  What usage accounting and the budget promise: parts never exceed totals, a call's cost is
  bounded by its counts, unpriced spend never halts a run, and a halt is final.
\<close>

subsection \<open>Usage\<close>

lemma canonical_usage_bounds:
  assumes "canonical_usage response = Some u"
  shows "usage_ok u \<and> cache_read_tokens u + cache_write_tokens u \<le> input_tokens u \<and>
    reasoning_tokens u \<le> output_tokens u"
proof -
  from assms obtain u0 where u0: "read_blocks no_usage (usage_dicts response) = Some u0" "u = clamp_details u0"
    by (auto simp: canonical_usage_def)
  have "usage_ok no_usage" by (simp add: usage_ok_def no_usage_def)
  with u0(1) have "usage_ok u0" by (rule read_blocks_ok)
  then show ?thesis by (auto simp: u0(2) clamp_details_def usage_ok_def Let_def min_def max_def)
qed

lemmas canonical_usage_ok = canonical_usage_bounds [THEN conjunct1]

text \<open>
  Canonical usage is consistent whatever a provider reports: counts are never negative, the
  cache reads and writes together never exceed the input, reasoning never exceeds the output,
  and a reported cost is finite and non-negative.
\<close>

theorem canonical_usage_consistent:
  assumes "canonical_usage response = Some u"
  shows "0 \<le> cache_read_tokens u \<and> 0 \<le> cache_write_tokens u \<and> 0 \<le> reasoning_tokens u \<and>
    cache_read_tokens u + cache_write_tokens u \<le> input_tokens u \<and>
    reasoning_tokens u \<le> output_tokens u \<and>
    (\<forall>c. actual_cost_usd u = Some c \<longrightarrow> (\<exists>q. c = Fin q \<and> 0 \<le> q))"
  using canonical_usage_bounds [OF assms] by (auto simp: usage_ok_def)

text \<open>
  Reading a response's usage can raise: a provider that reports an infinite count makes the
  conversion overflow, which the reader does not catch.
\<close>

theorem canonical_usage_raises_on_infinity:
  "canonical_usage (RawBody [(''usage'', PDict [(''prompt_tokens'', PFloat PosInf)])]) = None"
  by code_simp

subsection \<open>Model names\<close>

lemma last_n_append: "length v = n \<Longrightarrow> last_n n (u @ v) = v"
  by (simp add: last_n_def)

definition version_suffix :: "string \<Rightarrow> bool" where
  "version_suffix v \<longleftrightarrow> date8_suffix v \<or> iso_suffix v \<or> v = ''-latest''"

lemma list_of_length_11:
  assumes "length v = 11"
  obtains a b c d e f g h i j k where "v = [a, b, c, d, e, f, g, h, i, j, k]"
proof -
  have "\<exists>a b c d e f g h i j k. v = [a, b, c, d, e, f, g, h, i, j, k]"
    using assms by (simp add: numeral_eq_Suc length_Suc_conv) blast
  with that show thesis by blast
qed

lemma strip_end_date8: "date8_suffix v \<Longrightarrow> strip_end (m @ v) = m"
  by (simp add: strip_end_def last_n_append date8_suffix_def)

lemma strip_end_iso:
  assumes "iso_suffix v"
  shows "strip_end (m @ v) = m"
proof -
  have l: "length v = 11" using assms by (simp add: iso_suffix_def)
  then have e: "last_n 11 (m @ v) = v" by (simp add: last_n_append)
  have n: "last_n 9 (m @ v) = drop 2 v" using l by (simp add: last_n_def)
  obtain a b c d e f g h i j k where v: "v = [a, b, c, d, e, f, g, h, i, j, k]"
    using l by (rule list_of_length_11)
  have "is_digit (hd (drop 2 v))" using assms by (simp add: v iso_suffix_def)
  then have "\<not> date8_suffix (drop 2 v)" by (auto simp: date8_suffix_def is_digit_def)
  then show ?thesis using e n l assms by (simp add: strip_end_def)
qed

lemma strip_end_latest: "strip_end (m @ ''-latest'') = m"
proof -
  have "last_n 9 (m @ ''-latest'') = drop (length m - 2) m @ ''-latest''"
    and "last_n 11 (m @ ''-latest'') = drop (length m - 4) m @ ''-latest''"
    and "last_n 7 (m @ ''-latest'') = ''-latest''"
    by (simp_all add: last_n_def)
  moreover have "\<not> list_all is_digit (tl (u @ ''-latest''))" for u
    by (cases u) (simp_all add: is_digit_def)
  moreover have "\<not> list_all is_digit (drop 9 (drop (length m - 4) m @ ''-latest''))"
    if "length (drop (length m - 4) m @ ''-latest'') = 11"
    using that by (simp add: is_digit_def)
  ultimately show ?thesis by (auto simp: strip_end_def date8_suffix_def iso_suffix_def)
qed

lemma version_suffix_no_newline:
  assumes "version_suffix v"
  shows "v \<noteq> [] \<and> last v \<noteq> CHR 0x0A"
proof -
  have d: "is_digit c \<Longrightarrow> c \<noteq> CHR 0x0A" for c by (auto simp: is_digit_def)
  consider "date8_suffix v" | "iso_suffix v" | "v = ''-latest''"
    using assms by (auto simp: version_suffix_def)
  then show ?thesis
  proof cases
    case 1
    then have "tl v \<noteq> []" and "v \<noteq> []" and "\<forall>c \<in> set (tl v). is_digit c"
      by (auto simp: date8_suffix_def list_all_iff simp flip: length_greater_0_conv)
    then show ?thesis using d last_tl last_in_set by metis
  next
    case 2
    then have l: "length v = 11" by (simp add: iso_suffix_def)
    obtain a b c d' e f g h i j k where "v = [a, b, c, d', e, f, g, h, i, j, k]"
      using l by (rule list_of_length_11)
    then show ?thesis using 2 d by (auto simp: iso_suffix_def)
  qed simp
qed

lemma strip_version_suffix: "version_suffix v \<Longrightarrow> strip_version (m @ v) = m"
  using version_suffix_no_newline [of v]
  by (auto simp: strip_version_def version_suffix_def strip_end_date8 strip_end_iso strip_end_latest)

text \<open>
  Pinning a dated model identifier does not change its price: an identifier in the table keeps
  its entry under either date style and under the alias suffix.
\<close>

theorem dated_model_keeps_price:
  assumes "map_of MODEL_PRICES_PER_MTOK m = Some p" and "version_suffix v"
  shows "map_of MODEL_PRICES_PER_MTOK (normalize_model (Some (m @ v)) MODEL_PRICES_PER_MTOK) = Some p"
  using assms version_suffix_no_newline [OF assms(2)]
  by (simp add: normalize_model_def strip_version_suffix)

text \<open>
  Stripping a version suffix is not idempotent, and so neither is the family identifier: a name
  that ends in two suffixes loses one at a time.
\<close>

theorem base_model_id_not_idempotent:
  "base_model_id (Some ''gpt-4o-latest-20240806'') = ''gpt-4o-latest'' \<and>
   base_model_id (Some (base_model_id (Some ''gpt-4o-latest-20240806''))) = ''gpt-4o''"
  by code_simp

subsection \<open>The cost of a call\<close>

definition card_ok :: "rate_card \<Rightarrow> bool" where
  "card_ok p \<longleftrightarrow> map_of p ''input'' \<noteq> None \<and> map_of p ''output'' \<noteq> None \<and>
     (\<forall>k x. map_of p k = Some x \<longrightarrow> (\<exists>q. x = Fin q \<and> 0 \<le> q))"

lemma card_ok_rate: "card_ok p \<Longrightarrow> k \<in> {''input'', ''output''} \<Longrightarrow> \<exists>q. rate p k = Fin q \<and> 0 \<le> q"
  by (fastforce simp: card_ok_def rate_def split: option.splits)

lemma card_ok_rate_or: "card_ok p \<Longrightarrow> 0 \<le> d \<Longrightarrow> \<exists>q. rate_or p k (Fin d) = Fin q \<and> 0 \<le> q"
  by (auto simp: card_ok_def rate_or_def split: option.splits)

lemma per_mtok_nonneg: "0 \<le> n \<Longrightarrow> 0 \<le> q \<Longrightarrow> \<exists>c. per_mtok n (Fin q) = Fin c \<and> 0 \<le> c"
  by (intro exI [of _ "of_int n / 1000000 * q"]) (simp add: per_mtok_def)

lemma cost_nonneg:
  assumes "card_ok (effective_price json_loads env model rates)" and "0 \<le> i" and "0 \<le> t"
  shows "\<exists>q. cost_dollars json_loads env i t model cr cc rs rates = Fin q \<and> 0 \<le> q"
proof -
  let ?p = "effective_price json_loads env model rates"
  obtain a b where a: "rate ?p ''input'' = Fin a" "0 \<le> a" and b: "rate ?p ''output'' = Fin b" "0 \<le> b"
    using card_ok_rate [OF assms(1), of "''input''"] card_ok_rate [OF assms(1), of "''output''"] by auto
  obtain r where r: "rate_or ?p ''cache_read'' (Fin (a / 10)) = Fin r" "0 \<le> r"
    using card_ok_rate_or [OF assms(1), of "a / 10" "''cache_read''"] a by auto
  obtain w where w: "rate_or ?p ''cache_write'' (Fin (a * 5 / 4)) = Fin w" "0 \<le> w"
    using card_ok_rate_or [OF assms(1), of "a * 5 / 4" "''cache_write''"] a by auto
  obtain th where th: "rate_or ?p ''reasoning'' (Fin b) = Fin th" "0 \<le> th"
    using card_ok_rate_or [OF assms(1), of b "''reasoning''"] b by auto
  have n: "0 \<le> i - min (max cr 0) i - min (max cc 0) (i - min (max cr 0) i)" "0 \<le> min (max cr 0) i"
    "0 \<le> min (max cc 0) (i - min (max cr 0) i)" "0 \<le> t - min (max rs 0) t" "0 \<le> min (max rs 0) t"
    using assms(2,3) by auto
  show ?thesis
    using per_mtok_nonneg [OF n(1) a(2)] per_mtok_nonneg [OF n(2) r(2)] per_mtok_nonneg [OF n(3) w(2)]
      per_mtok_nonneg [OF n(4) b(2)] per_mtok_nonneg [OF n(5) th(2)]
    by (auto simp: cost_dollars_def Let_def a b r w th)
qed

text \<open>
  A call priced by a plain card costs at least nothing and at most its whole input at the cache-
  write rate plus its whole output, whatever split the provider reports: a cached token is never
  billed twice.
\<close>

theorem cost_bounded:
  assumes "effective_price json_loads env model rates = card a b"
    and "0 \<le> a" and "0 \<le> b" and "0 \<le> i" and "0 \<le> t"
  shows "\<exists>q. cost_dollars json_loads env i t model cr cc rs rates = Fin q \<and> 0 \<le> q \<and>
    q \<le> (of_int i * (a * (125 / 100)) + of_int t * b) / 1000000"
proof -
  have ok: "card_ok (effective_price json_loads env model rates)"
    using assms(2,3) by (auto simp: assms(1) card_ok_def card_def split: if_splits)
  from cost_nonneg [OF ok assms(4,5)] obtain q where
    q: "cost_dollars json_loads env i t model cr cc rs rates = Fin q" "0 \<le> q" by blast
  define rd where "rd = min (max cr 0) i"
  define wr where "wr = min (max cc 0) (i - rd)"
  define th where "th = min (max rs 0) t"
  have bounds: "0 \<le> rd" "0 \<le> wr" "rd + wr \<le> i"
    using assms(4,5) by (auto simp: rd_def wr_def)
  have "q = (of_int (i - rd - wr) / 1000000) * a + (of_int rd / 1000000) * (a * (1 / 10))
      + (of_int wr / 1000000) * (a * (125 / 100)) + (of_int (t - th) / 1000000) * b + (of_int th / 1000000) * b"
    using q(1) by (simp add: cost_dollars_def Let_def assms(1) card_def rate_def rate_or_def per_mtok_def
        rd_def wr_def th_def)
  also have "\<dots> = (of_int i * a + of_int rd * (a * (1 / 10) - a) + of_int wr * (a * (25 / 100)) + of_int t * b) / 1000000"
    by (simp add: field_simps)
  also have "\<dots> \<le> (of_int i * (a * (125 / 100)) + of_int t * b) / 1000000"
  proof -
    have "of_int rd * (a * (1 / 10) - a) \<le> 0"
      using bounds(1) assms(2) by (intro mult_nonneg_nonpos) auto
    moreover have "(of_int wr :: rat) * (a * (25 / 100)) \<le> of_int i * (a * (25 / 100))"
      using bounds assms(2) by (intro mult_right_mono) auto
    ultimately show ?thesis by (simp add: field_simps)
  qed
  finally show ?thesis using q by blast
qed

subsection \<open>Enforcement\<close>

text \<open>A state whose meters are numbers and whose unpriced spend is part of the spend.\<close>

definition metered :: "pydict \<Rightarrow> int \<Rightarrow> int \<Rightarrow> rat \<Rightarrow> pyfloat \<Rightarrow> rat \<Rightarrow> bool" where
  "metered st tu tb du db un \<longleftrightarrow>
     map_of st ''tokens_used'' = Some (PInt tu) \<and> map_of st ''tokens_budget'' = Some (PInt tb) \<and>
     map_of st ''dollars_used'' = Some (PFloat (Fin du)) \<and> map_of st ''dollars_budget'' = Some (PFloat db) \<and>
     dget_default ''dollars_unpriced'' (PFloat (Fin 0)) st = PFloat (Fin un)"

lemma ensure_metered [simp]: "metered st tu tb du db un \<Longrightarrow> ensure env st = st"
  by (simp add: metered_def ensure_def dsetdefault_def)

lemma over_budget_metered:
  assumes "metered st tu tb du db un"
  shows "over_budget env st =
    Some (tb \<le> tu \<or> (\<not> cost_tracking_off st \<and> float_cmp CmpGe (float_max (Fin 0) (Fin (du - un))) db), st)"
proof -
  have m: "dget ''tokens_used'' st = PInt tu" "dget ''tokens_budget'' st = PInt tb"
    "dget ''dollars_budget'' st = PFloat db" "dget_default ''dollars_used'' (PFloat (Fin 0)) st = PFloat (Fin du)"
    "dget_default ''dollars_unpriced'' (PFloat (Fin 0)) st = PFloat (Fin un)"
    using assms by (simp_all add: metered_def dget_def dget_default_def)
  show ?thesis
    unfolding over_budget_def ensure_metered [OF assms] Let_def
    by (simp add: m enforceable_dollars_def float_sub_def)
qed

text \<open>One tracked call: what it adds to the meters.\<close>

lemma record_metered:
  assumes "metered st tu tb du db un"
    and "record_call dt (Fin c) basis source cr cc st = Some (n, st')"
  shows "n = tu + dt \<and> metered st' (tu + dt) tb (du + c) db (if source = PStr ''unknown'' then un + c else un)
    \<and> dget ''price_snapshot'' st' = dget ''price_snapshot'' st"
proof -
  have m: "dget ''tokens_used'' st = PInt tu" "dget ''dollars_used'' st = PFloat (Fin du)"
    "dget_default ''dollars_unpriced'' (PFloat (Fin 0)) st = PFloat (Fin un)"
    using assms(1) by (simp_all add: metered_def dget_def)
  show ?thesis
  proof (cases "source = PStr ''unknown''")
    case True
    with assms show ?thesis
      by (auto simp: record_call_def m Let_def bind_eq_Some_conv metered_def)
  next
    case False
    with assms show ?thesis
      by (auto simp: record_call_def m Let_def bind_eq_Some_conv metered_def)
  qed
qed

lemma price_call_nonneg:
  assumes "price_call json_loads env response u i t cr cc st = Some (x, basis, source)"
    and "canonical_usage response = Some u" and "0 \<le> i" and "0 \<le> t"
    and "\<And>rates. snapshot_rates st (model_name response) = Some rates \<Longrightarrow>
           card_ok (effective_price json_loads env (model_name response) rates)"
  shows "\<exists>c. x = Fin c \<and> 0 \<le> c"
proof (cases "actual_cost_usd u")
  case None
  with assms(1) obtain rates where "snapshot_rates st (model_name response) = Some rates"
    and x: "x = cost_dollars json_loads env i t (model_name response) cr cc (reasoning_tokens u) rates"
    by (auto simp: price_call_def bind_eq_Some_conv)
  from cost_nonneg [OF assms(5) [OF this(1)] assms(3,4)] show ?thesis unfolding x .
next
  case (Some c)
  with assms(1,2) canonical_usage_ok [of response u] show ?thesis by (auto simp: price_call_def usage_ok_def)
qed

lemma track_metered:
  assumes "metered st tu tb du db un"
    and "track json_loads env response st = Some (n, st')"
    and "extract_usage response = Some (i, t)" and "0 \<le> i" and "0 \<le> t"
    and "\<And>rates. snapshot_rates st (model_name response) = Some rates \<Longrightarrow>
           card_ok (effective_price json_loads env (model_name response) rates)"
  shows "\<exists>dt c g. 0 \<le> dt \<and> 0 \<le> c \<and> (g = c \<or> g = 0) \<and> metered st' (tu + dt) tb (du + c) db (un + g)
    \<and> dget ''price_snapshot'' st' = dget ''price_snapshot'' st"
proof -
  from assms(2) obtain u lr lw x basis source where u: "canonical_usage response = Some u"
    and pc: "price_call json_loads env response u (if i = 0 \<and> t = 0 then input_tokens u else i)
      (if i = 0 \<and> t = 0 then output_tokens u else t) (nz (cache_read_tokens u) lr) (nz (cache_write_tokens u) lw) st
      = Some (x, basis, source)"
    and rc: "record_call ((if i = 0 \<and> t = 0 then input_tokens u else i) + (if i = 0 \<and> t = 0 then output_tokens u else t))
      x basis source (nz (cache_read_tokens u) lr) (nz (cache_write_tokens u) lw) st = Some (n, st')"
    unfolding track_def ensure_metered [OF assms(1)] Let_def assms(3)
    by (auto simp: bind_eq_Some_conv split: if_splits)
  have pos: "0 \<le> (if i = 0 \<and> t = 0 then input_tokens u else i)" "0 \<le> (if i = 0 \<and> t = 0 then output_tokens u else t)"
    using canonical_usage_ok [OF u] assms(4,5) by (auto simp: usage_ok_def)
  from price_call_nonneg [OF pc u pos assms(6)] obtain c where c: "x = Fin c" "0 \<le> c" by blast
  from record_metered [OF assms(1) rc [unfolded c(1)]] pos c(2) show ?thesis
    by (intro exI [of _ "(if i = 0 \<and> t = 0 then input_tokens u else i) + (if i = 0 \<and> t = 0 then output_tokens u else t)"]
        exI [of _ c] exI [of _ "if source = PStr ''unknown'' then c else 0"]) auto
qed


text \<open>
  Spend priced by guesswork never halts a run: recording a call whose price is unknown leaves
  the enforceable dollars as they were, while the total shows the spend.
\<close>

theorem unpriced_spend_not_enforced:
  assumes "metered st tu tb du db un"
    and "record_call dt (Fin c) basis (PStr ''unknown'') cr cc st = Some (n, st')"
  shows "enforceable_dollars st' = enforceable_dollars st \<and> dget ''dollars_used'' st' = PFloat (Fin (du + c))"
proof -
  from record_metered [OF assms] have m: "metered st' (tu + dt) tb (du + c) db (un + c)" by simp
  have e: "enforceable_dollars s = Some (float_max (Fin 0) (Fin (du' - un')))"
    if "metered s tu' tb' du' db' un'" for s tu' tb' du' db' un'
    using that by (simp add: enforceable_dollars_def metered_def dget_default_def float_sub_def)
  show ?thesis
    using e [OF m] e [OF assms(1)] m by (simp add: metered_def dget_def)
qed

subsection \<open>Two divergences\<close>

text \<open>Two roles of one run that name the same model at different catalog rates.\<close>

definition ambiguous_snapshot :: pyval where
  "ambiguous_snapshot = PDict [(''models'', PDict
     [(''fast'', PDict [(''model'', PStr ''local-7b''), (''source'', PStr ''catalog''),
         (''input_per_mtok'', PInt 1), (''output_per_mtok'', PInt 2)]),
      (''reasoning'', PDict [(''model'', PStr ''local-7b''), (''source'', PStr ''catalog''),
         (''input_per_mtok'', PInt 3), (''output_per_mtok'', PInt 4)])])]"

definition plain_env :: budget_env where
  "plain_env = \<lparr> env_token_budget = None, env_dollar_budget = None, env_unknown_cost = None, env_warn_ratio = None \<rparr>"

definition million_tokens :: llm_response where
  "million_tokens = Message (PDict [(''input_tokens'', PInt 1000000), (''output_tokens'', PInt 0)])
     (PDict [(''model_name'', PStr ''local-7b'')])"

text \<open>
  Spend priced by guesswork can halt a run after all: when two roles carry different rates for
  one model, the call is priced by the unknown-model fallback but labelled with the snapshot's
  source, so nothing is subtracted and the dollar cap fires.
\<close>

theorem ambiguous_snapshot_enforces_guess:
  "snapshot_rates [(''price_snapshot'', ambiguous_snapshot)] (Some ''local-7b'') = Some None \<and>
   effective_price (\<lambda>_. None) plain_env (Some ''local-7b'') None = UNKNOWN_MODEL_FALLBACK \<and>
   price_source_of [(''price_snapshot'', ambiguous_snapshot)] (Some ''local-7b'') = Some (PStr ''catalog'') \<and>
   Option.bind (track (\<lambda>_. None) plain_env million_tokens
       [(''price_snapshot'', ambiguous_snapshot), (''tokens_budget'', PInt 2000000)])
     (\<lambda>(n, st). Option.bind (enforceable_dollars st)
       (\<lambda>d. Some (d, dget ''dollars_unpriced'' st, map_option fst (over_budget plain_env st))))
   = Some (Fin 15, PNone, Some True)"
  by code_simp

definition tracking_off_state :: pydict where
  "tracking_off_state = [(''price_snapshot'', PDict [(''cost_tracking'', PBool False)]),
     (''dollars_used'', PFloat (Fin 9))]"

text \<open>
  With cost tracking off, dollars never halt a run, but the soft warning still fires on the
  dollar figure the operator has said not to keep.
\<close>

theorem tracking_off_still_warns:
  "map_option fst (over_budget plain_env tracking_off_state) = Some False \<and>
   map_option fst (crossed_soft_warn plain_env tracking_off_state) = Some True"
  by code_simp

subsection \<open>Concrete runs\<close>

definition metered_state :: pydict where
  "metered_state = [(''tokens_used'', PInt 20000), (''tokens_budget'', PInt 15000),
     (''dollars_used'', PFloat (Fin 1)), (''dollars_budget'', PFloat (Fin 5))]"

definition opus_call :: llm_response where
  "opus_call = Message (PDict [(''input_tokens'', PInt 1000), (''output_tokens'', PInt 100)])
     (PDict [(''model_name'', PStr ''claude-opus-4-20250514'')])"

lemma metered_state: "metered metered_state 20000 15000 1 (Fin 5) 0"
  by (simp add: metered_def metered_state_def dget_default_def)

theorem canonical_usage_consistent_witness:
  "\<exists>u. canonical_usage opus_call = Some u \<and> cache_read_tokens u + cache_write_tokens u \<le> input_tokens u"
proof -
  have "map_option input_tokens (canonical_usage opus_call) = Some 1000" by code_simp
  then obtain u where u: "canonical_usage opus_call = Some u" by auto
  with canonical_usage_consistent [OF u] show ?thesis by blast
qed

theorem dated_model_keeps_price_witness:
  "map_of MODEL_PRICES_PER_MTOK (normalize_model (Some (''claude-haiku-4-5'' @ ''-20251001'')) MODEL_PRICES_PER_MTOK)
   = Some (card 1 5)"
  by (rule dated_model_keeps_price)
    (simp_all add: MODEL_PRICES_PER_MTOK_def version_suffix_def date8_suffix_def is_digit_def)

theorem cost_bounded_witness:
  "\<exists>q. cost_dollars (\<lambda>_. None) plain_env 1000 100 (Some ''claude-opus-4'') 400 0 0 None = Fin q \<and> 0 \<le> q
     \<and> q \<le> (of_int 1000 * (15 * (125 / 100)) + of_int 100 * 75) / 1000000"
proof -
  have "effective_price (\<lambda>_. None) plain_env (Some ''claude-opus-4'') None = card 15 75" by code_simp
  from cost_bounded [OF this, where i = 1000 and t = 100 and cr = 400 and cc = 0 and rs = 0] show ?thesis by simp
qed


theorem unpriced_spend_not_enforced_witness:
  "\<exists>n st'. record_call 10 (Fin 7) ''estimated'' (PStr ''unknown'') 0 0 metered_state = Some (n, st')
     \<and> enforceable_dollars st' = enforceable_dollars metered_state"
proof -
  have "map_option fst (record_call 10 (Fin 7) ''estimated'' (PStr ''unknown'') 0 0 metered_state) = Some 20010"
    by code_simp
  then obtain n st' where r: "record_call 10 (Fin 7) ''estimated'' (PStr ''unknown'') 0 0 metered_state = Some (n, st')"
    by auto
  with unpriced_spend_not_enforced [OF metered_state r] show ?thesis by blast
qed

end
