(* ===== verification/Triage_Nodes.thy ===== *)
theory Triage_Nodes
  imports Policy_Gate Budget
begin

text \<open>
  The nodes of the triage graph over its state dictionary: the deterministic policy nodes
  (\<open>triage_policy/nodes.py\<close>), the supervisor and verdict nodes (\<open>supervisor/node.py\<close>,
  \<open>supervisor/verdict.py\<close>) around a model call, human review (\<open>graph/hil.py\<close>) and the close
  node (\<open>graph/close.py\<close>).

  A model call is given by its raw responses, which the dispatcher tracks in the budget, and by
  the validated answer or the category of its failure. Log lines and replay events leave no
  trace in the state. The current time is the argument \<open>now\<close>. One character stands for the
  dash the source's messages use. Building the prompts is not modelled.
\<close>

definition investigation_of :: "pydict \<Rightarrow> pydict py" where
  "investigation_of st = (case get_dict ''investigation'' st of PDict d \<Rightarrow> Some d | _ \<Rightarrow> None)"

definition AUDIT_KEYS :: "pyval \<Rightarrow> pydict \<Rightarrow> pydict py" where
  "AUDIT_KEYS = alias_append ''triage_policy_audit'' ''playbook_audit''"

subsection \<open>Policy resolution\<close>

text \<open>The winner, the shadow policies, and the vetoes on a deterministic disposition.\<close>

definition write_policy :: "triage_policy option \<Rightarrow> pydict \<Rightarrow> pydict" where
  "write_policy matched st =
     (case matched of
        None \<Rightarrow> st
      | Some pb \<Rightarrow> dset ''playbook'' (PDict (dump_policy pb)) (dset ''triage_policy'' (PDict (dump_policy pb)) st))"

definition write_shadow :: "triage_policy list \<Rightarrow> pydict \<Rightarrow> pydict" where
  "write_shadow shadow st =
     (if shadow = [] then st
      else dset ''playbook_shadow'' (PList (map (PDict \<circ> dump_policy) shadow))
            (dset ''triage_policy_shadow'' (PList (map (PDict \<circ> dump_policy) shadow)) st))"

definition stash_vetoes :: "triage_policy option \<Rightarrow> pydict \<Rightarrow> pydict \<Rightarrow> pydict py" where
  "stash_vetoes matched investigation st =
     (case matched of
        None \<Rightarrow> Some st
      | Some pb \<Rightarrow>
          (case deterministic_disposition pb of
             None \<Rightarrow> Some st
           | Some disposition \<Rightarrow>
               (if disposition \<noteq> [] \<and> disposition \<in> set KNOWN_DISPOSITIONS
                then map_option (\<lambda>vetoes. dset ''operational_vetoes'' (pstrs vetoes) st)
                       (operational_close_vetoes investigation (pstrs (rule_groups (tp_applies_to pb))))
                else Some st)))"

definition resolve_triage_policy_node :: "triage_policy list \<Rightarrow> pydict \<Rightarrow> pydict py" where
  "resolve_triage_policy_node reg st = do {
     investigation \<leftarrow> investigation_of st;
     matched \<leftarrow> match_triage_policy reg investigation;
     shadow \<leftarrow> match_shadow_triage_policies reg investigation;
     stash_vetoes matched investigation (write_shadow shadow (write_policy matched st)) }"

subsection \<open>Gathering authorization\<close>

definition components_dump :: "authorization_components \<Rightarrow> pyval" where
  "components_dump c = PDict
     [(''sanctioned_or_routine'', PBool (sanctioned_or_routine c)), (''in_scope'', PBool (in_scope c)),
      (''actor_genuine'', PBool (actor_genuine c)), (''policy_allowed'', PBool (policy_allowed c))]"

text \<open>Recording the step, before any work.\<close>

definition record_step :: "string \<Rightarrow> pydict \<Rightarrow> pydict py" where
  "record_step step st =
     (let legacy = dsetdefault ''playbook_steps_run'' (PList []) st;
          both = dsetdefault ''triage_policy_steps_run'' (dget ''playbook_steps_run'' legacy) legacy
      in case dget ''triage_policy_steps_run'' both of
           PList xs \<Rightarrow>
             (if list_ex (py_eq (PStr step)) xs then Some both
              else alias_append ''triage_policy_steps_run'' ''playbook_steps_run'' (PStr step) st)
         | _ \<Rightarrow> None)"

definition gather_authorization_context_node ::
    "(pyval \<Rightarrow> authorization_context option) \<Rightarrow> (authorization_context \<Rightarrow> authorization_components \<Rightarrow> pyval)
     \<Rightarrow> pydict \<Rightarrow> pydict py" where
  "gather_authorization_context_node parse dump st0 = do {
     st \<leftarrow> record_step GATHER_AUTHORIZATION_CONTEXT st0;
     investigation \<leftarrow> investigation_of st;
     case parse_authorization_context parse investigation of
       None \<Rightarrow> Some (dset ''authorization_gathered''
                 (PDict [(''status'', PStr ''absent''), (''facts'', PInt 0)]) st)
     | Some ctx \<Rightarrow> do {
         comps \<leftarrow> evaluate_authorization (activity ctx) (facts ctx) (ctx_tenant ctx);
         Some (dset ''authorization_gathered''
           (PDict [(''status'', PStr ''present''), (''facts'', PInt (int (length (facts ctx)))),
                   (''components'', components_dump comps)])
           (dset ''investigation'' (PDict (dset ''authorization_context'' (dump ctx comps) investigation)) st)) } }"

subsection \<open>Operational close\<close>

definition policy_id_text :: "pyval \<Rightarrow> string py" where
  "policy_id_text pol = Option.bind (py_get ''id'' pol) py_str"

definition operational_close_node :: "string \<Rightarrow> pydict \<Rightarrow> pydict py" where
  "operational_close_node now st = do {
     pid \<leftarrow> policy_id_text (policy_of st);
     idv \<leftarrow> py_get ''id'' (policy_of st);
     let reasoning = ''triage policy '' @ pid @ '': operational alert class (agent health) with no security indicators ''
                     @ [dash] @ '' deterministic close, no LLM invoked'';
     let st1 = dset ''supervisor_decision'' (PDict
           [(''next_action'', PStr ''CLOSE''), (''action_reasoning'', PStr reasoning),
            (''tp_confidence'', PFloat (Fin 0)),
            (''confidence_reasoning'', PStr ''deterministic triage policy disposition'')]) st;
     st2 \<leftarrow> AUDIT_KEYS (PDict
           [(''at'', PStr now), (''triage_policy'', idv), (''effect'', PStr ''deterministic_disposition''),
            (''disposition'', PStr CLOSE_OPERATIONAL), (''reason'', PStr reasoning)]) st1;
     Some (dset ''operational_close'' (PBool True) st2) }"

subsection \<open>The verdict guard\<close>

definition dump_override :: "guard_override \<Rightarrow> pyval" where
  "dump_override ov = PDict [(''guardrail'', PStr (guardrail ov)), (''effect'', PStr (effect ov)),
     (''from_decision'', PStr (from_decision ov)), (''to_decision'', PStr (to_decision ov)),
     (''reason'', PStr (reason ov))]"

fun append_audits :: "string \<Rightarrow> pydict list \<Rightarrow> pydict \<Rightarrow> pydict py" where
  "append_audits now [] st = Some st"
| "append_audits now (e # es) st = do {
     st1 \<leftarrow> AUDIT_KEYS (PDict ((''at'', PStr now) # e)) st;
     append_audits now es st1 }"

text \<open>Threat intelligence that was expected and did not answer.\<close>

definition intel_unavailable_of :: "pydict \<Rightarrow> bool py" where
  "intel_unavailable_of investigation = do {
     s \<leftarrow> py_get ''status'' (get_dict ''misp_context'' investigation);
     Some (s = PStr ''unavailable'' \<or> s = PStr ''degraded'') }"

text \<open>The guard's inputs as the node reads them from the state.\<close>

definition guard_ruling ::
    "(pyval \<Rightarrow> authorization_context option) \<Rightarrow> pydict \<Rightarrow> pydict \<Rightarrow> guard_result py" where
  "guard_ruling parse verdict st = do {
     investigation \<leftarrow> investigation_of st;
     draft \<leftarrow> decision_value (dget ''decision'' verdict);
     malicious \<leftarrow> has_malicious_signal (PDict investigation);
     sc \<leftarrow> py_get ''close_signoff_data_classes'' (policy_of st);
     scs \<leftarrow> py_iter_or_empty sc;
     signoff \<leftarrow> py_map py_str scs;
     gr \<leftarrow> py_get ''guardrails'' (policy_of st);
     rules \<leftarrow> py_iter_or_empty gr;
     intel \<leftarrow> intel_unavailable_of investigation;
     evaluate_guard draft (parse_authorization_context parse investigation) malicious signoff rules
       (case py_float (dget ''confidence'' verdict) of None \<Rightarrow> PNone | Some x \<Rightarrow> PFloat x)
       (active_incident_of st) intel }"

fun join_semi :: "string list \<Rightarrow> string" where
  "join_semi [] = []"
| "join_semi [r] = r"
| "join_semi (r # rs) = r @ ''; '' @ join_semi rs"

definition override_recommendation :: "string \<Rightarrow> guard_result \<Rightarrow> string \<Rightarrow> string" where
  "override_recommendation draft r rec =
     take 2048 (str_strip (''[GUARD OVERRIDE: LLM drafted '' @ [CHR 0x27] @ draft @ [CHR 0x27] @ '', enforced '' @ [CHR 0x27]
       @ final_decision r @ [CHR 0x27] @ '' '' @ [dash] @ '' ''
       @ join_semi (map reason (List.filter (\<lambda>ov. effect ov = ''override'') (overrides r))) @ ''] '' @ rec))"

definition incr :: "string \<Rightarrow> pydict \<Rightarrow> pydict py" where
  "incr k st =
     (case dget_default k (PInt 0) st of PInt n \<Rightarrow> Some (dset k (PInt (n + 1)) st) | _ \<Rightarrow> None)"

text \<open>What the ruling writes when it has fired something.\<close>

definition apply_ruling :: "string \<Rightarrow> pydict \<Rightarrow> string \<Rightarrow> guard_result \<Rightarrow> pydict \<Rightarrow> pydict py" where
  "apply_ruling now verdict draft r st = do {
     idv \<leftarrow> py_get ''id'' (policy_of st);
     st1 \<leftarrow> AUDIT_KEYS (PDict
        [(''at'', PStr now), (''triage_policy'', idv), (''authz_class'', PStr (authz_class_value (authz_class r))),
         (''components'', case components r of None \<Rightarrow> PNone | Some c \<Rightarrow> components_dump c),
         (''llm_draft_decision'', PStr draft), (''final_decision'', PStr (final_decision r)),
         (''overrides'', PList (map dump_override (overrides r)))]) st;
     let st2 = (if interrupted r then dset ''verdict_interrupted'' (PBool True) st1 else st1);
     if overridden r then do {
       rec \<leftarrow> py_str (py_or_else (dget ''recommendation'' verdict) (PStr []));
       let verdict' = dset ''recommendation'' (PStr (override_recommendation draft r rec))
                        (dset ''decision'' (PStr (final_decision r)) verdict);
       let st3 = dset ''verdict_overridden_by_guard'' (PBool True) (dset ''verdict'' (PDict verdict') st2);
       if final_decision r = ''needs_more_info'' then incr ''verdict_retry_count'' st3 else Some st3 }
     else Some st2 }"

definition verdict_guard_node ::
    "(pyval \<Rightarrow> authorization_context option) \<Rightarrow> string \<Rightarrow> pydict \<Rightarrow> pydict py" where
  "verdict_guard_node parse now st0 =
     (let v = get_dict ''verdict'' st0
      in if truthy (dget ''verdict_error'' st0) \<or> \<not> truthy v then Some st0
         else case v of
             PDict verdict \<Rightarrow> do {
               let st = ddel ''verdict_overridden_by_guard'' (ddel ''verdict_interrupted'' st0);
               draft \<leftarrow> decision_value (dget ''decision'' verdict);
               r \<leftarrow> guard_ruling parse verdict st;
               let st1 = dset ''authz_class'' (PStr (authz_class_value (authz_class r))) st;
               shadow \<leftarrow> py_iter_or_empty (get_alias ''triage_policy_shadow'' ''playbook_shadow'' st1);
               audits \<leftarrow> shadow_guardrail_audits shadow (condition_ctx r);
               st2 \<leftarrow> append_audits now audits st1;
               if overrides r = [] then Some st2 else apply_ruling now verdict draft r st2 }
           | _ \<Rightarrow> None)"

subsection \<open>Supervisor and verdict\<close>

definition MAX_ITERATIONS :: int where
  "MAX_ITERATIONS = 10"

text \<open>The answer of a model call: a validated decision, or the category of the failure.\<close>

record 'a llm_call =
  responses :: "llm_response list"
  answer :: "string + 'a"

fun track_all ::
    "(string \<Rightarrow> pyval option) \<Rightarrow> budget_env \<Rightarrow> llm_response list \<Rightarrow> pydict \<Rightarrow> pydict py" where
  "track_all json_loads env [] st = Some st"
| "track_all json_loads env (r # rs) st =
     Option.bind (track json_loads env r st) (\<lambda>(n, st'). track_all json_loads env rs st')"

definition decision_dump :: "string \<Rightarrow> string \<Rightarrow> rat \<Rightarrow> string \<Rightarrow> pyval" where
  "decision_dump act rsn conf crsn = PDict
     [(''next_action'', PStr act), (''action_reasoning'', PStr rsn), (''tp_confidence'', PFloat (Fin conf)),
      (''confidence_reasoning'', PStr crsn), (''specific_instructions'', PNone)]"

record supervisor_decision_rec =
  next_action :: string
  action_reasoning :: string
  tp_confidence :: rat
  confidence_reasoning :: string
  specific_instructions :: "string option"

definition supervisor_dump :: "supervisor_decision_rec \<Rightarrow> pyval" where
  "supervisor_dump d = PDict
     [(''next_action'', PStr (next_action d)), (''action_reasoning'', PStr (action_reasoning d)),
      (''tp_confidence'', PFloat (Fin (tp_confidence d))),
      (''confidence_reasoning'', PStr (confidence_reasoning d)),
      (''specific_instructions'', opt_str (specific_instructions d))]"

text \<open>The structured-output schema: the action enumeration, narrowed to the legal set.\<close>

definition decision_schema :: "string list option \<Rightarrow> supervisor_decision_rec \<Rightarrow> bool" where
  "decision_schema legal d \<longleftrightarrow>
     next_action d \<in> (case legal of None \<Rightarrow> set SUPERVISOR_ACTIONS | Some l \<Rightarrow> set l) \<and>
     0 \<le> tp_confidence d \<and> tp_confidence d \<le> 1"

definition phase_after :: "string \<Rightarrow> string option" where
  "phase_after act =
     (if act = ''VERDICT'' then Some ''verdict'' else if act = ''CLOSE'' then Some ''closed''
      else if act = ''ENRICH'' \<or> act = ''CONTEXTUALIZE'' then Some ''enrichment''
      else if act = ''INVESTIGATE'' then Some ''analysis'' else None)"

text \<open>The budget half of the supervisor: the state with the soft warning, and whether to halt.\<close>

definition budget_gate :: "budget_env \<Rightarrow> pydict \<Rightarrow> (bool \<times> pydict) py" where
  "budget_gate env st0 = do {
     let st = ensure env st0;
     st1 \<leftarrow> (if truthy (dget ''budget_warned'' st) then Some st
            else do {
              (w, s) \<leftarrow> crossed_soft_warn env st;
              Some (if w then dset ''budget_warned'' (PBool True) s else s) });
     over_budget env st1 }"

text \<open>The model's answer written to the state, or its failure.\<close>

definition record_decision :: "string \<Rightarrow> supervisor_decision_rec \<Rightarrow> pydict \<Rightarrow> pydict" where
  "record_decision now d st =
     dset ''last_updated'' (PStr now)
      (case phase_after (next_action d) of
         None \<Rightarrow> dset ''supervisor_decision'' (supervisor_dump d) st
       | Some ph \<Rightarrow> dset ''current_phase'' (PStr ph) (dset ''supervisor_decision'' (supervisor_dump d) st))"

definition record_failure :: "string \<Rightarrow> string \<Rightarrow> pydict \<Rightarrow> pydict" where
  "record_failure now category st =
     dset ''last_updated'' (PStr now)
      (dset ''last_error'' (PStr (''supervisor_failed:'' @ category))
       (dset ''supervisor_error'' (PDict [(''category'', PStr category)]) st))"

definition ask_supervisor ::
    "(string \<Rightarrow> pyval option) \<Rightarrow> budget_env \<Rightarrow> string \<Rightarrow> supervisor_decision_rec llm_call \<Rightarrow> pydict \<Rightarrow> pydict py" where
  "ask_supervisor json_loads env now call st = do {
     legal \<leftarrow> legal_actions_for st;
     st' \<leftarrow> track_all json_loads env (responses call) st;
     case answer call of
       Inl category \<Rightarrow> Some (record_failure now category st')
     | Inr d \<Rightarrow> if decision_schema legal d then Some (record_decision now d st') else None }"

definition supervisor_node ::
    "(string \<Rightarrow> pyval option) \<Rightarrow> budget_env \<Rightarrow> string \<Rightarrow> supervisor_decision_rec llm_call \<Rightarrow> pydict \<Rightarrow> pydict py" where
  "supervisor_node json_loads env now call st0 = do {
     (over, st) \<leftarrow> budget_gate env st0;
     if over then do {
       cap \<leftarrow> budget_reason env st;
       Some (dset ''budget_terminated'' (PBool True)
              (dset ''supervisor_decision''
                 (decision_dump ''CLOSE'' (''budget_exceeded: '' @ cap) 0 ''case_run terminated by per-run cost cap'') st)) }
     else case dget_default ''iteration_count'' (PInt 0) st of
         PInt n \<Rightarrow>
           (if MAX_ITERATIONS \<le> n + 1
            then Some (dset ''current_phase'' (PStr ''verdict'')
                   (dset ''supervisor_decision''
                      (decision_dump ''VERDICT'' (''Maximum iterations reached - forcing verdict'') (1 / 2)
                         ''Unable to reach conclusion within iteration limit'')
                      (dset ''iteration_count'' (PInt (n + 1)) st)))
            else ask_supervisor json_loads env now call (dset ''iteration_count'' (PInt (n + 1)) st))
       | _ \<Rightarrow> None }"

record verdict_rec =
  vd_decision :: string
  vd_confidence :: rat
  vd_recommendation :: string
  vd_rest :: pydict

definition VERDICT_DECISIONS :: "string list" where
  "VERDICT_DECISIONS = [''escalate'', ''close'', ''needs_more_info'']"

definition verdict_schema :: "verdict_rec \<Rightarrow> bool" where
  "verdict_schema v \<longleftrightarrow> vd_decision v \<in> set VERDICT_DECISIONS \<and> 0 \<le> vd_confidence v \<and> vd_confidence v \<le> 1"

definition verdict_dump :: "verdict_rec \<Rightarrow> pyval" where
  "verdict_dump v = PDict ([(''decision'', PStr (vd_decision v)), (''confidence'', PFloat (Fin (vd_confidence v))),
     (''recommendation'', PStr (vd_recommendation v))] @ vd_rest v)"

definition verdict_node ::
    "(string \<Rightarrow> pyval option) \<Rightarrow> budget_env \<Rightarrow> string \<Rightarrow> string \<Rightarrow> verdict_rec llm_call \<Rightarrow> pydict \<Rightarrow> pydict py" where
  "verdict_node json_loads env now message call st0 = do {
     st \<leftarrow> track_all json_loads env (responses call) st0;
     st' \<leftarrow> (case answer call of
        Inr v \<Rightarrow>
          (if \<not> verdict_schema v then None
           else let st1 = dset ''current_phase'' (PStr ''verdict'') (dset ''verdict'' (verdict_dump v) st)
                in if vd_decision v = ''needs_more_info'' then incr ''verdict_retry_count'' st1 else Some st1)
      | Inl category \<Rightarrow>
          incr ''verdict_retry_count''
            (dset ''last_error'' (PStr (''verdict_failed:'' @ category))
              (dset ''verdict_error''
                 (PDict [(''category'', PStr category), (''message'', PStr (take 500 message))]) st)));
     Some (dset ''last_updated'' (PStr now) st') }"

end
