(* ===== verification/Triage_Graph.thy ===== *)
theory Triage_Graph
  imports Triage_Nodes
begin

text \<open>
  The triage graph (\<open>graph/builder.py\<close>): the four routing functions, human review
  (\<open>graph/hil.py\<close>), the close node (\<open>graph/close.py\<close>), the step relation between nodes, and the
  worker's reading of a terminal state (\<open>runs_worker/main.py\<close>).

  The evidence workers (Wazuh, Cortex, MISP, TheHive) talk to external services. In the step
  relation they may leave any value in the keys they write and touch no other key.
\<close>

subsection \<open>Routing\<close>

datatype node =
    Resolve | OperationalClose | Supervisor | WazuhWorker | CortexWorker | MispWorker
  | GatherAuthorization | VerdictNode | VerdictGuard | HumanReview | ThehiveWorker | CloseInvestigation | End

definition route_from_resolve_triage_policy :: "pydict \<Rightarrow> node py" where
  "route_from_resolve_triage_policy st = do {
     disposition \<leftarrow> py_get ''deterministic_disposition'' (policy_of st);
     if \<not> truthy disposition then Some Supervisor
     else do {
       known \<leftarrow> py_member disposition (map PStr KNOWN_DISPOSITIONS);
       if \<not> known then Some Supervisor
       else do {
         vetoes \<leftarrow>
           (let stashed = dget ''operational_vetoes'' st
            in if stashed \<noteq> PNone then py_iter stashed
               else do {
                 investigation \<leftarrow> investigation_of st;
                 ap \<leftarrow> py_get ''applies_to'' (policy_of st);
                 gs \<leftarrow> py_get ''rule_groups'' (py_or_else ap (PDict []));
                 map_option (map PStr) (operational_close_vetoes investigation gs) });
         Some (if vetoes \<noteq> [] then Supervisor else OperationalClose) } } }"

text \<open>The supervisor's action after the post-call legality check.\<close>

definition checked_action :: "pydict \<Rightarrow> pyval \<Rightarrow> pyval py" where
  "checked_action st act = do {
     forced \<leftarrow> (if act = PStr ''VERDICT''
               then py_cmp CmpGe (dget_default ''iteration_count'' (PInt 0) st) (PInt MAX_ITERATIONS) else Some False);
     if truthy (dget ''budget_terminated'' st) \<or> forced then Some act
     else do {
       legal \<leftarrow> legal_actions_for st;
       case legal of
         None \<Rightarrow> Some act
       | Some l \<Rightarrow> do {
           ok \<leftarrow> py_member act (map PStr l);
           Some (if ok then act else PStr (if ''VERDICT'' \<in> set l then ''VERDICT'' else hd l)) } } }"

definition route_from_supervisor :: "pydict \<Rightarrow> node py" where
  "route_from_supervisor st =
     (if truthy (dget ''supervisor_error'' st) then Some CloseInvestigation
      else do {
        proposed \<leftarrow> py_get_default ''next_action'' (PStr ''ENRICH'') (dget_default ''supervisor_decision'' (PDict []) st);
        act \<leftarrow> checked_action st proposed;
        if act = PStr ''INVESTIGATE'' then Some WazuhWorker
        else if act = PStr ''ENRICH'' then Some CortexWorker
        else if act = PStr ''CONTEXTUALIZE'' then Some MispWorker
        else if act = PStr ''VERDICT'' \<or> act = PStr ''CLOSE'' then do {
          missing \<leftarrow> (if truthy (dget ''budget_terminated'' st) then Some [] else missing_required_steps st);
          Some (if missing \<noteq> [] then GatherAuthorization
                else if act = PStr ''VERDICT'' then VerdictNode else CloseInvestigation) }
        else Some CortexWorker })"

definition route_from_verdict :: "pydict \<Rightarrow> node py" where
  "route_from_verdict st = do {
     decision \<leftarrow> py_get_default ''decision'' (PStr ''needs_more_info'') (dget_default ''verdict'' (PDict []) st);
     if truthy (dget ''verdict_error'' st) then Some CloseInvestigation
     else if truthy (dget ''verdict_interrupted'' st) then Some HumanReview
     else if decision = PStr ''escalate'' then Some HumanReview
     else if decision = PStr ''close'' then Some CloseInvestigation
     else if decision = PStr ''needs_more_info'' then do {
       enough \<leftarrow> py_cmp CmpGe (dget_default ''verdict_retry_count'' (PInt 0) st) (PInt 1);
       Some (if enough then HumanReview else Supervisor) }
     else Some HumanReview }"

definition route_from_human_review :: "pydict \<Rightarrow> node" where
  "route_from_human_review st =
     (let decision = dget ''human_decision'' st
      in if decision = PStr ''approve'' then ThehiveWorker
         else if decision = PStr ''reject'' then CloseInvestigation
         else if decision = PStr ''more_info'' then Supervisor
         else CloseInvestigation)"

subsection \<open>Human review\<close>

definition coerce_human_decision :: "pyval \<Rightarrow> string" where
  "coerce_human_decision v =
     (case v of
        PStr s \<Rightarrow>
          (let n = str_lower (str_strip s)
           in if n \<in> {''approve'', ''reject'', ''more_info''} then n else ''more_info'')
      | _ \<Rightarrow> ''more_info'')"

text \<open>How a review ends: a resumed interrupt, a console answer, or an error.\<close>

datatype review_input = Resumed pyval | Console string | ReviewError string

definition review_outcome :: "review_input \<Rightarrow> string \<times> pyval" where
  "review_outcome inp =
     (case inp of
        Resumed (PDict payload) \<Rightarrow> (coerce_human_decision (dget ''decision'' payload), dget ''feedback'' payload)
      | Resumed v \<Rightarrow> (coerce_human_decision v, PNone)
      | Console line \<Rightarrow>
          (let c = str_lower (str_strip line)
           in if c \<in> {''a'', ''approve''} then (''approve'', PNone)
              else if c \<in> {''r'', ''reject''} then (''reject'', PNone) else (''more_info'', PNone))
      | ReviewError e \<Rightarrow> (''more_info'', PStr (''Error during review: '' @ e)))"

definition human_review_node :: "string \<Rightarrow> review_input \<Rightarrow> pydict \<Rightarrow> pydict" where
  "human_review_node now inp st =
     dset ''last_updated'' (PStr now)
      (dset ''awaiting_human_approval'' (PBool False)
       (dset ''human_feedback'' (snd (review_outcome inp))
        (dset ''human_decision'' (PStr (fst (review_outcome inp)))
         (dset ''awaiting_human_approval'' (PBool True) st))))"

subsection \<open>Closing\<close>

text \<open>\<open>f"{c:.0%}"\<close>.\<close>

definition fmt_percent :: "pyval \<Rightarrow> string py" where
  "fmt_percent v =
     (case py_float v of
        Some (Fin q) \<Rightarrow> Some ((if q < 0 then ''-'' else []) @ show_int (round_half_even (abs q * 100)) @ ''%'')
      | Some PosInf \<Rightarrow> Some ''inf%'' | Some NegInf \<Rightarrow> Some ''-inf%'' | Some NaN \<Rightarrow> Some ''nan%''
      | None \<Rightarrow> None)"

text \<open>\<open>d[k][:200]\<close> of a string.\<close>

fun py_take200 :: "pyval \<Rightarrow> string py" where
  "py_take200 (PStr s) = Some (take 200 s)"
| "py_take200 _ = None"

definition feedback_reason :: "pyval \<Rightarrow> string list py" where
  "feedback_reason fb =
     (if truthy fb then map_option (\<lambda>s. [''Analyst feedback: '' @ s]) (py_str fb) else Some [])"

definition closure_reasons :: "pyval \<Rightarrow> pyval \<Rightarrow> pyval \<Rightarrow> pyval \<Rightarrow> string list py" where
  "closure_reasons verdict human feedback supd =
     (if truthy human then
        (if human = PStr ''reject'' then map_option (Cons ''Rejected by analyst during human review'') (feedback_reason feedback)
         else if human = PStr ''approve'' then Some [''Approved by analyst - incident created'']
         else if human = PStr ''more_info'' then
           map_option (Cons ''Analyst requested more information but investigation closed'') (feedback_reason feedback)
         else Some [])
      else if truthy verdict then do {
        d \<leftarrow> py_get ''decision'' verdict;
        if d = PStr ''close'' then do {
          rec \<leftarrow> py_get ''recommendation'' verdict;
          t \<leftarrow> (if truthy rec then map_option (\<lambda>s. [''AI recommendation: '' @ s]) (py_take200 rec) else Some []);
          Some (''Closed by AI verdict - likely false positive'' # t) }
        else if d = PStr ''escalate'' then Some [''Escalation process completed'']
        else Some [] }
      else if truthy supd then do {
        act \<leftarrow> py_get ''next_action'' supd;
        if act = PStr ''CLOSE'' then do {
          conf \<leftarrow> py_get_default ''tp_confidence'' (PInt 0) supd;
          pct \<leftarrow> fmt_percent conf;
          cr \<leftarrow> py_get ''confidence_reasoning'' supd;
          t \<leftarrow> (if truthy cr then map_option (\<lambda>s. [''Reasoning: '' @ s]) (py_take200 cr) else Some []);
          Some ([''Closed by supervisor - insufficient evidence of threat'', ''True positive confidence: '' @ pct] @ t) }
        else Some [] }
      else Some [])"

fun join_bar :: "string list \<Rightarrow> string" where
  "join_bar [] = []"
| "join_bar [r] = r"
| "join_bar (r # rs) = r @ '' | '' @ join_bar rs"

definition close_investigation_node :: "string \<Rightarrow> pydict \<Rightarrow> pydict py" where
  "close_investigation_node now st = do {
     rs \<leftarrow> closure_reasons (dget_default ''verdict'' (PDict []) st) (dget ''human_decision'' st)
             (dget ''human_feedback'' st) (dget_default ''supervisor_decision'' (PDict []) st);
     let closure_reason = join_bar (if rs = [] then [''Investigation completed - no action required''] else rs);
     case dget_default ''investigation'' (PDict []) st of
       PDict invd \<Rightarrow>
         Some (dset ''last_updated'' (PStr now)
           (dset ''current_phase'' (PStr ''closed'')
             (dset ''investigation''
               (PDict (dset ''closure_reason'' (PStr closure_reason)
                  (dset ''closed_at'' (PStr now) (dset ''status'' (PStr ''closed'') invd)))) st)))
     | _ \<Rightarrow> None }"

subsection \<open>The step relation\<close>

text \<open>The keys an evidence worker may write; every other key keeps its value.\<close>

definition WORKER_KEYS :: "string list" where
  "WORKER_KEYS = [''investigation'', ''pending_observables'', ''current_enrichment_batch'', ''current_phase'',
     ''last_error'', ''error_count'', ''last_updated'']"

definition worker_update :: "pydict \<Rightarrow> pydict \<Rightarrow> bool" where
  "worker_update st st' \<longleftrightarrow> (\<forall>k. k \<notin> set WORKER_KEYS \<longrightarrow> map_of st' k = map_of st k)"

text \<open>What the graph is built over: registry, parsers, environment.\<close>

record graph_env =
  ge_registry :: "triage_policy list"
  ge_parse :: "pyval \<Rightarrow> authorization_context option"
  ge_dump :: "authorization_context \<Rightarrow> authorization_components \<Rightarrow> pyval"
  ge_json :: "string \<Rightarrow> pyval option"
  ge_budget :: budget_env

inductive graph_step :: "graph_env \<Rightarrow> node \<times> pydict \<Rightarrow> node \<times> pydict \<Rightarrow> bool" for E where
  resolve: "resolve_triage_policy_node (ge_registry E) st = Some st' \<Longrightarrow>
     route_from_resolve_triage_policy st' = Some n \<Longrightarrow> graph_step E (Resolve, st) (n, st')"
| operational: "operational_close_node now st = Some st' \<Longrightarrow>
     graph_step E (OperationalClose, st) (CloseInvestigation, st')"
| supervise: "supervisor_node (ge_json E) (ge_budget E) now call st = Some st' \<Longrightarrow>
     route_from_supervisor st' = Some n \<Longrightarrow> graph_step E (Supervisor, st) (n, st')"
| work: "w \<in> {WazuhWorker, CortexWorker, MispWorker} \<Longrightarrow> worker_update st st' \<Longrightarrow>
     graph_step E (w, st) (Supervisor, st')"
| gather: "gather_authorization_context_node (ge_parse E) (ge_dump E) st = Some st' \<Longrightarrow>
     graph_step E (GatherAuthorization, st) (Supervisor, st')"
| verdict: "verdict_node (ge_json E) (ge_budget E) now message vcall st = Some st' \<Longrightarrow>
     graph_step E (VerdictNode, st) (VerdictGuard, st')"
| guard: "verdict_guard_node (ge_parse E) now st = Some st' \<Longrightarrow> route_from_verdict st' = Some n \<Longrightarrow>
     graph_step E (VerdictGuard, st) (n, st')"
| review: "st' = human_review_node now inp st \<Longrightarrow>
     graph_step E (HumanReview, st) (route_from_human_review st', st')"
| hive: "worker_update st st' \<Longrightarrow> graph_step E (ThehiveWorker, st) (CloseInvestigation, st')"
| close: "close_investigation_node now st = Some st' \<Longrightarrow> graph_step E (CloseInvestigation, st) (End, st')"

inductive_cases graph_step_from: "graph_step E (n, st) c"

inductive graph_reachable :: "graph_env \<Rightarrow> pydict \<Rightarrow> node \<times> pydict \<Rightarrow> bool" for E st0 where
  start: "graph_reachable E st0 (Resolve, st0)"
| step: "graph_reachable E st0 c \<Longrightarrow> graph_step E c c' \<Longrightarrow> graph_reachable E st0 c'"

subsection \<open>Reading the terminal state\<close>

text \<open>\<open>str(v or "").lower()\<close>.\<close>

definition enum_value :: "pyval \<Rightarrow> string py" where
  "enum_value v = map_option str_lower (py_str (py_or_else v (PStr [])))"

definition disposition_from_final :: "pydict \<Rightarrow> string \<Rightarrow> string py" where
  "disposition_from_final final run_status =
     (if run_status \<noteq> ''completed'' then Some ''leave_open''
      else do {
        d \<leftarrow> py_get ''decision'' (get_dict ''verdict'' final);
        decision \<leftarrow> enum_value d;
        c \<leftarrow> py_get ''tp_confidence'' (get_dict ''supervisor_decision'' final);
        _ \<leftarrow> py_float (py_or_else c (PFloat (Fin 0)));
        a \<leftarrow> py_get ''next_action'' (get_dict ''supervisor_decision'' final);
        sup_action \<leftarrow> map_option str_upper (enum_value a);
        Some (if truthy (dget ''verdict_interrupted'' final) then ''escalate''
              else if decision = ''escalate'' then ''escalate''
              else if decision = ''close'' then ''close_fp''
              else if decision = ''needs_more_info'' then ''escalate''
              else if sup_action = ''CLOSE'' then ''close_fp''
              else ''leave_open'') })"

definition error_category :: "pyval \<Rightarrow> pyval" where
  "error_category err = (case py_or_else err (PDict []) of PDict d \<Rightarrow> dget ''category'' d | _ \<Rightarrow> PNone)"

text \<open>The run status of a graph that returned, and the disposition the worker reports.\<close>

definition run_status_of :: "pydict \<Rightarrow> string" where
  "run_status_of final =
     (if truthy (dget ''budget_terminated'' final) then ''halted_budget''
      else if truthy (error_category (dget ''supervisor_error'' final)) then ''failed''
      else if truthy (error_category (dget ''verdict_error'' final)) then ''failed''
      else ''completed'')"

definition worker_disposition ::
    "(pyval \<Rightarrow> authorization_context option) \<Rightarrow> pydict \<Rightarrow> (string option \<times> string list) py" where
  "worker_disposition parse final =
     (if run_status_of final = ''failed'' then Some (None, [])
      else do {
        d \<leftarrow> disposition_from_final final (run_status_of final);
        apply_worker_floor parse final (Some d) })"

definition verdict_summary :: "pydict \<Rightarrow> string option py" where
  "verdict_summary final = do {
     rec \<leftarrow> py_get ''recommendation'' (get_dict ''verdict'' final);
     if truthy rec then do {
       s \<leftarrow> py_str rec;
       Some (Some (if truthy (dget ''verdict_interrupted'' final)
         then take 1024 (''[SIGN-OFF REQUIRED: guard interrupted this draft] '' @ s) else take 1024 s)) }
     else do {
       reasoning \<leftarrow> py_get ''action_reasoning'' (get_dict ''supervisor_decision'' final);
       if truthy reasoning then map_option (\<lambda>s. Some (take 1024 s)) (py_str reasoning) else Some None } }"

subsection \<open>Severity of an alert level\<close>

text \<open>The shared enumeration's conversion, and the one the worker projects alerts with.\<close>

definition from_wazuh_level :: "int \<Rightarrow> string" where
  "from_wazuh_level level =
     (if 12 \<le> level then ''critical'' else if 8 \<le> level then ''high'' else if 4 \<le> level then ''medium'' else ''low'')"

definition wazuh_level_to_severity :: "int \<Rightarrow> string" where
  "wazuh_level_to_severity level =
     (if 12 \<le> level then ''critical'' else if 8 \<le> level then ''high'' else if 5 \<le> level then ''medium'' else ''low'')"

end
