(* ===== verification/Triage_Frame.thy ===== *)
theory Triage_Frame
  imports Triage_Graph
begin

text \<open>
  Which keys of the state each node of the triage graph can change. Every node is framed by a
  list of keys; what the routing and the gates read outside that list is unchanged.
\<close>

definition frame :: "string list \<Rightarrow> pydict \<Rightarrow> pydict \<Rightarrow> bool" where
  "frame ks st st' \<longleftrightarrow> (\<forall>k. k \<notin> set ks \<longrightarrow> map_of st' k = map_of st k)"

named_theorems frame_intros \<open>frames of the operations on a state\<close>

lemma frame_refl [frame_intros, simp]: "frame ks st st"
  by (simp add: frame_def)

lemma frame_trans: "frame ks st st' \<Longrightarrow> frame ks st' st'' \<Longrightarrow> frame ks st st''"
  by (simp add: frame_def)

lemma frame_mono: "frame ks st st' \<Longrightarrow> set ks \<subseteq> set ls \<Longrightarrow> frame ls st st'"
  by (auto simp: frame_def)

lemma frame_dset [frame_intros]: "k \<in> set ks \<Longrightarrow> frame ks st st' \<Longrightarrow> frame ks st (dset k v st')"
  by (auto simp: frame_def)

lemma frame_ddel [frame_intros]: "k \<in> set ks \<Longrightarrow> frame ks st st' \<Longrightarrow> frame ks st (ddel k st')"
  by (auto simp: frame_def)

lemma frame_dsetdefault [frame_intros]: "k \<in> set ks \<Longrightarrow> frame ks st st' \<Longrightarrow> frame ks st (dsetdefault k v st')"
  by (auto simp: frame_def dsetdefault_def split: option.splits)

lemma frame_alias_append:
  "alias_append c l x st' = Some st'' \<Longrightarrow> c \<in> set ks \<Longrightarrow> l \<in> set ks \<Longrightarrow> frame ks st st' \<Longrightarrow> frame ks st st''"
  using map_of_alias_append [of c l x st' st''] by (fastforce simp: frame_def)

lemma frame_dget: "frame ks st st' \<Longrightarrow> k \<notin> set ks \<Longrightarrow> dget k st' = dget k st"
  by (simp add: frame_def dget_def)

lemma frame_dget_default: "frame ks st st' \<Longrightarrow> k \<notin> set ks \<Longrightarrow> dget_default k v st' = dget_default k v st"
  by (simp add: frame_def dget_default_def)

lemma frame_get_dict: "frame ks st st' \<Longrightarrow> k \<notin> set ks \<Longrightarrow> get_dict k st' = get_dict k st"
  by (simp add: get_dict_def frame_dget)

lemma frame_get_alias:
  "frame ks st st' \<Longrightarrow> c \<notin> set ks \<Longrightarrow> l \<notin> set ks \<Longrightarrow> get_alias c l st' = get_alias c l st"
  by (simp add: get_alias_def frame_dget)

definition GATE_KEYS :: "string list" where
  "GATE_KEYS = [''triage_policy'', ''playbook'', ''triage_policy_steps_run'', ''playbook_steps_run'']"

lemma frame_missing:
  assumes "frame ks st st'" and "set ks \<inter> set GATE_KEYS = {}"
  shows "missing_required_steps st' = missing_required_steps st"
  using assms by (simp add: missing_required_steps_def policy_of_def frame_get_alias GATE_KEYS_def)

subsection \<open>The budget\<close>

definition BUDGET_KEYS :: "string list" where
  "BUDGET_KEYS = [''tokens_used'', ''tokens_budget'', ''dollars_used'', ''dollars_budget'', ''dollars_unpriced'',
     ''cost_basis'', ''price_source'', ''cache_read_tokens'', ''cache_creation_tokens'']"

lemma frame_ensure: "set [''tokens_used'', ''tokens_budget'', ''dollars_used'', ''dollars_budget''] \<subseteq> set ks \<Longrightarrow>
    frame ks st st' \<Longrightarrow> frame ks st (ensure env st')"
  by (auto simp: ensure_def intro!: frame_intros)

lemma frame_record_call:
  assumes "record_call dt dd basis source cr cc st = Some (n, st')"
  shows "frame BUDGET_KEYS st st'"
  using assms
  by (auto simp: record_call_def bind_eq_Some_conv Let_def BUDGET_KEYS_def intro!: frame_intros split: if_splits)

lemma frame_track:
  assumes "track js env r st = Some (n, st')"
  shows "frame BUDGET_KEYS st st'"
proof -
  from assms obtain dt dd basis source cr cc where
    "record_call dt dd basis source cr cc (ensure env st) = Some (n, st')"
    by (auto simp: track_def bind_eq_Some_conv Let_def)
  then have "frame BUDGET_KEYS (ensure env st) st'" by (rule frame_record_call)
  moreover have "frame BUDGET_KEYS st (ensure env st)" by (rule frame_ensure) (simp_all add: BUDGET_KEYS_def)
  ultimately show ?thesis by (blast intro: frame_trans)
qed

lemma frame_track_all: "track_all js env rs st = Some st' \<Longrightarrow> frame BUDGET_KEYS st st'"
  by (induction rs arbitrary: st) (auto simp: bind_eq_Some_conv intro: frame_trans frame_track)

lemma over_budget_state: "over_budget env st = Some (b, st') \<Longrightarrow> st' = ensure env st"
  by (auto simp: over_budget_def bind_eq_Some_conv Let_def split: if_splits)

lemma crossed_soft_warn_state: "crossed_soft_warn env st = Some (b, st') \<Longrightarrow> st' = ensure env st"
  by (auto simp: crossed_soft_warn_def bind_eq_Some_conv Let_def dest!: over_budget_state split: if_splits)

lemma frame_budget_gate:
  assumes "budget_gate env st = Some (b, st')"
  shows "frame (''budget_warned'' # BUDGET_KEYS) st st'"
  using assms
  by (auto simp: budget_gate_def bind_eq_Some_conv Let_def BUDGET_KEYS_def
      dest!: over_budget_state crossed_soft_warn_state intro!: frame_intros frame_ensure split: if_splits)

subsection \<open>Nodes\<close>

definition SUPERVISOR_KEYS :: "string list" where
  "SUPERVISOR_KEYS = [''budget_warned'', ''budget_terminated'', ''supervisor_decision'', ''supervisor_error'',
     ''iteration_count'', ''current_phase'', ''last_error'', ''last_updated''] @ BUDGET_KEYS"

definition VERDICT_KEYS :: "string list" where
  "VERDICT_KEYS = [''verdict'', ''verdict_error'', ''verdict_retry_count'', ''current_phase'', ''last_error'',
     ''last_updated''] @ BUDGET_KEYS"

definition GUARD_KEYS :: "string list" where
  "GUARD_KEYS = [''verdict'', ''verdict_interrupted'', ''verdict_overridden_by_guard'', ''authz_class'',
     ''triage_policy_audit'', ''playbook_audit'', ''verdict_retry_count'']"

lemma frame_incr: "incr k st' = Some st'' \<Longrightarrow> k \<in> set ks \<Longrightarrow> frame ks st st' \<Longrightarrow> frame ks st st''"
  by (auto simp: incr_def intro!: frame_intros split: pyval.splits)

text \<open>What a pass of the supervisor does: halt on the budget, force a verdict, or ask the model.\<close>

lemma supervisor_node_cases:
  assumes "supervisor_node js env now call st = Some st'"
  obtains (halt) "truthy (dget ''budget_terminated'' st')"
      "frame SUPERVISOR_KEYS st st'" "dget ''supervisor_error'' st' = dget ''supervisor_error'' st"
      "\<exists>r. dget ''supervisor_decision'' st' = decision_dump ''CLOSE'' r 0 ''case_run terminated by per-run cost cap''"
  | (forced) n where "dget_default ''iteration_count'' (PInt 0) st = PInt n" "MAX_ITERATIONS \<le> n + 1"
      "frame SUPERVISOR_KEYS st st'" "dget_default ''iteration_count'' (PInt 0) st' = PInt (n + 1)"
      "\<exists>r c. dget ''supervisor_decision'' st' = decision_dump ''VERDICT'' r (1 / 2) c"
  | (asked) n where "dget_default ''iteration_count'' (PInt 0) st = PInt n" "n + 1 < MAX_ITERATIONS"
      "frame SUPERVISOR_KEYS st st'" "dget_default ''iteration_count'' (PInt 0) st' = PInt (n + 1)"
proof -
  from assms obtain over st1 where gate: "budget_gate env st = Some (over, st1)"
    by (auto simp: supervisor_node_def bind_eq_Some_conv)
  note f1 = frame_mono [OF frame_budget_gate [OF gate], of SUPERVISOR_KEYS]
  have f1: "frame SUPERVISOR_KEYS st st1" by (rule f1) (auto simp: SUPERVISOR_KEYS_def)
  have g1: "frame (''budget_warned'' # BUDGET_KEYS) st st1" by (rule frame_budget_gate [OF gate])
  note assms' = assms [unfolded supervisor_node_def gate, simplified]
  show thesis
  proof (cases over)
    case True
    with assms' obtain cap where st': "st' = dset ''budget_terminated'' (PBool True)
        (dset ''supervisor_decision'' (decision_dump ''CLOSE'' (''budget_exceeded: '' @ cap) 0
           ''case_run terminated by per-run cost cap'') st1)"
      by (auto simp: bind_eq_Some_conv)
    show thesis
    proof (rule halt)
      show "truthy (dget ''budget_terminated'' st')" by (simp add: st')
      show "frame SUPERVISOR_KEYS st st'"
        unfolding st' by (intro frame_intros f1) (simp_all add: SUPERVISOR_KEYS_def)
      show "dget ''supervisor_error'' st' = dget ''supervisor_error'' st"
        using frame_dget [OF g1, of "''supervisor_error''"] by (simp add: st' BUDGET_KEYS_def)
      show "\<exists>r. dget ''supervisor_decision'' st' = decision_dump ''CLOSE'' r 0 ''case_run terminated by per-run cost cap''"
        by (auto simp: st')
    qed
  next
    case False
    with assms' obtain n where n: "dget_default ''iteration_count'' (PInt 0) st1 = PInt n"
      by (auto split: pyval.splits)
    have n0: "dget_default ''iteration_count'' (PInt 0) st = PInt n"
      using n frame_dget_default [OF g1, of "''iteration_count''"] by (simp add: BUDGET_KEYS_def)
    define st2 where "st2 = dset ''iteration_count'' (PInt (n + 1)) st1"
    have f2: "frame SUPERVISOR_KEYS st st2"
      unfolding st2_def by (intro frame_intros f1) (simp add: SUPERVISOR_KEYS_def)
    show thesis
    proof (cases "MAX_ITERATIONS \<le> n + 1")
      case True
      with assms' False n have st': "st' = dset ''current_phase'' (PStr ''verdict'')
          (dset ''supervisor_decision'' (decision_dump ''VERDICT'' ''Maximum iterations reached - forcing verdict'' (1 / 2)
             ''Unable to reach conclusion within iteration limit'') st2)"
        by (simp add: st2_def Let_def)
      show thesis
      proof (rule forced [OF n0 True])
        show "frame SUPERVISOR_KEYS st st'"
          unfolding st' by (intro frame_intros f2) (simp_all add: SUPERVISOR_KEYS_def)
      qed (auto simp: st' st2_def)
    next
      case max: False
      with assms' False n obtain st3 where st3: "track_all js env (responses call) st2 = Some st3"
        and st': "(\<exists>category. st' = record_failure now category st3) \<or> (\<exists>d. st' = record_decision now d st3)"
        by (cases "answer call") (auto simp: ask_supervisor_def bind_eq_Some_conv st2_def split: if_splits)
      have f3: "frame SUPERVISOR_KEYS st st3"
        using frame_mono [OF frame_track_all [OF st3], of SUPERVISOR_KEYS] f2
        by (auto simp: SUPERVISOR_KEYS_def intro: frame_trans)
      have "dget_default ''iteration_count'' (PInt 0) st3 = PInt (n + 1)"
        using frame_dget_default [OF frame_track_all [OF st3], of "''iteration_count''"]
        by (simp add: BUDGET_KEYS_def st2_def)
      then have it: "dget_default ''iteration_count'' (PInt 0) st' = PInt (n + 1)"
        using st' by (auto simp: record_failure_def record_decision_def split: option.splits)
      show thesis
      proof (rule asked [OF n0 _ _ it])
        show "n + 1 < MAX_ITERATIONS" using max by simp
        show "frame SUPERVISOR_KEYS st st'"
          using st' f3 by (auto simp: record_failure_def record_decision_def SUPERVISOR_KEYS_def
              split: option.splits intro!: frame_intros)
      qed
    qed
  qed
qed

lemma frame_verdict_node:
  assumes "verdict_node js env now msg call st = Some st'"
  shows "frame VERDICT_KEYS st st'"
proof -
  from assms obtain st1 where st1: "track_all js env (responses call) st = Some st1"
    by (auto simp: verdict_node_def bind_eq_Some_conv)
  have f: "frame VERDICT_KEYS st st1"
    by (rule frame_mono [OF frame_track_all [OF st1]]) (auto simp: VERDICT_KEYS_def)
  show ?thesis
    using assms f
    by (auto simp: verdict_node_def st1 bind_eq_Some_conv Let_def VERDICT_KEYS_def
        split: sum.splits if_splits intro!: frame_intros intro: frame_incr)
qed

end
