(* ===== verification/Triage_Run.thy ===== *)
theory Triage_Run
  imports Triage_Frame
begin

text \<open>
  What holds along every run of the triage graph: required steps precede the verdict, the
  guard's edge back to the supervisor is never taken, and a run halts. The invariant is proved
  by rule induction over reachable configurations.
\<close>

subsection \<open>Routing lemmas\<close>

lemma checked_action_halted: "truthy (dget ''budget_terminated'' st) \<Longrightarrow> checked_action st a = Some b \<Longrightarrow> b = a"
  by (auto simp: checked_action_def bind_eq_Some_conv)

lemma route_from_supervisor_targets:
  assumes "route_from_supervisor st = Some n"
  shows "n \<in> {WazuhWorker, CortexWorker, MispWorker, GatherAuthorization, VerdictNode, CloseInvestigation} \<and>
    (n = GatherAuthorization \<longrightarrow> (\<exists>m. missing_required_steps st = Some m \<and> m \<noteq> [])) \<and>
    (n = VerdictNode \<longrightarrow> truthy (dget ''budget_terminated'' st) \<or> missing_required_steps st = Some [])"
  using assms by (auto simp: route_from_supervisor_def bind_eq_Some_conv split: if_splits)

lemma route_from_supervisor_forced:
  assumes "route_from_supervisor st = Some n"
    and "dget ''supervisor_decision'' st = decision_dump ''VERDICT'' r c cr"
    and "dget_default ''iteration_count'' (PInt 0) st = PInt i" and "MAX_ITERATIONS \<le> i"
  shows "n \<in> {GatherAuthorization, VerdictNode, CloseInvestigation}"
proof -
  have "dget_default ''supervisor_decision'' (PDict []) st = decision_dump ''VERDICT'' r c cr"
    using assms(2) by (auto simp: dget_def dget_default_def decision_dump_def split: option.splits)
  then have sd: "py_get_default ''next_action'' (PStr ''ENRICH'') (dget_default ''supervisor_decision'' (PDict []) st)
      = Some (PStr ''VERDICT'')"
    by (simp add: decision_dump_def dget_default_def)
  have ca: "checked_action st (PStr ''VERDICT'') = Some (PStr ''VERDICT'')"
    using assms(4) by (simp add: checked_action_def assms(3) float_cmp_def)
  have "route_from_supervisor st = (if truthy (dget ''supervisor_error'' st) then Some CloseInvestigation
      else do {
        missing \<leftarrow> (if truthy (dget ''budget_terminated'' st) then Some [] else missing_required_steps st);
        Some (if missing \<noteq> [] then GatherAuthorization else VerdictNode) })"
    unfolding route_from_supervisor_def sd by (simp add: ca)
  with assms(1) show ?thesis by (auto simp: bind_eq_Some_conv split: if_splits)
qed

lemma route_from_supervisor_halted:
  assumes "route_from_supervisor st = Some n" and "truthy (dget ''budget_terminated'' st)"
    and "dget ''supervisor_decision'' st = decision_dump ''CLOSE'' r c cr"
  shows "n = CloseInvestigation"
proof -
  have "dget_default ''supervisor_decision'' (PDict []) st = decision_dump ''CLOSE'' r c cr"
    using assms(3) by (auto simp: dget_def dget_default_def decision_dump_def split: option.splits)
  then have sd: "py_get_default ''next_action'' (PStr ''ENRICH'') (dget_default ''supervisor_decision'' (PDict []) st)
      = Some (PStr ''CLOSE'')"
    by (simp add: decision_dump_def dget_default_def)
  from assms(1) show ?thesis
    unfolding route_from_supervisor_def sd
    by (auto simp: bind_eq_Some_conv assms(2) dest!: checked_action_halted [OF assms(2)] split: if_splits)
qed

subsection \<open>The required step is recorded\<close>

lemma py_map_hash: "py_map py_hash xs = Some ys \<Longrightarrow> ys = xs"
  by (induction xs arbitrary: ys) (auto simp: bind_eq_Some_conv elim: py_hash.elims)

lemma missing_steps_done:
  "missing_steps done1 steps = Some m \<Longrightarrow> PStr GATHER_AUTHORIZATION_CONTEXT \<in> set done2 \<Longrightarrow>
   missing_steps done2 steps = Some []"
proof (induction steps arbitrary: m)
  case (Cons step steps)
  then obtain h m' where h: "py_hash step = Some h" and m': "missing_steps done1 steps = Some m'"
    by (auto simp: py_member_def bind_eq_Some_conv)
  have h': "h = step" using h by (auto elim: py_hash.elims)
  from Cons.IH [OF m' Cons.prems(2)] show ?case
    using h h' Cons.prems(2)
    by (auto simp: py_member_def list_ex_iff KNOWN_STEP_NODES_def split: pyval.splits intro!: bexI [of _ step])
qed simp

lemma record_step_steps:
  assumes "record_step step st = Some st'"
  shows "\<exists>xs. dget ''triage_policy_steps_run'' st' = PList xs \<and> PStr step \<in> set xs \<and>
    (\<forall>x\<in>set xs. x = PStr step \<or> (\<exists>ys. x \<in> set ys \<and>
       get_alias ''triage_policy_steps_run'' ''playbook_steps_run'' st = PList ys))"
proof -
  define legacy where "legacy = dsetdefault ''playbook_steps_run'' (PList []) st"
  define both where "both = dsetdefault ''triage_policy_steps_run'' (dget ''playbook_steps_run'' legacy) legacy"
  have eq_str: "py_eq (PStr step) x \<longleftrightarrow> x = PStr step" for x by (cases x) auto
  from assms obtain xs where xs: "dget ''triage_policy_steps_run'' both = PList xs"
    unfolding record_step_def Let_def legacy_def [symmetric] both_def [symmetric]
    by (cases "dget ''triage_policy_steps_run'' both") auto
  have old: "\<exists>ys. x \<in> set ys \<and> get_alias ''triage_policy_steps_run'' ''playbook_steps_run'' st = PList ys"
    if "x \<in> set xs" for x
    using xs that
    by (auto simp: both_def legacy_def get_alias_def py_or_else_def dsetdefault_def dget_def
        split: option.splits if_splits)
  show ?thesis
  proof (cases "PStr step \<in> set xs")
    case True
    with assms xs have "st' = both"
      unfolding record_step_def Let_def legacy_def [symmetric] both_def [symmetric]
      by (auto simp: list_ex_iff eq_str)
    with xs True old show ?thesis by blast
  next
    case False
    with assms xs have "alias_append ''triage_policy_steps_run'' ''playbook_steps_run'' (PStr step) st = Some st'"
      unfolding record_step_def Let_def legacy_def [symmetric] both_def [symmetric]
      by (auto simp: list_ex_iff eq_str split: if_splits)
    then have "dget ''triage_policy_steps_run'' st' = PList (xs @ [PStr step])"
      using xs unfolding alias_append_def Let_def legacy_def [symmetric] both_def [symmetric] by auto
    with old show ?thesis by auto
  qed
qed

lemma record_step_frame:
  "record_step step st = Some st' \<Longrightarrow> frame [''triage_policy_steps_run'', ''playbook_steps_run''] st st'"
  by (auto simp: record_step_def Let_def split: pyval.splits if_splits intro!: frame_intros
      elim!: frame_alias_append)

lemma gather_frame:
  assumes "gather_authorization_context_node parse dump st = Some st'"
  shows "frame [''triage_policy_steps_run'', ''playbook_steps_run'', ''authorization_gathered'', ''investigation''] st st'"
proof -
  from assms obtain st1 where st1: "record_step GATHER_AUTHORIZATION_CONTEXT st = Some st1"
    by (auto simp: gather_authorization_context_node_def bind_eq_Some_conv)
  have f: "frame [''triage_policy_steps_run'', ''playbook_steps_run'', ''authorization_gathered'', ''investigation''] st st1"
    by (rule frame_mono [OF record_step_frame [OF st1]]) auto
  show ?thesis
    using assms f by (auto simp: gather_authorization_context_node_def st1 bind_eq_Some_conv
        split: option.splits intro!: frame_intros)
qed

lemma gather_clears_missing:
  assumes "gather_authorization_context_node parse dump st = Some st'"
    and "missing_required_steps st = Some m"
  shows "missing_required_steps st' = Some []"
proof -
  from assms(1) obtain st1 where st1: "record_step GATHER_AUTHORIZATION_CONTEXT st = Some st1"
    and keep: "dget ''triage_policy_steps_run'' st' = dget ''triage_policy_steps_run'' st1"
    by (auto simp: gather_authorization_context_node_def bind_eq_Some_conv split: option.splits)
  from record_step_steps [OF st1] keep obtain xs where
    xs: "dget ''triage_policy_steps_run'' st' = PList xs" "PStr GATHER_AUTHORIZATION_CONTEXT \<in> set xs"
    and old: "\<forall>x\<in>set xs. x = PStr GATHER_AUTHORIZATION_CONTEXT \<or> (\<exists>ys. x \<in> set ys \<and>
       get_alias ''triage_policy_steps_run'' ''playbook_steps_run'' st = PList ys)"
    by auto
  have pol: "policy_of st' = policy_of st"
    using frame_get_alias [OF gather_frame [OF assms(1)]] by (simp add: policy_of_def)
  from assms(2) obtain r required s ys where
    r: "py_get ''required_steps'' (policy_of st) = Some r" "py_iter_or_empty r = Some required"
    and s: "py_iter_or_empty (get_alias ''triage_policy_steps_run'' ''playbook_steps_run'' st) = Some s"
      "py_map py_hash s = Some ys" and m: "missing_steps ys required = Some m"
    by (auto simp: missing_required_steps_def bind_eq_Some_conv)
  have hash: "py_hash x = Some x" if "x \<in> set xs" for x
  proof (cases "x = PStr GATHER_AUTHORIZATION_CONTEXT")
    case False
    with old that obtain zs where z: "x \<in> set zs"
      "get_alias ''triage_policy_steps_run'' ''playbook_steps_run'' st = PList zs" by blast
    with s(1) have "s = zs" by (simp add: py_iter_or_empty_def py_or_else_def split: if_splits)
    with s(2) z(1) have "py_hash x \<noteq> None"
      by (induction zs arbitrary: s ys) (auto simp: bind_eq_Some_conv)
    then show ?thesis by (cases x) auto
  qed simp
  have xs_map: "py_map py_hash xs = Some xs"
    using hash py_map_total [of xs py_hash id] by simp
  have "get_alias ''triage_policy_steps_run'' ''playbook_steps_run'' st' = PList xs"
    using xs by (auto simp: get_alias_def py_or_else_def)
  then show ?thesis
    using r missing_steps_done [OF m xs(2)]
    by (simp add: missing_required_steps_def pol xs_map)
qed

subsection \<open>The guard\<close>

lemma frame_AUDIT: "AUDIT_KEYS e st' = Some st'' \<Longrightarrow> frame GUARD_KEYS st st' \<Longrightarrow> frame GUARD_KEYS st st''"
  unfolding AUDIT_KEYS_def by (erule frame_alias_append) (simp_all add: GUARD_KEYS_def)

lemma frame_append_audits:
  "append_audits now es st' = Some st'' \<Longrightarrow> frame GUARD_KEYS st st' \<Longrightarrow> frame GUARD_KEYS st st''"
  by (induction es arbitrary: st') (auto simp: bind_eq_Some_conv dest: frame_AUDIT)

lemma dget_AUDIT:
  "AUDIT_KEYS e st = Some st' \<Longrightarrow> k \<noteq> ''triage_policy_audit'' \<Longrightarrow> k \<noteq> ''playbook_audit'' \<Longrightarrow> map_of st' k = map_of st k"
  unfolding AUDIT_KEYS_def by (rule map_of_alias_append)

lemma dget_append_audits:
  "append_audits now es st = Some st' \<Longrightarrow> k \<noteq> ''triage_policy_audit'' \<Longrightarrow> k \<noteq> ''playbook_audit'' \<Longrightarrow>
   map_of st' k = map_of st k"
  by (induction es arbitrary: st) (auto simp: bind_eq_Some_conv dget_AUDIT)

text \<open>What a ruling that fired leaves in the state.\<close>

lemma apply_ruling_cases:
  assumes "apply_ruling now vd draft r st = Some st'"
  obtains (keep) "map_of st' ''verdict'' = map_of st ''verdict''"
      "map_of st' ''verdict_retry_count'' = map_of st ''verdict_retry_count''" "\<not> overridden r"
      "frame GUARD_KEYS st st'"
  | (rewrite) vd' where "map_of st' ''verdict'' = Some (PDict vd')" "dget ''decision'' vd' = PStr (final_decision r)"
      "overridden r" "map_of vd' ''decision'' = Some (PStr (final_decision r))"
      "if final_decision r = ''needs_more_info''
       then \<exists>n. dget_default ''verdict_retry_count'' (PInt 0) st = PInt n
              \<and> dget_default ''verdict_retry_count'' (PInt 0) st' = PInt (n + 1)
       else map_of st' ''verdict_retry_count'' = map_of st ''verdict_retry_count''"
      "frame GUARD_KEYS st st'"
proof -
  from assms obtain e st1 where st1: "AUDIT_KEYS e st = Some st1"
    and rest: "(let st2 = (if interrupted r then dset ''verdict_interrupted'' (PBool True) st1 else st1)
      in if overridden r then do {
           rec \<leftarrow> py_str (py_or_else (dget ''recommendation'' vd) (PStr []));
           let verdict' = dset ''recommendation'' (PStr (override_recommendation draft r rec))
                        (dset ''decision'' (PStr (final_decision r)) vd);
           let st3 = dset ''verdict_overridden_by_guard'' (PBool True) (dset ''verdict'' (PDict verdict') st2);
           if final_decision r = ''needs_more_info'' then incr ''verdict_retry_count'' st3 else Some st3 }
         else Some st2) = Some st'"
    by (auto simp: apply_ruling_def bind_eq_Some_conv)
  define st2 where "st2 = (if interrupted r then dset ''verdict_interrupted'' (PBool True) st1 else st1)"
  have f2: "frame GUARD_KEYS st st2"
    unfolding st2_def using frame_AUDIT [OF st1 frame_refl]
    by (auto intro!: frame_intros simp: GUARD_KEYS_def)
  have k2: "map_of st2 ''verdict'' = map_of st ''verdict''"
    "map_of st2 ''verdict_retry_count'' = map_of st ''verdict_retry_count''"
    by (simp_all add: st2_def dget_AUDIT [OF st1])
  show thesis
  proof (cases "overridden r")
    case False
    with rest have "st' = st2" by (simp add: st2_def)
    with False k2 f2 show thesis by (intro keep) simp_all
  next
    case True
    with rest obtain vd' st3 where vd': "map_of vd' ''decision'' = Some (PStr (final_decision r))"
      and st3: "st3 = dset ''verdict_overridden_by_guard'' (PBool True) (dset ''verdict'' (PDict vd') st2)"
      and st': "(if final_decision r = ''needs_more_info'' then incr ''verdict_retry_count'' st3 else Some st3) = Some st'"
    proof -
      from rest True obtain rec where
        "(let verdict' = dset ''recommendation'' (PStr (override_recommendation draft r rec))
                        (dset ''decision'' (PStr (final_decision r)) vd);
           st3 = dset ''verdict_overridden_by_guard'' (PBool True) (dset ''verdict'' (PDict verdict') st2)
          in if final_decision r = ''needs_more_info'' then incr ''verdict_retry_count'' st3 else Some st3) = Some st'"
        by (auto simp: st2_def bind_eq_Some_conv)
      then show ?thesis by (intro that [OF _ refl]) (simp_all add: Let_def)
    qed
    have f3: "frame GUARD_KEYS st st3"
      unfolding st3 using f2 by (auto intro!: frame_intros simp: GUARD_KEYS_def)
    have r3: "dget_default ''verdict_retry_count'' (PInt 0) st3 = dget_default ''verdict_retry_count'' (PInt 0) st"
      by (simp add: st3 dget_default_def k2)
    show thesis
    proof (rule rewrite [of vd'])
      show "map_of st' ''verdict'' = Some (PDict vd')"
        using st' by (auto simp: incr_def st3 split: if_splits pyval.splits)
      show "frame GUARD_KEYS st st'"
        using st' f3 by (auto split: if_splits intro: frame_incr simp: GUARD_KEYS_def)
      show "if final_decision r = ''needs_more_info''
       then \<exists>n. dget_default ''verdict_retry_count'' (PInt 0) st = PInt n
              \<and> dget_default ''verdict_retry_count'' (PInt 0) st' = PInt (n + 1)
       else map_of st' ''verdict_retry_count'' = map_of st ''verdict_retry_count''"
        using st' r3 k2 by (auto simp: incr_def st3 split: if_splits pyval.splits)
    qed (use vd' True in \<open>auto simp: dget_def\<close>)
  qed
qed

text \<open>The retry counter is a count, and a verdict that waits for the guard has been counted.\<close>

definition retries_ok :: "pydict \<Rightarrow> bool" where
  "retries_ok st \<longleftrightarrow> (\<exists>n\<ge>0. dget_default ''verdict_retry_count'' (PInt 0) st = PInt n)"

definition counted :: "pydict \<Rightarrow> string \<Rightarrow> bool" where
  "counted st d \<longleftrightarrow> (d = ''needs_more_info'' \<longrightarrow>
     (\<exists>n\<ge>1. dget_default ''verdict_retry_count'' (PInt 0) st = PInt n))"

definition pending_verdict :: "pydict \<Rightarrow> bool" where
  "pending_verdict st \<longleftrightarrow> truthy (dget ''verdict_error'' st) \<or>
     (\<exists>vd d. map_of st ''verdict'' = Some (PDict vd) \<and> map_of vd ''decision'' = Some (PStr d) \<and> counted st d)"

lemma incr_retries: "incr ''verdict_retry_count'' st = Some st' \<Longrightarrow> retries_ok st \<Longrightarrow>
    retries_ok st' \<and> (\<exists>n\<ge>1. dget_default ''verdict_retry_count'' (PInt 0) st' = PInt n)"
  by (auto simp: incr_def retries_ok_def split: pyval.splits)

lemma retries_frame:
  "dget_default ''verdict_retry_count'' (PInt 0) st' = dget_default ''verdict_retry_count'' (PInt 0) st \<Longrightarrow>
   retries_ok st \<Longrightarrow> retries_ok st'"
  by (simp add: retries_ok_def)

lemma verdict_node_pending:
  assumes "verdict_node js env now msg call st = Some st'" and "retries_ok st"
  shows "pending_verdict st' \<and> retries_ok st'"
proof -
  from assms(1) obtain st1 where st1: "track_all js env (responses call) st = Some st1"
    by (auto simp: verdict_node_def bind_eq_Some_conv)
  have r1: "retries_ok st1"
    using assms(2) frame_dget_default [OF frame_track_all [OF st1], of "''verdict_retry_count''"]
    by (simp add: retries_ok_def BUDGET_KEYS_def)
  show ?thesis
  proof (cases "answer call")
    case (Inl category)
    with assms(1) st1 obtain st2 where st2: "incr ''verdict_retry_count''
            (dset ''last_error'' (PStr (''verdict_failed:'' @ category))
              (dset ''verdict_error'' (PDict [(''category'', PStr category), (''message'', PStr (take 500 msg))]) st1))
          = Some st2" and st': "st' = dset ''last_updated'' (PStr now) st2"
      by (auto simp: verdict_node_def bind_eq_Some_conv)
    from st2 have "truthy (dget ''verdict_error'' st2)"
      by (auto simp: incr_def split: pyval.splits)
    moreover have "retries_ok st2" using incr_retries [OF st2] r1 by (simp add: retries_ok_def)
    ultimately show ?thesis by (simp add: st' pending_verdict_def retries_ok_def)
  next
    case (Inr v)
    define sv where "sv = dset ''current_phase'' (PStr ''verdict'') (dset ''verdict'' (verdict_dump v) st1)"
    have rv: "retries_ok sv" using r1 by (simp add: sv_def retries_ok_def)
    have mv: "map_of sv ''verdict'' = Some (verdict_dump v)" by (simp add: sv_def)
    have md: "\<exists>vd. verdict_dump v = PDict vd \<and> map_of vd ''decision'' = Some (PStr (vd_decision v))"
      by (simp add: verdict_dump_def)
    from assms(1) st1 Inr obtain st2 where
      st2: "(if vd_decision v = ''needs_more_info'' then incr ''verdict_retry_count'' sv else Some sv) = Some st2"
      and st': "st' = dset ''last_updated'' (PStr now) st2"
      by (auto simp: verdict_node_def sv_def Let_def bind_eq_Some_conv split: if_splits)
    show ?thesis
    proof (cases "vd_decision v = ''needs_more_info''")
      case True
      with st2 have i: "incr ''verdict_retry_count'' sv = Some st2" by simp
      then have "map_of st2 ''verdict'' = map_of sv ''verdict''" by (auto simp: incr_def split: pyval.splits)
      with incr_retries [OF i rv] mv md show ?thesis
        by (auto simp: st' pending_verdict_def counted_def retries_ok_def)
    next
      case False
      with st2 mv md rv show ?thesis
        by (auto simp: st' pending_verdict_def counted_def retries_ok_def)
    qed
  qed
qed

lemma route_to_supervisorD:
  assumes "route_from_verdict st = Some Supervisor"
  shows "\<not> truthy (dget ''verdict_error'' st) \<and> (\<exists>vd. dget_default ''verdict'' (PDict []) st = PDict vd \<and>
      dget_default ''decision'' (PStr ''needs_more_info'') vd = PStr ''needs_more_info'') \<and>
    py_cmp CmpGe (dget_default ''verdict_retry_count'' (PInt 0) st) (PInt 1) = Some False"
  using assms by (cases "dget_default ''verdict'' (PDict []) st")
    (auto simp: route_from_verdict_def bind_eq_Some_conv split: if_splits)

lemma pending_not_to_supervisor:
  assumes "pending_verdict st"
  shows "route_from_verdict st \<noteq> Some Supervisor"
proof
  assume r: "route_from_verdict st = Some Supervisor"
  from route_to_supervisorD [OF r] assms obtain vd d where
    vd: "map_of st ''verdict'' = Some (PDict vd)" "map_of vd ''decision'' = Some (PStr d)" "counted st d"
    by (auto simp: pending_verdict_def)
  with route_to_supervisorD [OF r] have "d = ''needs_more_info''" by (auto simp: dget_default_def)
  with vd(3) obtain n where "n \<ge> 1" "dget_default ''verdict_retry_count'' (PInt 0) st = PInt n"
    by (auto simp: counted_def)
  with route_to_supervisorD [OF r] show False by (simp add: float_cmp_def)
qed

lemma guard_node_pending:
  assumes "verdict_guard_node parse now st = Some st'" and "pending_verdict st" and "retries_ok st"
  shows "pending_verdict st' \<and> retries_ok st' \<and> frame GUARD_KEYS st st'"
proof (cases "truthy (dget ''verdict_error'' st) \<or> \<not> truthy (get_dict ''verdict'' st)")
  case True
  with assms show ?thesis by (simp add: verdict_guard_node_def)
next
  case False
  with assms(2) obtain vd d where vd: "map_of st ''verdict'' = Some (PDict vd)"
    "map_of vd ''decision'' = Some (PStr d)" "counted st d"
    by (auto simp: pending_verdict_def)
  have gv: "get_dict ''verdict'' st = PDict vd"
    using vd(1,2) by (cases vd) (auto simp: get_dict_def dget_def py_or_else_def)
  define s0 where "s0 = ddel ''verdict_overridden_by_guard'' (ddel ''verdict_interrupted'' st)"
  from assms(1) False gv obtain draft r audits st2 where
    st2: "append_audits now audits (dset ''authz_class'' (PStr (authz_class_value (authz_class r))) s0) = Some st2"
    and fin: "(if overrides r = [] then Some st2 else apply_ruling now vd draft r st2) = Some st'"
    by (auto simp: verdict_guard_node_def Let_def bind_eq_Some_conv s0_def)
  have f2: "frame GUARD_KEYS st st2"
    by (rule frame_append_audits [OF st2]) (auto simp: s0_def GUARD_KEYS_def intro!: frame_intros)
  have k2: "map_of st2 ''verdict'' = map_of st ''verdict''"
    "map_of st2 ''verdict_retry_count'' = map_of st ''verdict_retry_count''"
    by (simp_all add: dget_append_audits [OF st2] s0_def)
  have same: "pending_verdict s \<and> retries_ok s"
    if "map_of s ''verdict'' = map_of st ''verdict''"
      "map_of s ''verdict_retry_count'' = map_of st ''verdict_retry_count''" for s
    using that vd assms(3) by (auto simp: pending_verdict_def counted_def retries_ok_def dget_default_def)
  show ?thesis
  proof (cases "overrides r = []")
    case True
    with fin f2 same [OF k2] show ?thesis by simp
  next
    case o: False
    with fin have ar: "apply_ruling now vd draft r st2 = Some st'" by simp
    from ar show ?thesis
    proof (cases rule: apply_ruling_cases)
      case keep
      with same k2 frame_trans [OF f2] show ?thesis by simp
    next
      case (rewrite vd')
      have r2: "retries_ok st2" using same [OF k2] by simp
      show ?thesis
      proof (cases "final_decision r = ''needs_more_info''")
        case True
        with rewrite r2 frame_trans [OF f2] show ?thesis
          by (auto simp: pending_verdict_def counted_def retries_ok_def)
      next
        case False
        with rewrite r2 frame_trans [OF f2] show ?thesis
          by (auto simp: pending_verdict_def counted_def retries_ok_def dget_default_def)
      qed
    qed
  qed
qed

subsection \<open>The invariant of a run\<close>

definition run_inv :: "node \<times> pydict \<Rightarrow> bool" where
  "run_inv c \<longleftrightarrow> retries_ok (snd c) \<and>
     (fst c = VerdictGuard \<longrightarrow> pending_verdict (snd c)) \<and>
     (fst c = GatherAuthorization \<longrightarrow> (\<exists>m. missing_required_steps (snd c) = Some m \<and> m \<noteq> [])) \<and>
     (fst c = VerdictNode \<longrightarrow> truthy (dget ''budget_terminated'' (snd c)) \<or> missing_required_steps (snd c) = Some [])"

lemma retries_frame': "frame ks st st' \<Longrightarrow> ''verdict_retry_count'' \<notin> set ks \<Longrightarrow> retries_ok st \<Longrightarrow> retries_ok st'"
  by (simp add: retries_ok_def frame_dget_default)

definition RESOLVE_KEYS :: "string list" where
  "RESOLVE_KEYS = [''triage_policy'', ''playbook'', ''triage_policy_shadow'', ''playbook_shadow'', ''operational_vetoes'']"

lemma resolve_frame:
  assumes "resolve_triage_policy_node reg st = Some st'"
  shows "frame RESOLVE_KEYS st st'"
proof -
  have w: "frame RESOLVE_KEYS st (write_shadow shadow (write_policy matched st))" for shadow matched
    by (auto simp: write_shadow_def write_policy_def RESOLVE_KEYS_def split: option.splits intro!: frame_intros)
  have v: "stash_vetoes matched investigation s = Some s' \<Longrightarrow> frame RESOLVE_KEYS st s \<Longrightarrow> frame RESOLVE_KEYS st s'"
    for matched investigation s s'
    by (auto simp: stash_vetoes_def RESOLVE_KEYS_def split: option.splits if_splits intro!: frame_intros)
  from assms show ?thesis
    by (auto simp: resolve_triage_policy_node_def bind_eq_Some_conv intro: v [OF _ w])
qed

lemma route_from_resolve_targets:
  "route_from_resolve_triage_policy st = Some n \<Longrightarrow> n \<in> {Supervisor, OperationalClose}"
  by (auto simp: route_from_resolve_triage_policy_def bind_eq_Some_conv split: if_splits)

lemma operational_frame:
  assumes "operational_close_node now st = Some st'"
  shows "frame [''supervisor_decision'', ''triage_policy_audit'', ''playbook_audit'', ''operational_close''] st st'"
  using assms
  by (auto simp: operational_close_node_def AUDIT_KEYS_def bind_eq_Some_conv Let_def
      intro!: frame_intros elim!: frame_alias_append)

lemma route_from_verdict_targets:
  "route_from_verdict st = Some n \<Longrightarrow> n \<in> {CloseInvestigation, HumanReview, Supervisor}"
  by (auto simp: route_from_verdict_def bind_eq_Some_conv split: if_splits)

lemma route_from_human_targets: "route_from_human_review st \<in> {ThehiveWorker, CloseInvestigation, Supervisor}"
  by (simp add: route_from_human_review_def Let_def)

lemma worker_frame: "worker_update st st' \<longleftrightarrow> frame WORKER_KEYS st st'"
  by (simp add: worker_update_def frame_def)

lemma close_frame:
  assumes "close_investigation_node now st = Some st'"
  shows "frame [''last_updated'', ''current_phase'', ''investigation''] st st'"
proof (cases "dget_default ''investigation'' (PDict []) st")
  case (PDict invd)
  with assms obtain i where "st' = dset ''last_updated'' (PStr now)
      (dset ''current_phase'' (PStr ''closed'') (dset ''investigation'' i st))"
    by (auto simp: close_investigation_node_def bind_eq_Some_conv Let_def)
  then show ?thesis by (auto intro!: frame_intros)
qed (use assms in \<open>auto simp: close_investigation_node_def bind_eq_Some_conv Let_def\<close>)

lemma human_frame: "frame [''last_updated'', ''awaiting_human_approval'', ''human_feedback'', ''human_decision''] st
    (human_review_node now inp st)"
  by (auto simp: human_review_node_def intro!: frame_intros)

lemma step_inv: "graph_step E c c' \<Longrightarrow> run_inv c \<Longrightarrow> run_inv c'"
proof (induction rule: graph_step.induct)
  case (resolve st st' n)
  with retries_frame' [OF resolve_frame [OF resolve(1)]] route_from_resolve_targets [OF resolve(2)]
  show ?case by (auto simp: run_inv_def RESOLVE_KEYS_def)
next
  case (operational now st st')
  with retries_frame' [OF operational_frame [OF operational(1)]] show ?case by (auto simp: run_inv_def)
next
  case (supervise now call st st' n)
  have "frame SUPERVISOR_KEYS st st'" by (rule supervisor_node_cases [OF supervise(1)])
  with supervise retries_frame' route_from_supervisor_targets [OF supervise(2)] show ?case
    by (fastforce simp: run_inv_def SUPERVISOR_KEYS_def BUDGET_KEYS_def)
next
  case (work w st st')
  then show ?case using retries_frame' [of WORKER_KEYS st st'] by (auto simp: run_inv_def worker_frame WORKER_KEYS_def)
next
  case (gather st st')
  with retries_frame' [OF gather_frame [OF gather(1)]] show ?case by (auto simp: run_inv_def)
next
  case (verdict now message vcall st st')
  with verdict_node_pending [OF verdict(1)] show ?case by (auto simp: run_inv_def)
next
  case (guard now st st' n)
  with guard_node_pending [OF guard(1)] route_from_verdict_targets [OF guard(2)] show ?case
    by (auto simp: run_inv_def)
next
  case (review st' now inp st)
  have "retries_ok st'" using retries_frame' [OF human_frame] review by (simp add: run_inv_def)
  with route_from_human_targets [of st'] show ?case by (auto simp: run_inv_def)
next
  case (hive st st')
  then show ?case using retries_frame' [of WORKER_KEYS st st'] by (auto simp: run_inv_def worker_frame WORKER_KEYS_def)
next
  case (close now st st')
  with retries_frame' [OF close_frame [OF close(1)]] show ?case by (auto simp: run_inv_def)
qed

lemma reachable_inv:
  assumes "graph_reachable E st0 c" and "retries_ok st0"
  shows "run_inv c"
  using assms(1)
proof induction
  case start
  with assms(2) show ?case by (simp add: run_inv_def)
next
  case (step c c')
  from step.hyps(2) step.IH show ?case by (rule step_inv)
qed

subsection \<open>A measure that every step but a human's request decreases\<close>

definition iter_of :: "pydict \<Rightarrow> int" where
  "iter_of st = (case dget_default ''iteration_count'' (PInt 0) st of PInt n \<Rightarrow> n | _ \<Rightarrow> 0)"

definition owes :: "pydict \<Rightarrow> nat" where
  "owes st = (if missing_required_steps st = Some [] then 0 else 1)"

fun distance :: "node \<times> pydict \<Rightarrow> nat" where
  "distance (Resolve, st) = 2 * nat (10 - iter_of st) + 9"
| "distance (OperationalClose, st) = 2"
| "distance (Supervisor, st) = 2 * nat (10 - iter_of st) + 2 * owes st + 6"
| "distance (GatherAuthorization, st) = 2 * nat (10 - iter_of st) + 7"
| "distance (VerdictNode, st) = 5"
| "distance (VerdictGuard, st) = 4"
| "distance (HumanReview, st) = 3"
| "distance (ThehiveWorker, st) = 2"
| "distance (CloseInvestigation, st) = 1"
| "distance (End, st) = 0"
| "distance (w, st) = 2 * nat (10 - iter_of st) + 2 * owes st + 7"

lemma owes_le: "owes st \<le> 1" by (simp add: owes_def)

lemma iter_frame: "frame ks st st' \<Longrightarrow> ''iteration_count'' \<notin> set ks \<Longrightarrow> iter_of st' = iter_of st"
  by (simp add: iter_of_def frame_dget_default)

lemma owes_frame: "frame ks st st' \<Longrightarrow> set ks \<inter> set GATE_KEYS = {} \<Longrightarrow> owes st' = owes st"
  by (simp add: owes_def frame_missing)

lemma supervisor_distance:
  assumes "supervisor_node js env now call st = Some st'" and "route_from_supervisor st' = Some n"
  shows "distance (n, st') < distance (Supervisor, st)"
proof -
  note targets = route_from_supervisor_targets [OF assms(2)]
  have f: "frame SUPERVISOR_KEYS st st'" by (rule supervisor_node_cases [OF assms(1)])
  have o: "owes st' = owes st"
    by (rule owes_frame [OF f]) (simp add: SUPERVISOR_KEYS_def BUDGET_KEYS_def GATE_KEYS_def)
  from assms(1) show ?thesis
  proof (cases rule: supervisor_node_cases)
    case halt
    then obtain r where "dget ''supervisor_decision'' st'
        = decision_dump ''CLOSE'' r 0 ''case_run terminated by per-run cost cap''" by blast
    from route_from_supervisor_halted [OF assms(2) halt(1) this] show ?thesis by simp
  next
    case (forced i)
    then obtain r c where "dget ''supervisor_decision'' st' = decision_dump ''VERDICT'' r (1 / 2) c" by blast
    from route_from_supervisor_forced [OF assms(2) this forced(4,2)]
    have n: "n \<in> {GatherAuthorization, VerdictNode, CloseInvestigation}" .
    have "owes st' = 1" if "n = GatherAuthorization" using targets that by (auto simp: owes_def)
    moreover have "nat (10 - iter_of st') \<le> nat (10 - iter_of st)" using forced(1,4) by (simp add: iter_of_def)
    ultimately show ?thesis using n o by auto
  next
    case (asked i)
    have it: "iter_of st' = i + 1" "iter_of st = i" "i + 1 < 10"
      using asked by (simp_all add: iter_of_def MAX_ITERATIONS_def)
    then have "nat (10 - iter_of st') < nat (10 - iter_of st)" by simp
    with targets o show ?thesis by auto
  qed
qed

text \<open>A step on which the human does not ask for more information.\<close>

definition quiet_step :: "graph_env \<Rightarrow> node \<times> pydict \<Rightarrow> node \<times> pydict \<Rightarrow> bool" where
  "quiet_step E c c' \<longleftrightarrow> graph_step E c c' \<and> \<not> (fst c = HumanReview \<and> fst c' = Supervisor)"

lemma quiet_stepD:
  "quiet_step E c c' \<Longrightarrow> graph_step E c c'"
  "quiet_step E c c' \<Longrightarrow> \<not> (fst c = HumanReview \<and> fst c' = Supervisor)"
  by (simp_all add: quiet_step_def)

lemma step_distance:
  "graph_step E c c' \<Longrightarrow> \<not> (fst c = HumanReview \<and> fst c' = Supervisor) \<Longrightarrow> run_inv c \<Longrightarrow>
   distance c' < distance c"
proof (induction rule: graph_step.induct)
  case (resolve st st' n)
  have "iter_of st' = iter_of st" by (rule iter_frame [OF resolve_frame [OF resolve(1)]]) (simp add: RESOLVE_KEYS_def)
  with route_from_resolve_targets [OF resolve(2)] owes_le [of st'] show ?case by auto
next
  case (supervise now call st st' n)
  then show ?case by (intro supervisor_distance)
next
  case (work w st st')
  then have f: "frame WORKER_KEYS st st'" by (simp add: worker_frame)
  have "iter_of st' = iter_of st" "owes st' = owes st"
    using iter_frame [OF f] owes_frame [OF f] by (simp_all add: WORKER_KEYS_def GATE_KEYS_def)
  with work(1) show ?case by auto
next
  case (gather st st')
  then obtain m where m: "missing_required_steps st = Some m" by (auto simp: run_inv_def)
  have "iter_of st' = iter_of st" using iter_frame [OF gather_frame [OF gather(1)]] by simp
  moreover have "owes st' = 0" using gather_clears_missing [OF gather(1) m] by (simp add: owes_def)
  ultimately show ?case by simp
next
  case (guard now st st' n)
  have "pending_verdict st'" using guard_node_pending [OF guard(1)] guard(4) by (auto simp: run_inv_def)
  then have "n \<noteq> Supervisor" using pending_not_to_supervisor guard(2) by auto
  with route_from_verdict_targets [OF guard(2)] show ?case by auto
next
  case (review st' now inp st)
  with route_from_human_targets [of st'] show ?case by auto
qed auto

lemma quiet_run_inv: "(quiet_step E ^^ n) c d \<Longrightarrow> run_inv c \<Longrightarrow> run_inv d"
proof (induction n arbitrary: d)
  case (Suc n)
  then obtain e where "(quiet_step E ^^ n) c e" and e: "graph_step E e d" by (auto dest: quiet_stepD(1))
  with Suc.IH Suc.prems(2) have "run_inv e" by blast
  with e show ?case by (rule step_inv)
qed auto

lemma quiet_run_bounded:
  "(quiet_step E ^^ n) c c' \<Longrightarrow> run_inv c \<Longrightarrow> n + distance c' \<le> distance c"
proof (induction n arbitrary: c')
  case (Suc n)
  then obtain d where d: "(quiet_step E ^^ n) c d" "quiet_step E d c'" by auto
  have inv: "run_inv d" using d(1) Suc.prems(2) by (rule quiet_run_inv)
  have "distance c' < distance d" by (rule step_distance [OF quiet_stepD [OF d(2)] inv])
  with Suc.IH [OF d(1) Suc.prems(2)] show ?case by simp
qed auto

end
