(* ===== verification/Triage_Correct.thy ===== *)
theory Triage_Correct
  imports Triage_Run Policy_Correct Budget_Correct
begin

text \<open>
  What a run of the triage graph promises from its entry to the disposition the worker reports,
  and four places where the code falls short of what its comments promise.
\<close>

subsection \<open>Along a run\<close>



text \<open>
  The automatic retry after a verdict that needs more information never happens: the guard's
  edge back to the supervisor is dead in every reachable configuration, because the counter it
  reads was already incremented by the verdict that is being routed.
\<close>

theorem verdict_never_retried:
  assumes "graph_reachable E st0 (VerdictGuard, st)" and "retries_ok st0"
    and "graph_step E (VerdictGuard, st) (n, st')"
  shows "n \<noteq> Supervisor"
proof
  assume n: "n = Supervisor"
  from assms(3) obtain now where g: "verdict_guard_node (ge_parse E) now st = Some st'"
    "route_from_verdict st' = Some n" by (auto elim: graph_step_from)
  from reachable_inv [OF assms(1,2)] have "pending_verdict st" "retries_ok st" by (simp_all add: run_inv_def)
  with guard_node_pending [OF g(1)] have "pending_verdict st'" by blast
  with pending_not_to_supervisor g(2) n show False by blast
qed

text \<open>
  An action outside the policy's legal set does not take effect: where CLOSE is not legal, a
  pass of the supervisor leads to the close node only when the model call failed or the budget
  ended the run.
\<close>

theorem illegal_close_not_taken:
  assumes "graph_step E (Supervisor, st) (CloseInvestigation, st')"
    and "legal_actions_for st' = Some (Some legal)" and "''CLOSE'' \<notin> set legal"
  shows "truthy (dget ''supervisor_error'' st') \<or> truthy (dget ''budget_terminated'' st')"
proof (rule ccontr)
  assume no: "\<not> ?thesis"
  from assms(1) have r: "route_from_supervisor st' = Some CloseInvestigation" by (auto elim: graph_step_from)
  with no obtain proposed where ca: "checked_action st' proposed = Some (PStr ''CLOSE'')"
    by (auto simp: route_from_supervisor_def bind_eq_Some_conv split: if_splits)
  have mem: "py_member v (map PStr legal) = Some True \<Longrightarrow> v \<noteq> PStr ''CLOSE''" for v
    using assms(3) by (auto simp: py_member_def bind_eq_Some_conv list_ex_iff)
  have "legal \<noteq> []" using legal_actions_forD [OF assms(2)] by blast
  then have hd: "hd legal \<noteq> ''CLOSE''" using assms(3) by (cases legal) auto
  from ca no assms(2) hd mem show False
    by (auto simp: checked_action_def bind_eq_Some_conv split: if_splits)
qed

subsection \<open>From the terminal state to the disposition\<close>


subsection \<open>Divergences\<close>

lemma guard_ruling_pop:
  "guard_ruling parse vd (ddel ''verdict_overridden_by_guard'' (ddel ''verdict_interrupted'' st)) = guard_ruling parse vd st"
  by (simp add: guard_ruling_def investigation_of_def policy_of_def active_incident_of_def)

text \<open>
  Property C40. A close drafted while expected threat intelligence is unavailable is committed
  without a human: the guard rules an interrupt, but the node returns before writing the flag
  when no override fired, so the run closes.
\<close>

theorem intel_interrupt_is_lost:
  assumes "map_of st ''verdict'' = Some (PDict vd)" and "map_of vd ''decision'' = Some (PStr ''close'')"
    and "\<not> truthy (dget ''verdict_error'' st)"
    and "guard_ruling parse vd st = Some r" and "interrupted r" and "overrides r = []"
    and "verdict_guard_node parse now st = Some st'"
  shows "\<not> truthy (dget ''verdict_interrupted'' st') \<and> route_from_verdict st' = Some CloseInvestigation"
proof -
  have gv: "get_dict ''verdict'' st = PDict vd"
    using assms(1,2) by (cases vd) (auto simp: get_dict_def dget_def py_or_else_def)
  have tv: "truthy (PDict vd)" using assms(2) by auto
  define s0 where "s0 = ddel ''verdict_overridden_by_guard'' (ddel ''verdict_interrupted'' st)"
  have gr: "guard_ruling parse vd s0 = Some r" using assms(4) by (simp add: s0_def guard_ruling_pop)
  from assms(7) obtain audits where
    a: "append_audits now audits (dset ''authz_class'' (PStr (authz_class_value (authz_class r))) s0) = Some st'"
    unfolding verdict_guard_node_def Let_def s0_def [symmetric]
    using assms(3,6) gv tv gr by (auto simp: bind_eq_Some_conv)
  have k: "map_of st' ''verdict_interrupted'' = None" "map_of st' ''verdict'' = Some (PDict vd)"
    "map_of st' ''verdict_error'' = map_of st ''verdict_error''"
    using assms(1) by (simp_all add: dget_append_audits [OF a] s0_def)
  have "\<not> truthy (dget ''verdict_error'' st')" "\<not> truthy (dget ''verdict_interrupted'' st')"
    using k assms(3) by (simp_all add: dget_def)
  then show ?thesis
    using k(2) assms(2) by (simp add: route_from_verdict_def dget_default_def)
qed

text \<open>
  A failed lookup counts as an enriched indicator: an enrichment that only records an error
  covers its observable, so the floor's veto on unverified indicators does not fire.
\<close>

theorem failed_enrichment_counts_as_checked:
  assumes "value \<noteq> []"
  shows "has_unenriched_observables
     [(''observables'', PList [PDict [(''value'', PStr value)]]),
      (''enrichments'', PList [PDict [(''observable'', PDict [(''value'', PStr value)]), (''analyzer'', PStr ''unknown''),
          (''verdict'', PStr ''unknown''), (''error'', PStr err)]])] = Some False"
  using assms
  by (simp add: has_unenriched_observables_def py_or_else_def get_dict_def unenriched_def py_member_def)

text \<open>
  The worker's severity of an alert and the shared enumeration's differ at exactly one level:
  level 4 is low to the worker and medium to everyone else.
\<close>

theorem severity_mappings_differ_at_4:
  "wazuh_level_to_severity level = from_wazuh_level level \<longleftrightarrow> level \<noteq> 4"
  by (auto simp: wazuh_level_to_severity_def from_wazuh_level_def)

subsection \<open>A concrete run\<close>

text \<open>An investigation whose threat intelligence is down, closed by the verdict.\<close>

definition demo_env :: graph_env where
  "demo_env = \<lparr> ge_registry = registry [], ge_parse = (\<lambda>_. None), ge_dump = (\<lambda>_ _. PNone), ge_json = (\<lambda>_. None),
     ge_budget = plain_env \<rparr>"

definition decide :: "string \<Rightarrow> supervisor_decision_rec llm_call" where
  "decide act = \<lparr> responses = [], answer = Inr \<lparr> next_action = act, action_reasoning = ''r'', tp_confidence = 1 / 10,
     confidence_reasoning = ''c'', specific_instructions = None \<rparr> \<rparr>"

definition close_call :: "verdict_rec llm_call" where
  "close_call = \<lparr> responses = [], answer = Inr \<lparr> vd_decision = ''close'', vd_confidence = 9 / 10,
     vd_recommendation = ''benign'', vd_rest = [] \<rparr> \<rparr>"

definition run0 :: pydict where
  "run0 = [(''investigation'', PDict [(''alerts'', PList [PDict [(''level'', PInt 5)]])])]"

definition run1 :: pydict where "run1 = the (resolve_triage_policy_node (ge_registry demo_env) run0)"
definition run2 :: pydict where "run2 = the (supervisor_node (\<lambda>_. None) plain_env [] (decide ''CONTEXTUALIZE'') run1)"
definition run3 :: pydict where
  "run3 = dset ''investigation'' (PDict [(''misp_context'', PDict [(''status'', PStr ''unavailable''), (''matches'', PList [])])]) run2"
definition run4 :: pydict where "run4 = the (supervisor_node (\<lambda>_. None) plain_env [] (decide ''VERDICT'') run3)"
definition run5 :: pydict where "run5 = the (verdict_node (\<lambda>_. None) plain_env [] [] close_call run4)"
definition run6 :: pydict where "run6 = the (verdict_guard_node (\<lambda>_. None) [] run5)"
definition run7 :: pydict where "run7 = the (close_investigation_node [] run6)"

lemma is_Some_the: "map_option (\<lambda>_. ()) x = Some () \<Longrightarrow> x = Some (the x)"
  by (cases x) auto

lemma run1: "resolve_triage_policy_node (ge_registry demo_env) run0 = Some run1"
  unfolding run1_def by (rule is_Some_the) code_simp

lemma run2: "supervisor_node (ge_json demo_env) (ge_budget demo_env) [] (decide ''CONTEXTUALIZE'') run1 = Some run2"
proof -
  have "map_option (\<lambda>_. ()) (supervisor_node (\<lambda>_. None) plain_env [] (decide ''CONTEXTUALIZE'') run1) = Some ()" by code_simp
  from is_Some_the [OF this] show ?thesis by (simp add: run2_def demo_env_def)
qed

lemma run4: "supervisor_node (ge_json demo_env) (ge_budget demo_env) [] (decide ''VERDICT'') run3 = Some run4"
proof -
  have "map_option (\<lambda>_. ()) (supervisor_node (\<lambda>_. None) plain_env [] (decide ''VERDICT'') run3) = Some ()" by code_simp
  from is_Some_the [OF this] show ?thesis by (simp add: run4_def demo_env_def)
qed

lemma run5: "verdict_node (ge_json demo_env) (ge_budget demo_env) [] [] close_call run4 = Some run5"
proof -
  have "map_option (\<lambda>_. ()) (verdict_node (\<lambda>_. None) plain_env [] [] close_call run4) = Some ()" by code_simp
  from is_Some_the [OF this] show ?thesis by (simp add: run5_def demo_env_def)
qed

lemma run6: "verdict_guard_node (ge_parse demo_env) [] run5 = Some run6"
proof -
  have "map_option (\<lambda>_. ()) (verdict_guard_node (\<lambda>_. None) [] run5) = Some ()" by code_simp
  from is_Some_the [OF this] show ?thesis by (simp add: run6_def demo_env_def)
qed

lemma run7: "close_investigation_node [] run6 = Some run7"
  unfolding run7_def by (rule is_Some_the) code_simp

lemma run_routes:
  "route_from_resolve_triage_policy run1 = Some Supervisor"
  "route_from_supervisor run2 = Some MispWorker"
  "route_from_supervisor run4 = Some VerdictNode"
  "route_from_verdict run6 = Some CloseInvestigation"
  by code_simp+

lemma run_steps:
  "quiet_step demo_env (Resolve, run0) (Supervisor, run1)"
  "quiet_step demo_env (Supervisor, run1) (MispWorker, run2)"
  "quiet_step demo_env (MispWorker, run2) (Supervisor, run3)"
  "quiet_step demo_env (Supervisor, run3) (VerdictNode, run4)"
  "quiet_step demo_env (VerdictNode, run4) (VerdictGuard, run5)"
  "quiet_step demo_env (VerdictGuard, run5) (CloseInvestigation, run6)"
  "quiet_step demo_env (CloseInvestigation, run6) (End, run7)"
proof -
  have "worker_update run2 run3"
    by (simp add: worker_frame run3_def frame_dset WORKER_KEYS_def)
  then have w: "graph_step demo_env (MispWorker, run2) (Supervisor, run3)" by (intro graph_step.work) simp_all
  show "quiet_step demo_env (MispWorker, run2) (Supervisor, run3)" using w by (simp add: quiet_step_def)
qed (simp_all add: quiet_step_def graph_step.resolve [OF run1 run_routes(1)] graph_step.supervise [OF run2 run_routes(2)]
    graph_step.supervise [OF run4 run_routes(3)] graph_step.verdict [OF run5] graph_step.guard [OF run6 run_routes(4)]
    graph_step.close [OF run7])

lemma run_reachable:
  "graph_reachable demo_env run0 (Supervisor, run1)" "graph_reachable demo_env run0 (VerdictNode, run4)"
  "graph_reachable demo_env run0 (VerdictGuard, run5)" "graph_reachable demo_env run0 (End, run7)"
proof -
  note g = run_steps [THEN quiet_stepD(1)]
  show 1: "graph_reachable demo_env run0 (Supervisor, run1)"
    by (rule graph_reachable.step [OF graph_reachable.start g(1)])
  show 4: "graph_reachable demo_env run0 (VerdictNode, run4)"
    by (rule graph_reachable.step [OF graph_reachable.step [OF graph_reachable.step [OF 1 g(2)] g(3)] g(4)])
  show 5: "graph_reachable demo_env run0 (VerdictGuard, run5)" by (rule graph_reachable.step [OF 4 g(5)])
  show "graph_reachable demo_env run0 (End, run7)"
    by (rule graph_reachable.step [OF graph_reachable.step [OF 5 g(6)] g(7)])
qed

lemma run0_ok: "retries_ok run0" "iter_of run0 = 0"
  by (simp_all add: retries_ok_def iter_of_def run0_def dget_default_def)

lemma run_disposition: "worker_disposition (\<lambda>_. None) run7 = Some (Some ''close_fp'', [])"
  by code_simp


lemma run_of_seven: "(quiet_step demo_env ^^ 7) (Resolve, run0) (End, run7)"
proof -
  note r = relpowp_Suc_I [where P = "quiet_step demo_env"]
  have "(quiet_step demo_env ^^ Suc (Suc (Suc (Suc (Suc (Suc (Suc 0))))))) (Resolve, run0) (End, run7)"
    by (rule r [OF r [OF r [OF r [OF r [OF r [OF r [OF relpowp_0_I run_steps(1)] run_steps(2)] run_steps(3)]
          run_steps(4)] run_steps(5)] run_steps(6)] run_steps(7)])
  moreover have "Suc (Suc (Suc (Suc (Suc (Suc (Suc 0)))))) = 7" by simp
  ultimately show ?thesis by metis
qed


theorem verdict_never_retried_witness:
  "graph_step demo_env (VerdictGuard, run5) (CloseInvestigation, run6) \<and> CloseInvestigation \<noteq> Supervisor"
  using quiet_stepD(1) [OF run_steps(6)]
    verdict_never_retried [OF run_reachable(3) run0_ok(1) quiet_stepD(1) [OF run_steps(6)]] by blast

text \<open>A dual-use run whose router proposes a close before the budget ends it.\<close>

definition sudo_run :: pydict where
  "sudo_run = [(''investigation'', PDict []), (''triage_policy'', PDict (dump_policy PRIVILEGED_EXEC_TRIAGE_POLICY)),
     (''tokens_used'', PInt 9), (''tokens_budget'', PInt 5)]"

definition sudo_halted :: pydict where
  "sudo_halted = the (supervisor_node (\<lambda>_. None) plain_env [] (decide ''CLOSE'') sudo_run)"

theorem illegal_close_not_taken_witness:
  "graph_step demo_env (Supervisor, sudo_run) (CloseInvestigation, sudo_halted) \<and>
   truthy (dget ''budget_terminated'' sudo_halted)"
proof -
  have "map_option (\<lambda>_. ()) (supervisor_node (\<lambda>_. None) plain_env [] (decide ''CLOSE'') sudo_run) = Some ()" by code_simp
  from is_Some_the [OF this] have n: "supervisor_node (ge_json demo_env) (ge_budget demo_env) [] (decide ''CLOSE'') sudo_run
      = Some sudo_halted" by (simp add: sudo_halted_def demo_env_def)
  have r: "route_from_supervisor sudo_halted = Some CloseInvestigation" by code_simp
  have l: "legal_actions_for sudo_halted = Some (Some [''CONTEXTUALIZE'', ''ENRICH'', ''INVESTIGATE'', ''VERDICT''])" by code_simp
  have e: "truthy (dget ''supervisor_error'' sudo_halted) = False" by code_simp
  from illegal_close_not_taken [OF graph_step.supervise [OF n r] l] e graph_step.supervise [OF n r] show ?thesis by simp
qed


text \<open>The close above is committed although the guard ruled an interrupt.\<close>

theorem intel_interrupt_is_lost_witness:
  "\<exists>r vd. map_of run5 ''verdict'' = Some (PDict vd) \<and> guard_ruling (\<lambda>_. None) vd run5 = Some r \<and> interrupted r \<and>
     \<not> truthy (dget ''verdict_interrupted'' run6) \<and> route_from_verdict run6 = Some CloseInvestigation \<and>
     graph_reachable demo_env run0 (End, run7) \<and> worker_disposition (\<lambda>_. None) run7 = Some (Some ''close_fp'', [])"
proof -
  let ?vd = "[(''decision'', PStr ''close''), (''confidence'', PFloat (Fin (9 / 10))), (''recommendation'', PStr ''benign'')]"
  have v: "map_of run5 ''verdict'' = Some (PDict ?vd)" by code_simp
  have d: "map_of ?vd ''decision'' = Some (PStr ''close'')" by simp
  have e: "truthy (dget ''verdict_error'' run5) = False" by code_simp
  have "map_option (\<lambda>r. (interrupted r, map guardrail (overrides r))) (guard_ruling (\<lambda>_. None) ?vd run5) = Some (True, [])"
    by code_simp
  then obtain r where r: "guard_ruling (\<lambda>_. None) ?vd run5 = Some r" "interrupted r" "overrides r = []" by auto
  have g: "verdict_guard_node (\<lambda>_. None) [] run5 = Some run6" using run6 by (simp add: demo_env_def)
  from intel_interrupt_is_lost [OF v d _ r(1,2,3) g] e v r run_reachable(4) run_disposition show ?thesis by blast
qed

theorem failed_enrichment_counts_as_checked_witness:
  "has_unenriched_observables
     [(''observables'', PList [PDict [(''value'', PStr ''198.51.100.7'')]]),
      (''enrichments'', PList [PDict [(''observable'', PDict [(''value'', PStr ''198.51.100.7'')]),
          (''analyzer'', PStr ''unknown''), (''verdict'', PStr ''unknown''), (''error'', PStr ''timeout'')]])] = Some False"
  by (rule failed_enrichment_counts_as_checked) simp

end
