(* ===== verification/Ir_Policies.thy ===== *)
theory Ir_Policies
  imports Pricing_Usage
begin

text \<open>
  Install and tenant policies and what they resolve to when a run is created
  (\<open>core/ir/policies.py\<close>). A policy layer is a dictionary; reading the install file is the field
  \<open>install_yaml\<close> (the empty dictionary when there is none or it failed to load), reading a
  tenant's rows yields \<open>None\<close> when the query raises. The environment is a record of raw strings.
\<close>

record policy_env =
  install_yaml :: pydict
  env_run_token_max :: "string option"
  env_run_dollar_max :: "string option"
  env_cost_tracking :: "string option"
  env_unknown_model_cost :: "string option"
  env_day_token_cap :: "string option"
  env_day_dollar_cap :: "string option"
  env_day_token_cap_max :: "string option"
  env_day_dollar_cap_max :: "string option"
  env_budget_tz :: "string option"
  env_max_attempts :: "string option"
  env_auto_close_kill :: "string option"

subsection \<open>Layers\<close>

text \<open>\<open>d.update(e)\<close>.\<close>

definition dupdate :: "pydict \<Rightarrow> pydict \<Rightarrow> pydict" where
  "dupdate d e = fold (\<lambda>(k, v). dset k v) e d"

lemma dupdate_simps [simp]:
  "dupdate d [] = d"
  "dupdate d ((k, v) # e) = dupdate (dset k v d) e"
  by (simp_all add: dupdate_def)

lemma map_of_dupdate: "map_of (dupdate d e) = map_of d ++ map_of (rev e)"
proof (induction e arbitrary: d)
  case (Cons p e)
  then show ?case by (cases p) (simp add: fun_eq_iff map_add_def split: option.splits)
qed simp

lemma map_of_dupdate_other: "k \<notin> fst ` set e \<Longrightarrow> map_of (dupdate d e) k = map_of d k"
  by (simp add: map_of_dupdate map_add_def rev_map [symmetric] split: option.splits)
    (metis map_of_eq_None_iff option.distinct(1) set_rev)

definition INSTALL_POLICY_DEFAULTS :: pydict where
  "INSTALL_POLICY_DEFAULTS =
     [(''auto_close_enabled'', PBool True),
      (''auto_close_threshold'', PFloat (Fin (90 / 100))),
      (''auto_close_requires_ioc_anchor'', PBool True),
      (''reopen_window_days'', PInt 30),
      (''auto_close_kill'', PBool False),
      (''auto_close_volume_cap'', PInt 500),
      (''auto_close_volume_window_hours'', PInt 24),
      (''max_tokens_per_investigation'', PInt 200000),
      (''max_dollars_per_investigation'', PFloat (Fin 5)),
      (''max_tool_calls_per_investigation'', PInt 200),
      (''alert_severity_threshold'', PInt 3),
      (''coalesce_window_minutes'', PInt 5),
      (''settle_window_seconds'', PInt 0),
      (''settle_bypass_severity'', PInt 12),
      (''entity_correlation_enabled'', PBool False),
      (''verdict_memoization_enabled'', PBool False),
      (''engagement_deconfliction_enabled'', PBool False),
      (''entity_graph_enabled'', PBool False),
      (''correlation_scorer_enabled'', PBool False),
      (''default_visibility'', PStr ''customer_safe''),
      (''customer_safe_promotion'', PStr ''auto''),
      (''tool_approval_overrides'', PDict [])]"

definition install_policies :: "policy_env \<Rightarrow> pydict" where
  "install_policies env = dupdate INSTALL_POLICY_DEFAULTS (install_yaml env)"

definition BUDGET_KEYS :: "string list" where
  "BUDGET_KEYS =
     [''max_tokens_per_investigation'', ''max_dollars_per_investigation'', ''max_tool_calls_per_investigation'',
      ''max_tokens_per_24h'', ''max_dollars_per_24h'', ''budget_day_timezone'', ''cost_tracking_enabled'']"

definition without_budget_keys :: "pydict \<Rightarrow> pydict" where
  "without_budget_keys layer = filter (\<lambda>(k, v). k \<notin> set BUDGET_KEYS) layer"

text \<open>The table of hard caps is empty in the source, so the last loop of the merge does nothing.\<close>

definition effective_policy :: "policy_env \<Rightarrow> pydict option \<Rightarrow> pydict \<Rightarrow> pydict \<Rightarrow> pydict py" where
  "effective_policy env tenant template local =
     map_option (\<lambda>t. dupdate (dupdate (dupdate (install_policies env) t) (without_budget_keys template))
                       (without_budget_keys local)) tenant"

subsection \<open>Budgets\<close>

definition RUN_TOKEN_BUDGET_KEY :: string where
  "RUN_TOKEN_BUDGET_KEY = ''max_tokens_per_investigation''"

definition RUN_DOLLAR_BUDGET_KEY :: string where
  "RUN_DOLLAR_BUDGET_KEY = ''max_dollars_per_investigation''"

definition COST_TRACKING_KEY :: string where
  "COST_TRACKING_KEY = ''cost_tracking_enabled''"

definition run_token_budget_default :: "policy_env \<Rightarrow> int py" where
  "run_token_budget_default env =
     py_int (dget_default RUN_TOKEN_BUDGET_KEY (PInt 200000) (install_policies env))"

text \<open>A positive number read from the environment, or the default on a blank or malformed value.\<close>

definition env_text :: "string option \<Rightarrow> string" where
  "env_text raw = (case raw of None \<Rightarrow> [] | Some s \<Rightarrow> s)"

definition positive_int_env :: "string option \<Rightarrow> int \<Rightarrow> int" where
  "positive_int_env raw d = (case py_int_of_str (env_text raw) of None \<Rightarrow> d | Some v \<Rightarrow> if v > 0 then v else d)"

definition positive_float_env :: "string option \<Rightarrow> pyfloat \<Rightarrow> pyfloat" where
  "positive_float_env raw d =
     (case py_float_of_str (env_text raw) of
        None \<Rightarrow> d
      | Some v \<Rightarrow> if float_cmp CmpGt v (Fin 0) then v else d)"

definition run_token_budget_max :: "policy_env \<Rightarrow> int" where
  "run_token_budget_max env = positive_int_env (env_run_token_max env) 100000000"

definition run_dollar_budget_default :: "policy_env \<Rightarrow> pyfloat" where
  "run_dollar_budget_default env =
     (case py_float (dget_default RUN_DOLLAR_BUDGET_KEY (PFloat (Fin 5)) (install_policies env)) of
        None \<Rightarrow> Fin 5
      | Some v \<Rightarrow> if float_cmp CmpGt v (Fin 0) then v else Fin 5)"

definition run_dollar_budget_max :: "policy_env \<Rightarrow> pyfloat" where
  "run_dollar_budget_max env = positive_float_env (env_run_dollar_max env) (Fin 1000)"

definition COST_TRACKING_OFF :: "string list" where
  "COST_TRACKING_OFF = [''0'', ''off'', ''false'', ''no'', ''disabled'']"

definition cost_tracking_install_default :: "policy_env \<Rightarrow> bool" where
  "cost_tracking_install_default env =
     (if str_lower (str_strip (env_text (env_cost_tracking env))) \<in> set COST_TRACKING_OFF then False
      else str_lower (str_strip (env_text (env_unknown_model_cost env))) \<notin> {''0'', ''zero'', ''free''})"

definition as_bool :: "pyval \<Rightarrow> bool \<Rightarrow> bool" where
  "as_bool value d =
     (case value of
        PBool b \<Rightarrow> b
      | PInt i \<Rightarrow> i \<noteq> 0
      | PFloat x \<Rightarrow> x \<noteq> Fin 0
      | PStr s \<Rightarrow>
          (let v = str_lower (str_strip s)
           in if v \<in> set COST_TRACKING_OFF then False
              else if v \<in> {''1'', ''on'', ''true'', ''yes'', ''enabled''} then True else d)
      | _ \<Rightarrow> d)"

definition resolve_cost_tracking :: "policy_env \<Rightarrow> pydict option \<Rightarrow> bool" where
  "resolve_cost_tracking env tenant =
     (let d = cost_tracking_install_default env
      in case effective_policy env tenant [] [] of
           None \<Rightarrow> d
         | Some eff \<Rightarrow> as_bool (dget_default COST_TRACKING_KEY (PBool d) eff) d)"

text \<open>Python's \<open>min\<close> and \<open>max\<close> keep the first argument unless the second is strictly beyond it.\<close>

definition float_min :: "pyfloat \<Rightarrow> pyfloat \<Rightarrow> pyfloat" where
  "float_min x y = (if float_cmp CmpLt y x then y else x)"

definition not_finite :: "pyfloat \<Rightarrow> bool" where
  "not_finite x \<longleftrightarrow> x \<in> {NaN, PosInf, NegInf}"

definition resolve_run_dollar_budget :: "policy_env \<Rightarrow> pydict option \<Rightarrow> pyfloat" where
  "resolve_run_dollar_budget env tenant =
     (let d = run_dollar_budget_default env
      in case (do { eff \<leftarrow> effective_policy env tenant [] [];
                    py_float (dget_default RUN_DOLLAR_BUDGET_KEY (PFloat d) eff) }) of
           None \<Rightarrow> d
         | Some budget \<Rightarrow>
             (if not_finite budget then d
              else float_max (Fin (1 / 1000000)) (float_min budget (run_dollar_budget_max env))))"

definition resolve_run_token_budget :: "policy_env \<Rightarrow> pydict option \<Rightarrow> int py" where
  "resolve_run_token_budget env tenant = do {
     eff \<leftarrow> effective_policy env tenant [] [];
     d \<leftarrow> run_token_budget_default env;
     budget \<leftarrow> py_int (dget_default RUN_TOKEN_BUDGET_KEY (PInt d) eff);
     Some (max 1 (min budget (run_token_budget_max env))) }"

subsection \<open>Integer policies\<close>

text \<open>
  \<open>int(v)\<close> under \<open>except (TypeError, ValueError)\<close>: malformed values yield \<open>None\<close>, an infinity
  raises \<open>OverflowError\<close>, which is not caught.
\<close>

definition int_caught :: "pyval \<Rightarrow> int option py" where
  "int_caught v = (if v = PFloat PosInf \<or> v = PFloat NegInf then None else Some (py_int v))"

text \<open>\<open>core/ir/triage.py\<close>: a malformed or boolean override falls back to the install default.\<close>

definition int_policy :: "pydict \<Rightarrow> string \<Rightarrow> int \<Rightarrow> int py" where
  "int_policy policy k d =
     (case dget_default k (PInt d) policy of
        PNone \<Rightarrow> Some d
      | PBool b \<Rightarrow> Some d
      | v \<Rightarrow> map_option (\<lambda>i. case i of None \<Rightarrow> d | Some n \<Rightarrow> n) (int_caught v))"

end
