(* ===== verification/Ir_Store.thy ===== *)
theory Ir_Store
  imports Ir_Policies
begin

text \<open>
  The tables of the control plane (\<open>core/ir/models.py\<close>) as lists of rows, and the event inbox with
  its idempotent append (\<open>core/ir/events.py\<close>). Identifiers are numbers, a timestamp is a number
  of seconds, money in a table is a rational. A handler runs in one transaction: it is a function
  from the store to a result and a new store, or to a refusal, on which the session is rolled
  back and the store stays as it was.
\<close>

type_synonym uid = nat
type_synonym time = rat

datatype failure = Http int | Raised

subsection \<open>Rows\<close>

datatype run_status = Active | Paused | WaitingOnGate | HaltedBudget | RunCompleted | RunFailed

record run_row =
  run_id :: uid
  run_tenant :: uid
  run_case :: uid
  run_status :: run_status
  run_tokens_used :: int
  run_tokens_budget :: int
  run_dollars_used :: rat
  run_dollars_budget :: pyfloat
  run_snapshot :: "pydict option"
  started_at :: time
  ended_at :: "time option"
  not_before :: time
  claimed_by :: "string option"
  claimed_at :: "time option"
  lease_id :: "uid option"
  lease_expires_at :: "time option"
  attempts :: int
  max_attempts :: int
  last_error :: "string option"
  last_error_category :: "string option"

record ledger_row =
  l_tenant :: uid
  l_run :: uid
  l_at :: time
  l_tokens :: int
  l_dollars :: rat
  l_basis :: "string option"
  l_source :: "string option"

record chat_row =
  chat_tenant :: uid
  chat_at :: time
  chat_tokens_in :: int
  chat_tokens_out :: int
  chat_dollars :: rat
  chat_unpriced :: rat

record reopen_sig =
  sig_iocs :: "string list"
  sig_assets :: "string list"
  sig_rules :: "string list"

record case_row =
  case_id :: uid
  case_tenant :: uid
  case_title :: string
  case_status :: string
  case_severity :: int
  case_summary :: "string option"
  opened_at :: time
  closed_at :: "time option"
  close_reason :: "string option"
  reopen_signature :: "reopen_sig option"
  reopen_until :: "time option"
  reopen_count :: int
  has_new_evidence :: bool
  case_visibility :: string

record entity =
  ent_type :: string
  ent_value :: string
  ent_role :: "string option"

record ioc =
  ioc_type :: string
  ioc_value :: string

record alert_row =
  alert_id :: uid
  alert_tenant :: uid
  alert_source :: string
  alert_rule :: "string option"
  alert_severity :: int
  alert_signature_of :: string
  first_event_at :: time
  last_event_at :: time
  event_count :: int
  source_event_ids :: "string list"
  asset_ids :: "string list"
  initial_iocs :: "ioc list"
  ai_assessment :: string
  ai_confidence :: rat
  alert_status :: string
  alert_description :: "string option"
  alert_case :: "uid option"

record source_event_row =
  se_tenant :: uid
  se_source :: string
  se_event_id :: string
  se_alert :: "uid option"
  se_ingested_at :: time
  se_decoder :: "string option"
  se_template_hash :: "string option"
  se_template_version :: "string option"

record key_row =
  key_tenant :: uid
  key_alert :: uid
  key_case :: "uid option"
  key_type :: string
  key_value :: string
  key_strength :: string
  key_occurred_at :: time
  key_expires_at :: time

record memo_row =
  memo_tenant :: uid
  memo_shape :: string
  memo_decision :: string
  memo_confidence :: rat
  memo_hits :: int
  memo_at :: time

record review_row =
  review_id :: uid
  review_case :: uid
  review_tenant :: uid
  review_status :: string
  review_title :: string
  review_description :: string
  review_max_severity :: string
  review_alert_count :: nat
  review_decision :: string
  review_feedback :: "string option"
  reviewer :: "string option"
  responded_at :: "time option"

record audit_row =
  audit_tenant :: uid
  audit_action :: string
  audit_actor :: string
  audit_resource :: uid
  audit_notes :: pyval

text \<open>
  The key that makes an append idempotent is a hash of the fields it is computed from; the model
  keeps the fields, so two keys are equal exactly when their preimages are.
\<close>

datatype idem_key =
    DerivedKey uid string pyval string
  | WorkerKey uid uid int
  | RunKey uid string
  | AttachKey uid string
  | CorrelateKey uid string

record event_row =
  event_tenant :: uid
  event_case :: uid
  event_run :: "uid option"
  event_kind :: string
  event_payload :: pyval
  event_visibility :: string
  event_key :: idem_key

text \<open>The versioned human-in-the-loop log of an investigation (the table \<open>events\<close>).\<close>

record hil_event =
  hil_case :: uid
  hil_version :: int
  hil_type :: string
  hil_tenant :: uid

text \<open>An analyst's judgment on a grouping (the table \<open>correlation_labels\<close>).\<close>

record label_row =
  label_tenant :: uid
  label_kind :: string
  label_case :: "uid option"
  label_other :: "uid option"
  label_alert :: "uid option"
  label_reviewer :: "string option"
  label_note :: "string option"

text \<open>A dispatch of response actions for a finished run, as \<open>complete_run\<close> calls it.\<close>

record dispatch_call =
  dispatch_run :: uid
  dispatch_case :: uid
  dispatch_worker :: "string option"
  dispatch_effective :: string
  dispatch_veto :: "string option"

record ir_db =
  runs :: "run_row list"
  ledger :: "ledger_row list"
  chats :: "chat_row list"
  cases :: "case_row list"
  alerts :: "alert_row list"
  source_events :: "source_event_row list"
  entity_keys :: "key_row list"
  key_stats :: "((uid \<times> string \<times> string) \<times> int) list"
  verdict_cache :: "memo_row list"
  reviews :: "review_row list"
  events :: "event_row list"
  hil_log :: "hil_event list"
  audits :: "audit_row list"
  tenant_policies :: "(uid \<times> pydict) list"
  dispatches :: "dispatch_call list"
  labels :: "label_row list"

definition empty_db :: ir_db where
  "empty_db = \<lparr> runs = [], ledger = [], chats = [], cases = [], alerts = [], source_events = [],
     entity_keys = [], key_stats = [], verdict_cache = [], reviews = [], events = [], hil_log = [], audits = [],
     tenant_policies = [], dispatches = [], labels = [] \<rparr>"

subsection \<open>Statements\<close>

text \<open>\<open>UPDATE t SET f WHERE p\<close> and \<open>SELECT ... ORDER BY k ASC LIMIT 1\<close>; ties keep the table's order.\<close>

definition update_where :: "('r \<Rightarrow> bool) \<Rightarrow> ('r \<Rightarrow> 'r) \<Rightarrow> 'r list \<Rightarrow> 'r list" where
  "update_where p f = map (\<lambda>r. if p r then f r else r)"

fun first_by :: "('r \<Rightarrow> 'k::linorder) \<Rightarrow> 'r list \<Rightarrow> 'r option" where
  "first_by k [] = None"
| "first_by k (r # rs) =
     (case first_by k rs of None \<Rightarrow> Some r | Some q \<Rightarrow> Some (if k r \<le> k q then r else q))"

definition select_first :: "('r \<Rightarrow> bool) \<Rightarrow> ('r \<Rightarrow> 'k::linorder) \<Rightarrow> 'r list \<Rightarrow> 'r option" where
  "select_first p k t = first_by k (filter p t)"

lemma first_by_None [simp]: "first_by k rs = None \<longleftrightarrow> rs = []"
  by (cases rs) (auto split: option.splits)

lemma first_by_Some: "first_by k rs = Some r \<Longrightarrow> r \<in> set rs \<and> (\<forall>q\<in>set rs. k r \<le> k q)"
  by (induction rs arbitrary: r) (force split: option.splits if_splits)+

lemma select_first_None [simp]: "select_first p k t = None \<longleftrightarrow> (\<forall>r\<in>set t. \<not> p r)"
  by (auto simp: select_first_def filter_empty_conv)

lemma select_first_Some:
  "select_first p k t = Some r \<Longrightarrow> r \<in> set t \<and> p r \<and> (\<forall>q\<in>set t. p q \<longrightarrow> k r \<le> k q)"
  by (auto simp: select_first_def dest!: first_by_Some)

lemma set_update_where: "set (update_where p f t) = (\<lambda>r. if p r then f r else r) ` set t"
  by (simp add: update_where_def)

lemma update_where_id: "(\<And>r. r \<in> set t \<Longrightarrow> \<not> p r) \<Longrightarrow> update_where p f t = t"
  by (simp add: update_where_def map_idI)

lemma update_where_map:
  "(\<And>r. g (f r) = g r) \<Longrightarrow> map g (update_where p f t) = map g t"
  by (simp add: update_where_def)

lemma image_update_where:
  "(\<And>r. g (f r) = g r) \<Longrightarrow> g ` set (update_where p f t) = g ` set t"
  by (metis list.set_map update_where_map)

lemma length_update_where [simp]: "length (update_where p f t) = length t"
  by (simp add: update_where_def)

lemma update_where_Nil [simp]: "update_where p f [] = []"
  by (simp add: update_where_def)

lemma update_where_Cons [simp]: "update_where p f (r # t) = (if p r then f r else r) # update_where p f t"
  by (simp add: update_where_def)

lemma update_where_append [simp]: "update_where p f (s @ t) = update_where p f s @ update_where p f t"
  by (simp add: update_where_def)

subsection \<open>Events and audit\<close>

text \<open>The notes of an audit row are the value the code serialises, before it is encoded and cut.\<close>

text \<open>\<open>append_event\<close>: a repeated key on one investigation inserts nothing.\<close>

definition append_event ::
    "uid \<Rightarrow> uid \<Rightarrow> uid option \<Rightarrow> string \<Rightarrow> pyval \<Rightarrow> string \<Rightarrow> idem_key \<Rightarrow> ir_db \<Rightarrow> ir_db" where
  "append_event tenant cs rn kind payload visibility key db =
     (if \<exists>e\<in>set (events db). event_case e = cs \<and> event_key e = key then db
      else db\<lparr> events := events db @
        [\<lparr> event_tenant = tenant, event_case = cs, event_run = rn, event_kind = kind,
           event_payload = payload, event_visibility = visibility, event_key = key \<rparr>] \<rparr>)"

definition log_audit :: "uid \<Rightarrow> string \<Rightarrow> string \<Rightarrow> uid \<Rightarrow> pyval \<Rightarrow> ir_db \<Rightarrow> ir_db" where
  "log_audit tenant act actor resource notes db =
     db\<lparr> audits := audits db @ [\<lparr> audit_tenant = tenant, audit_action = act, audit_actor = actor,
                                  audit_resource = resource, audit_notes = notes \<rparr>] \<rparr>"

text \<open>No investigation ever holds two events with one key.\<close>

definition events_unique :: "ir_db \<Rightarrow> bool" where
  "events_unique db \<longleftrightarrow> distinct (map (\<lambda>e. (event_case e, event_key e)) (events db))"

lemma append_event_unique: "events_unique db \<Longrightarrow> events_unique (append_event t cs rn kd pl vis k db)"
  by (auto simp: events_unique_def append_event_def)

lemma append_event_frame [simp]:
  "runs (append_event t cs rn kd pl vis k db) = runs db"
  "ledger (append_event t cs rn kd pl vis k db) = ledger db"
  "chats (append_event t cs rn kd pl vis k db) = chats db"
  "cases (append_event t cs rn kd pl vis k db) = cases db"
  "alerts (append_event t cs rn kd pl vis k db) = alerts db"
  "source_events (append_event t cs rn kd pl vis k db) = source_events db"
  "entity_keys (append_event t cs rn kd pl vis k db) = entity_keys db"
  "key_stats (append_event t cs rn kd pl vis k db) = key_stats db"
  "verdict_cache (append_event t cs rn kd pl vis k db) = verdict_cache db"
  "reviews (append_event t cs rn kd pl vis k db) = reviews db"
  "hil_log (append_event t cs rn kd pl vis k db) = hil_log db"
  "audits (append_event t cs rn kd pl vis k db) = audits db"
  "tenant_policies (append_event t cs rn kd pl vis k db) = tenant_policies db"
  "dispatches (append_event t cs rn kd pl vis k db) = dispatches db"
  by (simp_all add: append_event_def)

lemma log_audit_frame [simp]:
  "runs (log_audit t a p r n db) = runs db"
  "ledger (log_audit t a p r n db) = ledger db"
  "chats (log_audit t a p r n db) = chats db"
  "cases (log_audit t a p r n db) = cases db"
  "alerts (log_audit t a p r n db) = alerts db"
  "source_events (log_audit t a p r n db) = source_events db"
  "entity_keys (log_audit t a p r n db) = entity_keys db"
  "key_stats (log_audit t a p r n db) = key_stats db"
  "verdict_cache (log_audit t a p r n db) = verdict_cache db"
  "reviews (log_audit t a p r n db) = reviews db"
  "hil_log (log_audit t a p r n db) = hil_log db"
  "events (log_audit t a p r n db) = events db"
  "tenant_policies (log_audit t a p r n db) = tenant_policies db"
  "dispatches (log_audit t a p r n db) = dispatches db"
  by (simp_all add: log_audit_def)

definition policies_of :: "uid \<Rightarrow> ir_db \<Rightarrow> pydict" where
  "policies_of tenant db = (case map_of (tenant_policies db) tenant of None \<Rightarrow> [] | Some d \<Rightarrow> d)"

text \<open>\<open>set_tenant_policy\<close> and \<open>delete_tenant_policy\<close>.\<close>

definition set_tenant_policy :: "uid \<Rightarrow> string \<Rightarrow> pyval \<Rightarrow> ir_db \<Rightarrow> ir_db" where
  "set_tenant_policy tenant k v db =
     db\<lparr> tenant_policies := dset tenant (dset k v (policies_of tenant db)) (tenant_policies db) \<rparr>"

definition delete_tenant_policy :: "uid \<Rightarrow> string \<Rightarrow> ir_db \<Rightarrow> ir_db" where
  "delete_tenant_policy tenant k db =
     db\<lparr> tenant_policies := dset tenant (ddel k (policies_of tenant db)) (tenant_policies db) \<rparr>"

lemma policies_of_set [simp]:
  "policies_of t (set_tenant_policy u k v db) =
     (if t = u then dset k v (policies_of u db) else policies_of t db)"
  by (simp add: policies_of_def set_tenant_policy_def)

lemma policies_of_delete [simp]:
  "policies_of t (delete_tenant_policy u k db) =
     (if t = u then ddel k (policies_of u db) else policies_of t db)"
  by (simp add: policies_of_def delete_tenant_policy_def)

end
