(* ===== verification/Ir_Correlation.thy ===== *)
theory Ir_Correlation
  imports Ir_Store Policy_Gate
begin

text \<open>
  Entity correlation (\<open>core/ir/correlation.py\<close>), the verdict memo (\<open>core/ir/memoization.py\<close>) and
  the volume cap on automatic closes (\<open>core/ir/triage.py\<close>). The digest behind an indicator's
  fingerprint is the parameter \<open>sha\<close>.
\<close>

subsection \<open>Correlation keys\<close>

definition STRENGTH :: "(string \<times> string) list" where
  "STRENGTH =
     [(''host'', ''strong''), (''hash'', ''strong''), (''ip'', ''conditional''), (''domain'', ''conditional''),
      (''user'', ''weak''), (''process'', ''weak''), (''port'', ''weak''), (''rule'', ''weak'')]"

definition WINDOW_MINUTES :: "(string \<times> rat) list" where
  "WINDOW_MINUTES =
     [(''host'', 60), (''hash'', 1440), (''ip'', 360), (''domain'', 360), (''user'', 60), (''process'', 30),
      (''port'', 30), (''rule'', 15)]"

definition HUB_THRESHOLD :: int where
  "HUB_THRESHOLD = 200"

text \<open>A key is its type, its value and its strength; the dictionary keeps the first strength.\<close>

type_synonym corr_key = "string \<times> string \<times> string"

definition add_key :: "string \<Rightarrow> string \<Rightarrow> ((string \<times> string) \<times> string) list \<Rightarrow> ((string \<times> string) \<times> string) list" where
  "add_key kt kv out =
     (let v = str_lower (str_strip kv);
          s = (case map_of STRENGTH kt of None \<Rightarrow> ''weak'' | Some s \<Rightarrow> s)
      in if kv = [] \<or> v = [] \<or> map_of out (kt, v) \<noteq> None then out else out @ [((kt, v), s)])"

definition ioc_fingerprint :: "(string \<Rightarrow> string) \<Rightarrow> string \<Rightarrow> string \<Rightarrow> string" where
  "ioc_fingerprint sha t v = sha (t @ ''|'' @ v)"

definition add_entity :: "entity \<Rightarrow> ((string \<times> string) \<times> string) list \<Rightarrow> ((string \<times> string) \<times> string) list" where
  "add_entity e out = (if map_of STRENGTH (ent_type e) \<noteq> None then add_key (ent_type e) (ent_value e) out else out)"

definition add_ioc ::
    "(string \<Rightarrow> string) \<Rightarrow> ioc \<Rightarrow> ((string \<times> string) \<times> string) list \<Rightarrow> ((string \<times> string) \<times> string) list" where
  "add_ioc sha i out =
     (if ioc_type i = [] \<or> ioc_value i = [] then out
      else if ioc_type i = ''ip'' then add_key ''ip'' (ioc_fingerprint sha (ioc_type i) (ioc_value i)) out
      else if take 4 (ioc_type i) = ''hash'' then add_key ''hash'' (ioc_fingerprint sha (ioc_type i) (ioc_value i)) out
      else if ioc_type i \<in> {''domain'', ''fqdn''}
        then add_key ''domain'' (ioc_fingerprint sha (ioc_type i) (ioc_value i)) out
      else out)"

definition extract_keys :: "(string \<Rightarrow> string) \<Rightarrow> entity list \<Rightarrow> ioc list \<Rightarrow> string option \<Rightarrow> corr_key list" where
  "extract_keys sha ents iocs rule =
     (let d = fold (add_ioc sha) iocs (fold add_entity ents []);
          d' = (case rule of None \<Rightarrow> d | Some r \<Rightarrow> if r = [] then d else add_key ''rule'' r d)
      in map (\<lambda>((kt, kv), s). (kt, kv, s)) d')"

definition seen_count :: "uid \<Rightarrow> string \<Rightarrow> string \<Rightarrow> ir_db \<Rightarrow> int" where
  "seen_count t kt kv db = (case map_of (key_stats db) (t, kt, kv) of None \<Rightarrow> 0 | Some n \<Rightarrow> n)"

definition record_key :: "uid \<Rightarrow> uid \<Rightarrow> uid option \<Rightarrow> time \<Rightarrow> corr_key \<Rightarrow> ir_db \<Rightarrow> ir_db" where
  "record_key t a c ts = (\<lambda>(kt, kv, s) db.
     let window = (case map_of WINDOW_MINUTES kt of None \<Rightarrow> 30 | Some m \<Rightarrow> m)
     in db\<lparr> entity_keys := entity_keys db @
              [\<lparr> key_tenant = t, key_alert = a, key_case = c, key_type = kt, key_value = kv, key_strength = s,
                 key_occurred_at = ts, key_expires_at = ts + window * 60 \<rparr>],
            key_stats := dset (t, kt, kv) (seen_count t kt kv db + 1) (key_stats db) \<rparr>)"

definition record_keys :: "uid \<Rightarrow> uid \<Rightarrow> uid option \<Rightarrow> time \<Rightarrow> corr_key list \<Rightarrow> ir_db \<Rightarrow> ir_db" where
  "record_keys t a c ts keys db = fold (record_key t a c ts) keys db"

definition case_active :: "uid \<Rightarrow> ir_db \<Rightarrow> bool" where
  "case_active c db \<longleftrightarrow> (\<exists>i\<in>set (cases db). case_id i = c \<and> case_status i = ''active'')"

text \<open>Strong keys always attach; conditional keys unless the tenant has seen them too often.\<close>

definition eligible :: "uid \<Rightarrow> ir_db \<Rightarrow> corr_key \<Rightarrow> bool" where
  "eligible t db = (\<lambda>(kt, kv, s). s = ''strong'' \<or> s = ''conditional'' \<and> seen_count t kt kv db \<le> HUB_THRESHOLD)"

definition find_correlated_investigation :: "uid \<Rightarrow> corr_key list \<Rightarrow> time \<Rightarrow> ir_db \<Rightarrow> uid option" where
  "find_correlated_investigation t keys now db =
     (let el = map (\<lambda>(kt, kv, s). (kt, kv)) (filter (eligible t db) keys)
      in map_option case_id
           (select_first
              (\<lambda>i. case_status i = ''active'' \<and>
                (\<exists>k\<in>set (entity_keys db). key_case k = Some (case_id i) \<and> key_tenant k = t \<and>
                   now < key_expires_at k \<and> (key_type k, key_value k) \<in> set el))
              opened_at (cases db)))"

definition find_other_active_investigation_sharing_keys :: "uid \<Rightarrow> uid \<Rightarrow> time \<Rightarrow> ir_db \<Rightarrow> uid option" where
  "find_other_active_investigation_sharing_keys t c now db =
     map_option case_id
       (select_first
          (\<lambda>i. case_status i = ''active'' \<and> case_id i \<noteq> c \<and>
            (\<exists>mine\<in>set (entity_keys db). \<exists>other\<in>set (entity_keys db).
               key_tenant mine = t \<and> key_case mine = Some c \<and> now < key_expires_at mine \<and>
               key_tenant other = t \<and> key_case other = Some (case_id i) \<and> now < key_expires_at other \<and>
               key_type other = key_type mine \<and> key_value other = key_value mine \<and>
               eligible t db (key_type mine, key_value mine, key_strength mine)))
          opened_at (cases db))"

subsection \<open>The verdict memo\<close>

definition shape_key :: "string option \<Rightarrow> string option \<Rightarrow> string option \<Rightarrow> string option \<Rightarrow> string option" where
  "shape_key source decoder thash tver =
     (if env_text thash = [] then None
      else Some (str_lower (env_text source) @ ''|'' @ str_lower (env_text decoder) @ ''|'' @ env_text thash
                 @ ''|'' @ env_text tver))"

record memo_env =
  memo_floor_raw :: "string option"
  memo_ttl_raw :: "string option"

definition reuse_confidence_floor :: "memo_env \<Rightarrow> pyfloat" where
  "reuse_confidence_floor me =
     (case memo_floor_raw me of
        None \<Rightarrow> Fin (90 / 100)
      | Some s \<Rightarrow> (case py_float_of_str s of None \<Rightarrow> Fin (90 / 100) | Some f \<Rightarrow> f))"

definition reuse_ttl_days :: "memo_env \<Rightarrow> int" where
  "reuse_ttl_days me =
     (case memo_ttl_raw me of
        None \<Rightarrow> 30
      | Some s \<Rightarrow> (case py_int_of_str s of None \<Rightarrow> 30 | Some n \<Rightarrow> max 1 n))"

definition memo_of :: "uid \<Rightarrow> string \<Rightarrow> ir_db \<Rightarrow> memo_row option" where
  "memo_of t k db = find (\<lambda>m. memo_tenant m = t \<and> memo_shape m = k) (verdict_cache db)"

text \<open>The confidence of a reusable close, if there is one.\<close>

definition lookup_memoized_close :: "memo_env \<Rightarrow> uid \<Rightarrow> string \<Rightarrow> time \<Rightarrow> ir_db \<Rightarrow> rat option" where
  "lookup_memoized_close me t k now db =
     (case memo_of t k db of
        None \<Rightarrow> None
      | Some m \<Rightarrow>
          (if now - of_int (reuse_ttl_days me) * 86400 < memo_at m \<and> memo_decision m = ''close'' \<and>
              \<not> float_cmp CmpLt (Fin (memo_confidence m)) (reuse_confidence_floor me)
           then Some (memo_confidence m) else None))"

definition record_verdict :: "uid \<Rightarrow> string \<Rightarrow> string \<Rightarrow> rat \<Rightarrow> time \<Rightarrow> ir_db \<Rightarrow> ir_db" where
  "record_verdict t k dec conf now db =
     (if memo_of t k db = None
      then db\<lparr> verdict_cache := verdict_cache db @
             [\<lparr> memo_tenant = t, memo_shape = k, memo_decision = dec, memo_confidence = conf, memo_hits = 0,
                memo_at = now \<rparr>] \<rparr>
      else db\<lparr> verdict_cache := update_where (\<lambda>m. memo_tenant m = t \<and> memo_shape m = k)
             (\<lambda>m. m\<lparr> memo_decision := dec, memo_confidence := conf, memo_at := now \<rparr>) (verdict_cache db) \<rparr>)"

definition bump_hit :: "uid \<Rightarrow> string \<Rightarrow> ir_db \<Rightarrow> ir_db" where
  "bump_hit t k db =
     db\<lparr> verdict_cache := update_where (\<lambda>m. memo_tenant m = t \<and> memo_shape m = k)
           (\<lambda>m. m\<lparr> memo_hits := memo_hits m + 1 \<rparr>) (verdict_cache db) \<rparr>"

subsection \<open>The volume cap\<close>

definition count_recent_auto_closes :: "uid \<Rightarrow> int \<Rightarrow> time \<Rightarrow> ir_db \<Rightarrow> int" where
  "count_recent_auto_closes t hours now db =
     int (length (filter
       (\<lambda>c. case_tenant c = t \<and> case_status c = ''auto_closed_fp'' \<and>
            (case closed_at c of None \<Rightarrow> False | Some ts \<Rightarrow> now - of_int hours * 3600 < ts)) (cases db)))"

definition volume_cap_exceeded :: "uid \<Rightarrow> pydict \<Rightarrow> time \<Rightarrow> ir_db \<Rightarrow> bool py" where
  "volume_cap_exceeded t policy now db = do {
     cap \<leftarrow> int_policy policy ''auto_close_volume_cap'' 500;
     if cap \<le> 0 then Some False
     else do {
       window \<leftarrow> int_policy policy ''auto_close_volume_window_hours'' 24;
       Some (cap \<le> count_recent_auto_closes t (max 1 window) now db) } }"

subsection \<open>What the queries read\<close>

lemma eligible_cong: "key_stats db' = key_stats db \<Longrightarrow> eligible t db' = eligible t db"
  by (simp add: eligible_def seen_count_def fun_eq_iff)

lemma volume_cap_cong:
  assumes "cases db' = cases db"
  shows "volume_cap_exceeded t policy now db' = volume_cap_exceeded t policy now db"
proof -
  have "count_recent_auto_closes t h now db' = count_recent_auto_closes t h now db" for h
    using assms by (simp add: count_recent_auto_closes_def)
  then show ?thesis by (simp only: volume_cap_exceeded_def)
qed

subsection \<open>Frames\<close>

lemma record_keys_frame [simp]:
  "runs (record_keys t a c ts keys db) = runs db"
  "cases (record_keys t a c ts keys db) = cases db"
  "alerts (record_keys t a c ts keys db) = alerts db"
  "ledger (record_keys t a c ts keys db) = ledger db"
  "chats (record_keys t a c ts keys db) = chats db"
  "events (record_keys t a c ts keys db) = events db"
  "reviews (record_keys t a c ts keys db) = reviews db"
  "hil_log (record_keys t a c ts keys db) = hil_log db"
  "audits (record_keys t a c ts keys db) = audits db"
  "verdict_cache (record_keys t a c ts keys db) = verdict_cache db"
  "tenant_policies (record_keys t a c ts keys db) = tenant_policies db"
  "dispatches (record_keys t a c ts keys db) = dispatches db"
  "source_events (record_keys t a c ts keys db) = source_events db"
  by (induction keys arbitrary: db; simp add: record_keys_def record_key_def Let_def split_def)+

lemma record_verdict_frame [simp]:
  "runs (record_verdict t k d c now db) = runs db"
  "cases (record_verdict t k d c now db) = cases db"
  "alerts (record_verdict t k d c now db) = alerts db"
  "ledger (record_verdict t k d c now db) = ledger db"
  "chats (record_verdict t k d c now db) = chats db"
  "events (record_verdict t k d c now db) = events db"
  "reviews (record_verdict t k d c now db) = reviews db"
  "hil_log (record_verdict t k d c now db) = hil_log db"
  "audits (record_verdict t k d c now db) = audits db"
  "entity_keys (record_verdict t k d c now db) = entity_keys db"
  "key_stats (record_verdict t k d c now db) = key_stats db"
  "tenant_policies (record_verdict t k d c now db) = tenant_policies db"
  "dispatches (record_verdict t k d c now db) = dispatches db"
  "source_events (record_verdict t k d c now db) = source_events db"
  by (simp_all add: record_verdict_def)

lemma bump_hit_frame [simp]:
  "runs (bump_hit t k db) = runs db"
  "cases (bump_hit t k db) = cases db"
  "alerts (bump_hit t k db) = alerts db"
  "ledger (bump_hit t k db) = ledger db"
  "events (bump_hit t k db) = events db"
  "dispatches (bump_hit t k db) = dispatches db"
  "chats (bump_hit t k db) = chats db"
  "reviews (bump_hit t k db) = reviews db"
  "audits (bump_hit t k db) = audits db"
  "hil_log (bump_hit t k db) = hil_log db"
  "entity_keys (bump_hit t k db) = entity_keys db"
  "key_stats (bump_hit t k db) = key_stats db"
  "tenant_policies (bump_hit t k db) = tenant_policies db"
  "source_events (bump_hit t k db) = source_events db"
  by (simp_all add: bump_hit_def)

end
