(* ===== verification/Ir_Reviews.thy ===== *)
theory Ir_Reviews
  imports Ir_Correlation
begin

text \<open>
  The replay beats the control plane writes (\<open>core/ir/replay_events.py\<close>), the fields that let a
  closed investigation reopen (\<open>core/ir/triage.py\<close>) and the human-review writes
  (\<open>core/ir/review_events.py\<close>).
\<close>

subsection \<open>Replay beats\<close>

definition clip :: "string option \<Rightarrow> nat \<Rightarrow> string" where
  "clip v cap = take cap (env_text v)"

text \<open>\<open>_clip(v, cap) or None\<close>.\<close>

definition clip_or_none :: "string option \<Rightarrow> nat \<Rightarrow> pyval" where
  "clip_or_none v cap = (if clip v cap = [] then PNone else PStr (clip v cap))"

definition clip_list :: "string list \<Rightarrow> pyval" where
  "clip_list vs = PList (map (\<lambda>v. PStr (take 400 v)) (take 20 vs))"

definition beat :: "pydict \<Rightarrow> pyval" where
  "beat extra = PDict ((''payload_version'', PInt 1) # extra)"

definition guard_evaluated ::
    "string \<Rightarrow> string option \<Rightarrow> string option \<Rightarrow> string \<Rightarrow> string list \<Rightarrow> string list \<Rightarrow> string list \<Rightarrow> pyval" where
  "guard_evaluated stage decision_in decision_out eff fired reasons checklist =
     beat [(''stage'', PStr (take 40 stage)), (''decision_in'', clip_or_none decision_in 40),
           (''decision_out'', clip_or_none decision_out 40), (''effect'', PStr (take 20 eff)),
           (''fired'', clip_list fired), (''reasons'', clip_list reasons), (''checklist'', clip_list checklist)]"

definition case_closed :: "string \<Rightarrow> string option \<Rightarrow> string option \<Rightarrow> pyval" where
  "case_closed via rsn rn =
     beat [(''path'', PStr (take 40 via)), (''reason'', clip_or_none rsn 2000), (''run_id'', clip_or_none rn 60)]"

definition human_review_requested :: "string option \<Rightarrow> string option \<Rightarrow> rat option \<Rightarrow> pyval" where
  "human_review_requested rsn dec conf =
     beat [(''reason'', clip_or_none rsn 2000), (''verdict_decision'', clip_or_none dec 40),
           (''verdict_confidence'', case conf of None \<Rightarrow> PNone | Some q \<Rightarrow> PFloat (Fin q))]"

definition human_decision :: "string option \<Rightarrow> pyval" where
  "human_decision dec = beat [(''decision'', clip_or_none dec 40)]"

subsection \<open>Reopen fields\<close>

definition fingerprints :: "(string \<Rightarrow> string) \<Rightarrow> ioc list \<Rightarrow> string list" where
  "fingerprints sha iocs =
     map (\<lambda>i. ioc_fingerprint sha (ioc_type i) (ioc_value i))
       (filter (\<lambda>i. ioc_type i \<noteq> [] \<and> ioc_value i \<noteq> []) iocs)"

definition reopen_fields ::
    "(string \<Rightarrow> string) \<Rightarrow> string list \<Rightarrow> string list \<Rightarrow> ioc list \<Rightarrow> int \<Rightarrow> time \<Rightarrow> reopen_sig \<times> time" where
  "reopen_fields sha rules assets iocs days now =
     (\<lparr> sig_iocs = fingerprints sha iocs, sig_assets = assets, sig_rules = rules \<rparr>, now + of_int days * 86400)"

text \<open>\<open>list(dict.fromkeys(xs))\<close>: the first occurrences, in order.\<close>

fun ordered_set :: "'a list \<Rightarrow> 'a list" where
  "ordered_set [] = []"
| "ordered_set (x # xs) = x # filter (\<lambda>y. y \<noteq> x) (ordered_set xs)"

lemma set_ordered_set [simp]: "set (ordered_set xs) = set xs"
  by (induction xs) auto

definition nonempty_rule :: "string option \<Rightarrow> string list" where
  "nonempty_rule r = (case r of None \<Rightarrow> [] | Some s \<Rightarrow> if s = [] then [] else [s])"

definition build_reopen_fields_for_investigation ::
    "(string \<Rightarrow> string) \<Rightarrow> uid \<Rightarrow> uid \<Rightarrow> int \<Rightarrow> time \<Rightarrow> ir_db \<Rightarrow> reopen_sig \<times> time" where
  "build_reopen_fields_for_investigation sha t c days now db =
     (let rows = sort_key first_event_at (filter (\<lambda>a. alert_tenant a = t \<and> alert_case a = Some c) (alerts db))
      in reopen_fields sha (ordered_set (concat (map (nonempty_rule \<circ> alert_rule) rows)))
           (ordered_set (concat (map asset_ids rows))) (concat (map initial_iocs rows)) days now)"

text \<open>
  \<open>policy.get("reopen_window_days", 30)\<close> goes straight into \<open>timedelta\<close>, which takes a number: an
  integer here, and anything else is outside the model and counts as raising.
\<close>

definition reopen_window_days :: "pydict \<Rightarrow> int py" where
  "reopen_window_days policy = (case dget_default ''reopen_window_days'' (PInt 30) policy of PInt n \<Rightarrow> Some n | _ \<Rightarrow> None)"

subsection \<open>Review requests and decisions\<close>

definition max_version :: "uid \<Rightarrow> ir_db \<Rightarrow> int" where
  "max_version c db = foldr (\<lambda>e m. if hil_case e = c then max (hil_version e) m else m) (hil_log db) 0"

definition append_event_v1 :: "uid \<Rightarrow> uid \<Rightarrow> string \<Rightarrow> ir_db \<Rightarrow> ir_db" where
  "append_event_v1 c t ty db =
     db\<lparr> hil_log := hil_log db @
           [\<lparr> hil_case = c, hil_version = max_version c db + 1, hil_type = ty, hil_tenant = t \<rparr>] \<rparr>"

definition severity_band :: "int \<Rightarrow> string" where
  "severity_band s = (if s \<ge> 12 then ''critical'' else if s \<ge> 10 then ''high'' else if s \<ge> 7 then ''medium'' else ''low'')"

definition escalate_severity :: "uid \<Rightarrow> uid \<Rightarrow> string option \<Rightarrow> ir_db \<Rightarrow> ir_db" where
  "escalate_severity c t rsn db =
     db\<lparr> cases := update_where (\<lambda>i. case_id i = c \<and> case_tenant i = t \<and> case_status i = ''active'')
           (\<lambda>i. i\<lparr> case_severity := max (case_severity i) 12,
                   case_summary := (if rsn = None then case_summary i else rsn) \<rparr>) (cases db) \<rparr>"

definition pending_review :: "uid \<Rightarrow> ir_db \<Rightarrow> bool" where
  "pending_review c db \<longleftrightarrow> (\<exists>r\<in>set (reviews db). review_case r = c \<and> review_status r = ''pending'')"

definition queue_review :: "uid \<Rightarrow> uid \<Rightarrow> uid \<Rightarrow> string option \<Rightarrow> string \<Rightarrow> ir_db \<Rightarrow> ir_db" where
  "queue_review rid c t rsn dec db =
     (case find (\<lambda>i. case_id i = c \<and> case_tenant i = t) (cases db) of
        None \<Rightarrow> db
      | Some i \<Rightarrow>
          (if pending_review c db then db
           else db\<lparr> reviews := reviews db @
             [\<lparr> review_id = rid, review_case = c, review_tenant = t, review_status = ''pending'',
                review_title = case_title i,
                review_description = (case rsn of None \<Rightarrow> ''Routed to HIL '' @ [dash] @ '' analyst review.'' | Some s \<Rightarrow> s),
                review_max_severity = severity_band (case_severity i),
                review_alert_count = length (filter (\<lambda>a. alert_case a = Some c) (alerts db)),
                review_decision = dec, review_feedback = None, reviewer = None, responded_at = None \<rparr>] \<rparr>))"

definition record_human_review_requested ::
    "uid \<Rightarrow> uid \<Rightarrow> uid \<Rightarrow> string option \<Rightarrow> string \<Rightarrow> rat option \<Rightarrow> ir_db \<Rightarrow> ir_db" where
  "record_human_review_requested rid c t rsn dec conf db =
     (let payload = human_review_requested rsn (Some dec) conf;
          db1 = append_event_v1 c t ''human.review_requested'' db;
          db2 = append_event t c None ''human_review_requested'' payload ''mssp_only''
                  (DerivedKey c ''human_review_requested'' payload ''review_events'') db1;
          db3 = (if dec = ''escalate'' then escalate_severity c t rsn db2 else db2)
      in queue_review rid c t rsn dec db3)"

definition review_status_of :: "string \<Rightarrow> string" where
  "review_status_of dec =
     (if dec = ''approve'' then ''approved'' else if dec = ''reject'' then ''rejected''
      else if dec = ''more_info'' then ''info_requested'' else dec)"

text \<open>Closing as a false positive, on the rows a path selects.\<close>

definition close_as_fp :: "(case_row \<Rightarrow> bool) \<Rightarrow> string option \<Rightarrow> reopen_sig \<times> time \<Rightarrow> time \<Rightarrow> ir_db \<Rightarrow> ir_db" where
  "close_as_fp p rsn sg now db =
     db\<lparr> cases := update_where p
           (\<lambda>i. i\<lparr> case_status := ''auto_closed_fp'', closed_at := Some now,
                   close_reason := (if rsn = None then close_reason i else rsn),
                   reopen_signature := Some (fst sg), reopen_until := Some (snd sg) \<rparr>) (cases db) \<rparr>"

definition record_human_decision_received ::
    "policy_env \<Rightarrow> (string \<Rightarrow> string) \<Rightarrow> uid \<Rightarrow> uid \<Rightarrow> uid option \<Rightarrow> string \<Rightarrow> string option \<Rightarrow> string option \<Rightarrow> time
     \<Rightarrow> ir_db \<Rightarrow> ir_db py" where
  "record_human_decision_received env sha rid c tn dec feedback who now db =
     (case tn of
        None \<Rightarrow> None
      | Some t \<Rightarrow>
          (let payload = human_decision (Some dec);
               db1 = append_event_v1 c t ''human.decision_received'' db;
               db2 = append_event t c None ''human_decision'' payload ''mssp_only''
                       (DerivedKey c ''human_decision'' payload ''review_events'') db1;
               db3 = db2\<lparr> reviews := update_where (\<lambda>r. review_id r = rid)
                       (\<lambda>r. r\<lparr> review_status := review_status_of dec, review_feedback := feedback, reviewer := who,
                               responded_at := Some now \<rparr>) (reviews db2) \<rparr>
           in if dec \<noteq> ''reject'' then Some db3
              else do {
                eff \<leftarrow> effective_policy env (Some (policies_of t db3)) [] [];
                days \<leftarrow> reopen_window_days eff;
                Some (close_as_fp (\<lambda>i. case_id i = c \<and> case_tenant i = t) feedback
                        (build_reopen_fields_for_investigation sha t c days now db3) now db3) }))"

definition record_human_review_expired ::
    "uid \<Rightarrow> uid \<Rightarrow> uid \<Rightarrow> string option \<Rightarrow> string option \<Rightarrow> time \<Rightarrow> ir_db \<Rightarrow> ir_db" where
  "record_human_review_expired rid c t rsn who now db =
     (let db1 = append_event_v1 c t ''human.review_expired'' db
      in db1\<lparr> reviews := update_where (\<lambda>r. review_id r = rid \<and> review_tenant r = t)
            (\<lambda>r. r\<lparr> review_status := ''expired'',
                    review_feedback := (if rsn = None then review_feedback r else rsn),
                    reviewer := (if who = None then reviewer r else who),
                    responded_at := (if responded_at r = None then Some now else responded_at r) \<rparr>) (reviews db1) \<rparr>)"

subsection \<open>Frames\<close>

lemma review_requested_frame [simp]:
  "runs (record_human_review_requested rid c t rsn dec conf db) = runs db"
  "ledger (record_human_review_requested rid c t rsn dec conf db) = ledger db"
  "chats (record_human_review_requested rid c t rsn dec conf db) = chats db"
  "alerts (record_human_review_requested rid c t rsn dec conf db) = alerts db"
  "dispatches (record_human_review_requested rid c t rsn dec conf db) = dispatches db"
  "verdict_cache (record_human_review_requested rid c t rsn dec conf db) = verdict_cache db"
  "entity_keys (record_human_review_requested rid c t rsn dec conf db) = entity_keys db"
  "key_stats (record_human_review_requested rid c t rsn dec conf db) = key_stats db"
  "tenant_policies (record_human_review_requested rid c t rsn dec conf db) = tenant_policies db"
  "source_events (record_human_review_requested rid c t rsn dec conf db) = source_events db"
  by (simp_all add: record_human_review_requested_def Let_def queue_review_def escalate_severity_def
      append_event_v1_def split: option.splits)

lemma close_as_fp_frame [simp]:
  "runs (close_as_fp p rsn sg now db) = runs db"
  "ledger (close_as_fp p rsn sg now db) = ledger db"
  "chats (close_as_fp p rsn sg now db) = chats db"
  "alerts (close_as_fp p rsn sg now db) = alerts db"
  "events (close_as_fp p rsn sg now db) = events db"
  "reviews (close_as_fp p rsn sg now db) = reviews db"
  "audits (close_as_fp p rsn sg now db) = audits db"
  "hil_log (close_as_fp p rsn sg now db) = hil_log db"
  "dispatches (close_as_fp p rsn sg now db) = dispatches db"
  "verdict_cache (close_as_fp p rsn sg now db) = verdict_cache db"
  "entity_keys (close_as_fp p rsn sg now db) = entity_keys db"
  "key_stats (close_as_fp p rsn sg now db) = key_stats db"
  "tenant_policies (close_as_fp p rsn sg now db) = tenant_policies db"
  "source_events (close_as_fp p rsn sg now db) = source_events db"
  by (simp_all add: close_as_fp_def)

end
