(* ===== verification/Ir_Cost.thy ===== *)
theory Ir_Cost
  imports Ir_Store Budget
begin

text \<open>
  The tenant's calendar-day ceilings (\<open>core/cost.py\<close>): the day boundary, today's spend out of the
  ledger and the chat log, the headroom promised to runs in flight, the effective caps, and the
  admission check both the worker's claim loop and the chat handler make. Time zones are a record
  of functions: which names Python and Postgres know, and the day around an instant.
\<close>

record clock_env =
  valid_timezone :: "string \<Rightarrow> bool"
  postgres_knows :: "string \<Rightarrow> bool"
  day_start :: "string \<Rightarrow> time \<Rightarrow> time"
  day_end :: "string \<Rightarrow> time \<Rightarrow> time"

subsection \<open>The day\<close>

definition BUDGET_DAY_TZ_KEY :: string where
  "BUDGET_DAY_TZ_KEY = ''budget_day_timezone''"

definition is_valid_timezone :: "clock_env \<Rightarrow> string \<Rightarrow> bool" where
  "is_valid_timezone ck s \<longleftrightarrow> s \<noteq> [] \<and> valid_timezone ck s"

definition install_budget_day_timezone :: "policy_env \<Rightarrow> clock_env \<Rightarrow> string" where
  "install_budget_day_timezone env ck =
     (let raw = str_strip (env_text (env_budget_tz env))
      in if is_valid_timezone ck raw then raw else ''UTC'')"

definition resolve_budget_day_timezone :: "policy_env \<Rightarrow> clock_env \<Rightarrow> pydict option \<Rightarrow> string" where
  "resolve_budget_day_timezone env ck tenant =
     (let d = install_budget_day_timezone env ck
      in case effective_policy env tenant [] [] of
           None \<Rightarrow> d
         | Some eff \<Rightarrow>
             (case dget BUDGET_DAY_TZ_KEY eff of
                PStr s \<Rightarrow> (if is_valid_timezone ck (str_strip s) \<and> postgres_knows ck (str_strip s)
                           then str_strip s else d)
              | _ \<Rightarrow> d))"

subsection \<open>Spend and promises\<close>

definition priced_dollars :: "ledger_row \<Rightarrow> rat" where
  "priced_dollars l = (if l_source l = Some ''unknown'' then 0 else l_dollars l)"

definition unpriced_of :: "uid \<Rightarrow> ir_db \<Rightarrow> rat" where
  "unpriced_of r db = (\<Sum>l\<leftarrow>ledger db. if l_run l = r \<and> l_source l = Some ''unknown'' then l_dollars l else 0)"

definition daily_tokens :: "uid \<Rightarrow> time \<Rightarrow> ir_db \<Rightarrow> int" where
  "daily_tokens t start db =
     (\<Sum>l\<leftarrow>ledger db. if l_tenant l = t \<and> start \<le> l_at l then l_tokens l else 0)
     + (\<Sum>c\<leftarrow>chats db. if chat_tenant c = t \<and> start \<le> chat_at c then chat_tokens_in c + chat_tokens_out c else 0)"

definition daily_dollars :: "uid \<Rightarrow> time \<Rightarrow> ir_db \<Rightarrow> rat" where
  "daily_dollars t start db =
     (\<Sum>l\<leftarrow>ledger db. if l_tenant l = t \<and> start \<le> l_at l then priced_dollars l else 0)
     + (\<Sum>c\<leftarrow>chats db. if chat_tenant c = t \<and> start \<le> chat_at c
                        then max (chat_dollars c - chat_unpriced c) 0 else 0)"

text \<open>
  A run is in flight while it is leased. Its promise is what it may still spend: the token
  budget left, and the dollar budget less the part already spent on priced models.
\<close>

definition in_flight :: "uid \<Rightarrow> time \<Rightarrow> run_row \<Rightarrow> bool" where
  "in_flight t now r \<longleftrightarrow> run_tenant r = t \<and> run_status r = Active \<and> claimed_by r \<noteq> None
     \<and> (case lease_expires_at r of None \<Rightarrow> False | Some e \<Rightarrow> now < e)"

definition token_promise :: "run_row \<Rightarrow> int" where
  "token_promise r = max (run_tokens_budget r - run_tokens_used r) 0"

definition dollar_promise :: "ir_db \<Rightarrow> run_row \<Rightarrow> pyfloat" where
  "dollar_promise db r =
     float_max (Fin 0)
       (float_sub (run_dollars_budget r) (Fin (max (run_dollars_used r - unpriced_of (run_id r) db) 0)))"

definition reserved_tokens :: "uid \<Rightarrow> time \<Rightarrow> ir_db \<Rightarrow> int" where
  "reserved_tokens t now db = (\<Sum>r\<leftarrow>runs db. if in_flight t now r then token_promise r else 0)"

definition reserved_dollars :: "uid \<Rightarrow> time \<Rightarrow> ir_db \<Rightarrow> pyfloat" where
  "reserved_dollars t now db =
     foldr (\<lambda>r acc. if in_flight t now r then float_add (dollar_promise db r) acc else acc) (runs db) (Fin 0)"

subsection \<open>Ceilings\<close>

definition DAILY_TOKEN_CAP_KEY :: string where
  "DAILY_TOKEN_CAP_KEY = ''max_tokens_per_24h''"

definition DAILY_DOLLAR_CAP_KEY :: string where
  "DAILY_DOLLAR_CAP_KEY = ''max_dollars_per_24h''"

definition tenant_daily_token_cap :: "policy_env \<Rightarrow> int" where
  "tenant_daily_token_cap env = positive_int_env (env_day_token_cap env) 10000000"

definition tenant_daily_dollar_cap :: "policy_env \<Rightarrow> pyfloat" where
  "tenant_daily_dollar_cap env = positive_float_env (env_day_dollar_cap env) (Fin 50)"

definition tenant_daily_token_cap_max :: "policy_env \<Rightarrow> int" where
  "tenant_daily_token_cap_max env = positive_int_env (env_day_token_cap_max env) 10000000000"

definition tenant_daily_dollar_cap_max :: "policy_env \<Rightarrow> pyfloat" where
  "tenant_daily_dollar_cap_max env = positive_float_env (env_day_dollar_cap_max env) (Fin 100000)"

definition tenant_token_cap :: "policy_env \<Rightarrow> pydict \<Rightarrow> int py" where
  "tenant_token_cap env eff =
     (case dget DAILY_TOKEN_CAP_KEY eff of
        PNone \<Rightarrow> Some (tenant_daily_token_cap env)
      | raw \<Rightarrow> do {
          v \<leftarrow> int_caught raw;
          Some (case v of
                  None \<Rightarrow> tenant_daily_token_cap env
                | Some n \<Rightarrow> if n > 0 then min n (tenant_daily_token_cap_max env) else tenant_daily_token_cap env) })"

definition tenant_dollar_cap :: "policy_env \<Rightarrow> pydict \<Rightarrow> pyfloat" where
  "tenant_dollar_cap env eff =
     (case dget DAILY_DOLLAR_CAP_KEY eff of
        PNone \<Rightarrow> tenant_daily_dollar_cap env
      | raw \<Rightarrow> (case py_float raw of
                 None \<Rightarrow> tenant_daily_dollar_cap env
               | Some v \<Rightarrow> (if float_cmp CmpGt v (Fin 0) \<and> v \<noteq> PosInf
                            then float_min v (tenant_daily_dollar_cap_max env) else tenant_daily_dollar_cap env)))"

definition resolve_tenant_daily_caps :: "policy_env \<Rightarrow> pydict option \<Rightarrow> (int \<times> pyfloat) py" where
  "resolve_tenant_daily_caps env tenant =
     (case effective_policy env tenant [] [] of
        None \<Rightarrow> Some (tenant_daily_token_cap env, tenant_daily_dollar_cap env)
      | Some eff \<Rightarrow> do { tok \<leftarrow> tenant_token_cap env eff; Some (tok, tenant_dollar_cap env eff) })"

subsection \<open>Status and admission\<close>

record daily_status =
  spend_tokens :: int
  spend_dollars :: rat
  cap_tokens :: int
  cap_dollars :: pyfloat
  status_timezone :: string
  resets_at :: time
  cost_tracking :: bool

definition get_tenant_daily_status ::
    "policy_env \<Rightarrow> clock_env \<Rightarrow> uid \<Rightarrow> time \<Rightarrow> ir_db \<Rightarrow> daily_status py" where
  "get_tenant_daily_status env ck tenant now db =
     (let pol = Some (policies_of tenant db); tz = resolve_budget_day_timezone env ck pol;
          start = day_start ck tz now
      in do {
        (tok, dol) \<leftarrow> resolve_tenant_daily_caps env pol;
        Some \<lparr> spend_tokens = daily_tokens tenant start db, spend_dollars = daily_dollars tenant start db,
               cap_tokens = tok, cap_dollars = dol, status_timezone = tz, resets_at = day_end ck tz now,
               cost_tracking = resolve_cost_tracking env pol \<rparr> })"

definition token_cap_hit :: "daily_status \<Rightarrow> bool" where
  "token_cap_hit s \<longleftrightarrow> cap_tokens s \<le> spend_tokens s"

definition dollar_cap_hit :: "daily_status \<Rightarrow> bool" where
  "dollar_cap_hit s \<longleftrightarrow> cost_tracking s \<and> float_cmp CmpGe (Fin (spend_dollars s)) (cap_dollars s)"

definition cap_hit :: "daily_status \<Rightarrow> bool" where
  "cap_hit s \<longleftrightarrow> token_cap_hit s \<or> dollar_cap_hit s"

definition daily_reason :: "daily_status \<Rightarrow> string option" where
  "daily_reason s =
     (if token_cap_hit s then
        Some (''tokens '' @ show_int (spend_tokens s) @ ''/'' @ show_int (cap_tokens s) @ '' today'')
      else if dollar_cap_hit s then
        Some (''spend $'' @ fmt_fixed 4 (Fin (spend_dollars s)) @ ''/$'' @ fmt_fixed 2 (cap_dollars s) @ '' today'')
      else None)"

definition over_reserved :: "daily_status \<Rightarrow> int \<Rightarrow> pyfloat \<Rightarrow> bool" where
  "over_reserved s res_tokens res_dollars \<longleftrightarrow>
     (res_tokens \<noteq> 0 \<or> res_dollars \<noteq> Fin 0) \<and>
     (cap_tokens s \<le> spend_tokens s + res_tokens
      \<or> cost_tracking s \<and> float_cmp CmpGe (float_add (Fin (spend_dollars s)) res_dollars) (cap_dollars s))"

text \<open>True when new work may be admitted.\<close>

definition tenant_daily_cap_ok :: "policy_env \<Rightarrow> clock_env \<Rightarrow> uid \<Rightarrow> time \<Rightarrow> ir_db \<Rightarrow> bool py" where
  "tenant_daily_cap_ok env ck tenant now db = do {
     s \<leftarrow> get_tenant_daily_status env ck tenant now db;
     Some (\<not> (cap_hit s \<or> over_reserved s (reserved_tokens tenant now db) (reserved_dollars tenant now db))) }"

end
