(* ===== verification/Ir_Runs.thy ===== *)
theory Ir_Runs
  imports Ir_Reviews Ir_Cost
begin

text \<open>
  The life of a run: creation (\<open>core/ir/runtime.py\<close>), the worker protocol of claim, heartbeat,
  replay events, release, completion and the lease reaper (\<open>core/api/worker_runs.py\<close>), and the
  operator's unlock of a halted run (\<open>core/api/run_budget.py\<close>). A worker is authenticated by its
  tenant, which is the argument \<open>t\<close>. Fresh identifiers and the resolved prices are arguments.
\<close>

definition LEASE_TTL_SECONDS :: rat where
  "LEASE_TTL_SECONDS = 60"

definition env_positive_int :: "string option \<Rightarrow> int \<Rightarrow> int \<Rightarrow> int" where
  "env_positive_int raw d least =
     (case raw of None \<Rightarrow> d | Some s \<Rightarrow> (case py_int_of_str s of None \<Rightarrow> d | Some n \<Rightarrow> max least n))"

definition RETRY_BACKOFF_SECONDS :: "string option \<Rightarrow> int" where
  "RETRY_BACKOFF_SECONDS raw = env_positive_int raw 15 1"

subsection \<open>Creation\<close>

text \<open>The statuses that hold an investigation's single open run.\<close>

definition open_status :: "run_status \<Rightarrow> bool" where
  "open_status s \<longleftrightarrow> s \<in> {Active, Paused, WaitingOnGate, HaltedBudget}"

definition active_run_for_case :: "uid \<Rightarrow> ir_db \<Rightarrow> uid option" where
  "active_run_for_case c db =
     map_option run_id (find (\<lambda>r. run_case r = c \<and> open_status (run_status r)) (runs db))"

text \<open>A price resolution that raises still stamps the accounting switch.\<close>

definition run_price_snapshot :: "policy_env \<Rightarrow> pydict option \<Rightarrow> pydict option py \<Rightarrow> pydict option" where
  "run_price_snapshot env tenant_pol prices =
     (case prices of
        None \<Rightarrow> Some [(''version'', PInt 1), (''currency'', PStr ''USD''),
                      (''cost_tracking'', PBool (resolve_cost_tracking env tenant_pol)), (''models'', PDict [])]
      | Some None \<Rightarrow> None
      | Some (Some d) \<Rightarrow> if d = [] then None else Some d)"

definition max_attempts_of :: "policy_env \<Rightarrow> int" where
  "max_attempts_of env =
     (case py_int_of_str (env_text (env_max_attempts env)) of None \<Rightarrow> 4 | Some n \<Rightarrow> if n \<ge> 1 then n else 4)"

definition fresh_run ::
    "policy_env \<Rightarrow> pydict option py \<Rightarrow> uid \<Rightarrow> uid \<Rightarrow> uid \<Rightarrow> rat \<Rightarrow> time \<Rightarrow> int \<Rightarrow> pydict option \<Rightarrow> run_row" where
  "fresh_run env prices rid t c settle now tb pol =
     \<lparr> run_id = rid, run_tenant = t, run_case = c, run_status = Active, run_tokens_used = 0,
       run_tokens_budget = tb, run_dollars_used = 0, run_dollars_budget = resolve_run_dollar_budget env pol,
       run_snapshot = run_price_snapshot env pol prices, started_at = now, ended_at = None,
       not_before = now + max 0 settle, claimed_by = None, claimed_at = None, lease_id = None,
       lease_expires_at = None, attempts = 0, max_attempts = max_attempts_of env,
       last_error = None, last_error_category = None \<rparr>"

text \<open>The unique index on the open run of an investigation makes the second insert fail.\<close>

definition start_run ::
    "policy_env \<Rightarrow> pydict option py \<Rightarrow> uid \<Rightarrow> uid \<Rightarrow> uid \<Rightarrow> rat \<Rightarrow> time \<Rightarrow> ir_db \<Rightarrow> ir_db py" where
  "start_run env prices rid t c settle now db = do {
     tb \<leftarrow> resolve_run_token_budget env (Some (policies_of t db));
     if active_run_for_case c db \<noteq> None then None
     else Some (db\<lparr> runs := runs db @
       [fresh_run env prices rid t c settle now tb (Some (policies_of t db))] \<rparr>) }"

subsection \<open>Claim\<close>

record claimed_run =
  claimed_id :: uid
  claimed_case :: uid
  claimed_tokens_used :: int
  claimed_tokens_budget :: int
  claimed_dollars_used :: rat
  claimed_unpriced :: rat
  claimed_dollars_budget :: pyfloat
  claimed_lease :: uid
  claimed_expires :: time
  claimed_snapshot :: "pydict option"

datatype claim_outcome = NoWork | Denied "string option" int | Claimed claimed_run

definition lease_lapsed :: "time \<Rightarrow> run_row \<Rightarrow> bool" where
  "lease_lapsed now r \<longleftrightarrow> (case lease_expires_at r of None \<Rightarrow> False | Some e \<Rightarrow> e < now)"

definition claimable :: "uid \<Rightarrow> time \<Rightarrow> ir_db \<Rightarrow> run_row \<Rightarrow> bool" where
  "claimable t now db r \<longleftrightarrow>
     run_tenant r = t \<and> run_status r = Active \<and> not_before r \<le> now \<and>
     (claimed_at r = None \<or> lease_lapsed now r) \<and>
     (\<exists>i\<in>set (cases db). case_id i = run_case r \<and> case_tenant i = run_tenant r \<and> case_status i = ''active'')"

definition lease_to :: "string \<Rightarrow> uid \<Rightarrow> time \<Rightarrow> run_row \<Rightarrow> run_row" where
  "lease_to worker lid now r =
     r\<lparr> claimed_by := Some (take 64 worker), claimed_at := Some now, lease_id := Some lid,
        lease_expires_at := Some (now + LEASE_TTL_SECONDS) \<rparr>"

definition claim_run ::
    "policy_env \<Rightarrow> clock_env \<Rightarrow> uid \<Rightarrow> string \<Rightarrow> uid \<Rightarrow> time \<Rightarrow> ir_db \<Rightarrow> (claim_outcome \<times> ir_db) py" where
  "claim_run env ck t worker lid now db = do {
     ok \<leftarrow> tenant_daily_cap_ok env ck t now db;
     if \<not> ok then do {
       s \<leftarrow> get_tenant_daily_status env ck t now db;
       Some (Denied (daily_reason s) (max 0 \<lfloor>resets_at s - now\<rfloor>), db) }
     else
       (case select_first (claimable t now db) started_at (runs db) of
          None \<Rightarrow> Some (NoWork, db)
        | Some r \<Rightarrow> Some (Claimed
            \<lparr> claimed_id = run_id r, claimed_case = run_case r, claimed_tokens_used = run_tokens_used r,
              claimed_tokens_budget = run_tokens_budget r, claimed_dollars_used = run_dollars_used r,
              claimed_unpriced = unpriced_of (run_id r) db, claimed_dollars_budget = run_dollars_budget r,
              claimed_lease = lid, claimed_expires = now + LEASE_TTL_SECONDS, claimed_snapshot = run_snapshot r \<rparr>,
            db\<lparr> runs := update_where (\<lambda>q. run_id q = run_id r) (lease_to worker lid now) (runs db) \<rparr>)) }"

subsection \<open>The spend ledger\<close>

text \<open>What a worker reports: cumulative totals, and how it arrived at the dollars.\<close>

record spend_report =
  rep_tokens :: int
  rep_dollars :: "rat option"
  rep_basis :: "string option"
  rep_source :: "string option"
  rep_unpriced :: "rat option"

definition dollars_or_zero :: "rat option \<Rightarrow> rat" where
  "dollars_or_zero d = (case d of None \<Rightarrow> 0 | Some x \<Rightarrow> x)"

definition run_of :: "uid \<Rightarrow> uid \<Rightarrow> ir_db \<Rightarrow> run_row option" where
  "run_of t rid db = find (\<lambda>r. run_id r = rid \<and> run_tenant r = t) (runs db)"

definition new_unpriced :: "spend_report \<Rightarrow> rat \<Rightarrow> rat \<Rightarrow> rat" where
  "new_unpriced rep already d_dollars =
     (case rep_unpriced rep of None \<Rightarrow> 0 | Some u \<Rightarrow> min (max 0 (u - already)) d_dollars)"

definition delta_rows :: "uid \<Rightarrow> uid \<Rightarrow> spend_report \<Rightarrow> int \<Rightarrow> rat \<Rightarrow> rat \<Rightarrow> time \<Rightarrow> ledger_row list" where
  "delta_rows t rid rep d_tokens d_dollars d_unpriced now =
     (let rest = max 0 (d_dollars - d_unpriced);
          guess = \<lparr> l_tenant = t, l_run = rid, l_at = now, l_tokens = 0, l_dollars = d_unpriced,
                    l_basis = Some ''estimated'', l_source = Some ''unknown'' \<rparr>;
          main = \<lparr> l_tenant = t, l_run = rid, l_at = now, l_tokens = d_tokens,
                   l_dollars = (if d_unpriced > 0 then rest else d_dollars), l_basis = rep_basis rep,
                   l_source = (if rep_source rep = Some ''unknown'' \<and> d_unpriced > 0 then Some ''mixed''
                               else rep_source rep) \<rparr>
      in if d_unpriced > 0
         then guess # (if d_tokens = 0 \<and> rest = 0 then [] else [main])
         else [main])"

definition record_spend_delta :: "uid \<Rightarrow> uid \<Rightarrow> spend_report \<Rightarrow> time \<Rightarrow> ir_db \<Rightarrow> ir_db" where
  "record_spend_delta t rid rep now db =
     (case run_of t rid db of
        None \<Rightarrow> db
      | Some prev \<Rightarrow>
          (let d_tokens = max 0 (rep_tokens rep - run_tokens_used prev);
               d_dollars = max 0 (dollars_or_zero (rep_dollars rep) - run_dollars_used prev)
           in if d_tokens = 0 \<and> d_dollars = 0 then db
              else db\<lparr> ledger := ledger db @
                delta_rows t rid rep d_tokens d_dollars (new_unpriced rep (unpriced_of rid db) d_dollars) now \<rparr>))"

subsection \<open>Reports of the lease holder\<close>

definition holds_lease :: "uid \<Rightarrow> uid \<Rightarrow> uid \<Rightarrow> run_row \<Rightarrow> bool" where
  "holds_lease t rid lid r \<longleftrightarrow> run_id r = rid \<and> run_tenant r = t \<and> lease_id r = Some lid \<and> run_status r = Active"

definition spend_to :: "spend_report \<Rightarrow> run_row \<Rightarrow> run_row" where
  "spend_to rep r = r\<lparr> run_tokens_used := rep_tokens rep,
     run_dollars_used := (case rep_dollars rep of None \<Rightarrow> run_dollars_used r | Some d \<Rightarrow> d) \<rparr>"

definition drop_lease :: "run_row \<Rightarrow> run_row" where
  "drop_lease r = r\<lparr> lease_id := None, lease_expires_at := None, claimed_at := None, claimed_by := None \<rparr>"

definition heartbeat_run :: "uid \<Rightarrow> uid \<Rightarrow> uid \<Rightarrow> spend_report \<Rightarrow> time \<Rightarrow> ir_db \<Rightarrow> failure + ir_db" where
  "heartbeat_run t rid lid rep now db0 =
     (let db = record_spend_delta t rid rep now db0; p = holds_lease t rid lid
      in if \<not> (\<exists>r\<in>set (runs db). p r) then Inl (Http 409)
         else Inr (db\<lparr> runs := update_where p
                (\<lambda>r. (spend_to rep r)\<lparr> lease_expires_at := Some (now + LEASE_TTL_SECONDS) \<rparr>) (runs db) \<rparr>))"

definition release_row :: "int \<Rightarrow> string \<Rightarrow> spend_report \<Rightarrow> time \<Rightarrow> run_row \<Rightarrow> run_row" where
  "release_row backoff category rep now r =
     drop_lease ((spend_to rep r)\<lparr> attempts := attempts r + 1,
       last_error_category := Some (take 64 category),
       last_error := Some (take 4096 (''transient:'' @ category)),
       run_status := (if max_attempts r \<le> attempts r + 1 then RunFailed else Active),
       ended_at := (if max_attempts r \<le> attempts r + 1 then Some now else ended_at r),
       not_before := now + of_int (backoff * (attempts r + 1)) \<rparr>)"

definition release_run ::
    "int \<Rightarrow> uid \<Rightarrow> uid \<Rightarrow> uid \<Rightarrow> string \<Rightarrow> spend_report \<Rightarrow> time \<Rightarrow> ir_db \<Rightarrow> failure + ir_db" where
  "release_run backoff t rid lid category rep now db0 =
     (let db = record_spend_delta t rid rep now db0; p = holds_lease t rid lid
      in if \<not> (\<exists>r\<in>set (runs db). p r) then Inl (Http 409)
         else Inr (db\<lparr> runs := update_where p (release_row backoff category rep now) (runs db) \<rparr>))"

definition reap_expired_leases :: "time \<Rightarrow> ir_db \<Rightarrow> ir_db" where
  "reap_expired_leases now db =
     db\<lparr> runs := update_where (\<lambda>r. run_status r = Active \<and> lease_lapsed now r) drop_lease (runs db) \<rparr>"

subsection \<open>Replay events of a worker\<close>

definition EVENT_KINDS :: "string list" where
  "EVENT_KINDS =
     [''alert_ingested'', ''external_signal'', ''hypothesis_updated'', ''ioc_added'', ''ioc_removed'',
      ''asset_linked'', ''asset_unlinked'', ''timeline_entry'', ''directive_added'', ''directive_removed'',
      ''policy_bound'', ''status_changed'', ''confidence_recalibrated'', ''ai_message'', ''tool_call_started'',
      ''tool_result'', ''proposal_created'', ''proposal_approved'', ''proposal_rejected'', ''proposal_executed'',
      ''proposal_failed'', ''analyst_message'', ''analyst_correction'', ''analyst_command'', ''reopened'',
      ''auto_closed'', ''budget_warning'', ''budget_halt'', ''budget_unlock'', ''policy_resolved'',
      ''supervisor_decision'', ''worker_started'', ''worker_result'', ''verdict_rendered'', ''guard_evaluated'',
      ''human_review_requested'', ''human_decision'']"

definition RUN_SCOPED_WORKER_EVENTS :: "string list" where
  "RUN_SCOPED_WORKER_EVENTS = [''budget_warning'']"

definition VISIBILITIES :: "string list" where
  "VISIBILITIES = [''mssp_only'', ''customer_safe'', ''system'', ''tool_output'']"

record worker_event =
  we_kind :: string
  we_payload :: pydict
  we_visibility :: string
  we_ord :: int
  we_occurred :: "string option"

definition worker_event_key :: "uid \<Rightarrow> uid \<Rightarrow> worker_event \<Rightarrow> idem_key" where
  "worker_event_key rid lid e =
     (if we_kind e \<in> set RUN_SCOPED_WORKER_EVENTS then RunKey rid (we_kind e) else WorkerKey rid lid (we_ord e))"

definition append_worker_event :: "uid \<Rightarrow> uid \<Rightarrow> uid \<Rightarrow> uid \<Rightarrow> worker_event \<Rightarrow> ir_db \<Rightarrow> ir_db" where
  "append_worker_event t c rid lid e db =
     (if we_kind e \<notin> set EVENT_KINDS then db
      else append_event t c (Some rid) (we_kind e)
             (PDict (dset ''occurred_at'' (case we_occurred e of None \<Rightarrow> PNone | Some s \<Rightarrow> PStr s) (we_payload e)))
             (if we_visibility e \<in> set VISIBILITIES then we_visibility e else ''mssp_only'')
             (worker_event_key rid lid e) db)"

definition append_run_events :: "uid \<Rightarrow> uid \<Rightarrow> uid \<Rightarrow> worker_event list \<Rightarrow> ir_db \<Rightarrow> failure + ir_db" where
  "append_run_events t rid lid es db =
     (case find (holds_lease t rid lid) (runs db) of
        None \<Rightarrow> Inl (Http 409)
      | Some r \<Rightarrow> Inr (fold (append_worker_event t (run_case r) rid lid) (sort_key we_ord es) db))"

end
