(* ===== verification/Ir_Complete.thy ===== *)
theory Ir_Complete
  imports Ir_Runs "HOL-Library.Product_Lexorder"
begin

text \<open>
  The completion of a run (\<open>complete_run\<close> of \<open>core/api/worker_runs.py\<close>): the terminal update, the
  server's floor under an automatic close, the close or the escalation, the verdict memo, the
  response dispatch (recorded as a call) and the follow-up run over evidence that arrived late.
\<close>

subsection \<open>The server's floor\<close>

definition VETO_KILL_SWITCH :: string where
  "VETO_KILL_SWITCH = ''auto_close_killed''"

definition VETO_VOLUME_CAP :: string where
  "VETO_VOLUME_CAP = ''close_volume_cap''"

definition FLOOR_AUDIT_ACTION :: string where
  "FLOOR_AUDIT_ACTION = ''ir.triage_policy.close_floor_veto''"

definition TRIAGE_POLICY_AUDIT_ACTION :: string where
  "TRIAGE_POLICY_AUDIT_ACTION = ''ir.triage_policy.audit''"

definition case_status_of :: "uid \<Rightarrow> uid \<Rightarrow> ir_db \<Rightarrow> string option" where
  "case_status_of t c db =
     map_option case_status (find (\<lambda>i. case_id i = c \<and> case_tenant i = t) (cases db))"

text \<open>The veto on a close, with the other investigation that caused it.\<close>

definition close_fp_veto_of ::
    "policy_env \<Rightarrow> uid \<Rightarrow> uid \<Rightarrow> time \<Rightarrow> ir_db \<Rightarrow> (string \<times> uid option) option py" where
  "close_fp_veto_of env t c now db =
     (if case_status_of t c db \<noteq> Some ''active'' then Some None
      else do {
        policy \<leftarrow> effective_policy env (Some (policies_of t db)) [] [];
        if auto_close_killed (env_auto_close_kill env) policy then Some (Some (VETO_KILL_SWITCH, None))
        else (case find_other_active_investigation_sharing_keys t c now db of
                Some other \<Rightarrow> Some (Some (VETO_ACTIVE_INCIDENT, Some other))
              | None \<Rightarrow> do {
                  full \<leftarrow> volume_cap_exceeded t policy now db;
                  Some (if full then Some (VETO_VOLUME_CAP, None) else None) }) })"

definition veto_notes :: "string \<Rightarrow> uid option \<Rightarrow> pyval" where
  "veto_notes veto other =
     PDict ([(''veto'', PStr veto), (''blocked'', PStr ''worker_close_fp'')]
       @ (case other of None \<Rightarrow> [] | Some o' \<Rightarrow> [(''active_incident'', PStr (show_int (int o')))]))"

definition close_fp_floor_veto ::
    "policy_env \<Rightarrow> uid \<Rightarrow> uid \<Rightarrow> time \<Rightarrow> ir_db \<Rightarrow> (string option \<times> ir_db) py" where
  "close_fp_floor_veto env t c now db = do {
     v \<leftarrow> close_fp_veto_of env t c now db;
     Some (case v of
             None \<Rightarrow> (None, db)
           | Some (veto, other) \<Rightarrow>
               (Some veto, log_audit t FLOOR_AUDIT_ACTION ''worker_runs'' c (veto_notes veto other) db)) }"

subsection \<open>The payload\<close>

record complete_payload =
  cp_lease :: uid
  cp_status :: run_status
  cp_spend :: spend_report
  cp_error :: "string option"
  cp_disposition :: "string option"
  cp_summary :: "string option"
  cp_confidence :: "rat option"
  cp_enrichments :: pydict

text \<open>The patterns of the request model; anything else is refused with 422 before the handler.\<close>

definition complete_valid :: "complete_payload \<Rightarrow> bool" where
  "complete_valid p \<longleftrightarrow>
     cp_status p \<in> {RunCompleted, HaltedBudget, RunFailed} \<and>
     (case cp_disposition p of None \<Rightarrow> True | Some d \<Rightarrow> d \<in> {''close_fp'', ''escalate'', ''leave_open''})"

definition complete_row :: "complete_payload \<Rightarrow> time \<Rightarrow> run_row \<Rightarrow> run_row" where
  "complete_row p now r =
     drop_lease ((spend_to (cp_spend p) r)\<lparr> run_status := cp_status p, last_error := cp_error p,
                                             ended_at := Some now \<rparr>)"

definition completed_as :: "complete_payload \<Rightarrow> string option \<Rightarrow> string \<Rightarrow> bool" where
  "completed_as p eff d \<longleftrightarrow> cp_status p = RunCompleted \<and> eff = Some d"

definition floor_beat :: "string option \<Rightarrow> string option \<Rightarrow> pyval" where
  "floor_beat veto eff =
     guard_evaluated ''server_floor'' (Some ''close_fp'') eff (if veto = None then ''pass'' else ''override'')
       (case veto of None \<Rightarrow> [] | Some v \<Rightarrow> [v]) [] []"

text \<open>The effective disposition, the veto, and the store with the ruling recorded.\<close>

definition server_floor ::
    "policy_env \<Rightarrow> uid \<Rightarrow> uid \<Rightarrow> uid \<Rightarrow> complete_payload \<Rightarrow> time \<Rightarrow> ir_db
     \<Rightarrow> (string option \<times> string option \<times> ir_db) py" where
  "server_floor env t c rid p now db =
     (if completed_as p (cp_disposition p) ''close_fp''
      then do {
        (veto, db1) \<leftarrow> close_fp_floor_veto env t c now db;
        let eff = (if veto = None then cp_disposition p else Some ''escalate'');
        Some (eff, veto,
          append_event t c (Some rid) ''guard_evaluated'' (floor_beat veto eff) ''customer_safe''
            (DerivedKey c ''guard_evaluated'' (floor_beat veto eff) ''complete_run'') db1) }
      else Some (cp_disposition p, None, db))"

subsection \<open>Applying the disposition\<close>

text \<open>\<open>enrichments.get("triage_policy_audit") or enrichments.get("playbook_audit")\<close>.\<close>

definition policy_audit :: "pydict \<Rightarrow> pyval" where
  "policy_audit enr =
     (if truthy (dget ''triage_policy_audit'' enr) then dget ''triage_policy_audit'' enr
      else dget ''playbook_audit'' enr)"

text \<open>\<open>any((a or {}).get("effect") == "deterministic_disposition" for a in audit or [])\<close>.\<close>

fun any_deterministic :: "pyval list \<Rightarrow> bool py" where
  "any_deterministic [] = Some False"
| "any_deterministic (a # as) =
     (if \<not> truthy a then any_deterministic as
      else case a of
          PDict d \<Rightarrow> (if dget ''effect'' d = PStr ''deterministic_disposition'' then Some True
                       else any_deterministic as)
        | _ \<Rightarrow> None)"

text \<open>A truthy audit that is not a list fails in the slice or in the scan.\<close>

definition audit_items :: "pyval \<Rightarrow> pyval list py" where
  "audit_items v = (if \<not> truthy v then Some [] else case v of PList as \<Rightarrow> Some as | _ \<Rightarrow> None)"

definition close_rows :: "uid \<Rightarrow> uid \<Rightarrow> case_row \<Rightarrow> bool" where
  "close_rows t c i \<longleftrightarrow> case_id i = c \<and> case_tenant i = t \<and> case_status i = ''active''"

definition record_close_trail ::
    "uid \<Rightarrow> uid \<Rightarrow> uid \<Rightarrow> complete_payload \<Rightarrow> ir_db \<Rightarrow> ir_db py" where
  "record_close_trail t c rid p db = do {
     items \<leftarrow> audit_items (policy_audit (cp_enrichments p));
     det \<leftarrow> any_deterministic items;
     let db1 = (if items = [] then db
                else log_audit t TRIAGE_POLICY_AUDIT_ACTION ''worker_runs'' c (PList (take 5 items)) db);
     let ev = case_closed (if det then ''operational'' else ''reasoning'') (cp_summary p) (Some (show_int (int rid)));
     Some (append_event t c (Some rid) ''auto_closed'' ev ''customer_safe''
             (DerivedKey c ''auto_closed'' ev ''complete_run'') db1) }"

definition apply_close ::
    "policy_env \<Rightarrow> (string \<Rightarrow> string) \<Rightarrow> uid \<Rightarrow> uid \<Rightarrow> uid \<Rightarrow> complete_payload \<Rightarrow> time \<Rightarrow> ir_db
     \<Rightarrow> (bool \<times> ir_db) py" where
  "apply_close env sha t c rid p now db = do {
     policy \<leftarrow> effective_policy env (Some (policies_of t db)) [] [];
     days \<leftarrow> reopen_window_days policy;
     let changed = (\<exists>i\<in>set (cases db). close_rows t c i);
     let db1 = close_as_fp (close_rows t c) (cp_summary p)
                 (build_reopen_fields_for_investigation sha t c days now db) now db;
     if changed then do { db2 \<leftarrow> record_close_trail t c rid p db1; Some (True, db2) } else Some (False, db1) }"

definition escalation_reason :: "complete_payload \<Rightarrow> string option \<Rightarrow> string option" where
  "escalation_reason p veto =
     (if cp_disposition p = Some ''close_fp''
      then Some (take 1024 (str_strip (''[SAFETY FLOOR: '' @ env_text veto @ '' '' @ [dash]
             @ '' worker close_fp overridden] '' @ env_text (cp_summary p))))
      else cp_summary p)"

definition apply_disposition ::
    "policy_env \<Rightarrow> (string \<Rightarrow> string) \<Rightarrow> uid \<Rightarrow> uid \<Rightarrow> uid \<Rightarrow> uid \<Rightarrow> complete_payload \<Rightarrow> string option
     \<Rightarrow> string option \<Rightarrow> time \<Rightarrow> ir_db \<Rightarrow> (bool \<times> ir_db) py" where
  "apply_disposition env sha review t c rid p eff veto now db =
     (if completed_as p eff ''close_fp'' then apply_close env sha t c rid p now db
      else if completed_as p eff ''escalate''
        then Some (True, record_human_review_requested review c t (escalation_reason p veto) ''escalate''
                           (cp_confidence p) db)
      else Some (False, db))"

subsection \<open>The verdict memo\<close>

definition primary_alert :: "uid \<Rightarrow> uid \<Rightarrow> ir_db \<Rightarrow> alert_row option" where
  "primary_alert t c db =
     select_first (\<lambda>a. alert_tenant a = t \<and> alert_case a = Some c)
       (\<lambda>a. (- alert_severity a, - first_event_at a)) (alerts db)"

definition shape_event :: "uid \<Rightarrow> ir_db \<Rightarrow> source_event_row option" where
  "shape_event a db =
     select_first (\<lambda>e. se_alert e = Some a) (\<lambda>e. (se_template_hash e = None, - se_ingested_at e)) (source_events db)"

definition shape_of_case :: "uid \<Rightarrow> uid \<Rightarrow> ir_db \<Rightarrow> string option" where
  "shape_of_case t c db =
     (case primary_alert t c db of
        None \<Rightarrow> None
      | Some a \<Rightarrow>
          (let se = shape_event (alert_id a) db
           in shape_key (Some (alert_source a)) (Option.bind se se_decoder) (Option.bind se se_template_hash)
                (Option.bind se se_template_version)))"

definition record_verdict_memo :: "uid \<Rightarrow> uid \<Rightarrow> string \<Rightarrow> rat \<Rightarrow> time \<Rightarrow> ir_db \<Rightarrow> ir_db" where
  "record_verdict_memo t c dec conf now db =
     (case shape_of_case t c db of None \<Rightarrow> db | Some k \<Rightarrow> record_verdict t k dec conf now db)"

definition memoize :: "uid \<Rightarrow> uid \<Rightarrow> complete_payload \<Rightarrow> string option \<Rightarrow> time \<Rightarrow> ir_db \<Rightarrow> ir_db" where
  "memoize t c p eff now db =
     (case cp_confidence p of
        None \<Rightarrow> db
      | Some conf \<Rightarrow>
          (if completed_as p eff ''close_fp'' then record_verdict_memo t c ''close'' conf now db
           else if completed_as p eff ''escalate'' then record_verdict_memo t c ''escalate'' conf now db
           else db))"

subsection \<open>Dispatch, follow-up and the whole handler\<close>

definition dispatch_response ::
    "uid \<Rightarrow> uid \<Rightarrow> complete_payload \<Rightarrow> string option \<Rightarrow> string option \<Rightarrow> bool \<Rightarrow> ir_db \<Rightarrow> ir_db" where
  "dispatch_response c rid p eff veto changed db =
     (case eff of
        None \<Rightarrow> db
      | Some d \<Rightarrow>
          (if cp_status p = RunCompleted \<and> changed \<and> d \<in> {''close_fp'', ''escalate''}
           then db\<lparr> dispatches := dispatches db @
                  [\<lparr> dispatch_run = rid, dispatch_case = c, dispatch_worker = cp_disposition p,
                     dispatch_effective = d, dispatch_veto = veto \<rparr>] \<rparr>
           else db))"

definition follow_up ::
    "policy_env \<Rightarrow> pydict option py \<Rightarrow> uid \<Rightarrow> uid \<Rightarrow> uid \<Rightarrow> complete_payload \<Rightarrow> time \<Rightarrow> ir_db \<Rightarrow> ir_db py" where
  "follow_up env prices new_run t c p now db =
     (if cp_status p = RunCompleted \<and>
         (\<exists>i\<in>set (cases db). close_rows t c i \<and> has_new_evidence i)
      then start_run env prices new_run t c 0 now
             (db\<lparr> cases := update_where (\<lambda>i. case_id i = c \<and> case_tenant i = t)
                    (\<lambda>i. i\<lparr> has_new_evidence := False \<rparr>) (cases db) \<rparr>)
      else Some db)"

record completion_env =
  ce_env :: policy_env
  ce_sha :: "string \<Rightarrow> string"
  ce_prices :: "pydict option py"
  ce_review :: uid
  ce_new_run :: uid

definition finish_case ::
    "completion_env \<Rightarrow> uid \<Rightarrow> uid \<Rightarrow> uid \<Rightarrow> complete_payload \<Rightarrow> time \<Rightarrow> ir_db \<Rightarrow> (bool \<times> ir_db) py" where
  "finish_case ce t c rid p now db = do {
     (eff, veto, db1) \<leftarrow> server_floor (ce_env ce) t c rid p now db;
     (changed, db2) \<leftarrow> apply_disposition (ce_env ce) (ce_sha ce) (ce_review ce) t c rid p eff veto now db1;
     db3 \<leftarrow> follow_up (ce_env ce) (ce_prices ce) (ce_new_run ce) t c p now
              (dispatch_response c rid p eff veto changed (memoize t c p eff now db2));
     Some (changed, db3) }"

definition complete_run ::
    "completion_env \<Rightarrow> uid \<Rightarrow> uid \<Rightarrow> complete_payload \<Rightarrow> time \<Rightarrow> ir_db \<Rightarrow> failure + (bool \<times> ir_db)" where
  "complete_run ce t rid p now db0 =
     (if \<not> complete_valid p then Inl (Http 422)
      else
        (let db = record_spend_delta t rid (cp_spend p) now db0
         in case find (holds_lease t rid (cp_lease p)) (runs db) of
              None \<Rightarrow> Inl (Http 409)
            | Some r \<Rightarrow>
                (case finish_case ce t (run_case r) rid p now
                        (db\<lparr> runs := update_where (holds_lease t rid (cp_lease p)) (complete_row p now) (runs db) \<rparr>) of
                   None \<Rightarrow> Inl Raised
                 | Some res \<Rightarrow> Inr res)))"

end
