(* ===== verification/Ir_Unlock.thy ===== *)
theory Ir_Unlock
  imports Ir_Complete
begin

text \<open>
  The operator's side of the ceilings (\<open>core/api/run_budget.py\<close>): the update of a tenant's
  overrides and the unlock of a budget-halted run, with the budget part of the state a worker
  builds from a claim (\<open>runs_worker/main.py\<close>).
\<close>

subsection \<open>Unlocking a halted run\<close>

record unlock_request =
  ur_dollars :: "pyfloat option"
  ur_tokens :: "int option"

record unlock_result =
  ul_run :: uid
  ul_tokens_used :: int
  ul_tokens_budget :: int
  ul_dollars_used :: rat
  ul_dollars_budget :: pyfloat
  ul_warning :: "string option"

definition unlock_warning :: "daily_status \<Rightarrow> string option" where
  "unlock_warning s =
     (if cap_hit s then Some (''tenant is over its daily ceiling ('' @ env_text (daily_reason s)
        @ ''), so the worker will not claim this run until it resets at midnight '' @ status_timezone s)
      else None)"

definition enforceable_of :: "run_row \<Rightarrow> ir_db \<Rightarrow> rat" where
  "enforceable_of r db = max 0 (run_dollars_used r - unpriced_of (run_id r) db)"

definition unlock_row :: "int \<Rightarrow> pyfloat \<Rightarrow> time \<Rightarrow> run_row \<Rightarrow> run_row" where
  "unlock_row tb db now r =
     r\<lparr> run_status := Active, run_tokens_budget := tb, run_dollars_budget := db, ended_at := None,
        claimed_at := None, claimed_by := None, lease_id := None, lease_expires_at := None,
        not_before := now, last_error := None \<rparr>"

text \<open>\<open>round(x, 6)\<close>.\<close>

definition round6 :: "rat \<Rightarrow> rat" where
  "round6 q = of_int (round_half_even (q * 1000000)) / 1000000"

definition unlock_event :: "string \<Rightarrow> run_row \<Rightarrow> int \<Rightarrow> pyfloat \<Rightarrow> pyval" where
  "unlock_event who r tb dol =
     PDict [(''actor'', PStr who), (''tokens_used'', PInt (run_tokens_used r)),
            (''dollars_used'', PFloat (Fin (round6 (run_dollars_used r)))),
            (''tokens_budget'', PInt tb), (''dollars_budget'', PFloat dol)]"

definition unlock_notes :: "run_row \<Rightarrow> int \<Rightarrow> pyfloat \<Rightarrow> pyval" where
  "unlock_notes r tb dol =
     PDict [(''before'', PDict [(''status'', PStr ''halted_budget''), (''tokens_budget'', PInt (run_tokens_budget r)),
                                (''dollars_budget'', PFloat (run_dollars_budget r))]),
            (''after'', PDict [(''status'', PStr ''active''), (''tokens_budget'', PInt tb),
                               (''dollars_budget'', PFloat dol)])]"

text \<open>The ceilings of the resumed run, or the refusal.\<close>

definition unlock_ceilings :: "policy_env \<Rightarrow> run_row \<Rightarrow> unlock_request \<Rightarrow> ir_db \<Rightarrow> failure + (int \<times> pyfloat)" where
  "unlock_ceilings env r req db =
     (let dol = (case ur_dollars req of None \<Rightarrow> run_dollars_budget r | Some d \<Rightarrow> d);
          tok = (case ur_tokens req of None \<Rightarrow> run_tokens_budget r | Some n \<Rightarrow> n)
      in if not_finite dol then Inl (Http 422)
         else if float_cmp CmpGt dol (run_dollar_budget_max env) then Inl (Http 422)
         else if run_token_budget_max env < tok then Inl (Http 422)
         else if float_cmp CmpLe dol (Fin (enforceable_of r db)) then Inl (Http 422)
         else if tok \<le> run_tokens_used r then Inl (Http 422)
         else Inr (tok, dol))"

text \<open>The row of the run joined with its investigation's row.\<close>

definition run_with_case :: "uid \<Rightarrow> uid \<Rightarrow> ir_db \<Rightarrow> (run_row \<times> case_row) option" where
  "run_with_case t rid db =
     (case run_of t rid db of
        None \<Rightarrow> None
      | Some r \<Rightarrow> map_option (Pair r) (find (\<lambda>i. case_id i = run_case r \<and> case_tenant i = t) (cases db)))"

definition resume_run :: "string \<Rightarrow> uid \<Rightarrow> run_row \<Rightarrow> int \<Rightarrow> pyfloat \<Rightarrow> time \<Rightarrow> ir_db \<Rightarrow> ir_db" where
  "resume_run who t r tb dol now db =
     log_audit t ''tenant.run.unlock'' who (run_id r) (unlock_notes r tb dol)
       (append_event t (run_case r) (Some (run_id r)) ''budget_unlock'' (unlock_event who r tb dol) ''mssp_only''
         (DerivedKey (run_case r) ''budget_unlock'' (unlock_event who r tb dol) ''run_budget.unlock'')
         (db\<lparr> runs := update_where
               (\<lambda>q. run_id q = run_id r \<and> run_tenant q = t \<and> run_status q = HaltedBudget)
               (unlock_row tb dol now) (runs db) \<rparr>))"

definition unlock_run ::
    "policy_env \<Rightarrow> clock_env \<Rightarrow> bool \<Rightarrow> string \<Rightarrow> uid \<Rightarrow> uid \<Rightarrow> unlock_request \<Rightarrow> time \<Rightarrow> ir_db
     \<Rightarrow> failure + (unlock_result \<times> ir_db)" where
  "unlock_run env ck tenant_exists who t rid req now db =
     (if \<not> tenant_exists then Inl (Http 404)
      else case run_with_case t rid db of
          None \<Rightarrow> Inl (Http 404)
        | Some (r, i) \<Rightarrow>
            (if run_status r \<noteq> HaltedBudget then Inl (Http 409)
             else if case_status i \<noteq> ''active'' then Inl (Http 409)
             else case unlock_ceilings env r req db of
                 Inl e \<Rightarrow> Inl e
               | Inr (tok, dol) \<Rightarrow>
                   (let db1 = resume_run who t r tok dol now db
                    in case get_tenant_daily_status env ck t now db1 of
                         None \<Rightarrow> Inl Raised
                       | Some s \<Rightarrow>
                           Inr (\<lparr> ul_run = rid, ul_tokens_used = run_tokens_used r, ul_tokens_budget = tok,
                                  ul_dollars_used = run_dollars_used r, ul_dollars_budget = dol,
                                  ul_warning = unlock_warning s \<rparr>, db1))))"

subsection \<open>The tenant's overrides\<close>

text \<open>A field that is absent, cleared or set.\<close>

datatype 'a patch = Absent | Clear | Put 'a

record budget_update =
  bu_token :: "int patch"
  bu_dollar :: "pyfloat patch"
  bu_daily_token :: "int patch"
  bu_daily_dollar :: "pyfloat patch"
  bu_cost_tracking :: "bool patch"

definition MIN_BUDGET :: int where
  "MIN_BUDGET = 1000"

definition dollars_refused :: "pyfloat patch \<Rightarrow> pyfloat \<Rightarrow> bool" where
  "dollars_refused p cap =
     (case p of Put d \<Rightarrow> d = NaN \<or> float_cmp CmpLe d (Fin 0) \<or> float_cmp CmpGt d cap | _ \<Rightarrow> False)"

definition tokens_refused :: "int patch \<Rightarrow> int \<Rightarrow> int \<Rightarrow> bool" where
  "tokens_refused p least cap = (case p of Put n \<Rightarrow> n < least \<or> cap < n | _ \<Rightarrow> False)"

definition update_refused :: "policy_env \<Rightarrow> budget_update \<Rightarrow> bool" where
  "update_refused env u \<longleftrightarrow>
     tokens_refused (bu_token u) MIN_BUDGET (run_token_budget_max env)
     \<or> dollars_refused (bu_dollar u) (run_dollar_budget_max env)
     \<or> tokens_refused (bu_daily_token u) 1 (tenant_daily_token_cap_max env)
     \<or> dollars_refused (bu_daily_dollar u) (tenant_daily_dollar_cap_max env)"

definition apply_patch :: "uid \<Rightarrow> string \<Rightarrow> ('a \<Rightarrow> pyval) \<Rightarrow> 'a patch \<Rightarrow> ir_db \<Rightarrow> ir_db" where
  "apply_patch t k enc p db =
     (case p of Absent \<Rightarrow> db | Clear \<Rightarrow> delete_tenant_policy t k db | Put v \<Rightarrow> set_tenant_policy t k (enc v) db)"

definition apply_update :: "uid \<Rightarrow> budget_update \<Rightarrow> ir_db \<Rightarrow> ir_db" where
  "apply_update t u db =
     apply_patch t DAILY_DOLLAR_CAP_KEY PFloat (bu_daily_dollar u)
       (apply_patch t DAILY_TOKEN_CAP_KEY PInt (bu_daily_token u)
         (apply_patch t COST_TRACKING_KEY PBool (bu_cost_tracking u)
           (apply_patch t RUN_DOLLAR_BUDGET_KEY PFloat (bu_dollar u)
             (apply_patch t RUN_TOKEN_BUDGET_KEY PInt (bu_token u) db))))"

text \<open>The part of the view the audit row keeps; building it raises where a resolver raises.\<close>

definition token_override :: "uid \<Rightarrow> ir_db \<Rightarrow> int option py" where
  "token_override t db =
     (case dget RUN_TOKEN_BUDGET_KEY (policies_of t db) of PNone \<Rightarrow> Some None | v \<Rightarrow> map_option Some (py_int v))"

definition dollar_override :: "uid \<Rightarrow> ir_db \<Rightarrow> pyfloat option" where
  "dollar_override t db =
     (case dget RUN_DOLLAR_BUDGET_KEY (policies_of t db) of PNone \<Rightarrow> None | v \<Rightarrow> py_float v)"

definition pv_opt :: "('a \<Rightarrow> pyval) \<Rightarrow> 'a option \<Rightarrow> pyval" where
  "pv_opt enc v = (case v of None \<Rightarrow> PNone | Some x \<Rightarrow> enc x)"

definition budget_view :: "policy_env \<Rightarrow> clock_env \<Rightarrow> uid \<Rightarrow> time \<Rightarrow> ir_db \<Rightarrow> pydict py" where
  "budget_view env ck t now db = do {
     s \<leftarrow> get_tenant_daily_status env ck t now db;
     _ \<leftarrow> (case dget DAILY_TOKEN_CAP_KEY (policies_of t db) of PNone \<Rightarrow> Some None | v \<Rightarrow> int_caught v);
     _ \<leftarrow> run_token_budget_default env;
     ov \<leftarrow> token_override t db;
     eff \<leftarrow> resolve_run_token_budget env (Some (policies_of t db));
     Some [(''override'', pv_opt PInt ov), (''effective'', PInt eff),
           (''dollar_override'', pv_opt PFloat (dollar_override t db)),
           (''dollar_effective'', PFloat (resolve_run_dollar_budget env (Some (policies_of t db)))),
           (''daily_token_cap'', PInt (cap_tokens s)), (''daily_dollar_cap'', PFloat (cap_dollars s))] }"

definition update_run_budget ::
    "policy_env \<Rightarrow> clock_env \<Rightarrow> bool \<Rightarrow> string \<Rightarrow> uid \<Rightarrow> budget_update \<Rightarrow> time \<Rightarrow> ir_db \<Rightarrow> failure + (pydict \<times> ir_db)" where
  "update_run_budget env ck tenant_exists who t u now db =
     (if u = \<lparr> bu_token = Absent, bu_dollar = Absent, bu_daily_token = Absent, bu_daily_dollar = Absent,
              bu_cost_tracking = Absent \<rparr> then Inl (Http 422)
      else if \<not> tenant_exists then Inl (Http 404)
      else if update_refused env u then Inl (Http 422)
      else case do {
          before \<leftarrow> budget_view env ck t now db;
          let db1 = apply_update t u db;
          after \<leftarrow> budget_view env ck t now db1;
          Some (after, log_audit t ''tenant.run_budget.update'' who t
                  (PDict [(''before'', PDict before), (''after'', PDict after)]) db1) } of
          None \<Rightarrow> Inl Raised
        | Some res \<Rightarrow> Inr res)"

subsection \<open>The worker's state\<close>

definition tokens_budget_kv :: "string option \<Rightarrow> int \<Rightarrow> pydict" where
  "tokens_budget_kv env_raw claim_budget =
     (if claim_budget > 0 then [(''tokens_budget'', PInt claim_budget)]
      else case py_int_of_str (env_text env_raw) of
          None \<Rightarrow> []
        | Some v \<Rightarrow> if v > 0 then [(''tokens_budget'', PInt v)] else [])"

definition dollars_budget_kv :: "pyfloat \<Rightarrow> pydict" where
  "dollars_budget_kv claim_budget =
     (if float_cmp CmpGt claim_budget (Fin 0) then [(''dollars_budget'', PFloat claim_budget)] else [])"

definition budget_state :: "string option \<Rightarrow> claimed_run \<Rightarrow> pydict" where
  "budget_state env_raw c =
     [(''tokens_used'', PInt (claimed_tokens_used c))] @ tokens_budget_kv env_raw (claimed_tokens_budget c)
     @ [(''dollars_used'', PFloat (Fin (claimed_dollars_used c))),
        (''dollars_unpriced'', PFloat (Fin (claimed_unpriced c)))]
     @ dollars_budget_kv (claimed_dollars_budget c)
     @ (case claimed_snapshot c of None \<Rightarrow> [] | Some d \<Rightarrow> if d = [] then [] else [(''price_snapshot'', PDict d)])"

end
