(* ===== verification/Ir_Labels.thy ===== *)
theory Ir_Labels
  imports Ir_Runs
begin

text \<open>
  Analyst judgments on groupings (\<open>core/ir/labels.py\<close>): cancelling an investigation, merging two,
  detaching an alert and confirming a grouping. Cancelling and merging terminate the open runs of
  the investigation; they leave the lease columns of the rows as they are.
\<close>

definition TERMINAL_STATUSES :: "string list" where
  "TERMINAL_STATUSES = [''closed'', ''auto_closed_fp'', ''closed_fp'', ''closed_tp'', ''cancelled'']"

definition fail_row :: "string \<Rightarrow> time \<Rightarrow> run_row \<Rightarrow> run_row" where
  "fail_row err now r = r\<lparr> run_status := RunFailed, ended_at := Some now, last_error := Some err \<rparr>"

definition open_run_of :: "uid \<Rightarrow> uid \<Rightarrow> run_row \<Rightarrow> bool" where
  "open_run_of t c r \<longleftrightarrow> run_tenant r = t \<and> run_case r = c \<and> open_status (run_status r)"

definition fail_open_runs :: "uid \<Rightarrow> uid \<Rightarrow> string \<Rightarrow> time \<Rightarrow> ir_db \<Rightarrow> ir_db" where
  "fail_open_runs t c err now db = db\<lparr> runs := update_where (open_run_of t c) (fail_row err now) (runs db) \<rparr>"

definition opt_str :: "string option \<Rightarrow> pyval" where
  "opt_str s = (case s of None \<Rightarrow> PNone | Some x \<Rightarrow> PStr x)"

definition or_str :: "string option \<Rightarrow> string option \<Rightarrow> string option" where
  "or_str a b = (case a of None \<Rightarrow> b | Some _ \<Rightarrow> a)"

datatype cancel_error = NotFound | Already string

text \<open>The event's producer is the actor, so a repeated cancel of one investigation cannot add a second.\<close>

definition cancel_investigation ::
    "uid \<Rightarrow> uid \<Rightarrow> string option \<Rightarrow> string \<Rightarrow> time \<Rightarrow> ir_db \<Rightarrow> cancel_error + ir_db" where
  "cancel_investigation t c rsn actor now db =
     (case find (\<lambda>i. case_id i = c \<and> case_tenant i = t) (cases db) of
        None \<Rightarrow> Inl NotFound
      | Some i \<Rightarrow>
          (if case_status i \<in> set TERMINAL_STATUSES then Inl (Already (case_status i))
           else
             (let payload = PDict [(''status'', PStr ''cancelled''), (''reason'', opt_str rsn), (''actor'', PStr actor)];
                  db1 = db\<lparr> cases := update_where (\<lambda>i. case_id i = c \<and> case_tenant i = t)
                          (\<lambda>i. i\<lparr> case_status := ''cancelled'', closed_at := Some now,
                                  close_reason := or_str rsn (or_str (close_reason i) (Some ''cancelled by analyst'')) \<rparr>)
                          (cases db) \<rparr>;
                  db2 = fail_open_runs t c ''investigation cancelled'' now db1;
                  db3 = append_event t c None ''status_changed'' payload ''mssp_only''
                          (DerivedKey c ''status_changed'' payload actor) db2
              in Inr (log_audit t ''ir.investigation.cancel'' actor c (opt_str rsn) db3))))"

definition record_label ::
    "uid \<Rightarrow> string \<Rightarrow> uid option \<Rightarrow> uid option \<Rightarrow> uid option \<Rightarrow> string option \<Rightarrow> string option \<Rightarrow> ir_db \<Rightarrow> ir_db" where
  "record_label t kind c other a who note db =
     db\<lparr> labels := labels db @ [\<lparr> label_tenant = t, label_kind = kind, label_case = c, label_other = other,
                                  label_alert = a, label_reviewer = who, label_note = note \<rparr>] \<rparr>"

definition reviewer_or_analyst :: "string option \<Rightarrow> string" where
  "reviewer_or_analyst who = (if env_text who = [] then ''analyst'' else env_text who)"

definition merge_investigations ::
    "uid \<Rightarrow> uid \<Rightarrow> uid \<Rightarrow> string option \<Rightarrow> string option \<Rightarrow> time \<Rightarrow> ir_db \<Rightarrow> ir_db" where
  "merge_investigations t keep other who note now db =
     (let db1 = db\<lparr>
            alerts := update_where (\<lambda>a. alert_tenant a = t \<and> alert_case a = Some other)
                        (\<lambda>a. a\<lparr> alert_case := Some keep \<rparr>) (alerts db),
            entity_keys := update_where (\<lambda>k. key_tenant k = t \<and> key_case k = Some other)
                        (\<lambda>k. k\<lparr> key_case := Some keep \<rparr>) (entity_keys db),
            cases := update_where (\<lambda>i. case_id i = other \<and> case_tenant i = t)
                        (\<lambda>i. i\<lparr> case_status := ''closed'', closed_at := Some now,
                                close_reason := or_str (close_reason i) (Some (''merged into '' @ show_int (int keep))) \<rparr>)
                        (cases db) \<rparr>;
          db2 = record_label t ''merge'' (Some keep) (Some other) None who note
                  (fail_open_runs t other ''investigation merged'' now db1)
      in log_audit t ''ir.correlation.merge'' (reviewer_or_analyst who) keep
           (PStr (''merged '' @ show_int (int other) @ '' into '' @ show_int (int keep))) db2)"

definition blank_case :: "uid \<Rightarrow> uid \<Rightarrow> string \<Rightarrow> string \<Rightarrow> int \<Rightarrow> time \<Rightarrow> string \<Rightarrow> case_row" where
  "blank_case c t title st sev ts vis =
     \<lparr> case_id = c, case_tenant = t, case_title = title, case_status = st, case_severity = sev,
       case_summary = None, opened_at = ts, closed_at = None, close_reason = None, reopen_signature = None,
       reopen_until = None, reopen_count = 0, has_new_evidence = False, case_visibility = vis \<rparr>"

definition detach_alert ::
    "policy_env \<Rightarrow> pydict option py \<Rightarrow> uid \<Rightarrow> uid \<Rightarrow> uid \<Rightarrow> uid \<Rightarrow> string option \<Rightarrow> string option \<Rightarrow> time
     \<Rightarrow> ir_db \<Rightarrow> ir_db py" where
  "detach_alert env prices new_case new_run t a who note now db =
     (case find (\<lambda>r. alert_id r = a \<and> alert_tenant r = t) (alerts db) of
        None \<Rightarrow> None
      | Some r \<Rightarrow> do {
          let db1 = db\<lparr>
            cases := cases db @ [blank_case new_case t ''Detached alert'' ''active'' (alert_severity r) now ''mssp_only''],
            alerts := update_where (\<lambda>r. alert_id r = a \<and> alert_tenant r = t)
                        (\<lambda>r. r\<lparr> alert_case := Some new_case \<rparr>) (alerts db),
            entity_keys := update_where (\<lambda>k. key_tenant k = t \<and> key_alert k = a)
                        (\<lambda>k. k\<lparr> key_case := Some new_case \<rparr>) (entity_keys db) \<rparr>;
          db2 \<leftarrow> start_run env prices new_run t new_case 0 now db1;
          Some (log_audit t ''ir.correlation.detach'' (reviewer_or_analyst who) a
                  (PStr (''detached from '' @ (case alert_case r of None \<Rightarrow> ''None'' | Some c \<Rightarrow> show_int (int c))
                         @ '' to '' @ show_int (int new_case)))
                  (record_label t ''detach'' (alert_case r) None (Some a) who note db2)) })"

definition confirm_grouping :: "uid \<Rightarrow> uid \<Rightarrow> string option \<Rightarrow> string option \<Rightarrow> ir_db \<Rightarrow> ir_db" where
  "confirm_grouping t c who note db = record_label t ''confirm'' (Some c) None None who note db"

end
