(* ===== verification/Ir_Triage.thy ===== *)
theory Ir_Triage
  imports Ir_Complete Ir_Labels
begin

text \<open>
  Ingest (\<open>core/ir/triage.py\<close>): assessment, coalescing, promotion, automatic close, reopening and the
  entry point \<open>triage_event\<close>. What the handler asks of other parts is an argument: the verdict of the
  engagement registry, the shadow score of routine authorization, the resolved prices of a new run
  and the fresh identifiers. The correlation scorer and the entity graph write tables that are not
  modelled here and are never read by ingest; the year and sequence of a short id are left out.
\<close>

subsection \<open>Assessment\<close>

definition mitre_mapped :: "pydict \<Rightarrow> bool" where
  "mitre_mapped mitre \<longleftrightarrow>
     mitre \<noteq> [] \<and> (truthy (dget ''ids'' mitre) \<or> truthy (dget ''tactics'' mitre) \<or> truthy (dget ''techniques'' mitre))"

definition assess :: "int \<Rightarrow> pydict \<Rightarrow> string \<times> rat" where
  "assess severity mitre =
     (if severity \<ge> 8 then (''real'', 85 / 100)
      else if severity \<ge> 5 then (''unclear'', 50 / 100)
      else if severity \<ge> 3 then (''likely_fp'', 75 / 100)
      else if mitre_mapped mitre then (''unclear'', 50 / 100)
      else (''high_conf_fp'', 95 / 100))"

subsection \<open>Coalescing\<close>

fun join_commas :: "string list \<Rightarrow> string" where
  "join_commas [] = []"
| "join_commas [s] = s"
| "join_commas (s # ss) = s @ '','' @ join_commas ss"

text \<open>The preimage of the digest: rule, assets in order, five-minute bucket.\<close>

definition alert_signature :: "(string \<Rightarrow> string) \<Rightarrow> string option \<Rightarrow> string list \<Rightarrow> time \<Rightarrow> string" where
  "alert_signature sha rule assets ts =
     sha (env_text rule @ ''|'' @ join_commas (sort assets) @ ''|'' @ show_int \<lfloor>ts / 300\<rfloor>)"

record ingest =
  in_source :: string
  in_rule :: "string option"
  in_severity :: int
  in_assets :: "string list"
  in_iocs :: "ioc list"
  in_event :: string
  in_ts :: time
  in_description :: "string option"
  in_title :: "string option"
  in_entities :: "entity list"
  in_mitre :: pydict
  in_decoder :: "string option"
  in_thash :: "string option"
  in_tver :: "string option"

record fresh_ids =
  fr_alert :: uid
  fr_case :: uid
  fr_run :: uid

record upsert_result =
  up_alert :: uid
  up_merged :: bool
  up_case :: "uid option"
  up_count :: int

definition open_alert :: "uid \<Rightarrow> string \<Rightarrow> ir_db \<Rightarrow> alert_row option" where
  "open_alert t sig db =
     find (\<lambda>a. alert_tenant a = t \<and> alert_signature_of a = sig \<and> alert_status a = ''new'') (alerts db)"

definition has_case :: "alert_row \<Rightarrow> ir_db \<Rightarrow> bool" where
  "has_case a db \<longleftrightarrow> (\<exists>i\<in>set (cases db). alert_case a = Some (case_id i) \<and> case_tenant i = alert_tenant a)"

definition promoted_alert :: "uid \<Rightarrow> string \<Rightarrow> ir_db \<Rightarrow> alert_row option" where
  "promoted_alert t sig db =
     select_first (\<lambda>a. alert_tenant a = t \<and> alert_signature_of a = sig \<and> alert_status a = ''promoted'' \<and> has_case a db)
       (\<lambda>a. - last_event_at a) (alerts db)"

text \<open>The alert the event merges into, with the investigation it attaches to.\<close>

definition coalesce_target :: "uid \<Rightarrow> string \<Rightarrow> ir_db \<Rightarrow> (alert_row \<times> uid option) option" where
  "coalesce_target t sig db =
     (case open_alert t sig db of
        Some a \<Rightarrow> Some (a, None)
      | None \<Rightarrow>
          (case promoted_alert t sig db of
             None \<Rightarrow> None
           | Some a \<Rightarrow>
               (case alert_case a of
                  None \<Rightarrow> None
                | Some c \<Rightarrow> if case_status_of t c db = Some ''auto_closed_fp'' then None else Some (a, Some c))))"

definition merge_alert :: "ingest \<Rightarrow> alert_row \<Rightarrow> alert_row" where
  "merge_alert e a = a\<lparr> event_count := event_count a + 1, last_event_at := in_ts e,
     source_event_ids := source_event_ids a @ [in_event e],
     asset_ids := sort (remdups (asset_ids a @ in_assets e)),
     initial_iocs := initial_iocs a @ in_iocs e \<rparr>"

definition new_alert :: "(string \<Rightarrow> string) \<Rightarrow> uid \<Rightarrow> uid \<Rightarrow> ingest \<Rightarrow> alert_row" where
  "new_alert sha t a e =
     \<lparr> alert_id = a, alert_tenant = t, alert_source = in_source e, alert_rule = in_rule e,
       alert_severity = in_severity e, alert_signature_of = alert_signature sha (in_rule e) (in_assets e) (in_ts e),
       first_event_at = in_ts e, last_event_at = in_ts e, event_count = 1, source_event_ids = [in_event e],
       asset_ids = in_assets e, initial_iocs = in_iocs e,
       ai_assessment = fst (assess (in_severity e) (in_mitre e)),
       ai_confidence = snd (assess (in_severity e) (in_mitre e)),
       alert_status = ''new'', alert_description = None, alert_case = None \<rparr>"

definition upsert_alert :: "(string \<Rightarrow> string) \<Rightarrow> uid \<Rightarrow> uid \<Rightarrow> ingest \<Rightarrow> ir_db \<Rightarrow> upsert_result \<times> ir_db" where
  "upsert_alert sha new_id t e db =
     (case coalesce_target t (alert_signature sha (in_rule e) (in_assets e) (in_ts e)) db of
        Some (a, c) \<Rightarrow>
          (\<lparr> up_alert = alert_id a, up_merged = (c = None), up_case = c, up_count = event_count a + 1 \<rparr>,
           db\<lparr> alerts := update_where (\<lambda>q. alert_id q = alert_id a) (merge_alert e) (alerts db) \<rparr>)
      | None \<Rightarrow>
          (\<lparr> up_alert = new_id, up_merged = False, up_case = None, up_count = 1 \<rparr>,
           db\<lparr> alerts := alerts db @ [new_alert sha t new_id e] \<rparr>))"

definition link_alert :: "uid \<Rightarrow> string \<Rightarrow> uid \<Rightarrow> ir_db \<Rightarrow> ir_db" where
  "link_alert a st c db =
     db\<lparr> alerts := update_where (\<lambda>q. alert_id q = a) (\<lambda>q. q\<lparr> alert_status := st, alert_case := Some c \<rparr>) (alerts db) \<rparr>"

subsection \<open>Promotion and automatic close\<close>

definition ioc_list :: "ioc list \<Rightarrow> pyval" where
  "ioc_list is = PList (map (\<lambda>i. PDict [(''type'', PStr (ioc_type i)), (''value'', PStr (ioc_value i))]) is)"

definition str_list :: "string list \<Rightarrow> pyval" where
  "str_list ss = PList (map PStr ss)"

definition alert_title :: "string \<Rightarrow> alert_row \<Rightarrow> string" where
  "alert_title lead a =
     lead @ alert_source a @ '' rule '' @ (if env_text (alert_rule a) = [] then ''?'' else env_text (alert_rule a))"

definition ingested_payload :: "alert_row \<Rightarrow> pyval" where
  "ingested_payload a =
     PDict [(''alert_id'', PStr (show_int (int (alert_id a)))), (''source_events'', str_list (source_event_ids a)),
            (''asset_ids'', str_list (asset_ids a)), (''initial_iocs'', ioc_list (initial_iocs a)),
            (''rule_id'', opt_str (alert_rule a)), (''severity'', PInt (alert_severity a)),
            (''ai_confidence'', PFloat (Fin (ai_confidence a))),
            (''initial_hypothesis'', PStr ''under_investigation'')]"

definition promote_alert_to_case ::
    "policy_env \<Rightarrow> pydict option py \<Rightarrow> fresh_ids \<Rightarrow> uid \<Rightarrow> uid \<Rightarrow> string option \<Rightarrow> rat \<Rightarrow> time \<Rightarrow> ir_db \<Rightarrow> ir_db py" where
  "promote_alert_to_case env prices fr t a title settle now db = do {
     row \<leftarrow> find (\<lambda>q. alert_id q = a) (alerts db);
     policy \<leftarrow> effective_policy env (Some (policies_of t db)) [] [];
     let vis = (if dget ''customer_safe_promotion'' policy = PStr ''auto'' then ''customer_safe'' else ''mssp_only'');
     let name = (if env_text title = [] then alert_title ''Alert from '' row else env_text title);
     let db1 = db\<lparr> cases := cases db @
                  [blank_case (fr_case fr) t name ''active'' (alert_severity row) (first_event_at row) vis] \<rparr>;
     db2 \<leftarrow> start_run env prices (fr_run fr) t (fr_case fr) settle now (link_alert a ''promoted'' (fr_case fr) db1);
     Some (log_audit t ''ir.investigation.created_from_alert'' ''triage'' (fr_case fr) PNone
             (append_event t (fr_case fr) (Some (fr_run fr)) ''alert_ingested'' (ingested_payload row) ''mssp_only''
               (DerivedKey (fr_case fr) ''alert_ingested'' (ingested_payload row) ''triage'') db2)) }"

definition auto_close_alert ::
    "(string \<Rightarrow> string) \<Rightarrow> fresh_ids \<Rightarrow> uid \<Rightarrow> uid \<Rightarrow> string \<Rightarrow> int \<Rightarrow> string \<Rightarrow> time \<Rightarrow> ir_db \<Rightarrow> ir_db py" where
  "auto_close_alert sha fr t a rsn days via now db = do {
     row \<leftarrow> find (\<lambda>q. alert_id q = a) (alerts db);
     let sg = reopen_fields sha (nonempty_rule (alert_rule row)) (asset_ids row) (initial_iocs row) days now;
     let closed = (blank_case (fr_case fr) t (alert_title ''Auto-closed FP: '' row) ''auto_closed_fp''
                    (alert_severity row) (first_event_at row) ''mssp_only'')
                  \<lparr> closed_at := Some now, close_reason := Some rsn, reopen_signature := Some (fst sg),
                     reopen_until := Some (snd sg) \<rparr>;
     let ev = case_closed via (Some rsn) None;
     Some (append_event t (fr_case fr) None ''auto_closed'' ev ''customer_safe''
             (DerivedKey (fr_case fr) ''auto_closed'' ev ''ingest_triage'')
             (log_audit t ''ir.investigation.auto_closed'' ''triage'' (fr_case fr) (PStr rsn)
               (link_alert a ''auto_closed'' (fr_case fr) (db\<lparr> cases := cases db @ [closed] \<rparr>)))) }"

subsection \<open>The floor on ingest\<close>

definition close_floor_veto ::
    "policy_env \<Rightarrow> uid \<Rightarrow> ioc list \<Rightarrow> corr_key list \<Rightarrow> pydict \<Rightarrow> time \<Rightarrow> ir_db \<Rightarrow> string option py" where
  "close_floor_veto env t iocs keys policy now db =
     (if auto_close_killed (env_auto_close_kill env) policy then Some (Some VETO_KILL_SWITCH)
      else if iocs \<noteq> [] then Some (Some VETO_IOC)
      else if find_correlated_investigation t keys now db \<noteq> None then Some (Some VETO_ACTIVE_INCIDENT)
      else do {
        full \<leftarrow> volume_cap_exceeded t policy now db;
        Some (if full then Some VETO_VOLUME_CAP else None) })"

definition audit_floor_veto :: "uid \<Rightarrow> uid \<Rightarrow> string \<Rightarrow> string \<Rightarrow> ir_db \<Rightarrow> ir_db" where
  "audit_floor_veto t a veto blocked db =
     log_audit t FLOOR_AUDIT_ACTION ''triage'' a (PDict [(''veto'', PStr veto), (''blocked'', PStr blocked)]) db"

subsection \<open>Reopening\<close>

definition reopen_matches :: "(string \<Rightarrow> string) \<Rightarrow> uid \<Rightarrow> ingest \<Rightarrow> case_row \<Rightarrow> bool" where
  "reopen_matches sha t e i \<longleftrightarrow>
     case_tenant i = t \<and> case_status i = ''auto_closed_fp'' \<and>
     (case reopen_until i of None \<Rightarrow> False | Some u \<Rightarrow> in_ts e < u) \<and>
     (case reopen_signature i of
        None \<Rightarrow> False
      | Some s \<Rightarrow>
          (\<exists>a\<in>set (in_assets e). a \<in> set (sig_assets s)) \<or>
          (\<exists>f\<in>set (fingerprints sha (in_iocs e)). f \<in> set (sig_iocs s)) \<or>
          (case in_rule e of None \<Rightarrow> False | Some r \<Rightarrow> r \<noteq> [] \<and> r \<in> set (sig_rules s)))"

definition reopen_payload :: pyval where
  "reopen_payload = PDict [(''reason'', PStr ''matching event during reopen window'')]"

definition reopen_case :: "case_row \<Rightarrow> case_row" where
  "reopen_case i = i\<lparr> case_status := ''active'', closed_at := None, reopen_count := reopen_count i + 1 \<rparr>"

definition check_and_reopen ::
    "policy_env \<Rightarrow> pydict option py \<Rightarrow> (string \<Rightarrow> string) \<Rightarrow> fresh_ids \<Rightarrow> uid \<Rightarrow> ingest \<Rightarrow> time \<Rightarrow> ir_db
     \<Rightarrow> (uid option \<times> ir_db) py" where
  "check_and_reopen env prices sha fr t e now db =
     (case find (reopen_matches sha t e) (cases db) of
        None \<Rightarrow> Some (None, db)
      | Some i \<Rightarrow> do {
          let c = case_id i;
          let db1 = db\<lparr> cases := update_where (\<lambda>q. case_id q = c) reopen_case (cases db) \<rparr>;
          (rn, db2) \<leftarrow> (case active_run_for_case c db1 of
             Some r \<Rightarrow> Some (r, db1)
           | None \<Rightarrow> map_option (Pair (fr_run fr)) (start_run env prices (fr_run fr) t c 0 now db1));
          Some (Some c, log_audit t ''ir.investigation.reopened'' ''triage'' c PNone
            (append_event t c (Some rn) ''reopened'' reopen_payload ''mssp_only''
              (DerivedKey c ''reopened'' reopen_payload ''triage'') db2)) })"

subsection \<open>The entry point\<close>

datatype triage_outcome =
    Duplicate string
  | Merged uid
  | Attached uid uid int
  | CorrelatedTo uid uid
  | DeclaredTest uid
  | Reopened uid uid
  | MemoizedClose uid uid
  | AutoClosed uid uid
  | Promoted uid uid

text \<open>What the engagement registry said of the event: nothing, a declared test, or out of scope.\<close>

datatype deconfliction = NoEngagement | InScope pyval | OutOfScope pyval

record routine_view =
  would_close :: bool
  routine_notes :: pydict
  routine_basis :: string

record ingest_env =
  ie_env :: policy_env
  ie_sha :: "string \<Rightarrow> string"
  ie_prices :: "pydict option py"
  ie_memo :: memo_env
  ie_deconf :: deconfliction
  ie_routine :: "routine_view option"

definition flag :: "string \<Rightarrow> bool \<Rightarrow> pydict \<Rightarrow> bool" where
  "flag k d policy = truthy (dget_default k (PBool d) policy)"

definition flag_new_evidence :: "uid \<Rightarrow> uid \<Rightarrow> ir_db \<Rightarrow> ir_db" where
  "flag_new_evidence t c db =
     (if active_run_for_case c db = None then db
      else db\<lparr> cases := update_where (\<lambda>i. case_id i = c \<and> case_tenant i = t) (\<lambda>i. i\<lparr> has_new_evidence := True \<rparr>)
                         (cases db) \<rparr>)"

definition seen_event :: "uid \<Rightarrow> ingest \<Rightarrow> ir_db \<Rightarrow> bool" where
  "seen_event t e db \<longleftrightarrow>
     (\<exists>s\<in>set (source_events db). se_tenant s = t \<and> se_source s = in_source e \<and> se_event_id s = in_event e)"

definition reserve_event :: "uid \<Rightarrow> ingest \<Rightarrow> uid \<Rightarrow> time \<Rightarrow> ir_db \<Rightarrow> ir_db" where
  "reserve_event t e a now db =
     db\<lparr> source_events := source_events db @
           [\<lparr> se_tenant = t, se_source = in_source e, se_event_id = in_event e, se_alert = Some a,
              se_ingested_at = now, se_decoder = in_decoder e, se_template_hash = in_thash e,
              se_template_version = in_tver e \<rparr>] \<rparr>"

definition describe_alert :: "uid \<Rightarrow> ingest \<Rightarrow> ir_db \<Rightarrow> ir_db" where
  "describe_alert a e db =
     (if env_text (in_description e) = [] then db
      else db\<lparr> alerts := update_where (\<lambda>q. alert_id q = a)
             (\<lambda>q. q\<lparr> alert_description := Some (take 1024 (env_text (in_description e))) \<rparr>) (alerts db) \<rparr>)"

definition attach_payload :: "string \<Rightarrow> uid \<Rightarrow> ingest \<Rightarrow> pydict \<Rightarrow> pyval" where
  "attach_payload how a e extra =
     PDict ([(''alert_id'', PStr (show_int (int a))), (how, PBool True)] @ extra @
       [(''source_event_id'', PStr (in_event e)), (''rule_id'', opt_str (in_rule e)),
        (''severity'', PInt (in_severity e)), (''asset_ids'', str_list (in_assets e))])"

definition attach_step :: "uid \<Rightarrow> upsert_result \<Rightarrow> uid \<Rightarrow> ingest \<Rightarrow> ir_db \<Rightarrow> triage_outcome \<times> ir_db" where
  "attach_step t up c e db =
     (Attached (up_alert up) c (up_count up),
      log_audit t ''ir.investigation.alert_attached'' ''triage'' c
        (PStr (''duplicate signature event '' @ in_event e @ '' attached''))
        (flag_new_evidence t c
          (append_event t c None ''alert_ingested''
            (attach_payload ''coalesced'' (up_alert up) e [(''event_count'', PInt (up_count up))]) ''mssp_only''
            (AttachKey (up_alert up) (in_event e)) db)))"

definition correlate_step ::
    "uid \<Rightarrow> uid \<Rightarrow> ingest \<Rightarrow> pydict \<Rightarrow> corr_key list \<Rightarrow> time \<Rightarrow> ir_db \<Rightarrow> (triage_outcome \<times> ir_db) option" where
  "correlate_step t a e policy keys now db =
     (if \<not> flag ''entity_correlation_enabled'' False policy then None
      else map_option (\<lambda>c.
        (CorrelatedTo a c,
         log_audit t ''ir.investigation.alert_correlated'' ''triage'' c
           (PStr (''entity-overlap attach of alert '' @ show_int (int a)))
           (flag_new_evidence t c
             (append_event t c None ''alert_ingested'' (attach_payload ''correlated'' a e []) ''mssp_only''
               (CorrelateKey a (in_event e))
               (record_keys t a (Some c) (in_ts e) keys (link_alert a ''promoted'' c db))))))
        (find_correlated_investigation t keys now db))"

text \<open>A final outcome, or whether to force promotion.\<close>

definition deconflict_step ::
    "deconfliction \<Rightarrow> uid \<Rightarrow> uid \<Rightarrow> pydict \<Rightarrow> ir_db \<Rightarrow> (triage_outcome \<times> ir_db) + (bool \<times> ir_db)" where
  "deconflict_step dc t a policy db =
     (if \<not> flag ''engagement_deconfliction_enabled'' False policy then Inr (False, db)
      else case dc of
          NoEngagement \<Rightarrow> Inr (False, db)
        | InScope notes \<Rightarrow>
            Inl (DeclaredTest a,
              log_audit t ''ir.engagement.declared_test'' ''triage'' a notes
                (db\<lparr> alerts := update_where (\<lambda>q. alert_id q = a) (\<lambda>q. q\<lparr> alert_status := ''deconflicted'' \<rparr>)
                               (alerts db) \<rparr>))
        | OutOfScope notes \<Rightarrow> Inr (True, log_audit t ''ir.engagement.out_of_scope'' ''triage'' a notes db))"

definition memo_reason :: "rat \<Rightarrow> string \<Rightarrow> string" where
  "memo_reason conf basis = ''memoized-fp: prior verdict close confidence='' @ fmt_fixed 2 (Fin conf) @ basis"

definition replay_denied_notes :: "string \<Rightarrow> rat \<Rightarrow> routine_view option \<Rightarrow> pyval" where
  "replay_denied_notes k conf rv =
     PDict ([(''shape_key'', PStr k), (''memo_confidence'', PFloat (Fin conf)),
             (''reason'', PStr ''routine_authorization_denied'')] @ (case rv of None \<Rightarrow> [] | Some v \<Rightarrow> routine_notes v))"

text \<open>Closing by reference: a final outcome, or whether the replay was denied.\<close>

definition memo_step ::
    "ingest_env \<Rightarrow> fresh_ids \<Rightarrow> uid \<Rightarrow> uid \<Rightarrow> ingest \<Rightarrow> pydict \<Rightarrow> corr_key list \<Rightarrow> time \<Rightarrow> ir_db
     \<Rightarrow> ((triage_outcome \<times> ir_db) + (bool \<times> ir_db)) py" where
  "memo_step ie fr t a e policy keys now db =
     (case shape_key (Some (in_source e)) (in_decoder e) (in_thash e) (in_tver e) of
        None \<Rightarrow> Some (Inr (False, db))
      | Some k \<Rightarrow>
          (case lookup_memoized_close (ie_memo ie) t k now db of
             None \<Rightarrow> Some (Inr (False, db))
           | Some conf \<Rightarrow> do {
               veto \<leftarrow> close_floor_veto (ie_env ie) t (in_iocs e) keys policy now db;
               case veto of
                 Some v \<Rightarrow> Some (Inr (False, audit_floor_veto t a v ''memoized_close'' db))
               | None \<Rightarrow>
                   (if flag ''authz_aware_memoization'' False policy \<and>
                       \<not> (case ie_routine ie of None \<Rightarrow> False | Some v \<Rightarrow> would_close v)
                    then Some (Inr (True, log_audit t ''ir.verdict_memoization.replay_denied'' ''triage'' a
                                (replay_denied_notes k conf (ie_routine ie)) db))
                    else do {
                      days \<leftarrow> reopen_window_days policy;
                      let basis = (if flag ''authz_aware_memoization'' False policy
                                   then (case ie_routine ie of None \<Rightarrow> [] | Some v \<Rightarrow> routine_basis v) else []);
                      db1 \<leftarrow> auto_close_alert (ie_sha ie) fr t a (memo_reason conf basis) days ''ingest_memoized'' now db;
                      Some (Inl (MemoizedClose a (fr_case fr), bump_hit t k db1)) }) }))"

definition rules_close_wanted :: "ingest \<Rightarrow> pydict \<Rightarrow> bool py" where
  "rules_close_wanted e policy =
     (if fst (assess (in_severity e) (in_mitre e)) = ''high_conf_fp'' \<and> flag ''auto_close_enabled'' True policy
      then py_cmp CmpGe (PFloat (Fin (snd (assess (in_severity e) (in_mitre e)))))
             (dget_default ''auto_close_threshold'' (PFloat (Fin (90 / 100))) policy)
      else Some False)"

definition rules_step ::
    "ingest_env \<Rightarrow> fresh_ids \<Rightarrow> uid \<Rightarrow> uid \<Rightarrow> ingest \<Rightarrow> pydict \<Rightarrow> corr_key list \<Rightarrow> time \<Rightarrow> ir_db
     \<Rightarrow> ((triage_outcome \<times> ir_db) + ir_db) py" where
  "rules_step ie fr t a e policy keys now db = do {
     wanted \<leftarrow> rules_close_wanted e policy;
     if \<not> wanted then Some (Inr db)
     else do {
       veto \<leftarrow> close_floor_veto (ie_env ie) t (in_iocs e) keys policy now db;
       case veto of
         Some v \<Rightarrow> Some (Inr (audit_floor_veto t a v ''rules_auto_close'' db))
       | None \<Rightarrow> do {
           days \<leftarrow> reopen_window_days policy;
           db1 \<leftarrow> auto_close_alert (ie_sha ie) fr t a
                    (''auto-close: '' @ fst (assess (in_severity e) (in_mitre e)) @ '' confidence=''
                     @ fmt_fixed 2 (Fin (snd (assess (in_severity e) (in_mitre e))))) days ''ingest_rules'' now db;
           Some (Inl (AutoClosed a (fr_case fr), db1)) } } }"

text \<open>The settle window; \<open>max(0.0, x)\<close> maps a NaN to zero, an infinity fails in the interval.\<close>

definition settle_window :: "ingest \<Rightarrow> pydict \<Rightarrow> rat py" where
  "settle_window e policy = do {
     bypass \<leftarrow> py_cmp CmpGe (PInt (in_severity e)) (dget_default ''settle_bypass_severity'' (PInt 12) policy);
     if bypass then Some 0
     else do {
       w \<leftarrow> py_float (dget_default ''settle_window_seconds'' (PInt 0) policy);
       case w of Fin q \<Rightarrow> Some q | NaN \<Rightarrow> Some 0 | NegInf \<Rightarrow> Some 0 | PosInf \<Rightarrow> None } }"

definition promote_step ::
    "ingest_env \<Rightarrow> fresh_ids \<Rightarrow> uid \<Rightarrow> uid \<Rightarrow> ingest \<Rightarrow> pydict \<Rightarrow> corr_key list \<Rightarrow> time \<Rightarrow> ir_db
     \<Rightarrow> (triage_outcome \<times> ir_db) py" where
  "promote_step ie fr t a e policy keys now db = do {
     settle \<leftarrow> settle_window e policy;
     db1 \<leftarrow> promote_alert_to_case (ie_env ie) (ie_prices ie) fr t a (in_title e) settle now db;
     Some (Promoted a (fr_case fr), record_keys t a (Some (fr_case fr)) (in_ts e) keys db1) }"

text \<open>The closes and the promotion, once correlation, deconfliction and reopening passed.\<close>

definition decide_fresh ::
    "ingest_env \<Rightarrow> fresh_ids \<Rightarrow> uid \<Rightarrow> uid \<Rightarrow> ingest \<Rightarrow> pydict \<Rightarrow> corr_key list \<Rightarrow> bool \<Rightarrow> time \<Rightarrow> ir_db
     \<Rightarrow> (triage_outcome \<times> ir_db) py" where
  "decide_fresh ie fr t a e policy keys force now db = do {
     m \<leftarrow> (if flag ''verdict_memoization_enabled'' False policy \<and> \<not> force
          then memo_step ie fr t a e policy keys now db else Some (Inr (False, db)));
     case m of
       Inl fin \<Rightarrow> Some fin
     | Inr (denied, db1) \<Rightarrow> do {
         r \<leftarrow> (if denied \<or> force then Some (Inr db1) else rules_step ie fr t a e policy keys now db1);
         case r of Inl fin \<Rightarrow> Some fin | Inr db2 \<Rightarrow> promote_step ie fr t a e policy keys now db2 } }"

definition triage_fresh ::
    "ingest_env \<Rightarrow> fresh_ids \<Rightarrow> uid \<Rightarrow> uid \<Rightarrow> ingest \<Rightarrow> time \<Rightarrow> ir_db \<Rightarrow> (triage_outcome \<times> ir_db) py" where
  "triage_fresh ie fr t a e now db = do {
     policy \<leftarrow> effective_policy (ie_env ie) (Some (policies_of t db)) [] [];
     let keys = extract_keys (ie_sha ie) (in_entities e) (in_iocs e) (in_rule e);
     case correlate_step t a e policy keys now db of
       Some fin \<Rightarrow> Some fin
     | None \<Rightarrow>
         (case deconflict_step (ie_deconf ie) t a policy db of
            Inl fin \<Rightarrow> Some fin
          | Inr (force, db1) \<Rightarrow> do {
              (reopened, db2) \<leftarrow> check_and_reopen (ie_env ie) (ie_prices ie) (ie_sha ie) fr t e now db1;
              case reopened of
                Some c \<Rightarrow> Some (Reopened a c, link_alert a ''promoted'' c db2)
              | None \<Rightarrow> decide_fresh ie fr t a e policy keys force now db2 }) }"

definition triage_event ::
    "ingest_env \<Rightarrow> fresh_ids \<Rightarrow> uid \<Rightarrow> ingest \<Rightarrow> time \<Rightarrow> ir_db \<Rightarrow> (triage_outcome \<times> ir_db) py" where
  "triage_event ie fr t e now db0 =
     (if seen_event t e db0 then Some (Duplicate (in_event e), db0)
      else
        (let (up, db1) = upsert_alert (ie_sha ie) (fr_alert fr) t e db0;
             db2 = reserve_event t e (up_alert up) now db1
         in if up_merged up then Some (Merged (up_alert up), db2)
            else case up_case up of
                Some c \<Rightarrow> Some (attach_step t up c e db2)
              | None \<Rightarrow> triage_fresh ie fr t (up_alert up) e now (describe_alert (up_alert up) e db2)))"

end
