(* ===== verification/Ir_Plane.thy ===== *)
theory Ir_Plane
  imports Ir_Unlock Ir_Triage
begin

text \<open>
  The run plane as a step relation. A state is the set of lease ids ever issued and the store; a
  step is one committed transaction: an ingested event, a worker's report, an operator's or an
  analyst's action, the reaper, or any part of the program that leaves runs, ledger and dispatches
  alone. The rules are all the writers of the run table (\<open>transition_run\<close> has no caller with a run:
  proposals are only created without one). A step is read, row by row, as a move
  in the life of a run, and everything the plane guarantees follows from the moves.
\<close>

type_synonym plane = "uid set \<times> ir_db"

inductive run_step :: "plane \<Rightarrow> plane \<Rightarrow> bool" where
  create: "\<lbrakk> rid \<notin> run_id ` set (runs db); start_run env prices rid t c settle now db = Some db' \<rbrakk>
    \<Longrightarrow> run_step (L, db) (L, db')"
| claim: "\<lbrakk> lid \<notin> L; claim_run env ck t worker lid now db = Some (out, db') \<rbrakk>
    \<Longrightarrow> run_step (L, db) (insert lid L, db')"
| heartbeat: "heartbeat_run t rid lid rep now db = Inr db' \<Longrightarrow> run_step (L, db) (L, db')"
| release: "release_run backoff t rid lid cat rep now db = Inr db' \<Longrightarrow> run_step (L, db) (L, db')"
| complete: "\<lbrakk> ce_new_run ce \<notin> run_id ` set (runs db); complete_run ce t rid p now db = Inr (ch, db') \<rbrakk>
    \<Longrightarrow> run_step (L, db) (L, db')"
| worker_events: "append_run_events t rid lid es db = Inr db' \<Longrightarrow> run_step (L, db) (L, db')"
| unlock: "unlock_run env ck ex who t rid req now db = Inr (res, db') \<Longrightarrow> run_step (L, db) (L, db')"
| ingest_event: "\<lbrakk> fr_run fr \<notin> run_id ` set (runs db); triage_event ie fr t e now db = Some (outc, db') \<rbrakk>
    \<Longrightarrow> run_step (L, db) (L, db')"
| cancel: "cancel_investigation t c rsn actor now db = Inr db' \<Longrightarrow> run_step (L, db) (L, db')"
| merge: "run_step (L, db) (L, merge_investigations t keep other who note now db)"
| detach: "\<lbrakk> nr \<notin> run_id ` set (runs db); detach_alert env prices nc nr t a who note now db = Some db' \<rbrakk>
    \<Longrightarrow> run_step (L, db) (L, db')"
| reap: "run_step (L, db) (L, reap_expired_leases now db)"
| elsewhere: "\<lbrakk> runs db' = runs db; ledger db' = ledger db; dispatches db' = dispatches db \<rbrakk>
    \<Longrightarrow> run_step (L, db) (L, db')"

abbreviation run_steps :: "plane \<Rightarrow> plane \<Rightarrow> bool" where
  "run_steps \<equiv> run_step\<^sup>*\<^sup>*"

definition reachable_plane :: "plane \<Rightarrow> bool" where
  "reachable_plane s \<longleftrightarrow> run_steps ({}, empty_db) s"

subsection \<open>The life of a run\<close>

text \<open>
  One step of one row; \<open>g\<close> is the lease granted by the step, if it grants one.
\<close>

inductive life :: "(uid \<times> uid) option \<Rightarrow> run_row \<Rightarrow> run_row \<Rightarrow> bool" for g where
  idle: "life g r r"
| leased: "\<lbrakk> run_status r = Active; claimed_at r = None \<or> lease_lapsed now r; g = Some (run_id r, lid) \<rbrakk>
    \<Longrightarrow> life g r (lease_to worker lid now r)"
| kept: "\<lbrakk> run_status r = Active; lease_id r = Some lid \<rbrakk>
    \<Longrightarrow> life g r ((spend_to rep r)\<lparr> lease_expires_at := Some e \<rparr>)"
| released: "\<lbrakk> run_status r = Active; lease_id r = Some lid \<rbrakk> \<Longrightarrow> life g r (release_row backoff cat rep now r)"
| completed: "\<lbrakk> run_status r = Active; lease_id r = Some (cp_lease p); complete_valid p \<rbrakk>
    \<Longrightarrow> life g r (complete_row p now r)"
| resumed: "run_status r = HaltedBudget \<Longrightarrow> life g r (unlock_row tb dol now r)"
| reaped: "\<lbrakk> run_status r = Active; lease_lapsed now r \<rbrakk> \<Longrightarrow> life g r (drop_lease r)"
| failed: "open_status (run_status r) \<Longrightarrow> life g r (fail_row err now r)"

inductive_cases lifeE: "life g r r'"

definition terminal :: "run_status \<Rightarrow> bool" where
  "terminal s \<longleftrightarrow> s \<in> {RunCompleted, RunFailed}"

lemmas row_defs = fail_row_def lease_to_def spend_to_def drop_lease_def release_row_def complete_row_def unlock_row_def

lemma row_ids [simp]:
  "run_id (lease_to w l now r) = run_id r" "run_id (spend_to rep r) = run_id r"
  "run_id (drop_lease r) = run_id r" "run_id (release_row b c rep now r) = run_id r"
  "run_id (fail_row err now r) = run_id r"
  "run_id (complete_row p now r) = run_id r" "run_id (unlock_row tb dol now r) = run_id r"
  by (simp_all add: row_defs)

lemma life_same:
  "life g r r' \<Longrightarrow> run_id r' = run_id r \<and> run_tenant r' = run_tenant r \<and> run_case r' = run_case r \<and>
     max_attempts r' = max_attempts r \<and> started_at r' = started_at r \<and> run_snapshot r' = run_snapshot r"
  by (erule lifeE) (simp_all add: row_defs)

lemma life_open: "life g r r' \<Longrightarrow> open_status (run_status r') \<Longrightarrow> open_status (run_status r)"
  by (erule lifeE) (simp_all add: row_defs open_status_def)

text \<open>The lease a worker may report under: the row's, while the run is active.\<close>

definition holder :: "run_row \<Rightarrow> uid option" where
  "holder r = (if run_status r = Active then lease_id r else None)"

lemma life_lease:
  "life g r r' \<Longrightarrow> holder r' = None \<or> holder r' = holder r \<or> (\<exists>l. holder r' = Some l \<and> g = Some (run_id r, l))"
  by (erule lifeE) (simp_all add: row_defs holder_def)

lemma life_terminal: "life g r r' \<Longrightarrow> terminal (run_status r) \<Longrightarrow> r' = r"
  by (erule lifeE) (auto simp: terminal_def open_status_def)

text \<open>What holds of every row by itself.\<close>

definition row_ok :: "run_row \<Rightarrow> bool" where
  "row_ok r \<longleftrightarrow>
     (lease_id r \<noteq> None \<longrightarrow> run_status r \<in> {Active, RunFailed}) \<and>
     (claimed_at r = None \<longleftrightarrow> lease_id r = None) \<and>
     (claimed_by r = None \<longleftrightarrow> lease_id r = None) \<and>
     (lease_expires_at r = None \<longleftrightarrow> lease_id r = None) \<and>
     (ended_at r = None \<longleftrightarrow> run_status r \<in> {Active, Paused, WaitingOnGate}) \<and>
     0 \<le> attempts r \<and> attempts r \<le> max_attempts r \<and>
     (open_status (run_status r) \<longrightarrow> attempts r < max_attempts r)"

lemma life_ok: "life g r r' \<Longrightarrow> row_ok r \<Longrightarrow> row_ok r'"
  by (erule lifeE) (auto simp: row_defs row_ok_def open_status_def complete_valid_def split: if_splits)

subsection \<open>Tables\<close>

lemma list_all2_update_where:
  "(\<And>r. R r r) \<Longrightarrow> (\<And>r. r \<in> set t \<Longrightarrow> p r \<Longrightarrow> R r (f r)) \<Longrightarrow> list_all2 R t (update_where p f t)"
  by (induction t) auto

lemma list_all2_map_eq: "list_all2 R xs ys \<Longrightarrow> (\<And>x y. R x y \<Longrightarrow> f y = f x) \<Longrightarrow> map f ys = map f xs"
  by (induction rule: list_all2_induct) auto

lemma list_all2_setD: "list_all2 R xs ys \<Longrightarrow> y \<in> set ys \<Longrightarrow> \<exists>x\<in>set xs. R x y"
  by (induction rule: list_all2_induct) auto

lemma list_all2_setI: "list_all2 R xs ys \<Longrightarrow> x \<in> set xs \<Longrightarrow> \<exists>y\<in>set ys. R x y"
  by (induction rule: list_all2_induct) auto

text \<open>A table of new rows: at most one, fresh in id, for a case with no open run.\<close>

definition new_row :: "run_row \<Rightarrow> bool" where
  "new_row n \<longleftrightarrow> run_status n = Active \<and> lease_id n = None \<and> claimed_at n = None \<and> claimed_by n = None \<and>
     lease_expires_at n = None \<and> ended_at n = None \<and> attempts n = 0 \<and> 1 \<le> max_attempts n \<and>
     run_tokens_used n = 0 \<and> run_dollars_used n = 0"

definition creates :: "run_row list \<Rightarrow> run_row list \<Rightarrow> bool" where
  "creates rs new \<longleftrightarrow> new = [] \<or> (\<exists>n. new = [n] \<and> new_row n \<and> run_id n \<notin> run_id ` set rs \<and>
     (\<forall>r\<in>set rs. open_status (run_status r) \<longrightarrow> run_case r \<noteq> run_case n))"

definition moves :: "uid set \<Rightarrow> uid set \<Rightarrow> (uid \<times> uid) option \<Rightarrow> run_row list \<Rightarrow> run_row list \<Rightarrow> bool" where
  "moves L L' g rs rs' \<longleftrightarrow>
     (\<exists>mid new. rs' = mid @ new \<and> list_all2 (life g) rs mid \<and> creates mid new) \<and>
     L \<subseteq> L' \<and> (\<forall>i l. g = Some (i, l) \<longrightarrow> l \<notin> L \<and> l \<in> L')"

lemma moves_update:
  assumes "\<And>r. r \<in> set rs \<Longrightarrow> p r \<Longrightarrow> life g r (f r)" "L \<subseteq> L'" "\<And>i l. g = Some (i, l) \<Longrightarrow> l \<notin> L \<and> l \<in> L'"
  shows "moves L L' g rs (update_where p f rs)"
proof -
  have "list_all2 (life g) rs (update_where p f rs)"
    by (rule list_all2_update_where) (auto intro: life.idle assms(1))
  then have "\<exists>mid new. update_where p f rs = mid @ new \<and> list_all2 (life g) rs mid \<and> creates mid new"
    by (intro exI [of _ "update_where p f rs"] exI [of _ "[]"]) (simp add: creates_def)
  then show ?thesis
    using assms(2,3) by (simp add: moves_def)
qed

lemma moves_refl [simp, intro]: "L \<subseteq> L' \<Longrightarrow> moves L L' None rs rs"
  using moves_update [of rs "\<lambda>_. False" None id] by (simp add: update_where_id)

lemma max_attempts_of_pos: "1 \<le> max_attempts_of env"
  by (simp add: max_attempts_of_def split: option.splits)

lemma new_row_fresh: "new_row (fresh_run env prices rid t c settle now tb pol)"
  by (simp add: new_row_def fresh_run_def max_attempts_of_pos)

lemma fresh_run_ids [simp]:
  "run_id (fresh_run env prices rid t c settle now tb pol) = rid"
  "run_case (fresh_run env prices rid t c settle now tb pol) = c"
  "run_tenant (fresh_run env prices rid t c settle now tb pol) = t"
  by (simp_all add: fresh_run_def)

lemma no_active_run: "active_run_for_case c db = None \<longleftrightarrow>
    (\<forall>r\<in>set (runs db). open_status (run_status r) \<longrightarrow> run_case r \<noteq> c)"
  by (auto simp: active_run_for_case_def find_None_iff)

lemma start_run_Some:
  "start_run env prices rid t c settle now db = Some db' \<longleftrightarrow>
     (\<exists>tb. resolve_run_token_budget env (Some (policies_of t db)) = Some tb \<and> active_run_for_case c db = None \<and>
        db' = db\<lparr> runs := runs db @ [fresh_run env prices rid t c settle now tb (Some (policies_of t db))] \<rparr>)"
  by (auto simp: start_run_def split: bind_splits)

lemma start_run_frame:
  "start_run env prices rid t c settle now db = Some db' \<Longrightarrow>
     ledger db' = ledger db \<and> dispatches db' = dispatches db \<and> cases db' = cases db \<and> events db' = events db \<and>
     alerts db' = alerts db \<and> reviews db' = reviews db \<and> verdict_cache db' = verdict_cache db \<and>
     source_events db' = source_events db \<and> entity_keys db' = entity_keys db \<and> tenant_policies db' = tenant_policies db"
  by (auto simp: start_run_Some)

lemma creates_start_run:
  assumes "start_run env prices rid t c settle now db = Some db'" "rid \<notin> run_id ` set (runs db)"
  shows "\<exists>n. runs db' = runs db @ [n] \<and> creates (runs db) [n]"
  using assms by (auto simp: start_run_Some no_active_run creates_def new_row_fresh)

subsection \<open>What each handler does to the run table\<close>

text \<open>The part of the store the plane is about.\<close>

definition plane_part ::
    "ir_db \<Rightarrow> run_row list \<times> ledger_row list \<times> dispatch_call list \<times> source_event_row list" where
  "plane_part db = (runs db, ledger db, dispatches db, source_events db)"

lemma close_trail_part: "record_close_trail t c rid p db = Some db' \<Longrightarrow> plane_part db' = plane_part db"
  by (auto simp: record_close_trail_def plane_part_def Let_def split: bind_splits if_splits)

lemma server_floor_part:
  "server_floor env t c rid p now db = Some (eff, veto, db') \<Longrightarrow>
     plane_part db' = plane_part db \<and> cases db' = cases db \<and> alerts db' = alerts db \<and> reviews db' = reviews db"
  by (auto simp: server_floor_def close_fp_floor_veto_def plane_part_def Let_def
      split: bind_splits if_splits option.splits)

lemma apply_close_part: "apply_close env sha t c rid p now db = Some (ch, db') \<Longrightarrow> plane_part db' = plane_part db"
  by (auto simp: apply_close_def Let_def dest!: close_trail_part split: bind_splits if_splits)
    (simp_all add: plane_part_def)

lemma apply_disposition_part:
  "apply_disposition env sha rv t c rid p eff veto now db = Some (ch, db') \<Longrightarrow> plane_part db' = plane_part db"
  by (auto simp: apply_disposition_def dest: apply_close_part split: if_splits)
    (simp_all add: plane_part_def)

lemma memoize_part [simp]: "plane_part (memoize t c p eff now db) = plane_part db"
  by (simp add: memoize_def record_verdict_memo_def plane_part_def split: option.splits)

text \<open>The new dispatches of a completion: at most one, for that run, and only if it completed.\<close>

definition dispatched :: "uid \<Rightarrow> complete_payload \<Rightarrow> dispatch_call list \<Rightarrow> bool" where
  "dispatched rid p ds \<longleftrightarrow> ds = [] \<or> (\<exists>d. ds = [d] \<and> dispatch_run d = rid \<and> cp_status p = RunCompleted)"

lemma dispatch_response_part:
  "runs (dispatch_response c rid p eff veto ch db) = runs db \<and>
   ledger (dispatch_response c rid p eff veto ch db) = ledger db \<and>
   (\<exists>ds. dispatches (dispatch_response c rid p eff veto ch db) = dispatches db @ ds \<and> dispatched rid p ds)"
  by (auto simp: dispatch_response_def dispatched_def split: option.splits)

lemma finish_case_part:
  assumes "finish_case ce t c rid p now db = Some (ch, db')"
  obtains dbx ds where
    "follow_up (ce_env ce) (ce_prices ce) (ce_new_run ce) t c p now dbx = Some db'"
    "runs dbx = runs db" "ledger dbx = ledger db" "dispatches dbx = dispatches db @ ds" "dispatched rid p ds"
proof -
  from assms obtain eff veto db1 ch' db2
    where 1: "server_floor (ce_env ce) t c rid p now db = Some (eff, veto, db1)"
      and 2: "apply_disposition (ce_env ce) (ce_sha ce) (ce_review ce) t c rid p eff veto now db1 = Some (ch', db2)"
      and 3: "follow_up (ce_env ce) (ce_prices ce) (ce_new_run ce) t c p now
                (dispatch_response c rid p eff veto ch' (memoize t c p eff now db2)) = Some db'"
    by (auto simp: finish_case_def split: bind_splits)
  from server_floor_part [OF 1] apply_disposition_part [OF 2] memoize_part [of t c p eff now db2]
  have part: "plane_part (memoize t c p eff now db2) = plane_part db" by simp
  from dispatch_response_part [of c rid p eff veto ch' "memoize t c p eff now db2"] part
  show thesis
    by (auto simp: plane_part_def intro: that [OF 3])
qed

lemma follow_up_part:
  assumes "follow_up env prices new_run t c p now db = Some db'" "new_run \<notin> run_id ` set (runs db)"
  shows "\<exists>new. runs db' = runs db @ new \<and> creates (runs db) new \<and> ledger db' = ledger db \<and> dispatches db' = dispatches db"
proof (cases "cp_status p = RunCompleted \<and> (\<exists>i\<in>set (cases db). close_rows t c i \<and> has_new_evidence i)")
  case True
  let ?db = "db\<lparr> cases := update_where (\<lambda>i. case_id i = c \<and> case_tenant i = t)
               (\<lambda>i. i\<lparr> has_new_evidence := False \<rparr>) (cases db) \<rparr>"
  from True assms(1) have start: "start_run env prices new_run t c 0 now ?db = Some db'"
    by (simp add: follow_up_def)
  from creates_start_run [OF start] start_run_frame [OF start] assms(2) show ?thesis by auto
next
  case False
  then show ?thesis
    using assms by (auto simp: follow_up_def creates_def split: if_splits)
qed

lemma record_spend_delta_frame [simp]:
  "runs (record_spend_delta t rid rep now db) = runs db"
  "dispatches (record_spend_delta t rid rep now db) = dispatches db"
  "cases (record_spend_delta t rid rep now db) = cases db"
  "alerts (record_spend_delta t rid rep now db) = alerts db"
  "reviews (record_spend_delta t rid rep now db) = reviews db"
  "events (record_spend_delta t rid rep now db) = events db"
  "entity_keys (record_spend_delta t rid rep now db) = entity_keys db"
  "key_stats (record_spend_delta t rid rep now db) = key_stats db"
  "chats (record_spend_delta t rid rep now db) = chats db"
  "source_events (record_spend_delta t rid rep now db) = source_events db"
  "tenant_policies (record_spend_delta t rid rep now db) = tenant_policies db"
  by (simp_all add: record_spend_delta_def Let_def split: option.splits)

lemma complete_run_part:
  assumes "complete_run ce t rid p now db = Inr (ch, db')" "ce_new_run ce \<notin> run_id ` set (runs db)"
  obtains r mid new ds where
    "r \<in> set (runs db)" "holds_lease t rid (cp_lease p) r" "complete_valid p"
    "mid = update_where (holds_lease t rid (cp_lease p)) (complete_row p now) (runs db)"
    "runs db' = mid @ new" "creates mid new"
    "ledger db' = ledger (record_spend_delta t rid (cp_spend p) now db)"
    "dispatches db' = dispatches db @ ds" "dispatched rid p ds"
proof -
  let ?db = "record_spend_delta t rid (cp_spend p) now db"
  let ?mid = "update_where (holds_lease t rid (cp_lease p)) (complete_row p now) (runs db)"
  from assms(1) obtain r where r: "find (holds_lease t rid (cp_lease p)) (runs db) = Some r"
      and v: "complete_valid p"
      and f: "finish_case ce t (run_case r) rid p now (?db\<lparr> runs := ?mid \<rparr>) = Some (ch, db')"
    by (auto simp: complete_run_def Let_def split: if_splits option.splits)
  from r have rin: "r \<in> set (runs db)" "holds_lease t rid (cp_lease p) r"
    by (auto simp: find_Some_iff in_set_conv_nth)
  from f obtain dbx ds where x: "follow_up (ce_env ce) (ce_prices ce) (ce_new_run ce) t (run_case r) p now dbx = Some db'"
      "runs dbx = ?mid" "ledger dbx = ledger ?db" "dispatches dbx = dispatches db @ ds" "dispatched rid p ds"
    by (rule finish_case_part) simp
  have "run_id ` set ?mid = run_id ` set (runs db)"
    by (simp add: image_update_where)
  with assms(2) follow_up_part [OF x(1)] x(2) obtain new where
    "runs db' = ?mid @ new" "creates ?mid new" "ledger db' = ledger dbx" "dispatches db' = dispatches dbx"
    by auto
  with x rin v show thesis
    by (intro that [of r ?mid new ds]) auto
qed

lemma holds_leaseD: "holds_lease t rid lid r \<Longrightarrow> run_status r = Active \<and> lease_id r = Some lid \<and> run_id r = rid \<and> run_tenant r = t"
  by (simp add: holds_lease_def)

lemma heartbeat_part:
  assumes "heartbeat_run t rid lid rep now db = Inr db'"
  shows "runs db' = update_where (holds_lease t rid lid)
           (\<lambda>r. (spend_to rep r)\<lparr> lease_expires_at := Some (now + LEASE_TTL_SECONDS) \<rparr>) (runs db) \<and>
         ledger db' = ledger (record_spend_delta t rid rep now db) \<and> dispatches db' = dispatches db \<and>
         (\<exists>r\<in>set (runs db). holds_lease t rid lid r)"
  using assms by (auto simp: heartbeat_run_def Let_def split: if_splits)

lemma release_part:
  assumes "release_run backoff t rid lid cat rep now db = Inr db'"
  shows "runs db' = update_where (holds_lease t rid lid) (release_row backoff cat rep now) (runs db) \<and>
         ledger db' = ledger (record_spend_delta t rid rep now db) \<and> dispatches db' = dispatches db \<and>
         (\<exists>r\<in>set (runs db). holds_lease t rid lid r)"
  using assms by (auto simp: release_run_def Let_def split: if_splits)

lemma worker_event_part [simp]:
  "plane_part (append_worker_event t c rid lid e db) = plane_part db"
  by (simp add: append_worker_event_def plane_part_def)

lemma worker_events_part [simp]:
  "plane_part (fold (append_worker_event t c rid lid) es db) = plane_part db"
  by (induction es arbitrary: db) simp_all

lemma append_run_events_part: "append_run_events t rid lid es db = Inr db' \<Longrightarrow> plane_part db' = plane_part db"
  by (auto simp: append_run_events_def split: option.splits)

lemma run_of_Some: "run_of t rid db = Some r \<Longrightarrow> r \<in> set (runs db) \<and> run_id r = rid \<and> run_tenant r = t"
  by (auto simp: run_of_def find_Some_iff)

lemma run_with_case_Some:
  "run_with_case t rid db = Some (r, i) \<Longrightarrow>
     run_of t rid db = Some r \<and> i \<in> set (cases db) \<and> case_id i = run_case r \<and> case_tenant i = t"
  by (auto simp: run_with_case_def find_Some_iff split: option.splits)

lemma unlock_run_Inr:
  assumes "unlock_run env ck ex who t rid req now db = Inr (res, db')"
  obtains r i tok dol where
    "run_with_case t rid db = Some (r, i)" "run_status r = HaltedBudget" "case_status i = ''active''"
    "unlock_ceilings env r req db = Inr (tok, dol)" "db' = resume_run who t r tok dol now db"
  using assms unfolding unlock_run_def Let_def
  by (simp split: if_splits option.split_asm prod.split_asm sum.split_asm)

lemma resume_run_part:
  "runs (resume_run who t r tb dol now db) =
     update_where (\<lambda>q. run_id q = run_id r \<and> run_tenant q = t \<and> run_status q = HaltedBudget) (unlock_row tb dol now) (runs db)"
  "ledger (resume_run who t r tb dol now db) = ledger db"
  "dispatches (resume_run who t r tb dol now db) = dispatches db"
  "cases (resume_run who t r tb dol now db) = cases db"
  by (simp_all add: resume_run_def)

lemma unlock_part:
  assumes "unlock_run env ck ex who t rid req now db = Inr (res, db')"
  obtains tb dol where
    "runs db' = update_where (\<lambda>q. run_id q = rid \<and> run_tenant q = t \<and> run_status q = HaltedBudget)
       (unlock_row tb dol now) (runs db)"
    "ledger db' = ledger db" "dispatches db' = dispatches db"
  using assms by (elim unlock_run_Inr) (auto simp: resume_run_part dest!: run_with_case_Some run_of_Some intro: that)

lemma claim_run_Some:
  "claim_run env ck t worker lid now db = Some (out, db') \<Longrightarrow>
     db' = db \<or>
     (\<exists>r. select_first (claimable t now db) started_at (runs db) = Some r \<and> tenant_daily_cap_ok env ck t now db = Some True \<and>
        db' = db\<lparr> runs := update_where (\<lambda>q. run_id q = run_id r) (lease_to worker lid now) (runs db) \<rparr>)"
  unfolding claim_run_def
  by (cases "tenant_daily_cap_ok env ck t now db"; cases "get_tenant_daily_status env ck t now db")
    (simp_all split: if_splits option.split_asm)

lemma claim_part:
  assumes "claim_run env ck t worker lid now db = Some (out, db')"
  obtains (same) "db' = db" | (lease) r where
    "r \<in> set (runs db)" "claimable t now db r"
    "db' = db\<lparr> runs := update_where (\<lambda>q. run_id q = run_id r) (lease_to worker lid now) (runs db) \<rparr>"
  using claim_run_Some [OF assms] by (metis select_first_Some)

subsection \<open>Ingest and analyst actions\<close>

text \<open>
  The run table grows by at most one fresh run; ledger and dispatches stay, and so does the log of
  source events, except where ingest reserves its event.
\<close>

definition table_grows :: "ir_db \<Rightarrow> ir_db \<Rightarrow> bool" where
  "table_grows db db' \<longleftrightarrow> (\<exists>new. runs db' = runs db @ new \<and> creates (runs db) new) \<and>
     ledger db' = ledger db \<and> dispatches db' = dispatches db"

definition grows :: "ir_db \<Rightarrow> ir_db \<Rightarrow> bool" where
  "grows db db' \<longleftrightarrow> table_grows db db' \<and> source_events db' = source_events db"

lemma grows_part: "plane_part db' = plane_part db \<Longrightarrow> grows db db'"
  by (simp add: grows_def table_grows_def creates_def plane_part_def)

lemma grows_trans:
  "plane_part dbx = plane_part db \<Longrightarrow> grows dbx dby \<Longrightarrow> plane_part db' = plane_part dby \<Longrightarrow> grows db db'"
  by (simp add: grows_def table_grows_def plane_part_def)

lemma start_run_grows:
  assumes "start_run env prices rid t c settle now db = Some db'" "rid \<notin> run_id ` set (runs db)"
  shows "grows db db'"
  using creates_start_run [OF assms] start_run_frame [OF assms(1)] by (auto simp: grows_def table_grows_def)

lemma start_run_grows_via:
  assumes "start_run env prices rid t c settle now dbx = Some dby" "plane_part dbx = plane_part db"
    and "plane_part db' = plane_part dby" "rid \<notin> run_id ` set (runs db)"
  shows "grows db db'"
proof -
  have "runs dbx = runs db" using assms(2) by (simp add: plane_part_def)
  with start_run_grows [OF assms(1)] assms(4) have "grows dbx dby" by simp
  from grows_trans [OF assms(2) this assms(3)] show ?thesis .
qed

lemma plane_part_simps [simp]:
  "plane_part (append_event t c rn kd pl vis k db) = plane_part db"
  "plane_part (log_audit t a p r n db) = plane_part db"
  "plane_part (record_keys t al oc ts keys db) = plane_part db"
  "plane_part (bump_hit t mk db) = plane_part db"
  "plane_part (record_label t lk oc oo oa w nt db) = plane_part db"
  "plane_part (link_alert al st c db) = plane_part db"
  "plane_part (flag_new_evidence t c db) = plane_part db"
  "plane_part (describe_alert al e db) = plane_part db"
  "plane_part (audit_floor_veto t al v b db) = plane_part db"
  "plane_part (db\<lparr> cases := cs \<rparr>) = plane_part db"
  "plane_part (db\<lparr> alerts := as \<rparr>) = plane_part db"
  by (simp_all add: plane_part_def record_label_def link_alert_def flag_new_evidence_def describe_alert_def
      audit_floor_veto_def)

lemma plane_part_runs: "plane_part db' = plane_part db \<Longrightarrow> runs db' = runs db"
  by (simp add: plane_part_def)

lemma upsert_part: "upsert_alert sha nid t e db = (up, db') \<Longrightarrow> plane_part db' = plane_part db"
  by (auto simp: upsert_alert_def split: option.splits)

lemma attach_part: "attach_step t up c e db = (outc, db') \<Longrightarrow> plane_part db' = plane_part db"
  by (auto simp: attach_step_def)

lemma correlate_part: "correlate_step t a e policy keys now db = Some (outc, db') \<Longrightarrow> plane_part db' = plane_part db"
  by (auto simp: correlate_step_def split: if_splits)

lemma deconflict_part:
  "deconflict_step dc t a policy db = Inl (outc, db') \<Longrightarrow> plane_part db' = plane_part db"
  "deconflict_step dc t a policy db = Inr (force, db') \<Longrightarrow> plane_part db' = plane_part db"
  by (auto simp: deconflict_step_def split: if_splits deconfliction.splits)

lemma auto_close_part: "auto_close_alert sha fr t a rsn days via now db = Some db' \<Longrightarrow> plane_part db' = plane_part db"
  by (auto simp: auto_close_alert_def Let_def split: bind_splits)

lemma memo_step_part:
  "memo_step ie fr t a e policy keys now db = Some (Inl (outc, db')) \<Longrightarrow> plane_part db' = plane_part db"
  "memo_step ie fr t a e policy keys now db = Some (Inr (denied, db')) \<Longrightarrow> plane_part db' = plane_part db"
  by (auto simp: memo_step_def Let_def dest!: auto_close_part split: option.splits bind_splits if_splits)

lemma rules_step_part:
  "rules_step ie fr t a e policy keys now db = Some (Inl (outc, db')) \<Longrightarrow> plane_part db' = plane_part db"
  "rules_step ie fr t a e policy keys now db = Some (Inr db') \<Longrightarrow> plane_part db' = plane_part db"
  by (auto simp: rules_step_def Let_def dest!: auto_close_part split: option.splits bind_splits if_splits)

lemma promote_grows:
  assumes "promote_alert_to_case env prices fr t a title settle now db = Some db'" "fr_run fr \<notin> run_id ` set (runs db)"
  shows "grows db db'"
  using assms
  by (auto simp: promote_alert_to_case_def Let_def split: bind_splits elim!: start_run_grows_via)

lemma promote_step_grows:
  assumes "promote_step ie fr t a e policy keys now db = Some (outc, db')" "fr_run fr \<notin> run_id ` set (runs db)"
  shows "grows db db'"
proof -
  obtain dbx settle where "promote_alert_to_case (ie_env ie) (ie_prices ie) fr t a (in_title e) settle now db = Some dbx"
      "db' = record_keys t a (Some (fr_case fr)) (in_ts e) keys dbx"
    using assms(1) by (auto simp: promote_step_def split: bind_splits)
  with promote_grows [OF this(1) assms(2)] show ?thesis by (auto intro: grows_trans)
qed

lemma decide_fresh_grows:
  assumes "decide_fresh ie fr t a e policy keys force now db = Some (outc, db')" "fr_run fr \<notin> run_id ` set (runs db)"
  shows "grows db db'"
proof -
  let ?m = "if flag ''verdict_memoization_enabled'' False policy \<and> \<not> force
            then memo_step ie fr t a e policy keys now db else Some (Inr (False, db))"
  obtain m where m: "?m = Some m"
    using assms(1) by (auto simp: decide_fresh_def split: bind_splits)
  show ?thesis
  proof (cases m)
    case (Inl fin)
    with m assms(1) have "memo_step ie fr t a e policy keys now db = Some (Inl (outc, db'))"
      by (auto simp: decide_fresh_def split: if_splits)
    then show ?thesis by (blast intro: grows_part memo_step_part)
  next
    case (Inr p)
    obtain denied db1 where p: "p = (denied, db1)" by fastforce
    have 1: "plane_part db1 = plane_part db"
      using m Inr p by (auto dest: memo_step_part split: if_splits)
    let ?r = "if denied \<or> force then Some (Inr db1) else rules_step ie fr t a e policy keys now db1"
    obtain r where r: "?r = Some r"
      using assms(1) m Inr p by (auto simp: decide_fresh_def split: bind_splits)
    show ?thesis
    proof (cases r)
      case (Inl fin)
      with r m \<open>m = Inr p\<close> p assms(1) have "rules_step ie fr t a e policy keys now db1 = Some (Inl (outc, db'))"
        by (auto simp: decide_fresh_def split: if_splits)
      with 1 show ?thesis by (metis grows_part rules_step_part(1))
    next
      case (Inr db2)
      with r m \<open>m = Inr p\<close> p assms(1) have pr: "promote_step ie fr t a e policy keys now db2 = Some (outc, db')"
        by (simp add: decide_fresh_def)
      have 2: "plane_part db2 = plane_part db"
        using r Inr 1 by (auto dest: rules_step_part split: if_splits)
      with promote_step_grows [OF pr] assms(2) plane_part_runs [OF 2] show ?thesis
        by (metis grows_trans)
    qed
  qed
qed

lemma check_and_reopen_grows:
  assumes "check_and_reopen env prices sha fr t e now db = Some (res, db')" "fr_run fr \<notin> run_id ` set (runs db)"
  shows "grows db db'" and "res = None \<Longrightarrow> db' = db"
proof -
  show "res = None \<Longrightarrow> db' = db"
    using assms(1) by (auto simp: check_and_reopen_def Let_def split: option.splits bind_splits)
  show "grows db db'"
  proof (cases "find (reopen_matches sha t e) (cases db)")
    case None
    with assms(1) show ?thesis by (auto simp: check_and_reopen_def intro: grows_part)
  next
    case (Some i)
    let ?db1 = "db\<lparr> cases := update_where (\<lambda>q. case_id q = case_id i) reopen_case (cases db) \<rparr>"
    show ?thesis
    proof (cases "active_run_for_case (case_id i) ?db1")
      case (Some r)
      with \<open>find _ _ = Some i\<close> assms(1) show ?thesis
        by (auto simp: check_and_reopen_def Let_def intro!: grows_part)
    next
      case None
      with Some assms(1) obtain dbx where "start_run env prices (fr_run fr) t (case_id i) 0 now ?db1 = Some dbx"
          "plane_part db' = plane_part dbx"
        by (auto simp: check_and_reopen_def Let_def split: option.splits bind_splits)
      from start_run_grows_via [OF this(1) _ this(2) assms(2)] show ?thesis by simp
    qed
  qed
qed

lemma triage_fresh_grows:
  assumes "triage_fresh ie fr t a e now db = Some (outc, db')" "fr_run fr \<notin> run_id ` set (runs db)"
  shows "grows db db'"
proof -
  obtain policy where policy: "effective_policy (ie_env ie) (Some (policies_of t db)) [] [] = Some policy"
    using assms(1) by (auto simp: triage_fresh_def split: bind_splits)
  let ?keys = "extract_keys (ie_sha ie) (in_entities e) (in_iocs e) (in_rule e)"
  note def = assms(1) [unfolded triage_fresh_def policy bind.bind_lunit Let_def]
  show ?thesis
  proof (cases "correlate_step t a e policy ?keys now db")
    case (Some fin)
    with def have "correlate_step t a e policy ?keys now db = Some (outc, db')" by simp
    then show ?thesis by (rule grows_part [OF correlate_part])
  next
    case None
    show ?thesis
    proof (cases "deconflict_step (ie_deconf ie) t a policy db")
      case (Inl fin)
      with def None have "deconflict_step (ie_deconf ie) t a policy db = Inl (outc, db')" by simp
      then show ?thesis by (rule grows_part [OF deconflict_part(1)])
    next
      case (Inr p)
      obtain force db1 where p: "p = (force, db1)" by fastforce
      have 1: "plane_part db1 = plane_part db" using Inr p by (simp add: deconflict_part(2))
      obtain res db2 where r: "check_and_reopen (ie_env ie) (ie_prices ie) (ie_sha ie) fr t e now db1 = Some (res, db2)"
        using def None Inr p by (auto split: bind_splits)
      have fresh: "fr_run fr \<notin> run_id ` set (runs db1)" using assms(2) plane_part_runs [OF 1] by simp
      show ?thesis
      proof (cases res)
        case None
        with def \<open>correlate_step _ _ _ _ _ _ _ = None\<close> Inr p r
        have "decide_fresh ie fr t a e policy ?keys force now db2 = Some (outc, db')" by simp
        moreover have "db2 = db1" using check_and_reopen_grows(2) [OF r fresh] None by simp
        ultimately have "grows db1 db'" using decide_fresh_grows [OF _ fresh] by simp
        from grows_trans [OF 1 this refl] show ?thesis .
      next
        case (Some c)
        with def \<open>correlate_step _ _ _ _ _ _ _ = None\<close> Inr p r
        have "db' = link_alert a ''promoted'' c db2" by simp
        then have "plane_part db' = plane_part db2" by simp
        from grows_trans [OF 1 check_and_reopen_grows(1) [OF r fresh] this] show ?thesis .
      qed
    qed
  qed
qed

text \<open>A new event is reserved first; all that follows keeps the log of source events.\<close>

lemma triage_event_reserves:
  assumes "triage_event ie fr t e now db = Some (outc, db')" "\<not> seen_event t e db"
    and "fr_run fr \<notin> run_id ` set (runs db)"
  obtains al db1 where "plane_part db1 = plane_part db" "grows (reserve_event t e al now db1) db'"
proof -
  obtain up db1 where u: "upsert_alert (ie_sha ie) (fr_alert fr) t e db = (up, db1)" by fastforce
  let ?db = "reserve_event t e (up_alert up) now db1"
  have part: "plane_part db1 = plane_part db" using upsert_part [OF u] .
  have fresh: "fr_run fr \<notin> run_id ` set (runs ?db)"
    using assms(3) plane_part_runs [OF part] by (simp add: reserve_event_def)
  note def = assms(1) [unfolded triage_event_def u if_not_P [OF assms(2)] Let_def split_conv]
  consider (merged) "db' = ?db" | (attached) c where "attach_step t up c e ?db = (outc, db')"
    | (fresh) "triage_fresh ie fr t (up_alert up) e now (describe_alert (up_alert up) e ?db) = Some (outc, db')"
    using def by (auto split: if_splits option.splits)
  then have "grows ?db db'"
  proof cases
    case fresh
    have same: "plane_part (describe_alert (up_alert up) e ?db) = plane_part ?db" by simp
    have "grows (describe_alert (up_alert up) e ?db) db'"
      using triage_fresh_grows [OF fresh] \<open>fr_run fr \<notin> run_id ` set (runs ?db)\<close> plane_part_runs [OF same] by simp
    from grows_trans [OF same this refl] show ?thesis .
  qed (use attach_part in \<open>auto intro!: grows_part\<close>)
  with part show thesis by (rule that)
qed

lemma reserve_event_part [simp]:
  "runs (reserve_event t e al now db) = runs db" "ledger (reserve_event t e al now db) = ledger db"
  "dispatches (reserve_event t e al now db) = dispatches db"
  by (simp_all add: reserve_event_def)

lemma triage_event_grows:
  assumes "triage_event ie fr t e now db = Some (outc, db')" "fr_run fr \<notin> run_id ` set (runs db)"
  shows "table_grows db db'"
proof (cases "seen_event t e db")
  case True
  with assms(1) show ?thesis by (simp add: triage_event_def table_grows_def creates_def)
next
  case False
  then show ?thesis
    by (rule triage_event_reserves [OF assms(1) _ assms(2)]) (simp add: grows_def table_grows_def plane_part_def)
qed

lemma grows_moves: "table_grows db db' \<Longrightarrow> moves L L None (runs db) (runs db')"
  by (auto simp: table_grows_def moves_def intro!: list_all2_refl life.idle)

lemma fail_open_part:
  "runs (fail_open_runs t c err now db) = update_where (open_run_of t c) (fail_row err now) (runs db)"
  "ledger (fail_open_runs t c err now db) = ledger db" "dispatches (fail_open_runs t c err now db) = dispatches db"
  by (simp_all add: fail_open_runs_def)

lemma cancel_part:
  assumes "cancel_investigation t c rsn actor now db = Inr db'"
  shows "runs db' = update_where (open_run_of t c) (fail_row ''investigation cancelled'' now) (runs db) \<and>
    ledger db' = ledger db \<and> dispatches db' = dispatches db"
  using assms by (auto simp: cancel_investigation_def Let_def fail_open_part split: option.splits if_splits)

lemma merge_part:
  "runs (merge_investigations t keep other who note now db) =
     update_where (open_run_of t other) (fail_row ''investigation merged'' now) (runs db)"
  "ledger (merge_investigations t keep other who note now db) = ledger db"
  "dispatches (merge_investigations t keep other who note now db) = dispatches db"
  by (simp_all add: merge_investigations_def Let_def record_label_def fail_open_part)

lemma plane_part_three [simp]:
  "plane_part (db\<lparr> cases := cs, alerts := as, entity_keys := ks \<rparr>) = plane_part db"
  "plane_part (db\<lparr> alerts := as, entity_keys := ks, cases := cs \<rparr>) = plane_part db"
  by (simp_all add: plane_part_def)

lemma detach_grows:
  assumes "detach_alert env prices nc nr t a who note now db = Some db'" "nr \<notin> run_id ` set (runs db)"
  shows "grows db db'"
  using assms
  by (auto simp: detach_alert_def Let_def split: bind_splits option.splits elim!: start_run_grows_via)

subsection \<open>Every step moves the table\<close>

lemma distinct_map_eq: "distinct (map f xs) \<Longrightarrow> x \<in> set xs \<Longrightarrow> y \<in> set xs \<Longrightarrow> f x = f y \<Longrightarrow> x = y"
  by (simp add: distinct_map inj_on_def)

lemma moves_plane_part: "plane_part db' = plane_part db \<Longrightarrow> moves L L None (runs db) (runs db')"
  by (simp add: plane_part_def)

lemma step_moves:
  assumes "run_step (L, db) (L', db')" "distinct (map run_id (runs db))"
  shows "\<exists>g. moves L L' g (runs db) (runs db')"
  using assms(1)
proof cases
  case (create rid env prices t c settle now)
  then show ?thesis
    using creates_start_run by (fastforce simp: moves_def intro: list_all2_refl life.idle)
next
  case (claim lid env ck t worker now out)
  from claim(3) show ?thesis
  proof (cases rule: claim_part)
    case same
    with claim show ?thesis by (auto intro!: exI [of _ None])
  next
    case (lease r)
    have "moves L L' (Some (run_id r, lid)) (runs db) (runs db')"
      unfolding lease(3) using claim(1,2) lease(1,2) assms(2)
      by (auto intro!: moves_update life.leased simp: claimable_def dest: distinct_map_eq)
    then show ?thesis ..
  qed
next
  case (heartbeat t rid lid rep now)
  then show ?thesis
    by (auto dest!: heartbeat_part intro!: exI [of _ None] moves_update life.kept dest: holds_leaseD)
next
  case (release backoff t rid lid cat rep now)
  then show ?thesis
    by (auto dest!: release_part intro!: exI [of _ None] moves_update life.released dest: holds_leaseD)
next
  case (complete ce t rid p now ch)
  from complete(3,2) obtain mid new where
      "mid = update_where (holds_lease t rid (cp_lease p)) (complete_row p now) (runs db)" "complete_valid p"
      "runs db' = mid @ new" "creates mid new"
    by (rule complete_run_part) blast
  moreover from this(1,2) have "list_all2 (life None) (runs db) mid"
    by (auto intro!: list_all2_update_where life.idle life.completed dest: holds_leaseD)
  ultimately show ?thesis
    using complete(1) by (auto simp: moves_def intro!: exI [of _ None])
next
  case (worker_events t rid lid es)
  then show ?thesis by (auto dest!: append_run_events_part moves_plane_part)
next
  case (unlock env ck ex who t rid req now res)
  then show ?thesis
    by (auto elim!: unlock_part intro!: exI [of _ None] moves_update life.resumed)
next
  case (ingest_event fr ie t e now outc)
  then show ?thesis using triage_event_grows grows_moves by blast
next
  case (cancel t c rsn actor now)
  then show ?thesis
    by (auto dest!: cancel_part simp: open_run_of_def intro!: exI [of _ None] moves_update life.failed)
next
  case (merge t keep other who nt now)
  then show ?thesis
    by (auto simp: merge_part open_run_of_def intro!: exI [of _ None] moves_update life.failed)
next
  case (detach nr env prices nc t a who nt now)
  then show ?thesis using detach_grows grows_moves grows_def by blast
next
  case (reap now)
  then show ?thesis
    by (auto simp: reap_expired_leases_def intro!: exI [of _ None] moves_update life.reaped)
next
  case elsewhere
  then show ?thesis by auto
qed

end
