(* ===== verification/Ir_Plane_Correct.thy ===== *)
theory Ir_Plane_Correct
  imports Ir_Plane
begin

text \<open>
  What the run plane guarantees in every reachable state: the shape of the run table, leases that
  fence off a worker which lost its run, terminal runs that never change, one dispatch per run, and
  a ledger that never falls behind what the runs report.
\<close>

subsection \<open>Leased tables\<close>

text \<open>
  Rows with a key and at most one owner, and turns that never move a key and only ever give a row
  the owner granted to its key. An owner is \<open>exclusive\<close> when it was issued and owns one key.
\<close>

definition exclusive :: "('r \<Rightarrow> 'k) \<Rightarrow> ('r \<Rightarrow> 'l option) \<Rightarrow> 'l set \<Rightarrow> 'r list \<Rightarrow> bool" where
  "exclusive key owner L rs \<longleftrightarrow>
     distinct (map key rs) \<and> (\<forall>r\<in>set rs. \<forall>l. owner r = Some l \<longrightarrow> l \<in> L) \<and>
     (\<forall>r\<in>set rs. \<forall>q\<in>set rs. \<forall>l. owner r = Some l \<longrightarrow> owner q = Some l \<longrightarrow> key r = key q)"

locale leased_table =
  fixes key :: "'r \<Rightarrow> 'k" and owner :: "'r \<Rightarrow> 'l option" and turn :: "('k \<times> 'l) option \<Rightarrow> 'r \<Rightarrow> 'r \<Rightarrow> bool"
  assumes key_turn: "turn g r r' \<Longrightarrow> key r' = key r"
    and owner_turn: "turn g r r' \<Longrightarrow>
      owner r' = None \<or> owner r' = owner r \<or> (\<exists>l. owner r' = Some l \<and> g = Some (key r, l))"
begin

lemma keys_turn: "list_all2 (turn g) rs rs' \<Longrightarrow> map key rs' = map key rs"
  by (erule list_all2_map_eq) (rule key_turn)

lemma owner_after:
  assumes "list_all2 (turn g) rs rs'" "r' \<in> set rs'" "owner r' = Some l"
  obtains r where "r \<in> set rs" "key r' = key r" "owner r = Some l \<or> g = Some (key r, l)"
  using assms list_all2_setD [OF assms(1,2)] by (metis key_turn owner_turn option.distinct(1) option.inject)

lemma exclusive_turn:
  assumes "exclusive key owner L rs" "list_all2 (turn g) rs rs'" "L \<subseteq> L'" "\<And>k l. g = Some (k, l) \<Longrightarrow> l \<notin> L \<and> l \<in> L'"
  shows "exclusive key owner L' rs'"
proof -
  have issued: "l \<in> L'" if "r' \<in> set rs'" "owner r' = Some l" for r' l
    using owner_after [OF assms(2) that] assms(1,3,4) by (metis exclusive_def subsetD)
  have one: "key r' = key q'" if "r' \<in> set rs'" "owner r' = Some l" "q' \<in> set rs'" "owner q' = Some l" for r' q' l
  proof -
    note rows = that
    obtain r where r: "r \<in> set rs" "key r' = key r" "owner r = Some l \<or> g = Some (key r, l)"
      by (rule owner_after [OF assms(2) rows(1,2)])
    obtain q where q: "q \<in> set rs" "key q' = key q" "owner q = Some l \<or> g = Some (key q, l)"
      by (rule owner_after [OF assms(2) rows(3,4)])
    show ?thesis
    proof (cases "\<exists>k. g = Some (k, l)")
      case True
      then have "l \<notin> L" using assms(4) by blast
      with assms(1) r(1) q(1) have "owner r \<noteq> Some l" "owner q \<noteq> Some l"
        unfolding exclusive_def by blast+
      with r q show ?thesis by simp
    next
      case False
      with r q have "owner r = Some l" "owner q = Some l" by auto
      then have "key r = key q"
        using assms(1) r(1) q(1) unfolding exclusive_def by blast
      with r(2) q(2) show ?thesis by simp
    qed
  qed
  have "distinct (map key rs')"
    using assms(1) by (simp add: exclusive_def keys_turn [OF assms(2)])
  then show ?thesis
    unfolding exclusive_def using issued one by blast
qed

lemma exclusive_new:
  assumes "exclusive key owner L rs" "owner n = None" "key n \<notin> key ` set rs"
  shows "exclusive key owner L (rs @ [n])"
proof -
  have "distinct (map key (rs @ [n]))"
    using assms(1,3) by (simp add: exclusive_def)
  moreover have "r \<in> set rs" if "r \<in> set (rs @ [n])" "owner r = Some l" for r l
    using that assms(2) by auto
  ultimately show ?thesis
    using assms(1) unfolding exclusive_def by blast
qed

lemma lost_stays_lost:
  assumes "list_all2 (turn g) rs rs'" "\<forall>r\<in>set rs. owner r \<noteq> Some l" "\<And>k. g \<noteq> Some (k, l)"
  shows "\<forall>r\<in>set rs'. owner r \<noteq> Some l"
  using assms owner_after [OF assms(1)] by metis

end

interpretation lease: leased_table run_id holder life
proof unfold_locales
  show "run_id r' = run_id r" if "life g r r'" for g r r'
    using life_same [OF that] by simp
  show "holder r' = None \<or> holder r' = holder r \<or> (\<exists>l. holder r' = Some l \<and> g = Some (run_id r, l))"
    if "life g r r'" for g r r'
    using life_lease [OF that] .
qed

subsection \<open>The shape of the run table\<close>

definition one_open_run :: "run_row list \<Rightarrow> bool" where
  "one_open_run rs \<longleftrightarrow>
     (\<forall>r\<in>set rs. \<forall>q\<in>set rs. open_status (run_status r) \<longrightarrow> open_status (run_status q) \<longrightarrow>
        run_case r = run_case q \<longrightarrow> run_id r = run_id q)"

definition plane_ok :: "uid set \<Rightarrow> run_row list \<Rightarrow> bool" where
  "plane_ok L rs \<longleftrightarrow> exclusive run_id holder L rs \<and> one_open_run rs \<and> (\<forall>r\<in>set rs. row_ok r)"

lemma plane_ok_distinct: "plane_ok L rs \<Longrightarrow> distinct (map run_id rs)"
  by (simp add: plane_ok_def exclusive_def)

lemma one_openD:
  "one_open_run rs \<Longrightarrow> r \<in> set rs \<Longrightarrow> q \<in> set rs \<Longrightarrow> open_status (run_status r) \<Longrightarrow>
     open_status (run_status q) \<Longrightarrow> run_case r = run_case q \<Longrightarrow> run_id r = run_id q"
  unfolding one_open_run_def by blast

lemma one_open_life:
  assumes "one_open_run rs" "list_all2 (life g) rs rs'" shows "one_open_run rs'"
  unfolding one_open_run_def
proof (intro ballI impI)
  fix r' q' assume *: "r' \<in> set rs'" "q' \<in> set rs'" "open_status (run_status r')" "open_status (run_status q')"
    "run_case r' = run_case q'"
  obtain r where r: "r \<in> set rs" "life g r r'"
    using list_all2_setD [OF assms(2) *(1)] by blast
  obtain q where q: "q \<in> set rs" "life g q q'"
    using list_all2_setD [OF assms(2) *(2)] by blast
  have "run_case r = run_case q"
    using life_same [OF r(2)] life_same [OF q(2)] *(5) by metis
  then have "run_id r = run_id q"
    by (rule one_openD [OF assms(1) r(1) q(1) life_open [OF r(2) *(3)] life_open [OF q(2) *(4)]])
  then show "run_id r' = run_id q'"
    using life_same [OF r(2)] life_same [OF q(2)] by metis
qed

lemma one_open_creates: "one_open_run rs \<Longrightarrow> creates rs new \<Longrightarrow> one_open_run (rs @ new)"
  unfolding creates_def
proof (elim disjE exE conjE)
  fix n assume "one_open_run rs" "new = [n]" "\<forall>r\<in>set rs. open_status (run_status r) \<longrightarrow> run_case r \<noteq> run_case n"
  then show "one_open_run (rs @ new)"
    unfolding one_open_run_def by (metis Un_iff empty_iff list.set(1) set_ConsD set_append)
qed simp

lemma new_row_holder [simp]: "new_row n \<Longrightarrow> holder n = None"
  by (simp add: new_row_def holder_def)

lemma new_row_ok: "new_row n \<Longrightarrow> row_ok n"
  by (simp add: new_row_def row_ok_def)

lemma plane_ok_moves:
  assumes "plane_ok L rs" "moves L L' g rs rs'" shows "plane_ok L' rs'"
proof -
  obtain mid new where m: "rs' = mid @ new" "list_all2 (life g) rs mid" "creates mid new"
      and L: "L \<subseteq> L'" "\<And>i l. g = Some (i, l) \<Longrightarrow> l \<notin> L \<and> l \<in> L'"
    using assms(2) by (auto simp: moves_def)
  have ex: "exclusive run_id holder L' mid"
    using assms(1) by (intro lease.exclusive_turn [OF _ m(2) L]) (simp add: plane_ok_def)
  then have "exclusive run_id holder L' rs'"
    using m(1,3) by (auto simp: creates_def new_row_holder intro: lease.exclusive_new)
  moreover have "one_open_run rs'"
    unfolding m(1) using assms(1) by (intro one_open_creates [OF _ m(3)] one_open_life [OF _ m(2)]) (simp add: plane_ok_def)
  moreover have "\<forall>r\<in>set mid. row_ok r"
    using assms(1) list_all2_setD [OF m(2)] life_ok by (fastforce simp: plane_ok_def)
  ultimately show ?thesis
    using m(1,3) new_row_ok by (auto simp: plane_ok_def creates_def)
qed

lemma plane_ok_step:
  assumes "run_step s s'" "plane_ok (fst s) (runs (snd s))" shows "plane_ok (fst s') (runs (snd s'))"
proof -
  have "\<exists>g. moves (fst s) (fst s') g (runs (snd s)) (runs (snd s'))"
    using assms by (intro step_moves) (simp_all add: plane_ok_distinct)
  with assms(2) show ?thesis using plane_ok_moves by blast
qed

lemma plane_ok_steps:
  "run_steps s s' \<Longrightarrow> plane_ok (fst s) (runs (snd s)) \<Longrightarrow> plane_ok (fst s') (runs (snd s'))"
  by (induction rule: rtranclp_induct) (auto intro: plane_ok_step)

lemma plane_ok_reachable: "reachable_plane s \<Longrightarrow> plane_ok (fst s) (runs (snd s))"
  unfolding reachable_plane_def
  by (erule plane_ok_steps) (simp add: plane_ok_def exclusive_def one_open_run_def empty_db_def)

lemma reachable_steps: "reachable_plane s \<Longrightarrow> run_steps s s' \<Longrightarrow> reachable_plane s'"
  unfolding reachable_plane_def by (rule rtranclp_trans)

lemma reachable_moves:
  assumes "reachable_plane s" "run_step s s'"
  obtains g where "moves (fst s) (fst s') g (runs (snd s)) (runs (snd s'))"
  using step_moves [of "fst s" "snd s" "fst s'" "snd s'"] assms plane_ok_distinct [OF plane_ok_reachable] by auto

subsection \<open>Terminal runs and lost leases\<close>

lemma moves_terminal:
  "moves L L' g rs rs' \<Longrightarrow> r \<in> set rs \<Longrightarrow> terminal (run_status r) \<Longrightarrow> r \<in> set rs'"
  by (auto simp: moves_def dest!: list_all2_setI dest: life_terminal)

lemma moves_lost:
  assumes "moves L L' g rs rs'" "l \<in> L" "\<forall>r\<in>set rs. holder r \<noteq> Some l"
  shows "\<forall>r\<in>set rs'. holder r \<noteq> Some l"
proof -
  obtain mid new where m: "rs' = mid @ new" "list_all2 (life g) rs mid" "creates mid new" "\<And>i. g \<noteq> Some (i, l)"
    using assms(1,2) by (auto simp: moves_def)
  from lease.lost_stays_lost [OF m(2) assms(3) m(4)] m(1,3) show ?thesis
    by (auto simp: creates_def)
qed

lemma frozen_steps:
  assumes "run_steps s s'" "reachable_plane s" "r \<in> set (runs (snd s))" "terminal (run_status r)"
  shows "r \<in> set (runs (snd s'))"
  using assms
  by (induction rule: rtranclp_induct) (auto elim!: reachable_moves [OF reachable_steps] dest: moves_terminal)

lemma lost_steps:
  assumes "run_steps s s'" "reachable_plane s" "l \<in> fst s" "\<forall>r\<in>set (runs (snd s)). holder r \<noteq> Some l"
  shows "l \<in> fst s' \<and> (\<forall>r\<in>set (runs (snd s')). holder r \<noteq> Some l)"
  using assms
proof (induction rule: rtranclp_induct)
  case (step s1 s2)
  then obtain g where "moves (fst s1) (fst s2) g (runs (snd s1)) (runs (snd s2))"
    using reachable_moves reachable_steps by blast
  with step show ?case using moves_lost by (auto simp: moves_def)
qed simp

subsection \<open>Dispatches\<close>

definition dispatch_ok :: "run_row list \<Rightarrow> dispatch_call list \<Rightarrow> bool" where
  "dispatch_ok rs ds \<longleftrightarrow> distinct (map dispatch_run ds) \<and>
     (\<forall>d\<in>set ds. \<exists>r\<in>set rs. run_id r = dispatch_run d \<and> run_status r = RunCompleted)"

lemma step_dispatches:
  assumes "run_step (L, db) (L', db')"
  shows "dispatches db' = dispatches db \<or>
    (\<exists>d r r'. dispatches db' = dispatches db @ [d] \<and> r \<in> set (runs db) \<and> run_id r = dispatch_run d \<and>
       run_status r = Active \<and> r' \<in> set (runs db') \<and> run_id r' = dispatch_run d \<and> run_status r' = RunCompleted)"
  using assms
proof cases
  case (complete ce t rid p now ch)
  obtain r mid new ds where c: "r \<in> set (runs db)" "holds_lease t rid (cp_lease p) r"
      "mid = update_where (holds_lease t rid (cp_lease p)) (complete_row p now) (runs db)"
      "runs db' = mid @ new" "dispatches db' = dispatches db @ ds" "dispatched rid p ds"
    by (rule complete_run_part [OF complete(3,2)]) blast
  then have "complete_row p now r \<in> set (runs db')"
    by (auto simp: set_update_where)
  moreover have "run_id (complete_row p now r) = rid" "run_id r = rid" "run_status r = Active"
      "run_status (complete_row p now r) = cp_status p"
    using c(2) by (auto dest!: holds_leaseD simp: complete_row_def drop_lease_def)
  ultimately show ?thesis
    using c(1,5,6) unfolding dispatched_def by (metis append_Nil2)
next
  case (ingest_event fr ie t e now outc)
  then show ?thesis using triage_event_grows [OF ingest_event(3,2)] by (simp add: table_grows_def)
next
  case (detach nr env prices nc t a who nt now)
  then show ?thesis using detach_grows [OF detach(3,2)] by (simp add: grows_def table_grows_def)
qed (auto dest!: cancel_part heartbeat_part release_part append_run_events_part start_run_frame elim!: unlock_part claim_part
      simp: plane_part_def reap_expired_leases_def merge_part)

lemma dispatch_ok_step:
  assumes "run_step s s'" "reachable_plane s" "dispatch_ok (runs (snd s)) (dispatches (snd s))"
  shows "dispatch_ok (runs (snd s')) (dispatches (snd s'))"
proof -
  have frozen: "r \<in> set (runs (snd s'))" if "r \<in> set (runs (snd s))" "run_status r = RunCompleted" for r
    using frozen_steps [OF _ assms(2) that(1)] assms(1) that(2) by (simp add: terminal_def r_into_rtranclp)
  have old: "\<forall>d\<in>set (dispatches (snd s)). \<exists>r\<in>set (runs (snd s')). run_id r = dispatch_run d \<and> run_status r = RunCompleted"
    using assms(3) frozen unfolding dispatch_ok_def by meson
  have "run_step (fst s, snd s) (fst s', snd s')" using assms(1) by simp
  from step_dispatches [OF this] show ?thesis
  proof (elim disjE exE conjE)
    fix d r r'
    assume d: "dispatches (snd s') = dispatches (snd s) @ [d]" "r \<in> set (runs (snd s))" "run_id r = dispatch_run d"
      "run_status r = Active" "r' \<in> set (runs (snd s'))" "run_id r' = dispatch_run d" "run_status r' = RunCompleted"
    have "dispatch_run d \<notin> dispatch_run ` set (dispatches (snd s))"
    proof
      assume "dispatch_run d \<in> dispatch_run ` set (dispatches (snd s))"
      then obtain q where q: "q \<in> set (runs (snd s))" "run_id q = dispatch_run d" "run_status q = RunCompleted"
        using assms(3) unfolding dispatch_ok_def by (metis imageE)
      have "q = r"
        using distinct_map_eq [OF plane_ok_distinct [OF plane_ok_reachable [OF assms(2)]] q(1) d(2)] q(2) d(3) by simp
      with q(3) d(4) show False by simp
    qed
    with d old assms(3) show ?thesis by (auto simp: dispatch_ok_def)
  qed (use old assms(3) in \<open>simp add: dispatch_ok_def\<close>)
qed

lemma dispatch_ok_steps:
  "run_steps s s' \<Longrightarrow> reachable_plane s \<Longrightarrow> dispatch_ok (runs (snd s)) (dispatches (snd s)) \<Longrightarrow>
     dispatch_ok (runs (snd s')) (dispatches (snd s'))"
  by (induction rule: rtranclp_induct) (auto intro: dispatch_ok_step reachable_steps)

lemma reachable_start: "reachable_plane ({}, empty_db)"
  by (simp add: reachable_plane_def)

lemma dispatch_ok_reachable: "reachable_plane s \<Longrightarrow> dispatch_ok (runs (snd s)) (dispatches (snd s))"
  using dispatch_ok_steps [OF _ reachable_start] by (simp add: reachable_plane_def dispatch_ok_def empty_db_def)

subsection \<open>The ledger\<close>

definition ledger_tokens :: "uid \<Rightarrow> ledger_row list \<Rightarrow> int" where
  "ledger_tokens rid ls = (\<Sum>l\<leftarrow>ls. if l_run l = rid then l_tokens l else 0)"

definition ledger_dollars :: "uid \<Rightarrow> ledger_row list \<Rightarrow> rat" where
  "ledger_dollars rid ls = (\<Sum>l\<leftarrow>ls. if l_run l = rid then l_dollars l else 0)"

definition ledger_ok :: "run_row list \<Rightarrow> ledger_row list \<Rightarrow> bool" where
  "ledger_ok rs ls \<longleftrightarrow> (\<forall>l\<in>set ls. 0 \<le> l_tokens l \<and> 0 \<le> l_dollars l) \<and>
     (\<forall>r\<in>set rs. run_tokens_used r \<le> ledger_tokens (run_id r) ls \<and> run_dollars_used r \<le> ledger_dollars (run_id r) ls)"

lemma ledger_append [simp]:
  "ledger_tokens rid (ls @ ms) = ledger_tokens rid ls + ledger_tokens rid ms"
  "ledger_dollars rid (ls @ ms) = ledger_dollars rid ls + ledger_dollars rid ms"
  by (simp_all add: ledger_tokens_def ledger_dollars_def)

lemma ledger_nonneg:
  "\<forall>l\<in>set ls. 0 \<le> l_tokens l \<and> 0 \<le> l_dollars l \<Longrightarrow> 0 \<le> ledger_tokens rid ls \<and> 0 \<le> ledger_dollars rid ls"
  by (auto simp: ledger_tokens_def ledger_dollars_def intro!: sum_list_nonneg)

text \<open>The rows of one report carry exactly its delta.\<close>

lemma delta_rows_sum:
  assumes "u \<le> d"
  shows "ledger_tokens q (delta_rows t rid rep n d u now) = (if q = rid then n else 0)"
    "ledger_dollars q (delta_rows t rid rep n d u now) = (if q = rid then d else 0)"
  using assms by (auto simp: delta_rows_def ledger_tokens_def ledger_dollars_def Let_def)

lemma delta_rows_nonneg:
  "0 \<le> n \<Longrightarrow> 0 \<le> d \<Longrightarrow> l \<in> set (delta_rows t rid rep n d u now) \<Longrightarrow> 0 \<le> l_tokens l \<and> 0 \<le> l_dollars l"
  by (auto simp: delta_rows_def Let_def split: if_splits)

lemma new_unpriced_le: "0 \<le> d \<Longrightarrow> new_unpriced rep a d \<le> d"
  by (simp add: new_unpriced_def split: option.splits)

lemma spend_delta_ledger:
  assumes "run_of t rid db = Some prev"
  obtains new where "ledger (record_spend_delta t rid rep now db) = ledger db @ new"
    "\<forall>l\<in>set new. 0 \<le> l_tokens l \<and> 0 \<le> l_dollars l"
    "\<And>q. ledger_tokens q new = (if q = rid then max 0 (rep_tokens rep - run_tokens_used prev) else 0)"
    "\<And>q. ledger_dollars q new = (if q = rid then max 0 (dollars_or_zero (rep_dollars rep) - run_dollars_used prev) else 0)"
proof (cases "max 0 (rep_tokens rep - run_tokens_used prev) = 0 \<and> max 0 (dollars_or_zero (rep_dollars rep) - run_dollars_used prev) = 0")
  case True
  with assms show thesis
    by (intro that [of "[]"]) (auto simp: record_spend_delta_def ledger_tokens_def ledger_dollars_def)
next
  case False
  let ?d = "max 0 (dollars_or_zero (rep_dollars rep) - run_dollars_used prev)"
  let ?n = "max 0 (rep_tokens rep - run_tokens_used prev)"
  let ?rows = "delta_rows t rid rep ?n ?d (new_unpriced rep (unpriced_of rid db) ?d) now"
  have "new_unpriced rep (unpriced_of rid db) ?d \<le> ?d"
    by (rule new_unpriced_le) simp
  note sums = delta_rows_sum [OF this]
  show thesis
  proof (rule that [of ?rows])
    show "ledger (record_spend_delta t rid rep now db) = ledger db @ ?rows"
      unfolding record_spend_delta_def Let_def assms option.case if_not_P [OF False] by simp
    show "\<forall>l\<in>set ?rows. 0 \<le> l_tokens l \<and> 0 \<le> l_dollars l"
      by (intro ballI delta_rows_nonneg) auto
  qed (simp_all only: sums)
qed

lemma spend_to_used [simp]:
  "run_tokens_used (spend_to rep r) = rep_tokens rep"
  "run_dollars_used (spend_to rep r) = (case rep_dollars rep of None \<Rightarrow> run_dollars_used r | Some d \<Rightarrow> d)"
  by (simp_all add: spend_to_def)

lemma ledger_ok_report:
  assumes "ledger_ok (runs db) (ledger db)" "distinct (map run_id (runs db))"
    and "r0 \<in> set (runs db)" "holds_lease t rid lid r0"
    and same: "\<And>r. run_id (f r) = run_id r" "\<And>r. run_tokens_used (f r) = run_tokens_used (spend_to rep r)"
      "\<And>r. run_dollars_used (f r) = run_dollars_used (spend_to rep r)"
  shows "ledger_ok (update_where (holds_lease t rid lid) f (runs db)) (ledger (record_spend_delta t rid rep now db))"
proof -
  have "run_of t rid db \<noteq> None"
    using assms(3,4) by (auto simp: run_of_def find_None_iff dest!: holds_leaseD)
  then obtain prev where prev: "run_of t rid db = Some prev" by blast
  have r0: "prev = r0"
    using run_of_Some [OF prev] assms(3) holds_leaseD [OF assms(4)] distinct_map_eq [OF assms(2)] by metis
  have only: "r = r0" if "r \<in> set (runs db)" "holds_lease t rid lid r" for r
    using that assms(3) holds_leaseD [OF assms(4)] distinct_map_eq [OF assms(2)] holds_leaseD by metis
  obtain new where new: "ledger (record_spend_delta t rid rep now db) = ledger db @ new"
      "\<forall>l\<in>set new. 0 \<le> l_tokens l \<and> 0 \<le> l_dollars l"
      "\<And>q. ledger_tokens q new = (if q = rid then max 0 (rep_tokens rep - run_tokens_used r0) else 0)"
      "\<And>q. ledger_dollars q new = (if q = rid then max 0 (dollars_or_zero (rep_dollars rep) - run_dollars_used r0) else 0)"
    using spend_delta_ledger [OF prev] r0 by metis
  have old: "run_tokens_used r \<le> ledger_tokens (run_id r) (ledger db)" "run_dollars_used r \<le> ledger_dollars (run_id r) (ledger db)"
    if "r \<in> set (runs db)" for r
    using assms(1) that by (auto simp: ledger_ok_def)
  have "run_tokens_used (f r0) \<le> ledger_tokens rid (ledger db @ new)"
      "run_dollars_used (f r0) \<le> ledger_dollars rid (ledger db @ new)"
    using old [OF assms(3)] holds_leaseD [OF assms(4)] by (auto simp: same new(3,4) dollars_or_zero_def split: option.splits)
  moreover have "run_tokens_used r \<le> ledger_tokens (run_id r) (ledger db @ new)"
      "run_dollars_used r \<le> ledger_dollars (run_id r) (ledger db @ new)" if "r \<in> set (runs db)" for r
    using old [OF that] ledger_nonneg [OF new(2), of "run_id r"] by (simp_all add: add_increasing2)
  ultimately have rows: "run_tokens_used r' \<le> ledger_tokens (run_id r') (ledger db @ new) \<and>
      run_dollars_used r' \<le> ledger_dollars (run_id r') (ledger db @ new)"
    if "r' \<in> set (update_where (holds_lease t rid lid) f (runs db))" for r'
    using that only holds_leaseD [OF assms(4)] unfolding set_update_where same by (force simp: same)
  have "\<forall>l\<in>set (ledger db @ new). 0 \<le> l_tokens l \<and> 0 \<le> l_dollars l"
    using assms(1) new(2) unfolding ledger_ok_def set_append by blast
  with rows show ?thesis
    unfolding ledger_ok_def new(1) by blast
qed

lemma ledger_ok_new: "ledger_ok rs ls \<Longrightarrow> creates rs new \<Longrightarrow> ledger_ok (rs @ new) ls"
  using ledger_nonneg by (auto simp: ledger_ok_def creates_def new_row_def)

lemma ledger_ok_same:
  "ledger_ok rs ls \<Longrightarrow> (\<And>r. run_id (f r) = run_id r \<and> run_tokens_used (f r) = run_tokens_used r \<and>
     run_dollars_used (f r) = run_dollars_used r) \<Longrightarrow> ledger_ok (update_where p f rs) ls"
  by (auto simp: ledger_ok_def set_update_where)

lemma ledger_ok_grows: "table_grows db db' \<Longrightarrow> ledger_ok (runs db) (ledger db) \<Longrightarrow> ledger_ok (runs db') (ledger db')"
  by (auto simp: table_grows_def intro: ledger_ok_new)

lemma creates_start: "start_run env prices rid t c settle now db = Some db' \<Longrightarrow> rid \<notin> run_id ` set (runs db) \<Longrightarrow>
    ledger_ok (runs db) (ledger db) \<Longrightarrow> ledger_ok (runs db') (ledger db')"
  using creates_start_run start_run_frame ledger_ok_new by metis

lemma ledger_ok_step:
  assumes "run_step (L, db) (L', db')" "ledger_ok (runs db) (ledger db)" "distinct (map run_id (runs db))"
  shows "ledger_ok (runs db') (ledger db')"
  using assms(1)
proof cases
  case (create rid env prices t c settle now)
  then show ?thesis using creates_start assms(2) by blast
next
  case (claim lid env ck t worker now out)
  from claim(3) show ?thesis
  proof (cases rule: claim_part)
    case (lease r)
    show ?thesis unfolding lease(3) using assms(2)
      by (simp add: lease_to_def ledger_ok_same)
  qed (use assms(2) in simp)
next
  case (heartbeat t rid lid rep now)
  from heartbeat_part [OF heartbeat(2)] obtain r0 where "r0 \<in> set (runs db)" "holds_lease t rid lid r0" by blast
  from ledger_ok_report [OF assms(2,3) this] heartbeat_part [OF heartbeat(2)] show ?thesis by simp
next
  case (release backoff t rid lid cat rep now)
  from release_part [OF release(2)] obtain r0 where "r0 \<in> set (runs db)" "holds_lease t rid lid r0" by blast
  from ledger_ok_report [OF assms(2,3) this] release_part [OF release(2)] show ?thesis
    by (simp add: release_row_def drop_lease_def)
next
  case (complete ce t rid p now ch)
  obtain r mid new where c: "r \<in> set (runs db)" "holds_lease t rid (cp_lease p) r"
      "mid = update_where (holds_lease t rid (cp_lease p)) (complete_row p now) (runs db)"
      "runs db' = mid @ new" "creates mid new" "ledger db' = ledger (record_spend_delta t rid (cp_spend p) now db)"
    by (rule complete_run_part [OF complete(3,2)]) blast
  have "ledger_ok mid (ledger db')"
    unfolding c(3,6) by (rule ledger_ok_report [OF assms(2,3) c(1,2)]) (simp_all add: complete_row_def drop_lease_def)
  with c(4,5) show ?thesis by (simp add: ledger_ok_new)
next
  case (worker_events t rid lid es)
  then show ?thesis using assms(2) append_run_events_part by (fastforce simp: plane_part_def)
next
  case (unlock env ck ex who t rid req now res)
  obtain tb dol where "runs db' = update_where (\<lambda>q. run_id q = rid \<and> run_tenant q = t \<and> run_status q = HaltedBudget)
       (unlock_row tb dol now) (runs db)" "ledger db' = ledger db"
    by (rule unlock_part [OF unlock(2)])
  then show ?thesis using assms(2) by (simp add: ledger_ok_same unlock_row_def)
next
  case (ingest_event fr ie t e now outc)
  from triage_event_grows [OF ingest_event(3,2)] assms(2) show ?thesis by (rule ledger_ok_grows)
next
  case (cancel t c rsn actor now)
  then show ?thesis using assms(2) by (auto dest!: cancel_part intro!: ledger_ok_same simp: fail_row_def)
next
  case (merge t keep other who nt now)
  then show ?thesis using assms(2) by (auto simp: merge_part fail_row_def intro!: ledger_ok_same)
next
  case (detach nr env prices nc t a who nt now)
  from detach_grows [OF detach(3,2)] assms(2) show ?thesis by (auto simp: grows_def intro: ledger_ok_grows)
next
  case (reap now)
  then show ?thesis using assms(2) by (simp add: reap_expired_leases_def ledger_ok_same drop_lease_def)
next
  case elsewhere
  then show ?thesis using assms(2) by simp
qed

lemma ledger_ok_steps:
  "run_steps s s' \<Longrightarrow> reachable_plane s \<Longrightarrow> ledger_ok (runs (snd s)) (ledger (snd s)) \<Longrightarrow>
     ledger_ok (runs (snd s')) (ledger (snd s'))"
proof (induction rule: rtranclp_induct)
  case (step s1 s2)
  then show ?case
    using ledger_ok_step [of "fst s1" "snd s1" "fst s2" "snd s2"]
      plane_ok_distinct [OF plane_ok_reachable [OF reachable_steps]] by auto
qed simp

lemma ledger_ok_reachable: "reachable_plane s \<Longrightarrow> ledger_ok (runs (snd s)) (ledger (snd s))"
  using ledger_ok_steps [OF _ reachable_start] by (simp add: reachable_plane_def ledger_ok_def empty_db_def)

subsection \<open>A concrete plane\<close>

text \<open>One investigation of tenant 1, its run created, claimed and completed with a close.\<close>

definition demo_env :: policy_env where
  "demo_env = \<lparr> install_yaml = [], env_run_token_max = None, env_run_dollar_max = None, env_cost_tracking = None,
     env_unknown_model_cost = None, env_day_token_cap = None, env_day_dollar_cap = None,
     env_day_token_cap_max = None, env_day_dollar_cap_max = None, env_budget_tz = None, env_max_attempts = None,
     env_auto_close_kill = None \<rparr>"

definition demo_clock :: clock_env where
  "demo_clock = \<lparr> valid_timezone = (\<lambda>s. s = ''UTC''), postgres_knows = (\<lambda>s. s = ''UTC''),
     day_start = (\<lambda>_ _. 0), day_end = (\<lambda>_ _. 86400) \<rparr>"

definition demo_case :: case_row where
  "demo_case = \<lparr> case_id = 1, case_tenant = 1, case_title = ''c'', case_status = ''active'', case_severity = 5,
     case_summary = None, opened_at = 0, closed_at = None, close_reason = None, reopen_signature = None,
     reopen_until = None, reopen_count = 0, has_new_evidence = False, case_visibility = ''customer_safe'' \<rparr>"

definition demo_db :: ir_db where
  "demo_db = empty_db\<lparr> cases := [demo_case] \<rparr>"

definition demo_report :: "int \<Rightarrow> rat \<Rightarrow> spend_report" where
  "demo_report n d = \<lparr> rep_tokens = n, rep_dollars = Some d, rep_basis = Some ''estimated'', rep_source = Some ''builtin'',
     rep_unpriced = None \<rparr>"

definition demo_close :: complete_payload where
  "demo_close = \<lparr> cp_lease = 5, cp_status = RunCompleted, cp_spend = demo_report 10 1, cp_error = None,
     cp_disposition = Some ''close_fp'', cp_summary = None, cp_confidence = None, cp_enrichments = [] \<rparr>"

definition demo_ce :: completion_env where
  "demo_ce = \<lparr> ce_env = demo_env, ce_sha = id, ce_prices = Some None, ce_review = 9, ce_new_run = 8 \<rparr>"

definition or_empty :: "ir_db option \<Rightarrow> ir_db" where
  "or_empty r = (case r of None \<Rightarrow> empty_db | Some db \<Rightarrow> db)"

definition demo_started :: ir_db where
  "demo_started = or_empty (start_run demo_env (Some None) 7 1 1 0 0 demo_db)"

definition demo_leased :: ir_db where
  "demo_leased = or_empty (map_option snd (claim_run demo_env demo_clock 1 ''w'' 5 1 demo_started))"

definition demo_closed :: ir_db where
  "demo_closed = (case complete_run demo_ce 1 7 demo_close 2 demo_leased of Inl _ \<Rightarrow> empty_db | Inr r \<Rightarrow> snd r)"

lemma demo_started_ok: "start_run demo_env (Some None) 7 1 1 0 0 demo_db = Some demo_started"
proof -
  have "start_run demo_env (Some None) 7 1 1 0 0 demo_db \<noteq> None" by code_simp
  then show ?thesis by (auto simp: demo_started_def or_empty_def)
qed

lemma demo_leased_ok: "\<exists>out. claim_run demo_env demo_clock 1 ''w'' 5 1 demo_started = Some (out, demo_leased)"
proof -
  have "claim_run demo_env demo_clock 1 ''w'' 5 1 demo_started \<noteq> None" by code_simp
  then show ?thesis by (auto simp: demo_leased_def or_empty_def)
qed

lemma demo_closed_ok: "\<exists>ch. complete_run demo_ce 1 7 demo_close 2 demo_leased = Inr (ch, demo_closed)"
proof -
  have "case complete_run demo_ce 1 7 demo_close 2 demo_leased of Inl _ \<Rightarrow> False | Inr _ \<Rightarrow> True" by code_simp
  then show ?thesis by (auto simp: demo_closed_def split: sum.splits)
qed

text \<open>The columns of a concrete store the witnesses read, evaluated once.\<close>

definition probe :: "ir_db \<Rightarrow> (uid \<times> run_status \<times> uid option \<times> uid \<times> uid) list \<times> (uid \<times> uid \<times> string \<times> bool) list \<times> uid list" where
  "probe db = (map (\<lambda>r. (run_id r, run_status r, lease_id r, run_case r, run_tenant r)) (runs db),
     map (\<lambda>i. (case_id i, case_tenant i, case_status i, has_new_evidence i)) (cases db), map dispatch_run (dispatches db))"

lemma probe_run:
  assumes "probe db = ([(rid, st, l, c, t)], cs, ds)"
  obtains r where "runs db = [r]" "run_id r = rid" "run_status r = st" "lease_id r = l" "run_case r = c" "run_tenant r = t"
  using assms by (auto simp: probe_def map_eq_Cons_conv)

lemma probe_case:
  assumes "probe db = (rs, [(c, t, st, ev)], ds)"
  obtains i where "cases db = [i]" "case_id i = c" "case_tenant i = t" "case_status i = st" "has_new_evidence i = ev"
  using assms by (auto simp: probe_def map_eq_Cons_conv)

lemma probe_leased: "probe demo_leased = ([(7, Active, Some 5, 1, 1)], [(1, 1, ''active'', False)], [])"
  by code_simp

lemma probe_closed: "probe demo_closed = ([(7, RunCompleted, None, 1, 1)], [(1, 1, ''auto_closed_fp'', False)], [7])"
  by code_simp

lemma demo_reachable:
  "reachable_plane ({}, demo_started)" "reachable_plane ({5}, demo_leased)" "reachable_plane ({5}, demo_closed)"
proof -
  have db: "reachable_plane ({}, demo_db)"
    by (rule reachable_steps [OF reachable_start r_into_rtranclp], rule elsewhere)
      (simp_all add: demo_db_def empty_db_def)
  show started: "reachable_plane ({}, demo_started)"
    by (rule reachable_steps [OF db r_into_rtranclp], rule create [OF _ demo_started_ok])
      (simp add: demo_db_def empty_db_def)
  show leased: "reachable_plane ({5}, demo_leased)"
    using demo_leased_ok by (auto intro!: reachable_steps [OF started r_into_rtranclp] claim)
  have "ce_new_run demo_ce \<notin> run_id ` set (runs demo_leased)"
    by (rule probe_run [OF probe_leased]) (simp add: demo_ce_def)
  then show "reachable_plane ({5}, demo_closed)"
    using demo_closed_ok by (auto intro: reachable_steps [OF leased r_into_rtranclp] complete)
qed

end
