(* ===== verification/Ir_Plane_Props.thy ===== *)
theory Ir_Plane_Props
  imports Ir_Plane_Correct
begin

text \<open>
  The properties of the run plane: what holds of the run table in every reachable state, and what
  the single handlers promise.
\<close>

subsection \<open>Every reachable state\<close>

text \<open>
  Property C9. In every reachable state an investigation has at most one open run, a live lease
  belongs to at most one run, a lease is left only on an active run or on one that an analyst's
  cancel or merge failed under its worker, and an open run still has attempts left.
\<close>

theorem run_plane_shape:
  assumes "reachable_plane (L, db)" "r \<in> set (runs db)" "q \<in> set (runs db)"
  shows "(open_status (run_status r) \<longrightarrow> open_status (run_status q) \<longrightarrow> run_case r = run_case q \<longrightarrow> r = q) \<and>
    (holder r \<noteq> None \<longrightarrow> holder r = holder q \<longrightarrow> r = q) \<and>
    (lease_id r \<noteq> None \<longrightarrow> run_status r \<in> {Active, RunFailed}) \<and>
    (open_status (run_status r) \<longrightarrow> attempts r < max_attempts r)"
proof -
  have ok: "plane_ok L (runs db)"
    using plane_ok_reachable [OF assms(1)] by simp
  note same = distinct_map_eq [OF plane_ok_distinct [OF ok] assms(2,3)]
  have "open_status (run_status r) \<longrightarrow> open_status (run_status q) \<longrightarrow> run_case r = run_case q \<longrightarrow> r = q"
    using ok one_openD [OF _ assms(2,3)] same by (simp add: plane_ok_def)
  moreover have "holder r \<noteq> None \<longrightarrow> holder r = holder q \<longrightarrow> r = q"
  proof (intro impI)
    assume "holder r \<noteq> None" "holder r = holder q"
    then have "run_id r = run_id q"
      using ok assms(2,3) unfolding plane_ok_def exclusive_def by (metis option.exhaust)
    then show "r = q" by (rule same)
  qed
  ultimately show ?thesis
    using ok assms(2) by (simp add: plane_ok_def row_ok_def)
qed

text \<open>
  A completed or failed run is never touched again: whatever the plane does next, its row stays
  as it is.
\<close>

theorem terminal_runs_frozen:
  assumes "reachable_plane s" "run_steps s (L', db')" "r \<in> set (runs (snd s))" "terminal (run_status r)"
  shows "r \<in> set (runs db')"
  using frozen_steps [OF assms(2,1,3,4)] by simp

text \<open>
  Property C20. A lease that no run holds any more is worth nothing, for ever: in every later
  state a heartbeat, a release, an event batch or a completion that carries it is refused with
  409, so a worker that lost its run cannot write over the worker that took it.
\<close>

theorem lost_lease_refused:
  assumes "reachable_plane (L, db)" "run_steps (L, db) (L', db')"
    and "lid \<in> L" "\<forall>r\<in>set (runs db). holder r \<noteq> Some lid"
  shows "heartbeat_run t rid lid rep now db' = Inl (Http 409) \<and>
    release_run backoff t rid lid cat rep now db' = Inl (Http 409) \<and>
    append_run_events t rid lid es db' = Inl (Http 409) \<and>
    (complete_valid p \<longrightarrow> cp_lease p = lid \<longrightarrow> complete_run ce t rid p now db' = Inl (Http 409))"
proof -
  have "\<forall>r\<in>set (runs db'). holder r \<noteq> Some lid"
    using lost_steps [OF assms(2,1)] assms(3,4) by simp
  then have none: "\<forall>r\<in>set (runs db'). \<not> holds_lease t rid lid r"
    by (auto dest!: holds_leaseD simp: holder_def)
  then have "find (holds_lease t rid lid) (runs db') = None"
    by (simp add: find_None_iff)
  with none show ?thesis
    by (simp add: heartbeat_run_def release_run_def append_run_events_def complete_run_def Let_def)
qed

text \<open>
  Property C21. Response actions are dispatched at most once for a run, whatever is retried,
  released or reclaimed, and only for a run that completed.
\<close>

theorem dispatch_at_most_once:
  assumes "reachable_plane (L, db)"
  shows "distinct (map dispatch_run (dispatches db)) \<and>
    (\<forall>d\<in>set (dispatches db). \<exists>r\<in>set (runs db). run_id r = dispatch_run d \<and> run_status r = RunCompleted)"
  using dispatch_ok_reachable [OF assms] by (simp add: dispatch_ok_def)

text \<open>
  Property C22. The spend ledger never falls behind: the tokens and the dollars a run reports as
  spent are covered by the sum of its ledger rows, across heartbeats, releases, reclaims and
  completions, even when a later report claims less than an earlier one.
\<close>

theorem ledger_covers_runs:
  assumes "reachable_plane (L, db)" "r \<in> set (runs db)"
  shows "run_tokens_used r \<le> ledger_tokens (run_id r) (ledger db) \<and>
    run_dollars_used r \<le> ledger_dollars (run_id r) (ledger db)"
  using ledger_ok_reachable [OF assms(1)] assms(2) by (simp add: ledger_ok_def)

subsection \<open>Witnesses\<close>

theorem run_plane_shape_witness:
  "\<exists>r. runs demo_leased = [r] \<and> lease_id r = Some 5 \<and> attempts r < max_attempts r"
proof (rule probe_run [OF probe_leased])
  fix r assume r: "runs demo_leased = [r]" "run_status r = Active" "lease_id r = Some 5"
  with run_plane_shape [OF demo_reachable(2), of r r] show ?thesis by (simp add: open_status_def)
qed

theorem terminal_runs_frozen_witness:
  "\<exists>r. runs demo_closed = [r] \<and> run_status r = RunCompleted \<and> r \<in> set (runs (reap_expired_leases 9 demo_closed))"
proof (rule probe_run [OF probe_closed])
  fix r assume r: "runs demo_closed = [r]" "run_status r = RunCompleted"
  have "run_steps ({5}, demo_closed) ({5}, reap_expired_leases 9 demo_closed)"
    by (rule r_into_rtranclp) (rule reap)
  from terminal_runs_frozen [OF demo_reachable(3) this, of r] r show ?thesis by (simp add: terminal_def)
qed

theorem lost_lease_refused_witness:
  "heartbeat_run 1 7 5 (demo_report 20 2) 3 demo_closed = Inl (Http 409)"
proof (rule probe_run [OF probe_closed])
  fix r assume r: "runs demo_closed = [r]" "lease_id r = None"
  then have "\<forall>q\<in>set (runs demo_closed). holder q \<noteq> Some 5" by (simp add: holder_def)
  then show ?thesis
    using lost_lease_refused [OF demo_reachable(3) rtranclp.rtrancl_refl, of 5] by blast
qed

theorem dispatch_at_most_once_witness:
  "map dispatch_run (dispatches demo_closed) = [7] \<and> distinct (map dispatch_run (dispatches demo_closed))"
  using probe_closed dispatch_at_most_once [OF demo_reachable(3)] by (simp add: probe_def)

theorem ledger_covers_runs_witness:
  "\<exists>r. runs demo_closed = [r] \<and> run_tokens_used r \<le> ledger_tokens 7 (ledger demo_closed)"
proof (rule probe_run [OF probe_closed])
  fix r assume r: "runs demo_closed = [r]" "run_id r = 7"
  with ledger_covers_runs [OF demo_reachable(3), of r] show ?thesis by auto
qed

end
