(* ===== verification/Ir_Plane_Refine.thy ===== *)
theory Ir_Plane_Refine
  imports Ir_Plane_Correct
begin

text \<open>
  What the run plane promises to an outside observer: an abstract protocol in which a run is only
  its investigation and a phase, and the proof that the tables and handlers implement it.
\<close>

subsection \<open>The protocol\<close>

datatype phase = Waiting | Leased uid | Gated | Halted | Done | Dropped

definition phase_open :: "phase \<Rightarrow> bool" where
  "phase_open p \<longleftrightarrow> p \<notin> {Done, Dropped}"

text \<open>
  One run's move; \<open>grant\<close> is the lease handed out by the step, if it went to this run. A phase is only
  left by its owner's report, by a lapsed lease, by an operator's unlock or by an analyst's abort.
\<close>

inductive phase_move :: "uid option \<Rightarrow> phase \<Rightarrow> phase \<Rightarrow> bool" for grant where
  stay: "phase_move grant p p"
| take_up: "\<lbrakk> p = Waiting \<or> (\<exists>k. p = Leased k); grant = Some l \<rbrakk> \<Longrightarrow> phase_move grant p (Leased l)"
| give_back: "phase_move grant (Leased l) Waiting"
| finish: "p \<in> {Done, Dropped, Halted} \<Longrightarrow> phase_move grant (Leased l) p"
| resume: "phase_move grant Halted Waiting"
| abort: "phase_open p \<Longrightarrow> phase_move grant p Dropped"

inductive_cases phase_moveE: "phase_move grant p p'"

type_synonym protocol = "uid set \<times> (uid \<rightharpoonup> uid \<times> phase)"

definition grant_of :: "(uid \<times> uid) option \<Rightarrow> uid \<Rightarrow> uid option" where
  "grant_of g i = (case g of None \<Rightarrow> None | Some (j, l) \<Rightarrow> if i = j then Some l else None)"

text \<open>
  A step hands out at most one lease, never one handed out before, moves the runs there are, and adds
  at most one waiting run, to an investigation none of whose runs is open.
\<close>

definition moved :: "(uid \<times> uid) option \<Rightarrow> (uid \<rightharpoonup> uid \<times> phase) \<Rightarrow> (uid \<rightharpoonup> uid \<times> phase) \<Rightarrow> bool" where
  "moved g m m' \<longleftrightarrow> dom m' = dom m \<and>
     (\<forall>i c p. m i = Some (c, p) \<longrightarrow> (\<exists>p'. m' i = Some (c, p') \<and> phase_move (grant_of g i) p p'))"

definition added :: "(uid \<rightharpoonup> uid \<times> phase) \<Rightarrow> (uid \<rightharpoonup> uid \<times> phase) \<Rightarrow> bool" where
  "added m m' \<longleftrightarrow> m' = m \<or>
     (\<exists>i c. m i = None \<and> m' = m(i \<mapsto> (c, Waiting)) \<and> (\<forall>j p. m j = Some (c, p) \<longrightarrow> \<not> phase_open p))"

definition protocol_step :: "protocol \<Rightarrow> protocol \<Rightarrow> bool" where
  "protocol_step = (\<lambda>(L, m) (L', m'). \<exists>g mid. L \<subseteq> L' \<and> (\<forall>i l. g = Some (i, l) \<longrightarrow> l \<notin> L \<and> l \<in> L') \<and>
     moved g m mid \<and> added mid m')"

subsection \<open>The abstraction\<close>

definition phase_of :: "run_row \<Rightarrow> phase" where
  "phase_of r = (case run_status r of
       Active \<Rightarrow> (case lease_id r of None \<Rightarrow> Waiting | Some l \<Rightarrow> Leased l)
     | Paused \<Rightarrow> Gated | WaitingOnGate \<Rightarrow> Gated | HaltedBudget \<Rightarrow> Halted
     | RunCompleted \<Rightarrow> Done | RunFailed \<Rightarrow> Dropped)"

definition row_entry :: "run_row \<Rightarrow> uid \<times> (uid \<times> phase)" where
  "row_entry r = (run_id r, (run_case r, phase_of r))"

definition protocol_of :: "plane \<Rightarrow> protocol" where
  "protocol_of s = (fst s, map_of (map row_entry (runs (snd s))))"

lemma phase_open_of: "phase_open (phase_of r) \<longleftrightarrow> open_status (run_status r)"
  by (auto simp: phase_open_def phase_of_def open_status_def split: run_status.splits option.splits)

lemma life_phase: "life g r r' \<Longrightarrow> phase_move (grant_of g (run_id r)) (phase_of r) (phase_of r')"
proof (erule lifeE)
  fix lid worker now
  assume "r' = lease_to worker lid now r" "run_status r = Active" "g = Some (run_id r, lid)"
  then show ?thesis
    by (auto simp: phase_of_def lease_to_def grant_of_def intro: phase_move.take_up split: option.splits)
next
  fix err now assume "r' = fail_row err now r" "open_status (run_status r)"
  then show ?thesis
    using phase_move.abort [of "phase_of r"] by (simp add: phase_open_of) (simp add: phase_of_def fail_row_def)
qed (auto simp: phase_of_def row_defs complete_valid_def intro: phase_move.intros split: option.splits)

lemma moved_rows:
  assumes "list_all2 (life g) rs mid"
  shows "moved g (map_of (map row_entry rs)) (map_of (map row_entry mid))"
  using assms
proof (induction rule: list_all2_induct)
  case (Cons r rs r' mid)
  have same: "row_entry r = (run_id r, (run_case r, phase_of r))" "row_entry r' = (run_id r, (run_case r, phase_of r'))"
    using life_same [OF Cons(1)] by (simp_all add: row_entry_def)
  show ?case
    using Cons(3) life_phase [OF Cons(1)] unfolding moved_def by (auto simp: same)
qed (simp add: moved_def)

lemma added_rows:
  assumes "creates rs new"
  shows "added (map_of (map row_entry rs)) (map_of (map row_entry (rs @ new)))"
  using assms unfolding creates_def
proof (elim disjE exE conjE)
  fix n assume n: "new = [n]" "new_row n" "run_id n \<notin> run_id ` set rs"
    "\<forall>r\<in>set rs. open_status (run_status r) \<longrightarrow> run_case r \<noteq> run_case n"
  have fresh: "map_of (map row_entry rs) (run_id n) = None"
    using n(3) by (auto simp: map_of_eq_None_iff row_entry_def)
  have "map_of (map row_entry (rs @ new)) = (map_of (map row_entry rs))(run_id n \<mapsto> (run_case n, Waiting))"
    using n(1,2) fresh by (auto simp: row_entry_def phase_of_def new_row_def fun_eq_iff map_add_def split: option.splits)
  moreover have "\<not> phase_open p" if "map_of (map row_entry rs) j = Some (run_case n, p)" for j p
    using map_of_SomeD [OF that] n(4) by (auto simp: row_entry_def phase_open_of)
  ultimately show ?thesis
    unfolding added_def using fresh by blast
qed (simp add: added_def)

lemma moves_protocol:
  assumes "moves L L' g rs rs'"
  shows "protocol_step (L, map_of (map row_entry rs)) (L', map_of (map row_entry rs'))"
proof -
  obtain mid new where m: "rs' = mid @ new" "list_all2 (life g) rs mid" "creates mid new"
    using assms by (auto simp: moves_def)
  have "L \<subseteq> L'" "\<forall>i l. g = Some (i, l) \<longrightarrow> l \<notin> L \<and> l \<in> L'"
    using assms by (simp_all add: moves_def)
  with moved_rows [OF m(2)] added_rows [OF m(3)] show ?thesis
    unfolding protocol_step_def m(1) by blast
qed

lemma step_protocol:
  assumes "reachable_plane s" "run_step s s'"
  shows "protocol_step (protocol_of s) (protocol_of s')"
  using reachable_moves [OF assms] moves_protocol unfolding protocol_of_def by metis

lemma steps_protocol:
  "run_steps s s' \<Longrightarrow> reachable_plane s \<Longrightarrow> protocol_step\<^sup>*\<^sup>* (protocol_of s) (protocol_of s')"
proof (induction rule: rtranclp_induct)
  case (step s1 s2)
  then show ?case
    using step_protocol [OF reachable_steps] by (meson rtranclp.rtrancl_into_rtrancl)
qed simp

subsection \<open>Properties\<close>

text \<open>
  Property C8. The tables and handlers refine the protocol: whatever sequence of transactions
  the plane performs, an observer who sees only each run's investigation and phase, and the
  leases handed out, sees a run of the abstract protocol.
\<close>

theorem plane_refines_protocol:
  assumes "reachable_plane s" "run_steps s s'"
  shows "protocol_step\<^sup>*\<^sup>* (protocol_of s) (protocol_of s')"
  by (rule steps_protocol [OF assms(2,1)])

text \<open>
  Property C37. Every row of the run table is well formed: the four lease columns are filled
  together, only on an active run or on one that was failed under its worker; the end is stamped
  exactly on halted and terminal runs; attempts stay within their limit, and below it while the
  run is open.
\<close>

theorem run_rows_well_formed:
  assumes "reachable_plane (L, db)" "r \<in> set (runs db)"
  shows "(claimed_at r = None \<longleftrightarrow> lease_id r = None) \<and> (claimed_by r = None \<longleftrightarrow> lease_id r = None) \<and>
    (lease_expires_at r = None \<longleftrightarrow> lease_id r = None) \<and> (lease_id r \<noteq> None \<longrightarrow> run_status r \<in> {Active, RunFailed}) \<and>
    (ended_at r = None \<longleftrightarrow> run_status r \<in> {Active, Paused, WaitingOnGate}) \<and>
    0 \<le> attempts r \<and> attempts r \<le> max_attempts r \<and>
    (open_status (run_status r) \<longrightarrow> attempts r < max_attempts r)"
  using plane_ok_reachable [OF assms(1)] assms(2) by (simp add: plane_ok_def row_ok_def)

theorem plane_refines_protocol_witness:
  "protocol_step\<^sup>*\<^sup>* (protocol_of ({}, empty_db)) (protocol_of ({5}, demo_closed)) \<and>
   snd (protocol_of ({5}, demo_closed)) 7 = Some (1, Done)"
proof -
  have "run_steps ({}, empty_db) ({5}, demo_closed)"
    using demo_reachable(3) by (simp add: reachable_plane_def)
  note refined = plane_refines_protocol [OF reachable_start this]
  have "snd (protocol_of ({5}, demo_closed)) 7 = Some (1, Done)"
    by (rule probe_run [OF probe_closed]) (simp add: protocol_of_def row_entry_def phase_of_def)
  with refined show ?thesis ..
qed

theorem run_rows_well_formed_witness:
  "\<exists>r. runs demo_leased = [r] \<and> lease_id r = Some 5 \<and> claimed_by r \<noteq> None \<and> lease_expires_at r \<noteq> None"
proof (rule probe_run [OF probe_leased])
  fix r assume r: "runs demo_leased = [r]" "lease_id r = Some 5"
  with run_rows_well_formed [OF demo_reachable(2), of r] show ?thesis by simp
qed

end
