(* ===== verification/Ir_Handler_Props.thy ===== *)
theory Ir_Handler_Props
  imports Ir_Plane_Correct
begin

text \<open>
  What the single handlers of the run plane promise: admission under the daily ceiling, an unlock
  that really resumes, the server's floor under an automatic close, late evidence, event batches,
  and two places where the code does less than it means to.
\<close>

subsection \<open>Admission\<close>

lemma sum_update_one:
  fixes g :: "run_row \<Rightarrow> int"
  assumes "distinct (map run_id rs)" "r \<in> set rs"
  shows "(\<Sum>q\<leftarrow>update_where (\<lambda>q. run_id q = run_id r) f rs. g q) = (\<Sum>q\<leftarrow>rs. g q) - g r + g (f r)"
  using assms
proof (induction rs)
  case (Cons x xs)
  show ?case
  proof (cases "x = r")
    case True
    with Cons.prems have "update_where (\<lambda>q. run_id q = run_id r) f xs = xs"
      by (intro update_where_id) (auto simp: image_iff)
    with True show ?thesis by simp
  next
    case False
    with Cons.prems have "run_id x \<noteq> run_id r" by (auto simp: image_iff)
    with False Cons show ?thesis by auto
  qed
qed simp

lemma claim_admitted:
  assumes "claim_run env ck t worker lid now db = Some (Claimed c, db')"
  obtains r s where
    "get_tenant_daily_status env ck t now db = Some s" "\<not> cap_hit s"
    "\<not> over_reserved s (reserved_tokens t now db) (reserved_dollars t now db)"
    "r \<in> set (runs db)" "claimable t now db r"
    "db' = db\<lparr> runs := update_where (\<lambda>q. run_id q = run_id r) (lease_to worker lid now) (runs db) \<rparr>"
    "claimed_id c = run_id r" "claimed_tokens_budget c = run_tokens_budget r" "claimed_tokens_used c = run_tokens_used r"
    "claimed_dollars_used c = run_dollars_used r" "claimed_dollars_budget c = run_dollars_budget r"
    "claimed_unpriced c = unpriced_of (run_id r) db" "claimed_snapshot c = run_snapshot r"
proof (cases "get_tenant_daily_status env ck t now db")
  case None
  with assms show thesis by (simp add: claim_run_def tenant_daily_cap_ok_def)
next
  case (Some s)
  have adm: "\<not> cap_hit s" "\<not> over_reserved s (reserved_tokens t now db) (reserved_dollars t now db)"
    using assms Some by (auto simp: claim_run_def tenant_daily_cap_ok_def split: if_splits)
  with assms Some obtain r where "select_first (claimable t now db) started_at (runs db) = Some r"
    by (auto simp: claim_run_def tenant_daily_cap_ok_def split: option.splits)
  with assms Some adm show thesis
    by (intro that [of s r]) (auto simp: claim_run_def tenant_daily_cap_ok_def dest: select_first_Some)
qed

text \<open>
  Property C26. A claim is admitted only while the tokens spent today plus the tokens promised
  to the runs in flight are under the tenant's daily ceiling, so even when every leased run
  spends its whole budget the ceiling is overshot by less than the budget left to the run just
  claimed.
\<close>

theorem claim_admission_bound:
  assumes "reachable_plane (L, db)"
    and "claim_run env ck t worker lid now db = Some (Claimed c, db')"
    and "get_tenant_daily_status env ck t now db = Some s"
  shows "spend_tokens s + reserved_tokens t now db < cap_tokens s \<and>
    spend_tokens s + reserved_tokens t now db' < cap_tokens s + max (claimed_tokens_budget c - claimed_tokens_used c) 0"
proof -
  obtain r where r: "\<not> cap_hit s" "\<not> over_reserved s (reserved_tokens t now db) (reserved_dollars t now db)"
    "r \<in> set (runs db)" "claimable t now db r"
    "db' = db\<lparr> runs := update_where (\<lambda>q. run_id q = run_id r) (lease_to worker lid now) (runs db) \<rparr>"
    "claimed_tokens_budget c = run_tokens_budget r" "claimed_tokens_used c = run_tokens_used r"
    using claim_admitted [OF assms(2)] assms(3) by (metis option.inject)
  have ok: "plane_ok L (runs db)" using plane_ok_reachable [OF assms(1)] by simp
  have before: "spend_tokens s + reserved_tokens t now db < cap_tokens s"
    using r(1,2) by (cases "reserved_tokens t now db = 0") (auto simp: cap_hit_def token_cap_hit_def over_reserved_def)
  have "row_ok r" using ok r(3) by (simp add: plane_ok_def)
  with r(4) have idle: "\<not> in_flight t now r"
    by (auto simp: claimable_def row_ok_def in_flight_def lease_lapsed_def split: option.splits)
  have "in_flight t now (lease_to worker lid now r)" "token_promise (lease_to worker lid now r) = token_promise r"
    using r(4) by (simp_all add: claimable_def in_flight_def lease_to_def LEASE_TTL_SECONDS_def token_promise_def)
  with idle have "reserved_tokens t now db' = reserved_tokens t now db + token_promise r"
    using sum_update_one [OF plane_ok_distinct [OF ok] r(3), of "\<lambda>q. if in_flight t now q then token_promise q else 0"]
    by (simp add: reserved_tokens_def r(5))
  with before r(6,7) show ?thesis by (simp add: token_promise_def)
qed

subsection \<open>Unlock\<close>

lemma float_cmp_Fin [simp]:
  "float_cmp CmpLe (Fin a) (Fin b) \<longleftrightarrow> a \<le> b" "float_cmp CmpGt (Fin a) (Fin b) \<longleftrightarrow> b < a"
  "float_cmp CmpGe (Fin a) (Fin b) \<longleftrightarrow> b \<le> a" "float_cmp CmpLt (Fin a) (Fin b) \<longleftrightarrow> a < b"
  by (simp_all add: float_cmp_def)

lemma unlock_ceilings_Inr:
  assumes "unlock_ceilings env r req db = Inr (tok, dol)"
  obtains q where "dol = Fin q" "enforceable_of r db < q" "run_tokens_used r < tok" "tok \<le> run_token_budget_max env"
  using assms by (cases dol) (auto simp: unlock_ceilings_def Let_def not_finite_def split: if_splits)

lemma budget_state_within:
  assumes "0 \<le> claimed_tokens_used c" "claimed_tokens_used c < claimed_tokens_budget c"
    and "claimed_dollars_budget c = Fin q" "max 0 (claimed_dollars_used c - claimed_unpriced c) < q"
  shows "\<exists>st. over_budget benv (budget_state raw c) = Some (False, st)"
proof -
  have "0 < claimed_tokens_budget c" "0 < q" using assms by linarith+
  then show ?thesis
    using assms
    by (cases "claimed_snapshot c")
      (auto simp: over_budget_def budget_state_def tokens_budget_kv_def dollars_budget_kv_def ensure_def
        dsetdefault_def dget_def dget_default_def enforceable_dollars_def float_sub_def float_max_def Let_def max_def
        split: if_splits)
qed

text \<open>
  Property C30. An unlock really resumes a run: once it succeeds, the worker that claims the run
  is within budget on its first check, on tokens and on dollars, whatever part of the old spend
  was unpriced; the operator is never told of a resume that halts again at once.
\<close>

theorem unlocked_run_can_continue:
  assumes "reachable_plane (L, db)"
    and "unlock_run env ck ex who t rid req now db = Inr (res, db')"
    and "claim_run env' ck' t worker lid now' db' = Some (Claimed c, db'')" "claimed_id c = rid"
    and "0 \<le> claimed_tokens_used c"
  shows "\<exists>st. over_budget benv (budget_state raw c) = Some (False, st)"
proof -
  obtain r0 i tok dol where u: "run_with_case t rid db = Some (r0, i)" "run_status r0 = HaltedBudget"
      "unlock_ceilings env r0 req db = Inr (tok, dol)" "db' = resume_run who t r0 tok dol now db"
    by (rule unlock_run_Inr [OF assms(2)])
  have r0: "r0 \<in> set (runs db)" "run_id r0 = rid" "run_tenant r0 = t"
    using run_with_case_Some [OF u(1)] run_of_Some by blast+
  obtain r where r: "r \<in> set (runs db')" "claimed_id c = run_id r"
      "claimed_tokens_budget c = run_tokens_budget r" "claimed_tokens_used c = run_tokens_used r"
      "claimed_dollars_used c = run_dollars_used r" "claimed_dollars_budget c = run_dollars_budget r"
      "claimed_unpriced c = unpriced_of (run_id r) db'"
    by (rule claim_admitted [OF assms(3)])
  from r(1) obtain q where q: "q \<in> set (runs db)"
      "r = (if run_id q = rid \<and> run_tenant q = t \<and> run_status q = HaltedBudget then unlock_row tok dol now q else q)"
    by (auto simp: u(4) resume_run_part set_update_where r0(2))
  then have "run_id q = rid" using r(2) assms(4) by (simp split: if_splits)
  then have "q = r0"
    using distinct_map_eq [OF plane_ok_distinct [OF plane_ok_reachable [OF assms(1)]]] q(1) r0 by simp
  with q(2) r0 u(2) have row: "r = unlock_row tok dol now r0" by simp
  have "unpriced_of rid db' = unpriced_of rid db"
    by (simp add: u(4) unpriced_of_def resume_run_part)
  moreover obtain d where "dol = Fin d" "enforceable_of r0 db < d" "run_tokens_used r0 < tok"
    by (rule unlock_ceilings_Inr [OF u(3)])
  ultimately show ?thesis
    using assms(4,5) r row r0 by (intro budget_state_within [where q = d]) (simp_all add: unlock_row_def enforceable_of_def)
qed

subsection \<open>The server's floor\<close>

text \<open>The status of every investigation.\<close>

definition case_states :: "ir_db \<Rightarrow> (uid \<times> uid \<times> string) list" where
  "case_states db = map (\<lambda>i. (case_id i, case_tenant i, case_status i)) (cases db)"

lemma escalation_keeps_states:
  "case_states (record_human_review_requested rv c t rsn dec conf db) = case_states db"
  by (simp add: record_human_review_requested_def Let_def queue_review_def escalate_severity_def append_event_v1_def
      case_states_def update_where_map split: option.splits)

lemma cases_after_escalation:
  "cases (append_event_v1 c t ty db) = cases db" by (simp add: append_event_v1_def)

lemma memoize_cases [simp]: "cases (memoize t c p eff now db) = cases db"
  by (simp add: memoize_def record_verdict_memo_def split: option.splits)

lemma dispatch_cases [simp]: "cases (dispatch_response c rid p eff veto ch db) = cases db"
  by (simp add: dispatch_response_def split: option.splits)

lemma follow_up_states:
  "follow_up env prices nr t c p now db = Some db' \<Longrightarrow> case_states db' = case_states db"
  by (auto simp: follow_up_def case_states_def update_where_map dest!: start_run_frame split: if_splits)

lemma close_trail_cases: "record_close_trail t c rid p db = Some db' \<Longrightarrow> cases db' = cases db"
  by (auto simp: record_close_trail_def Let_def split: bind_splits if_splits)

text \<open>A completion that does not close leaves every status alone; one that closes passed the floor.\<close>

lemma finish_case_states:
  assumes "finish_case ce t c rid p now db = Some (ch, db')" "case_states db' \<noteq> case_states db"
  obtains db1 db2 where
    "server_floor (ce_env ce) t c rid p now db = Some (Some ''close_fp'', None, db1)" "cp_status p = RunCompleted"
    "cp_disposition p = Some ''close_fp''"
    "apply_close (ce_env ce) (ce_sha ce) t c rid p now db1 = Some (ch, db2)"
    "case_states db' = case_states db2" "cases db1 = cases db"
proof -
  from assms(1) obtain eff veto db1 db2
    where 1: "server_floor (ce_env ce) t c rid p now db = Some (eff, veto, db1)"
      and 2: "apply_disposition (ce_env ce) (ce_sha ce) (ce_review ce) t c rid p eff veto now db1 = Some (ch, db2)"
      and 3: "follow_up (ce_env ce) (ce_prices ce) (ce_new_run ce) t c p now
                (dispatch_response c rid p eff veto ch (memoize t c p eff now db2)) = Some db'"
    by (auto simp: finish_case_def split: bind_splits)
  have c1: "cases db1 = cases db" using server_floor_part [OF 1] by simp
  have s: "case_states db' = case_states db2"
    using follow_up_states [OF 3] by (simp add: case_states_def)
  have close: "completed_as p eff ''close_fp''"
  proof (rule ccontr)
    assume "\<not> ?thesis"
    with 2 have "case_states db2 = case_states db1"
      by (auto simp: apply_disposition_def escalation_keeps_states split: if_splits)
    with s c1 assms(2) show False by (simp add: case_states_def)
  qed
  then have "eff = Some ''close_fp''" "cp_status p = RunCompleted" by (simp_all add: completed_as_def)
  moreover from this 1 have "veto = None \<and> cp_disposition p = Some ''close_fp''"
    by (auto simp: server_floor_def completed_as_def Let_def split: bind_splits if_splits)
  ultimately show thesis
    using 1 2 s c1 close by (intro that [of db1 db2]) (simp_all add: apply_disposition_def)
qed

lemma floor_no_veto:
  assumes "close_fp_veto_of env t c now db = Some None" "case_status_of t c db = Some ''active''"
  obtains policy where "effective_policy env (Some (policies_of t db)) [] [] = Some policy"
    "\<not> auto_close_killed (env_auto_close_kill env) policy"
    "find_other_active_investigation_sharing_keys t c now db = None"
    "volume_cap_exceeded t policy now db = Some False"
  using assms
  by (auto simp: close_fp_veto_of_def split: bind_splits if_splits option.split_asm)

lemma server_floor_veto:
  assumes "server_floor env t c rid p now db = Some (eff, None, db1)" "completed_as p (cp_disposition p) ''close_fp''"
  shows "close_fp_veto_of env t c now db = Some None"
proof -
  from assms obtain db0 where "close_fp_floor_veto env t c now db = Some (None, db0)"
    by (auto simp: server_floor_def Let_def split: bind_splits)
  then show ?thesis
    by (auto simp: close_fp_floor_veto_def split: bind_splits option.splits)
qed

lemma case_status_of_member:
  assumes "i \<in> set (cases db)" "distinct (map case_id (cases db))" "case_tenant i = t"
  shows "case_status_of t (case_id i) db = Some (case_status i)"
proof -
  have "find (\<lambda>q. case_id q = case_id i \<and> case_tenant q = t) (cases db) = Some i"
    using assms by (induction "cases db" arbitrary: db) (auto simp: find_Some_iff in_set_conv_nth distinct_conv_nth)
  then show ?thesis by (simp add: case_status_of_def)
qed

lemma sharing_cong:
  assumes "cases db' = cases db" "entity_keys db' = entity_keys db" "key_stats db' = key_stats db"
  shows "find_other_active_investigation_sharing_keys t c now db' = find_other_active_investigation_sharing_keys t c now db"
  using assms(1,2) by (simp add: find_other_active_investigation_sharing_keys_def eligible_cong [OF assms(3)])

lemma close_fp_veto_cong:
  assumes "cases db' = cases db" "entity_keys db' = entity_keys db" "key_stats db' = key_stats db"
    "tenant_policies db' = tenant_policies db"
  shows "close_fp_veto_of env t c now db' = close_fp_veto_of env t c now db"
  unfolding close_fp_veto_of_def volume_cap_cong [OF assms(1)] sharing_cong [OF assms(1-3)]
    case_status_of_def policies_of_def assms(1,4) ..

lemma complete_run_Inr:
  assumes "complete_run ce t rid p now db = Inr (ch, db')"
  obtains r where "r \<in> set (runs db)" "holds_lease t rid (cp_lease p) r" "complete_valid p"
    "finish_case ce t (run_case r) rid p now
       ((record_spend_delta t rid (cp_spend p) now db)\<lparr> runs :=
          update_where (holds_lease t rid (cp_lease p)) (complete_row p now) (runs db) \<rparr>) = Some (ch, db')"
  using assms
  by (auto simp: complete_run_def Let_def split: if_splits option.splits dest: find_SomeD intro: that)

lemma apply_close_cases:
  assumes "apply_close env sha t c rid p now db = Some (ch, db')"
  shows "\<exists>days. cases db' = cases (close_as_fp (close_rows t c) (cp_summary p)
           (build_reopen_fields_for_investigation sha t c days now db) now db)"
  using assms unfolding apply_close_def Let_def
  by (auto dest!: close_trail_cases split: bind_splits if_splits)

lemma close_only_one:
  assumes "apply_close env sha t c rid p now db = Some (ch, db')"
    and "(k, u, st) \<in> set (case_states db')" "(k, u, st) \<notin> set (case_states db)"
  shows "k = c \<and> u = t"
proof -
  obtain sg where c: "cases db' = cases (close_as_fp (close_rows t c) (cp_summary p) sg now db)"
    using apply_close_cases [OF assms(1)] by blast
  show ?thesis
    using assms(2,3) unfolding case_states_def c close_as_fp_def
    by (auto simp: set_update_where close_rows_def split: if_splits)
qed

text \<open>
  Property C4. A run's automatic close commits only through the server's floor: when a
  completion changes the status of an active investigation, the worker asked for the close, the
  kill switch is off, no other active investigation shares a correlation key with it, and the
  tenant's rolling volume cap is not exhausted.
\<close>

theorem close_commits_through_floor:
  assumes "complete_run ce t rid p now db = Inr (ch, db')"
    and "distinct (map case_id (cases db))" "i \<in> set (cases db)" "case_status i = ''active''"
    and "i' \<in> set (cases db')" "case_id i' = case_id i" "case_tenant i' = case_tenant i" "case_status i' \<noteq> ''active''"
  shows "cp_status p = RunCompleted \<and> cp_disposition p = Some ''close_fp'' \<and>
    find_other_active_investigation_sharing_keys t (case_id i) now db = None \<and>
    (\<exists>policy. effective_policy (ce_env ce) (Some (policies_of t db)) [] [] = Some policy \<and>
       \<not> auto_close_killed (env_auto_close_kill (ce_env ce)) policy \<and> volume_cap_exceeded t policy now db = Some False)"
proof -
  obtain r :: run_row where f: "finish_case ce t (run_case r) rid p now
       ((record_spend_delta t rid (cp_spend p) now db)\<lparr> runs :=
          update_where (holds_lease t rid (cp_lease p)) (complete_row p now) (runs db) \<rparr>) = Some (ch, db')"
    by (rule complete_run_Inr [OF assms(1)], rule that)
  let ?db = "(record_spend_delta t rid (cp_spend p) now db)\<lparr> runs :=
          update_where (holds_lease t rid (cp_lease p)) (complete_row p now) (runs db) \<rparr>"
  let ?row = "(case_id i, case_tenant i, case_status i')"
  have states: "case_states ?db = case_states db" by (simp add: case_states_def)
  have new: "?row \<in> set (case_states db')"
    unfolding case_states_def set_map
    by (rule image_eqI [OF _ assms(5)]) (simp add: assms(6,7))
  have old: "?row \<notin> set (case_states db)"
  proof
    assume "?row \<in> set (case_states db)"
    then obtain j where "j \<in> set (cases db)" "case_id j = case_id i" "case_status j = case_status i'"
      by (auto simp: case_states_def)
    with distinct_map_eq [OF assms(2) _ assms(3)] assms(4,8) show False by metis
  qed
  with new have "case_states db' \<noteq> case_states ?db" unfolding states by metis
  from finish_case_states [OF f this] obtain db1 db2 where c:
      "server_floor (ce_env ce) t (run_case r) rid p now ?db = Some (Some ''close_fp'', None, db1)"
      "cp_status p = RunCompleted" "cp_disposition p = Some ''close_fp''"
      "apply_close (ce_env ce) (ce_sha ce) t (run_case r) rid p now db1 = Some (ch, db2)"
      "case_states db' = case_states db2" "cases db1 = cases ?db" by blast
  have "case_states db1 = case_states db" using c(6) states by (simp add: case_states_def)
  then have same: "case_id i = run_case r" "case_tenant i = t"
    using close_only_one [OF c(4), of "case_id i" "case_tenant i" "case_status i'"] new old c(5) by auto
  have "case_status_of t (run_case r) db = Some ''active''"
    using case_status_of_member [OF assms(3,2) same(2)] same(1) assms(4) by simp
  moreover have "close_fp_veto_of (ce_env ce) t (run_case r) now db = Some None"
    using server_floor_veto [OF c(1)] c(2,3) close_fp_veto_cong [of ?db db] by (simp add: completed_as_def)
  ultimately show ?thesis
    using c(2,3) same(1) by (elim floor_no_veto) auto
qed

subsection \<open>Late evidence\<close>

lemma start_run_opens:
  "start_run env prices nr t c settle now db = Some db' \<Longrightarrow>
     \<exists>q\<in>set (runs db'). run_id q = nr \<and> run_case q = c \<and> run_status q = Active \<and> not_before q \<le> now + max 0 settle"
  by (auto simp: start_run_Some fresh_run_def)

lemma follow_up_evidence:
  assumes "follow_up env prices nr t c p now db = Some db'" "cp_status p = RunCompleted"
    and "i' \<in> set (cases db')" "close_rows t c i'"
  shows "\<not> has_new_evidence i' \<and> (\<exists>i\<in>set (cases db). close_rows t c i \<and> case_id i = case_id i' \<and>
    (has_new_evidence i \<longrightarrow>
       (\<exists>q\<in>set (runs db'). run_id q = nr \<and> run_case q = c \<and> run_status q = Active \<and> not_before q \<le> now)))"
proof (cases "\<exists>i\<in>set (cases db). close_rows t c i \<and> has_new_evidence i")
  case True
  let ?db = "db\<lparr> cases := update_where (\<lambda>i. case_id i = c \<and> case_tenant i = t)
             (\<lambda>i. i\<lparr> has_new_evidence := False \<rparr>) (cases db) \<rparr>"
  have start: "start_run env prices nr t c 0 now ?db = Some db'"
    using True assms(1,2) by (simp add: follow_up_def)
  have "cases db' = cases ?db" using start_run_frame [OF start] by simp
  with assms(3) obtain i where i: "i \<in> set (cases db)"
      "i' = (if case_id i = c \<and> case_tenant i = t then i\<lparr> has_new_evidence := False \<rparr> else i)"
    by (auto simp: set_update_where)
  with assms(4) have "close_rows t c i" "\<not> has_new_evidence i'" "case_id i = case_id i'"
    by (auto simp: close_rows_def split: if_splits)
  with i(1) start_run_opens [OF start] show ?thesis by auto
next
  case False
  with assms show ?thesis by (auto simp: follow_up_def split: if_splits)
qed

text \<open>The evidence flag of every investigation.\<close>

definition case_flags :: "ir_db \<Rightarrow> (uid \<times> bool) list" where
  "case_flags db = map (\<lambda>i. (case_id i, has_new_evidence i)) (cases db)"

lemma case_flags_close: "case_flags (close_as_fp q rsn sg now db) = case_flags db"
  by (simp add: case_flags_def close_as_fp_def update_where_map)

lemma case_flags_escalate: "case_flags (record_human_review_requested rv c t rsn dec conf db) = case_flags db"
  by (simp add: record_human_review_requested_def Let_def queue_review_def escalate_severity_def append_event_v1_def
      case_flags_def update_where_map split: option.splits)

lemma apply_disposition_flags:
  assumes "apply_disposition env sha rv t c rid p eff veto now db = Some (ch, db')"
  shows "case_flags db' = case_flags db"
proof (cases "completed_as p eff ''close_fp''")
  case True
  with assms obtain sg where "cases db' = cases (close_as_fp (close_rows t c) (cp_summary p) sg now db)"
    unfolding apply_disposition_def using apply_close_cases by fastforce
  then have "case_flags db' = case_flags (close_as_fp (close_rows t c) (cp_summary p) sg now db)"
    by (simp add: case_flags_def)
  then show ?thesis by (simp add: case_flags_close)
next
  case False
  with assms show ?thesis by (auto simp: apply_disposition_def case_flags_escalate split: if_splits)
qed

lemma finish_case_flags:
  assumes "finish_case ce t c rid p now db = Some (ch, db')"
  obtains dbx where "follow_up (ce_env ce) (ce_prices ce) (ce_new_run ce) t c p now dbx = Some db'"
    "case_flags dbx = case_flags db"
proof -
  from assms obtain eff veto db1 db2
    where 1: "server_floor (ce_env ce) t c rid p now db = Some (eff, veto, db1)"
      and 2: "apply_disposition (ce_env ce) (ce_sha ce) (ce_review ce) t c rid p eff veto now db1 = Some (ch, db2)"
      and 3: "follow_up (ce_env ce) (ce_prices ce) (ce_new_run ce) t c p now
                (dispatch_response c rid p eff veto ch (memoize t c p eff now db2)) = Some db'"
    by (auto simp: finish_case_def split: bind_splits)
  have "case_flags (dispatch_response c rid p eff veto ch (memoize t c p eff now db2)) = case_flags db"
    using apply_disposition_flags [OF 2] server_floor_part [OF 1] by (simp add: case_flags_def)
  with 3 show thesis by (rule that)
qed


subsection \<open>Event batches\<close>

definition has_event :: "uid \<Rightarrow> idem_key \<Rightarrow> ir_db \<Rightarrow> bool" where
  "has_event c k db \<longleftrightarrow> (\<exists>e\<in>set (events db). event_case e = c \<and> event_key e = k)"

lemma append_event_has [simp]: "has_event c k (append_event t c rn kd pl vis k db)"
  by (auto simp: has_event_def append_event_def)

lemma append_event_keeps: "has_event c' k' db \<Longrightarrow> has_event c' k' (append_event t c rn kd pl vis k db)"
  by (auto simp: has_event_def append_event_def)

lemma append_event_noop: "has_event c k db \<Longrightarrow> append_event t c rn kd pl vis k db = db"
  by (simp add: has_event_def append_event_def)

lemma append_worker_keeps: "has_event c' k db \<Longrightarrow> has_event c' k (append_worker_event t c rid lid e db)"
  by (simp add: append_worker_event_def append_event_keeps)

lemma batch_keeps: "has_event c' k db \<Longrightarrow> has_event c' k (fold (append_worker_event t c rid lid) es db)"
  by (induction es arbitrary: db) (simp_all add: append_worker_keeps)

lemma batch_records:
  "e \<in> set es \<Longrightarrow> we_kind e \<in> set EVENT_KINDS \<Longrightarrow>
     has_event c (worker_event_key rid lid e) (fold (append_worker_event t c rid lid) es db)"
  by (induction es arbitrary: db) (auto simp: append_worker_event_def intro: batch_keeps)

lemma batch_noop:
  "(\<And>e. e \<in> set es \<Longrightarrow> we_kind e \<in> set EVENT_KINDS \<Longrightarrow> has_event c (worker_event_key rid lid e) db) \<Longrightarrow>
     fold (append_worker_event t c rid lid) es db = db"
  by (induction es) (simp_all add: append_worker_event_def append_event_noop)

lemma batch_unique: "events_unique db \<Longrightarrow> events_unique (fold (append_worker_event t c rid lid) es db)"
  by (induction es arbitrary: db) (simp_all add: append_worker_event_def append_event_unique)

text \<open>
  A batch of replay events is idempotent: resent under the same lease it changes nothing, and
  resent under another lease of the same run it adds no second budget warning, because that beat
  is keyed by the run alone.
\<close>

theorem event_batch_idempotent:
  assumes "append_run_events t rid lid es db = Inr db1"
  shows "append_run_events t rid lid es db1 = Inr db1 \<and>
    (events_unique db \<longrightarrow> events_unique db1) \<and>
    (\<forall>lid' e. e \<in> set es \<longrightarrow> we_kind e = ''budget_warning'' \<longrightarrow>
       (\<exists>c. append_worker_event t c rid lid' e db1 = db1))"
proof -
  obtain r where r: "find (holds_lease t rid lid) (runs db) = Some r"
      "db1 = fold (append_worker_event t (run_case r) rid lid) (sort_key we_ord es) db"
    using assms by (auto simp: append_run_events_def split: option.splits)
  have runs: "runs db1 = runs db"
    using worker_events_part unfolding r(2) plane_part_def by blast
  have recorded: "has_event (run_case r) (worker_event_key rid lid e) db1"
    if "e \<in> set es" "we_kind e \<in> set EVENT_KINDS" for e
    unfolding r(2) using that by (intro batch_records) simp_all
  have "fold (append_worker_event t (run_case r) rid lid) (sort_key we_ord es) db1 = db1"
    by (rule batch_noop) (simp add: recorded)
  then have again: "append_run_events t rid lid es db1 = Inr db1"
    using r(1) runs by (simp add: append_run_events_def)
  have "append_worker_event t (run_case r) rid lid' e db1 = db1"
    if "e \<in> set es" "we_kind e = ''budget_warning''" for lid' e
  proof -
    have "worker_event_key rid lid' e = worker_event_key rid lid e" "we_kind e \<in> set EVENT_KINDS"
      using that(2) by (simp_all add: worker_event_key_def RUN_SCOPED_WORKER_EVENTS_def EVENT_KINDS_def)
    with recorded [OF that(1)] show ?thesis by (simp add: append_worker_event_def append_event_noop)
  qed
  with again batch_unique show ?thesis unfolding r(2) by blast
qed

subsection \<open>Where the code does less than it means to\<close>

lemma sum_list_map_zero: "(\<And>x. x \<in> set xs \<Longrightarrow> f x = (0::rat)) \<Longrightarrow> (\<Sum>x\<leftarrow>xs. f x) = 0"
  by (induction xs) simp_all

text \<open>
  A report whose last call was unpriced takes its whole dollar delta out of the daily ceiling
  even when every new dollar was priced: with no new unpriced spend the ledger row keeps the
  label \<open>unknown\<close>, and the day's dollars do not move, although the comment on the
  row says it is priced by construction.
\<close>

theorem unknown_label_exempts_priced_dollars:
  assumes "rep_source rep = Some ''unknown''" "rep_unpriced rep = Some u" "u \<le> unpriced_of rid db"
  shows "daily_dollars t start (record_spend_delta t rid rep now db) = daily_dollars t start db"
proof -
  have none: "new_unpriced rep (unpriced_of rid db) d \<le> 0" for d
    using assms(2,3) by (simp add: new_unpriced_def)
  have "priced_dollars l = 0" if "l \<in> set (delta_rows t rid rep n d (new_unpriced rep (unpriced_of rid db) d) now)" for l n d
    using that none [of d] assms(1) by (simp add: delta_rows_def Let_def priced_dollars_def)
  then have "(\<Sum>l\<leftarrow>delta_rows t rid rep n d (new_unpriced rep (unpriced_of rid db) d) now.
      if l_tenant l = t \<and> start \<le> l_at l then priced_dollars l else 0) = 0" for n d
    by (intro sum_list_map_zero) simp
  then show ?thesis
    by (simp add: record_spend_delta_def daily_dollars_def Let_def split: option.splits)
qed

lemma queue_review_pending:
  assumes "\<exists>i\<in>set (cases db). case_id i = c \<and> case_tenant i = t"
  shows "pending_review c (queue_review rv c t rsn dec db)"
proof -
  have "find (\<lambda>i. case_id i = c \<and> case_tenant i = t) (cases db) \<noteq> None"
    using assms by (auto simp: find_None_iff)
  then show ?thesis
    by (auto simp: queue_review_def pending_review_def)
qed

lemma escalation_pending:
  assumes "i \<in> set (cases db)" "case_id i = c" "case_tenant i = t"
  shows "pending_review c (record_human_review_requested rv c t rsn dec conf db)"
proof -
  have "\<exists>j\<in>set (cases (escalate_severity c t rsn db')). case_id j = c \<and> case_tenant j = t" if "cases db' = cases db" for db'
  proof -
    have "(\<lambda>j. (case_id j, case_tenant j)) ` set (cases (escalate_severity c t rsn db')) =
        (\<lambda>j. (case_id j, case_tenant j)) ` set (cases db)"
      by (simp add: escalate_severity_def image_update_where that)
    moreover have "(c, t) \<in> (\<lambda>j. (case_id j, case_tenant j)) ` set (cases db)"
      using assms by (intro image_eqI [of _ _ i]) simp_all
    ultimately have "(c, t) \<in> (\<lambda>j. (case_id j, case_tenant j)) ` set (cases (escalate_severity c t rsn db'))" by simp
    then show ?thesis by auto
  qed
  with assms show ?thesis
    by (auto simp: record_human_review_requested_def Let_def append_event_v1_def intro!: queue_review_pending)
qed

text \<open>
  An escalation does not look at the investigation's status: completed over a case an analyst
  has closed meanwhile, it still queues a pending review on it, reports that the case changed
  and dispatches a response, the transition \<open>case_changed\<close> is there to rule out.
\<close>

theorem escalation_ignores_closed_case:
  assumes "complete_run ce t rid p now db = Inr (ch, db')" "cp_status p = RunCompleted"
    and "cp_disposition p = Some ''escalate''" "reachable_plane (L, db)"
    and "r \<in> set (runs db)" "holds_lease t rid (cp_lease p) r"
    and "i \<in> set (cases db)" "case_id i = run_case r" "case_tenant i = t" "case_status i \<noteq> ''active''"
  shows "ch \<and> pending_review (run_case r) db' \<and>
    (\<exists>d\<in>set (dispatches db'). dispatch_run d = rid \<and> dispatch_effective d = ''escalate'')"
proof -
  let ?db = "(record_spend_delta t rid (cp_spend p) now db)\<lparr> runs :=
          update_where (holds_lease t rid (cp_lease p)) (complete_row p now) (runs db) \<rparr>"
  obtain r0 where r0: "r0 \<in> set (runs db)" "holds_lease t rid (cp_lease p) r0"
    and f: "finish_case ce t (run_case r0) rid p now ?db = Some (ch, db')"
    by (rule complete_run_Inr [OF assms(1)])
  have same: "r0 = r"
    using distinct_map_eq [OF plane_ok_distinct [OF plane_ok_reachable [OF assms(4)]]] r0 assms(5,6)
    by (auto dest!: holds_leaseD)
  let ?e = "record_human_review_requested (ce_review ce) (run_case r) t (escalation_reason p None) ''escalate''
              (cp_confidence p) ?db"
  let ?m = "memoize t (run_case r) p (Some ''escalate'') now ?e"
  let ?d = "dispatch_response (run_case r) rid p (Some ''escalate'') None True ?m"
  have ch: "ch" and x: "follow_up (ce_env ce) (ce_prices ce) (ce_new_run ce) t (run_case r) p now ?d = Some db'"
    using f assms(2,3) unfolding same
    by (auto simp: finish_case_def server_floor_def apply_disposition_def completed_as_def split: bind_splits)
  have keep: "reviews db' = reviews ?d \<and> dispatches db' = dispatches ?d"
    using x by (auto simp: follow_up_def dest!: start_run_frame split: if_splits)
  have "reviews ?d = reviews ?e"
    by (simp add: dispatch_response_def memoize_def record_verdict_memo_def split: option.splits)
  moreover have "pending_review (run_case r) ?e"
    using assms(7-9) by (intro escalation_pending [of i]) simp_all
  ultimately have "pending_review (run_case r) db'"
    using keep by (simp add: pending_review_def)
  moreover have "\<exists>d\<in>set (dispatches db'). dispatch_run d = rid \<and> dispatch_effective d = ''escalate''"
    using keep assms(2) by (simp add: dispatch_response_def)
  ultimately show ?thesis using ch by simp
qed

subsection \<open>Witnesses\<close>

definition demo_started_late :: ir_db where
  "demo_started_late = demo_leased\<lparr> cases := [demo_case\<lparr> has_new_evidence := True \<rparr>] \<rparr>"

definition demo_leave :: complete_payload where
  "demo_leave = demo_close\<lparr> cp_disposition := Some ''leave_open'' \<rparr>"

definition demo_closed_case :: ir_db where
  "demo_closed_case = demo_leased\<lparr> cases := [demo_case\<lparr> case_status := ''resolved'' \<rparr>] \<rparr>"

definition demo_escalate :: complete_payload where
  "demo_escalate = demo_close\<lparr> cp_disposition := Some ''escalate'' \<rparr>"

definition demo_halt :: complete_payload where
  "demo_halt = demo_close\<lparr> cp_status := HaltedBudget, cp_disposition := None \<rparr>"

definition sum_db :: "'e + ('a \<times> ir_db) \<Rightarrow> ir_db" where
  "sum_db r = (case r of Inl _ \<Rightarrow> empty_db | Inr x \<Rightarrow> snd x)"

definition demo_halted :: ir_db where
  "demo_halted = sum_db (complete_run demo_ce 1 7 demo_halt 2 demo_leased)"

definition demo_unlock :: unlock_request where
  "demo_unlock = \<lparr> ur_dollars = Some (Fin 10), ur_tokens = None \<rparr>"

definition demo_unlocked :: ir_db where
  "demo_unlocked = sum_db (unlock_run demo_env demo_clock True ''op'' 1 7 demo_unlock 3 demo_halted)"

lemma sum_db_Inr: "(case r of Inl _ \<Rightarrow> False | Inr _ \<Rightarrow> True) \<Longrightarrow> \<exists>x. r = Inr (x, sum_db r)"
  by (cases r) (auto simp: sum_db_def)

lemma demo_variant_reachable:
  "reachable_plane ({5}, demo_started_late)" "reachable_plane ({5}, demo_closed_case)" "reachable_plane ({5}, demo_halted)"
proof -
  show "reachable_plane ({5}, demo_started_late)" "reachable_plane ({5}, demo_closed_case)"
    by (auto intro!: reachable_steps [OF demo_reachable(2) r_into_rtranclp] elsewhere
        simp: demo_started_late_def demo_closed_case_def)
  have "case complete_run demo_ce 1 7 demo_halt 2 demo_leased of Inl _ \<Rightarrow> False | Inr _ \<Rightarrow> True"
    by code_simp
  moreover have "ce_new_run demo_ce \<notin> run_id ` set (runs demo_leased)"
    by (rule probe_run [OF probe_leased]) (simp add: demo_ce_def)
  ultimately show "reachable_plane ({5}, demo_halted)"
    using sum_db_Inr unfolding demo_halted_def
    by (blast intro: reachable_steps [OF demo_reachable(2) r_into_rtranclp] complete)
qed

theorem claim_admission_bound_witness:
  "\<exists>s. get_tenant_daily_status demo_env demo_clock 1 1 demo_started = Some s \<and>
     spend_tokens s + reserved_tokens 1 1 demo_started < cap_tokens s"
proof -
  have "case claim_run demo_env demo_clock 1 ''w'' 5 1 demo_started of Some (Claimed c, _) \<Rightarrow> True | _ \<Rightarrow> False"
      "get_tenant_daily_status demo_env demo_clock 1 1 demo_started \<noteq> None"
    by code_simp+
  then obtain c db' s where "claim_run demo_env demo_clock 1 ''w'' 5 1 demo_started = Some (Claimed c, db')"
      "get_tenant_daily_status demo_env demo_clock 1 1 demo_started = Some s"
    by (auto split: option.split_asm prod.split_asm claim_outcome.split_asm)
  with claim_admission_bound [OF demo_reachable(1) this] show ?thesis by blast
qed

definition demo_budget_env :: budget_env where
  "demo_budget_env = \<lparr> env_token_budget = None, env_dollar_budget = None, env_unknown_cost = None, env_warn_ratio = None \<rparr>"

theorem unlocked_run_can_continue_witness:
  "\<exists>c db st. claim_run demo_env demo_clock 1 ''w'' 6 4 demo_unlocked = Some (Claimed c, db) \<and>
     over_budget demo_budget_env (budget_state None c) = Some (False, st)"
proof -
  have u: "\<exists>res. unlock_run demo_env demo_clock True ''op'' 1 7 demo_unlock 3 demo_halted = Inr (res, demo_unlocked)"
    unfolding demo_unlocked_def by (rule sum_db_Inr) code_simp
  have "case claim_run demo_env demo_clock 1 ''w'' 6 4 demo_unlocked of
          Some (Claimed c, _) \<Rightarrow> claimed_id c = 7 \<and> 0 \<le> claimed_tokens_used c | _ \<Rightarrow> False"
    by code_simp
  then obtain c db where "claim_run demo_env demo_clock 1 ''w'' 6 4 demo_unlocked = Some (Claimed c, db)"
      "claimed_id c = 7" "0 \<le> claimed_tokens_used c"
    by (auto split: option.split_asm prod.split_asm claim_outcome.split_asm)
  with u unlocked_run_can_continue [OF demo_variant_reachable(3) _ this] show ?thesis by blast
qed

theorem close_commits_through_floor_witness:
  "find_other_active_investigation_sharing_keys 1 1 2 demo_leased = None"
proof -
  obtain ch where c: "complete_run demo_ce 1 7 demo_close 2 demo_leased = Inr (ch, demo_closed)"
    using demo_closed_ok by blast
  obtain i where i: "cases demo_leased = [i]" "case_id i = 1" "case_tenant i = 1" "case_status i = ''active''"
    by (rule probe_case [OF probe_leased])
  obtain i' where i': "cases demo_closed = [i']" "case_id i' = 1" "case_tenant i' = 1" "case_status i' = ''auto_closed_fp''"
    by (rule probe_case [OF probe_closed])
  from close_commits_through_floor [OF c, of i i'] i i' show ?thesis by simp
qed

lemma demo_variant_runs [simp]: "runs demo_started_late = runs demo_leased" "runs demo_closed_case = runs demo_leased"
  by (simp_all add: demo_started_late_def demo_closed_case_def)


theorem event_batch_idempotent_witness:
  "\<exists>db1. append_run_events 1 7 5 [\<lparr> we_kind = ''budget_warning'', we_payload = [], we_visibility = ''mssp_only'',
       we_ord = 1, we_occurred = None \<rparr>] demo_leased = Inr db1 \<and> events_unique db1"
proof -
  let ?es = "[\<lparr> we_kind = ''budget_warning'', we_payload = [], we_visibility = ''mssp_only'',
       we_ord = 1, we_occurred = None \<rparr>]"
  have "case append_run_events 1 7 5 ?es demo_leased of Inl _ \<Rightarrow> False | Inr _ \<Rightarrow> True" "events_unique demo_leased"
    by code_simp+
  then show ?thesis
    using event_batch_idempotent [of 1 7 5 ?es demo_leased] by (auto split: sum.split_asm)
qed

theorem unknown_label_exempts_priced_dollars_witness:
  "daily_dollars 1 0 (record_spend_delta 1 7 ((demo_report 10 1)\<lparr> rep_source := Some ''unknown'', rep_unpriced := Some 0 \<rparr>) 2 demo_leased)
     = daily_dollars 1 0 demo_leased"
proof -
  have "0 \<le> unpriced_of 7 demo_leased" by code_simp
  then show ?thesis
    by (intro unknown_label_exempts_priced_dollars [where u = 0]) simp_all
qed

theorem escalation_ignores_closed_case_witness:
  "pending_review 1 (sum_db (complete_run demo_ce 1 7 demo_escalate 2 demo_closed_case))"
proof -
  let ?db = "sum_db (complete_run demo_ce 1 7 demo_escalate 2 demo_closed_case)"
  have "case complete_run demo_ce 1 7 demo_escalate 2 demo_closed_case of Inl _ \<Rightarrow> False | Inr _ \<Rightarrow> True"
    by code_simp
  then obtain ch where c: "complete_run demo_ce 1 7 demo_escalate 2 demo_closed_case = Inr (ch, ?db)"
    using sum_db_Inr by blast
  obtain r where r: "runs demo_leased = [r]" "run_id r = 7" "run_status r = Active" "lease_id r = Some 5"
      "run_case r = 1" "run_tenant r = 1"
    by (rule probe_run [OF probe_leased])
  have p: "cp_status demo_escalate = RunCompleted" "cp_lease demo_escalate = 5" "cp_disposition demo_escalate = Some ''escalate''"
    by (simp_all add: demo_escalate_def demo_close_def)
  have cs: "cases demo_closed_case = [demo_case\<lparr> case_status := ''resolved'' \<rparr>]" "case_id demo_case = 1" "case_tenant demo_case = 1"
    by (simp_all add: demo_closed_case_def demo_case_def)
  from escalation_ignores_closed_case [OF c p(1,3) demo_variant_reachable(2), of r "demo_case\<lparr> case_status := ''resolved'' \<rparr>"]
    r cs p show ?thesis by (simp add: holds_lease_def)
qed

end
