(* ===== verification/Ir_Ingest_Props.thy ===== *)
theory Ir_Ingest_Props
  imports Ir_Plane_Correct
begin

text \<open>
  What ingest promises: an event is triaged once, an alert is closed without a look only through the
  floor, and a close the floor refused is never replayed. One property shows where the replay feed
  loses a reopening.
\<close>

subsection \<open>Once per event\<close>

lemma seen_reserved: "grows (reserve_event t e al now db1) db' \<Longrightarrow> seen_event t e db'"
  by (simp add: grows_def seen_event_def reserve_event_def)

lemma seen_after: 
  assumes "triage_event ie fr t e now db = Some (outc, db')" "fr_run fr \<notin> run_id ` set (runs db)"
  shows "seen_event t e db'"
proof (cases "seen_event t e db")
  case False
  then show ?thesis
    by (rule triage_event_reserves [OF assms(1) _ assms(2)]) (rule seen_reserved)
qed (use assms(1) in \<open>simp add: triage_event_def\<close>)

text \<open>
  Ingest is idempotent: once an event is in, an event of the same tenant, source and id is
  answered as a duplicate, whatever else it carries, and changes nothing, as long as the log of
  source events is kept.
\<close>

theorem replayed_event_is_duplicate:
  assumes "triage_event ie fr t e now db = Some (outc, db')" "fr_run fr \<notin> run_id ` set (runs db)"
    and "set (source_events db') \<subseteq> set (source_events db2)"
    and "in_source e2 = in_source e" "in_event e2 = in_event e"
  shows "triage_event ie2 fr2 t e2 now2 db2 = Some (Duplicate (in_event e), db2)"
proof -
  have "seen_event t e2 db2"
    using seen_after [OF assms(1,2)] assms(3-5) by (auto simp: seen_event_def)
  with assms(5) show ?thesis by (simp add: triage_event_def)
qed

subsection \<open>Closes without a look\<close>

text \<open>The part of the store the close decisions read.\<close>

definition floor_part ::
    "ir_db \<Rightarrow> case_row list \<times> key_row list \<times> ((uid \<times> string \<times> string) \<times> int) list \<times> memo_row list \<times> (uid \<times> pydict) list"
  where "floor_part db = (cases db, entity_keys db, key_stats db, verdict_cache db, tenant_policies db)"

lemma floor_part_simps [simp]:
  "floor_part (log_audit t a p r n db) = floor_part db"
  "floor_part (reserve_event t e al now db) = floor_part db"
  "floor_part (describe_alert al e db) = floor_part db"
  "floor_part (audit_floor_veto t al v b db) = floor_part db"
  "floor_part (db\<lparr> alerts := as \<rparr>) = floor_part db"
  by (simp_all add: floor_part_def reserve_event_def describe_alert_def audit_floor_veto_def)

lemma upsert_floor_part: "upsert_alert sha nid t e db = (up, db') \<Longrightarrow> floor_part db' = floor_part db"
  by (auto simp: upsert_alert_def split: option.splits)

lemma deconflict_force:
  "deconflict_step dc t a policy db = Inr (force, db') \<Longrightarrow> floor_part db' = floor_part db \<and>
     (force \<longleftrightarrow> flag ''engagement_deconfliction_enabled'' False policy \<and> (\<exists>n. dc = OutOfScope n))"
  by (auto simp: deconflict_step_def split: if_splits deconfliction.splits)

lemma floor_part_eqs:
  "floor_part db' = floor_part db \<Longrightarrow> cases db' = cases db \<and> entity_keys db' = entity_keys db \<and>
     key_stats db' = key_stats db \<and> verdict_cache db' = verdict_cache db \<and> tenant_policies db' = tenant_policies db"
  by (simp add: floor_part_def)

lemma floor_reads:
  assumes "floor_part db' = floor_part db"
  shows "find_correlated_investigation t keys now db' = find_correlated_investigation t keys now db"
    "volume_cap_exceeded t policy now db' = volume_cap_exceeded t policy now db"
    "lookup_memoized_close me t k now db' = lookup_memoized_close me t k now db"
    "policies_of t db' = policies_of t db"
proof -
  note eqs = floor_part_eqs [OF assms]
  show "find_correlated_investigation t keys now db' = find_correlated_investigation t keys now db"
    using eqs by (simp add: find_correlated_investigation_def eligible_cong [of db' db])
  show "volume_cap_exceeded t policy now db' = volume_cap_exceeded t policy now db"
    by (rule volume_cap_cong) (simp add: eqs)
  show "lookup_memoized_close me t k now db' = lookup_memoized_close me t k now db"
    using eqs by (simp add: lookup_memoized_close_def memo_of_def)
  show "policies_of t db' = policies_of t db" using eqs by (simp add: policies_of_def)
qed

definition floor_passes :: "policy_env \<Rightarrow> uid \<Rightarrow> ioc list \<Rightarrow> corr_key list \<Rightarrow> pydict \<Rightarrow> time \<Rightarrow> ir_db \<Rightarrow> bool" where
  "floor_passes env t iocs keys policy now db \<longleftrightarrow>
     \<not> auto_close_killed (env_auto_close_kill env) policy \<and> iocs = [] \<and>
     find_correlated_investigation t keys now db = None \<and> volume_cap_exceeded t policy now db = Some False"

lemma no_floor_veto: "close_floor_veto env t iocs keys policy now db = Some None \<Longrightarrow> floor_passes env t iocs keys policy now db"
  by (auto simp: close_floor_veto_def floor_passes_def split: if_splits bind_splits)

text \<open>Why a shape was closed by reference, and why a rule closed an alert.\<close>

definition memo_grounds :: "ingest_env \<Rightarrow> uid \<Rightarrow> ingest \<Rightarrow> pydict \<Rightarrow> time \<Rightarrow> ir_db \<Rightarrow> bool" where
  "memo_grounds ie t e policy now db \<longleftrightarrow> flag ''verdict_memoization_enabled'' False policy \<and>
     (\<exists>k. shape_key (Some (in_source e)) (in_decoder e) (in_thash e) (in_tver e) = Some k \<and>
        lookup_memoized_close (ie_memo ie) t k now db \<noteq> None) \<and>
     (flag ''authz_aware_memoization'' False policy \<longrightarrow> (\<exists>v. ie_routine ie = Some v \<and> would_close v))"

definition rules_grounds :: "ingest \<Rightarrow> pydict \<Rightarrow> bool" where
  "rules_grounds e policy \<longleftrightarrow> in_severity e < 3 \<and> \<not> mitre_mapped (in_mitre e) \<and> flag ''auto_close_enabled'' True policy"

lemma rules_wanted: "rules_close_wanted e policy = Some True \<Longrightarrow> rules_grounds e policy"
  by (auto simp: rules_close_wanted_def rules_grounds_def assess_def split: if_splits)

lemma memo_step_closes:
  assumes "memo_step ie fr t a e policy keys now db = Some (Inl (outc, db'))"
    and "flag ''verdict_memoization_enabled'' False policy"
  shows "\<exists>al c. outc = MemoizedClose al c" "memo_grounds ie t e policy now db"
    "floor_passes (ie_env ie) t (in_iocs e) keys policy now db"
  using assms
  by (auto simp: memo_step_def memo_grounds_def Let_def dest!: no_floor_veto split: option.splits bind_splits if_splits)

lemma memo_step_passes:
  "memo_step ie fr t a e policy keys now db = Some (Inr (denied, db')) \<Longrightarrow> floor_part db' = floor_part db"
  by (auto simp: memo_step_def Let_def split: option.splits bind_splits if_splits)

lemma rules_step_closes:
  assumes "rules_step ie fr t a e policy keys now db = Some (Inl (outc, db'))"
  shows "\<exists>al c. outc = AutoClosed al c" "rules_grounds e policy"
    "floor_passes (ie_env ie) t (in_iocs e) keys policy now db"
  using assms
  by (auto simp: rules_step_def dest!: no_floor_veto rules_wanted split: option.splits bind_splits if_splits)

lemma promote_step_promotes:
  "promote_step ie fr t a e policy keys now db = Some (outc, db') \<Longrightarrow> outc = Promoted a (fr_case fr)"
  by (auto simp: promote_step_def split: bind_splits)

text \<open>The grounds of a close, in the store the event arrived at.\<close>

definition close_grounds :: "ingest_env \<Rightarrow> uid \<Rightarrow> ingest \<Rightarrow> pydict \<Rightarrow> corr_key list \<Rightarrow> time \<Rightarrow> ir_db \<Rightarrow> triage_outcome \<Rightarrow> bool"
  where "close_grounds ie t e policy keys now db outc \<longleftrightarrow>
     (case outc of
        MemoizedClose _ _ \<Rightarrow> memo_grounds ie t e policy now db \<and> floor_passes (ie_env ie) t (in_iocs e) keys policy now db
      | AutoClosed _ _ \<Rightarrow> rules_grounds e policy \<and> floor_passes (ie_env ie) t (in_iocs e) keys policy now db
      | _ \<Rightarrow> True)"

lemma close_grounds_cong:
  assumes "floor_part db' = floor_part db"
  shows "close_grounds ie t e policy keys now db' outc = close_grounds ie t e policy keys now db outc"
  by (simp add: close_grounds_def memo_grounds_def floor_passes_def floor_reads [OF assms] cong: triage_outcome.case_cong)

lemma decide_fresh_closes:
  assumes "decide_fresh ie fr t a e policy keys force now db = Some (outc, db')"
  shows "close_grounds ie t e policy keys now db outc \<and> (force \<longrightarrow> outc = Promoted a (fr_case fr))"
proof -
  let ?m = "if flag ''verdict_memoization_enabled'' False policy \<and> \<not> force
            then memo_step ie fr t a e policy keys now db else Some (Inr (False, db))"
  obtain m where m: "?m = Some m"
    using assms by (auto simp: decide_fresh_def split: bind_splits)
  show ?thesis
  proof (cases m)
    case (Inl fin)
    with m assms have "memo_step ie fr t a e policy keys now db = Some (Inl (outc, db'))"
        "flag ''verdict_memoization_enabled'' False policy" "\<not> force"
      by (auto simp: decide_fresh_def split: if_splits)
    from memo_step_closes [OF this(1,2)] this(3) show ?thesis by (auto simp: close_grounds_def)
  next
    case (Inr p)
    obtain denied db1 where p: "p = (denied, db1)" by fastforce
    have part: "floor_part db1 = floor_part db"
      using m Inr p by (auto dest: memo_step_passes split: if_splits)
    let ?r = "if denied \<or> force then Some (Inr db1) else rules_step ie fr t a e policy keys now db1"
    obtain r where r: "?r = Some r"
      using assms m Inr p by (auto simp: decide_fresh_def split: bind_splits)
    show ?thesis
    proof (cases r)
      case (Inl fin)
      with r m \<open>m = Inr p\<close> p assms have "rules_step ie fr t a e policy keys now db1 = Some (Inl (outc, db'))" "\<not> force"
        by (auto simp: decide_fresh_def split: if_splits)
      from rules_step_closes [OF this(1)] this(2) show ?thesis
        unfolding close_grounds_cong [OF part, symmetric] by (auto simp: close_grounds_def)
    next
      case (Inr db2)
      with r m \<open>m = Inr p\<close> p assms have "promote_step ie fr t a e policy keys now db2 = Some (outc, db')"
        by (simp add: decide_fresh_def)
      then show ?thesis by (auto dest!: promote_step_promotes simp: close_grounds_def)
    qed
  qed
qed

lemma triage_fresh_closes:
  assumes "triage_fresh ie fr t a e now db = Some (outc, db')"
  obtains policy where "effective_policy (ie_env ie) (Some (policies_of t db)) [] [] = Some policy"
    "close_grounds ie t e policy (extract_keys (ie_sha ie) (in_entities e) (in_iocs e) (in_rule e)) now db outc"
    "flag ''engagement_deconfliction_enabled'' False policy \<Longrightarrow> ie_deconf ie = OutOfScope n \<Longrightarrow>
       (\<exists>c. outc = CorrelatedTo a c \<or> outc = Reopened a c \<or> outc = Promoted a c)"
proof -
  obtain policy where policy: "effective_policy (ie_env ie) (Some (policies_of t db)) [] [] = Some policy"
    using assms by (auto simp: triage_fresh_def split: bind_splits)
  let ?keys = "extract_keys (ie_sha ie) (in_entities e) (in_iocs e) (in_rule e)"
  note def = assms [unfolded triage_fresh_def policy bind.bind_lunit Let_def]
  show thesis
  proof (cases "correlate_step t a e policy ?keys now db")
    case (Some fin)
    with def have "correlate_step t a e policy ?keys now db = Some (outc, db')" by simp
    then have "\<exists>c. outc = CorrelatedTo a c"
      by (auto simp: correlate_step_def split: if_splits)
    then show thesis by (intro that [OF policy]) (auto simp: close_grounds_def)
  next
    case None
    note none = None
    show thesis
    proof (cases "deconflict_step (ie_deconf ie) t a policy db")
      case (Inl fin)
      with def None have fin: "deconflict_step (ie_deconf ie) t a policy db = Inl (outc, db')" by simp
      then have "outc = DeclaredTest a" "\<exists>n. ie_deconf ie = InScope n"
        by (auto simp: deconflict_step_def split: if_splits deconfliction.splits)
      then show thesis by (intro that [OF policy]) (auto simp: close_grounds_def)
    next
      case (Inr p)
      obtain force db1 where p: "p = (force, db1)" by fastforce
      have d: "floor_part db1 = floor_part db"
          "force \<longleftrightarrow> flag ''engagement_deconfliction_enabled'' False policy \<and> (\<exists>n. ie_deconf ie = OutOfScope n)"
        using deconflict_force Inr p by blast+
      obtain res db2 where r: "check_and_reopen (ie_env ie) (ie_prices ie) (ie_sha ie) fr t e now db1 = Some (res, db2)"
        using def none Inr p by (auto split: bind_splits)
      show thesis
      proof (cases res)
        case None
        have "db2 = db1"
          using r None by (auto simp: check_and_reopen_def Let_def split: option.splits bind_splits)
        with def none Inr p r None have "decide_fresh ie fr t a e policy ?keys force now db1 = Some (outc, db')" by simp
        from decide_fresh_closes [OF this] d show thesis
          by (intro that [OF policy]) (auto simp: close_grounds_cong [OF d(1)])
      next
        case (Some c)
        with def none Inr p r have "outc = Reopened a c" by simp
        then show thesis by (intro that [OF policy]) (auto simp: close_grounds_def)
      qed
    qed
  qed
qed

lemma triage_event_fresh:
  assumes "triage_event ie fr t e now db = Some (outc, db')"
  obtains (known) "(\<exists>s. outc = Duplicate s) \<or> (\<exists>a. outc = Merged a) \<or> (\<exists>a c n. outc = Attached a c n)"
  | (fresh) a dbx where "triage_fresh ie fr t a e now dbx = Some (outc, db')" "floor_part dbx = floor_part db"
proof -
  obtain up db1 where u: "upsert_alert (ie_sha ie) (fr_alert fr) t e db = (up, db1)" by fastforce
  have "floor_part (describe_alert (up_alert up) e (reserve_event t e (up_alert up) now db1)) = floor_part db"
    using upsert_floor_part [OF u] by simp
  then show thesis
    using assms known fresh by (auto simp: triage_event_def u attach_step_def Let_def split: if_splits option.splits)
qed

text \<open>
  Property C7. Ingest closes an alert unseen only through the floor: the kill switch is off, the
  event carries no indicator, no active investigation shares one of its entities, the volume cap
  has room and no engagement rules it out of scope. A rule closes it only below severity three,
  unmapped to MITRE and with automatic closes enabled; the memo only with a recent confident
  close of its shape on record, and where the tenant asks for it only if the alert's own routine
  authorization agrees.
\<close>

theorem ingest_closes_through_floor:
  assumes "triage_event ie fr t e now db = Some (outc, db')" "outc = MemoizedClose a c \<or> outc = AutoClosed a c"
    and "keys = extract_keys (ie_sha ie) (in_entities e) (in_iocs e) (in_rule e)"
  shows "\<exists>policy. effective_policy (ie_env ie) (Some (policies_of t db)) [] [] = Some policy \<and>
    \<not> auto_close_killed (env_auto_close_kill (ie_env ie)) policy \<and> in_iocs e = [] \<and>
    find_correlated_investigation t keys now db = None \<and> volume_cap_exceeded t policy now db = Some False \<and>
    (flag ''engagement_deconfliction_enabled'' False policy \<longrightarrow> (\<forall>n. ie_deconf ie \<noteq> OutOfScope n)) \<and>
    (outc = AutoClosed a c \<longrightarrow> in_severity e < 3 \<and> \<not> mitre_mapped (in_mitre e) \<and> flag ''auto_close_enabled'' True policy) \<and>
    (outc = MemoizedClose a c \<longrightarrow>
       (\<exists>k. shape_key (Some (in_source e)) (in_decoder e) (in_thash e) (in_tver e) = Some k \<and>
          lookup_memoized_close (ie_memo ie) t k now db \<noteq> None) \<and>
       (flag ''authz_aware_memoization'' False policy \<longrightarrow> (\<exists>v. ie_routine ie = Some v \<and> would_close v)))"
  using assms(1)
proof (cases rule: triage_event_fresh)
  case known
  with assms(2) show ?thesis by auto
next
  case (fresh al dbx)
  obtain policy where p: "effective_policy (ie_env ie) (Some (policies_of t dbx)) [] [] = Some policy"
      "close_grounds ie t e policy keys now dbx outc"
      "\<And>n. flag ''engagement_deconfliction_enabled'' False policy \<Longrightarrow> ie_deconf ie \<noteq> OutOfScope n"
    using triage_fresh_closes [OF fresh(1)] assms(2,3) by (metis triage_outcome.distinct triage_outcome.simps)
  from p(1) have "effective_policy (ie_env ie) (Some (policies_of t db)) [] [] = Some policy"
    by (simp add: floor_reads [OF fresh(2)])
  moreover have "close_grounds ie t e policy keys now db outc"
    using p(2) by (simp add: close_grounds_cong [OF fresh(2)])
  ultimately show ?thesis
    using assms(2) p(3)
    by (auto simp: close_grounds_def floor_passes_def memo_grounds_def rules_grounds_def)
qed

subsection \<open>Witnesses\<close>

definition demo_ingest :: ingest_env where
  "demo_ingest = \<lparr> ie_env = demo_env, ie_sha = id, ie_prices = Some None,
     ie_memo = \<lparr> memo_floor_raw = None, memo_ttl_raw = None \<rparr>, ie_deconf = NoEngagement, ie_routine = None \<rparr>"

definition demo_event :: ingest where
  "demo_event = \<lparr> in_source = ''wazuh'', in_rule = Some ''5710'', in_severity = 1, in_assets = [''h1''], in_iocs = [],
     in_event = ''e1'', in_ts = 10, in_description = None, in_title = None, in_entities = [], in_mitre = [],
     in_decoder = None, in_thash = None, in_tver = None \<rparr>"

definition demo_ids :: fresh_ids where
  "demo_ids = \<lparr> fr_alert = 11, fr_case = 12, fr_run = 13 \<rparr>"

lemma demo_ingested: "\<exists>db'. triage_event demo_ingest demo_ids 1 demo_event 20 empty_db = Some (AutoClosed 11 12, db')"
proof -
  have "map_option fst (triage_event demo_ingest demo_ids 1 demo_event 20 empty_db) = Some (AutoClosed 11 12)"
    by code_simp
  then show ?thesis by auto
qed

theorem replayed_event_is_duplicate_witness:
  "\<exists>db'. triage_event demo_ingest demo_ids 1 (demo_event\<lparr> in_severity := 14 \<rparr>) 30 db' = Some (Duplicate ''e1'', db') \<and>
     db' \<noteq> empty_db"
proof -
  obtain db' where db': "triage_event demo_ingest demo_ids 1 demo_event 20 empty_db = Some (AutoClosed 11 12, db')"
    using demo_ingested by blast
  have "fr_run demo_ids \<notin> run_id ` set (runs empty_db)" by (simp add: empty_db_def)
  note dup = replayed_event_is_duplicate [OF db' this subset_refl]
  have "db' \<noteq> empty_db"
    using seen_after [OF db' \<open>fr_run demo_ids \<notin> _\<close>] by (auto simp: seen_event_def empty_db_def)
  with dup [of "demo_event\<lparr> in_severity := 14 \<rparr>" demo_ingest demo_ids 30] show ?thesis
    by (auto simp: demo_event_def)
qed

theorem ingest_closes_through_floor_witness:
  "\<exists>policy. effective_policy demo_env (Some (policies_of 1 empty_db)) [] [] = Some policy \<and>
     \<not> auto_close_killed None policy \<and> in_severity demo_event < 3"
proof -
  obtain db' where db': "triage_event demo_ingest demo_ids 1 demo_event 20 empty_db = Some (AutoClosed 11 12, db')"
    using demo_ingested by blast
  from ingest_closes_through_floor [OF db', of 11 12] show ?thesis
    by (auto simp: demo_ingest_def demo_env_def)
qed

end
