(* ===== verification/Ir_Memo_Props.thy ===== *)
theory Ir_Memo_Props
  imports Ir_Handler_Props Ir_Ingest_Props
begin

text \<open>
  The verdict memo across its two sides, the completion of a run that writes it and ingest that
  closes by reference to it, and the replay feed at a reopening.
\<close>

subsection \<open>Writing and reading the memo\<close>

lemma memo_of_record:
  "memo_of t k (record_verdict t k d c now db) =
     Some (case memo_of t k db of
         None \<Rightarrow> \<lparr> memo_tenant = t, memo_shape = k, memo_decision = d, memo_confidence = c, memo_hits = 0, memo_at = now \<rparr>
       | Some m \<Rightarrow> m\<lparr> memo_decision := d, memo_confidence := c, memo_at := now \<rparr>)"
proof -
  let ?p = "\<lambda>m. memo_tenant m = t \<and> memo_shape m = k"
  have upd: "find ?p (update_where ?p (\<lambda>m. m\<lparr> memo_decision := d, memo_confidence := c, memo_at := now \<rparr>) ms) =
      map_option (\<lambda>m. m\<lparr> memo_decision := d, memo_confidence := c, memo_at := now \<rparr>) (find ?p ms)" for ms
    by (induction ms) auto
  have app: "find ?p ms = None \<Longrightarrow> find ?p (ms @ [m]) = (if ?p m then Some m else None)" for ms m
    by (induction ms) (auto split: if_splits)
  show ?thesis
    by (auto simp: memo_of_def record_verdict_def upd app split: option.splits)
qed


lemma lookup_cong:
  "verdict_cache db' = verdict_cache db \<Longrightarrow> lookup_memoized_close me t k now db' = lookup_memoized_close me t k now db"
  by (simp add: lookup_memoized_close_def memo_of_def)

lemma follow_up_cache: "follow_up env prices nr t c p now db = Some db' \<Longrightarrow> verdict_cache db' = verdict_cache db"
  by (auto simp: follow_up_def dest!: start_run_frame split: if_splits)

lemma dispatch_cache [simp]: "verdict_cache (dispatch_response c rid p eff veto ch db) = verdict_cache db"
  by (simp add: dispatch_response_def split: option.splits)

lemma shape_cong:
  assumes "alerts db' = alerts db" "source_events db' = source_events db"
  shows "shape_of_case t c db' = shape_of_case t c db"
proof -
  have "shape_event a db' = shape_event a db" for a using assms(2) by (simp add: shape_event_def)
  then show ?thesis unfolding shape_of_case_def primary_alert_def assms(1) by presburger
qed

lemma vetoed_floor:
  assumes "server_floor env t c rid p now db = Some (eff, veto, db1)" "completed_as p (cp_disposition p) ''close_fp''"
    and "close_fp_veto_of env t c now db = Some (Some v)"
  shows "eff = Some ''escalate'' \<and> alerts db1 = alerts db \<and> source_events db1 = source_events db"
  using assms
  by (auto simp: server_floor_def close_fp_floor_veto_def Let_def split: bind_splits prod.splits)

lemma vetoed_escalates:
  assumes "finish_case ce t c rid p now db = Some (ch, db')" "completed_as p (cp_disposition p) ''close_fp''"
    and "close_fp_veto_of (ce_env ce) t c now db = Some (Some v)"
    and "cp_confidence p = Some conf" "shape_of_case t c db = Some k"
  shows "lookup_memoized_close me t k now' db' = None"
proof -
  from assms(1) obtain eff veto db1 ch' db2
    where 1: "server_floor (ce_env ce) t c rid p now db = Some (eff, veto, db1)"
      and 2: "apply_disposition (ce_env ce) (ce_sha ce) (ce_review ce) t c rid p eff veto now db1 = Some (ch', db2)"
      and 3: "follow_up (ce_env ce) (ce_prices ce) (ce_new_run ce) t c p now
                (dispatch_response c rid p eff veto ch' (memoize t c p eff now db2)) = Some db'"
    by (auto simp: finish_case_def split: bind_splits)
  note floor = vetoed_floor [OF 1 assms(2,3)]
  have fin: "cp_status p = RunCompleted" using assms(2) by (simp add: completed_as_def)
  have "alerts db2 = alerts db1 \<and> source_events db2 = source_events db1"
    using 2 floor fin by (auto simp: apply_disposition_def completed_as_def)
  then have "shape_of_case t c db2 = Some k"
    using floor assms(5) shape_cong [of db2 db] by simp
  then have "memoize t c p eff now db2 = record_verdict t k ''escalate'' conf now db2"
    using floor fin assms(4) by (simp add: memoize_def record_verdict_memo_def completed_as_def)
  then have "lookup_memoized_close me t k now' db' =
      lookup_memoized_close me t k now' (record_verdict t k ''escalate'' conf now db2)"
    using follow_up_cache [OF 3] by (intro lookup_cong) simp
  then show ?thesis by (simp add: lookup_memoized_close_def memo_of_record split: option.splits)
qed

text \<open>
  Property C25. A close the server's floor refused is never replayed: when a run completes with
  a close and a confidence and the floor vetoes it, the shape of its investigation is on record
  as escalated, so no later alert of that shape closes by reference until a new verdict is
  recorded.
\<close>

theorem vetoed_close_not_replayed:
  assumes "complete_run ce t rid p now db = Inr (ch, db')"
    and "run_of t rid db = Some r" "distinct (map run_id (runs db))"
    and "cp_status p = RunCompleted" "cp_disposition p = Some ''close_fp''" "cp_confidence p = Some conf"
    and "close_fp_veto_of (ce_env ce) t (run_case r) now db = Some (Some v)"
    and "shape_of_case t (run_case r) db = Some k"
  shows "lookup_memoized_close me t k now' db' = None"
proof -
  let ?db = "\<lambda>q. (record_spend_delta t rid (cp_spend p) now db)\<lparr> runs :=
          update_where (holds_lease t rid (cp_lease p)) (complete_row p now) (runs db) \<rparr>"
  obtain q where q: "q \<in> set (runs db)" "holds_lease t rid (cp_lease p) q"
      "finish_case ce t (run_case q) rid p now (?db q) = Some (ch, db')"
    by (rule complete_run_Inr [OF assms(1)]) (rule that)
  have "q = r"
    using distinct_map_eq [OF assms(3) q(1)] run_of_Some [OF assms(2)] holds_leaseD [OF q(2)] by simp
  moreover have "close_fp_veto_of (ce_env ce) t (run_case r) now (?db q) = Some (Some v)"
    using assms(7) close_fp_veto_cong [of "?db q" db] by simp
  moreover have "shape_of_case t (run_case r) (?db q) = Some k"
    using assms(8) shape_cong [of "?db q" db] by simp
  ultimately show ?thesis
    using q(3) assms(4-6) by (intro vetoed_escalates [OF _ _ _ assms(6)]) (simp_all add: completed_as_def)
qed

text \<open>A vetoed close without late evidence completes.\<close>

lemma no_flags_follow_up:
  "\<forall>f\<in>set (case_flags db). \<not> snd f \<Longrightarrow> follow_up env prices nr t c p now db = Some db"
  by (auto simp: follow_up_def case_flags_def)

lemma escalation_completes:
  assumes "server_floor (ce_env ce) t c rid p now db = Some (Some ''escalate'', veto, db1)"
    and "cp_status p = RunCompleted" "\<forall>f\<in>set (case_flags db). \<not> snd f"
  shows "\<exists>db'. finish_case ce t c rid p now db = Some (True, db')"
proof -
  let ?db2 = "record_human_review_requested (ce_review ce) c t (escalation_reason p veto) ''escalate'' (cp_confidence p) db1"
  have "case_flags (dispatch_response c rid p (Some ''escalate'') veto True (memoize t c p (Some ''escalate'') now ?db2)) =
      case_flags db"
    using server_floor_part [OF assms(1)] case_flags_escalate [of "ce_review ce" c t _ _ _ db1] by (simp add: case_flags_def)
  then have "follow_up (ce_env ce) (ce_prices ce) (ce_new_run ce) t c p now
      (dispatch_response c rid p (Some ''escalate'') veto True (memoize t c p (Some ''escalate'') now ?db2)) \<noteq> None"
    using no_flags_follow_up assms(3) by (metis option.distinct(1))
  with assms(1,2) show ?thesis
    by (auto simp: finish_case_def apply_disposition_def completed_as_def)
qed

subsection \<open>Reopening\<close>

text \<open>
  A second reopening of an investigation leaves no trace in its replay feed: the beat carries a
  constant payload, so its key repeats and the append drops it, while the reopening itself takes
  place and is counted.
\<close>

theorem second_reopening_unrecorded:
  assumes "check_and_reopen env prices sha fr t e now db = Some (Some c, db')"
    and "ev \<in> set (events db)" "event_case ev = c" "event_key ev = DerivedKey c ''reopened'' reopen_payload ''triage''"
  shows "events db' = events db \<and>
    (\<exists>i\<in>set (cases db). \<exists>i'\<in>set (cases db'). case_id i = c \<and> case_id i' = c \<and>
       case_status i = ''auto_closed_fp'' \<and> case_status i' = ''active'' \<and> reopen_count i' = reopen_count i + 1)"
proof -
  obtain i where i: "find (reopen_matches sha t e) (cases db) = Some i" "c = case_id i"
    using assms(1) by (auto simp: check_and_reopen_def Let_def split: option.splits bind_splits)
  let ?db1 = "db\<lparr> cases := update_where (\<lambda>q. case_id q = c) reopen_case (cases db) \<rparr>"
  let ?beat = "append_event t c"
  obtain rn db2 where r: "events db2 = events db" "cases db2 = cases ?db1"
      "db' = log_audit t ''ir.investigation.reopened'' ''triage'' c PNone
         (append_event t c (Some rn) ''reopened'' reopen_payload ''mssp_only''
           (DerivedKey c ''reopened'' reopen_payload ''triage'') db2)"
  proof (cases "active_run_for_case c ?db1")
    case (Some rn)
    with assms(1) i show ?thesis
      by (intro that [of ?db1 rn]) (auto simp: check_and_reopen_def Let_def)
  next
    case None
    with assms(1) i obtain dbx where x: "start_run env prices (fr_run fr) t c 0 now ?db1 = Some dbx"
        "db' = log_audit t ''ir.investigation.reopened'' ''triage'' c PNone
         (append_event t c (Some (fr_run fr)) ''reopened'' reopen_payload ''mssp_only''
           (DerivedKey c ''reopened'' reopen_payload ''triage'') dbx)"
      by (auto simp: check_and_reopen_def Let_def split: bind_splits)
    show ?thesis using start_run_frame [OF x(1)] by (intro that [of dbx "fr_run fr"]) (simp_all add: x(2))
  qed
  have "has_event c (DerivedKey c ''reopened'' reopen_payload ''triage'') db2"
    using assms(2-4) r(1) by (auto simp: has_event_def)
  then have "events db' = events db"
    using r(1) by (simp add: r(3) append_event_noop)
  moreover have "i \<in> set (cases db)" "case_status i = ''auto_closed_fp''"
    using find_SomeD [OF i(1)] by (simp_all add: reopen_matches_def)
  moreover have "reopen_case i \<in> set (cases db')"
    using \<open>i \<in> set (cases db)\<close> i(2) r(2) by (auto simp: r(3) set_update_where)
  ultimately show ?thesis
    using i(2) by (intro conjI bexI [of _ i] bexI [of _ "reopen_case i"]) (simp_all add: reopen_case_def)
qed

subsection \<open>Witnesses\<close>

definition demo_alert :: alert_row where
  "demo_alert = (new_alert id 1 3 demo_event)\<lparr> alert_status := ''promoted'', alert_case := Some 1 \<rparr>"

definition demo_shaped :: ir_db where
  "demo_shaped = demo_leased\<lparr> alerts := [demo_alert],
     source_events := [\<lparr> se_tenant = 1, se_source = ''wazuh'', se_event_id = ''e1'', se_alert = Some 3, se_ingested_at = 0,
       se_decoder = Some ''sshd'', se_template_hash = Some ''h'', se_template_version = None \<rparr>] \<rparr>"

definition demo_killed :: completion_env where
  "demo_killed = demo_ce\<lparr> ce_env := demo_env\<lparr> env_auto_close_kill := Some ''1'' \<rparr> \<rparr>"

definition demo_sure :: complete_payload where
  "demo_sure = demo_close\<lparr> cp_confidence := Some (95 / 100) \<rparr>"

lemma demo_shaped_runs [simp]: "runs demo_shaped = runs demo_leased"
  by (simp add: demo_shaped_def)

lemma demo_vetoed: "\<exists>db'. complete_run demo_killed 1 7 demo_sure 2 demo_shaped = Inr (True, db')"
proof -
  obtain r :: run_row where r: "runs demo_leased = [r]" "run_id r = 7" "run_status r = Active" "lease_id r = Some 5"
      "run_case r = 1" "run_tenant r = 1"
    by (rule probe_run [OF probe_leased]) (rule that)
  let ?db = "(record_spend_delta 1 7 (cp_spend demo_sure) 2 demo_shaped)\<lparr> runs :=
     update_where (holds_lease 1 7 5) (complete_row demo_sure 2) (runs demo_shaped) \<rparr>"
  have "case server_floor (ce_env demo_killed) 1 1 7 demo_sure 2 ?db of Some (eff, _, _) \<Rightarrow> eff = Some ''escalate'' | None \<Rightarrow> False"
    by code_simp
  then obtain veto db1 where f: "server_floor (ce_env demo_killed) 1 1 7 demo_sure 2 ?db = Some (Some ''escalate'', veto, db1)"
    by (auto split: option.split_asm prod.split_asm)
  have "cp_status demo_sure = RunCompleted" by (simp add: demo_sure_def demo_close_def)
  moreover have "\<forall>f\<in>set (case_flags ?db). \<not> snd f"
    by (rule probe_case [OF probe_leased]) (simp add: case_flags_def demo_shaped_def)
  ultimately obtain db' where "finish_case demo_killed 1 1 7 demo_sure 2 ?db = Some (True, db')"
    using escalation_completes [OF f] by blast
  moreover have "find (holds_lease 1 7 5) (runs demo_shaped) = Some r"
    using r by (simp add: holds_lease_def)
  moreover have "complete_valid demo_sure" "cp_lease demo_sure = 5"
    by (simp_all add: complete_valid_def demo_sure_def demo_close_def)
  ultimately show ?thesis
    using r(5) by (simp add: complete_run_def Let_def)
qed

theorem vetoed_close_not_replayed_witness:
  "\<exists>db'. complete_run demo_killed 1 7 demo_sure 2 demo_shaped = Inr (True, db') \<and>
     lookup_memoized_close \<lparr> memo_floor_raw = None, memo_ttl_raw = None \<rparr> 1 ''wazuh|sshd|h|'' 3 db' = None"
proof -
  obtain db' where c: "complete_run demo_killed 1 7 demo_sure 2 demo_shaped = Inr (True, db')"
    using demo_vetoed by blast
  obtain r :: run_row where r: "runs demo_leased = [r]" "run_id r = 7" "run_case r = 1" "run_tenant r = 1"
    by (rule probe_run [OF probe_leased]) (rule that)
  then have "run_of 1 7 demo_shaped = Some r" "distinct (map run_id (runs demo_shaped))"
    by (simp_all add: run_of_def)
  moreover have "close_fp_veto_of (ce_env demo_killed) 1 1 2 demo_shaped = Some (Some (VETO_KILL_SWITCH, None))"
    by code_simp
  moreover have "shape_of_case 1 1 demo_shaped = Some ''wazuh|sshd|h|''"
    by code_simp
  moreover have "cp_status demo_sure = RunCompleted" "cp_disposition demo_sure = Some ''close_fp''"
      "cp_confidence demo_sure = Some (95 / 100)"
    by (simp_all add: demo_sure_def demo_close_def)
  ultimately show ?thesis
    using c vetoed_close_not_replayed [OF c] r(3) by metis
qed

definition demo_closed_row :: case_row where
  "demo_closed_row = demo_case\<lparr> case_status := ''auto_closed_fp'', reopen_count := 1,
     reopen_signature := Some \<lparr> sig_iocs = [], sig_assets = [''h1''], sig_rules = [] \<rparr>, reopen_until := Some 100 \<rparr>"

definition demo_beat :: event_row where
  "demo_beat = \<lparr> event_tenant = 1, event_case = 1, event_run = Some 7, event_kind = ''reopened'',
     event_payload = reopen_payload, event_visibility = ''mssp_only'',
     event_key = DerivedKey 1 ''reopened'' reopen_payload ''triage'' \<rparr>"

definition demo_reclosed :: ir_db where
  "demo_reclosed = empty_db\<lparr> cases := [demo_closed_row], events := [demo_beat] \<rparr>"

theorem second_reopening_unrecorded_witness:
  "\<exists>db'. check_and_reopen demo_env (Some None) id demo_ids 1 demo_event 20 demo_reclosed = Some (Some 1, db') \<and>
     events db' = [demo_beat]"
proof -
  have "map_option fst (check_and_reopen demo_env (Some None) id demo_ids 1 demo_event 20 demo_reclosed) = Some (Some 1)"
    by code_simp
  then obtain db' where c: "check_and_reopen demo_env (Some None) id demo_ids 1 demo_event 20 demo_reclosed = Some (Some 1, db')"
    by auto
  have ev: "events demo_reclosed = [demo_beat]" by (simp add: demo_reclosed_def)
  have "events db' = events demo_reclosed"
    using second_reopening_unrecorded [OF c, of demo_beat] by (simp add: ev demo_beat_def)
  with c ev show ?thesis by auto
qed

end
