(* ===== verification/Rs_Model.thy ===== *)
theory Rs_Model
  imports Policy_Authoring Ir_Store
begin

text \<open>
  Response playbooks as data: the vetted capabilities (\<open>response/capabilities.py\<close>), the schema and
  its legality checks (\<open>response/models.py\<close>), the file registry (\<open>response/registry.py\<close>) and the
  authored revisions (\<open>response/authoring.py\<close>). Reading YAML and coercing a mapping into the schema
  are library code (\<open>yaml_load\<close>, \<open>coerce\<close>); the legality checks on the coerced value are the
  source's own and follow it.
\<close>

subsection \<open>Capabilities\<close>

datatype capability_class =
  ReadLocal | ReadExternalSilent | ReadExternalAttributed | WriteSandbox | WriteExternal

fun class_value :: "capability_class \<Rightarrow> string" where
  "class_value ReadLocal = ''read_local''"
| "class_value ReadExternalSilent = ''read_external_silent''"
| "class_value ReadExternalAttributed = ''read_external_attributed''"
| "class_value WriteSandbox = ''write_sandbox''"
| "class_value WriteExternal = ''write_external''"

datatype approval_policy = Autonomous | AnalystApprove | TypedReason | EscalationRequired

fun DEFAULT_APPROVAL :: "capability_class \<Rightarrow> approval_policy" where
  "DEFAULT_APPROVAL ReadLocal = Autonomous"
| "DEFAULT_APPROVAL ReadExternalSilent = Autonomous"
| "DEFAULT_APPROVAL ReadExternalAttributed = AnalystApprove"
| "DEFAULT_APPROVAL WriteSandbox = AnalystApprove"
| "DEFAULT_APPROVAL WriteExternal = TypedReason"

definition approval_policy_for :: "capability_class \<Rightarrow> (string \<times> approval_policy) list \<Rightarrow> approval_policy" where
  "approval_policy_for c exceptions =
     (case map_of exceptions (class_value c) of Some p \<Rightarrow> p | None \<Rightarrow> DEFAULT_APPROVAL c)"

datatype capability_handler = AnnotateInvestigation | NotifyWebhook | ExternalAction

record response_capability =
  cap_name :: string
  cap_class :: capability_class
  cap_approval :: approval_policy
  cap_handler :: capability_handler

definition RESPONSE_CAPABILITIES :: "response_capability list" where
  "RESPONSE_CAPABILITIES =
     [\<lparr> cap_name = ''annotate_investigation'', cap_class = WriteSandbox, cap_approval = Autonomous,
        cap_handler = AnnotateInvestigation \<rparr>,
      \<lparr> cap_name = ''notify_webhook'', cap_class = WriteExternal, cap_approval = Autonomous,
        cap_handler = NotifyWebhook \<rparr>,
      \<lparr> cap_name = ''external_action'', cap_class = WriteExternal, cap_approval = TypedReason,
        cap_handler = ExternalAction \<rparr>]"

text \<open>\<open>RESPONSE_CAPABILITIES.get(name)\<close>.\<close>

definition capability_of :: "string \<Rightarrow> response_capability option" where
  "capability_of n = List.find (\<lambda>c. cap_name c = n) RESPONSE_CAPABILITIES"

definition ON_CLOSE_ALLOWED :: "string list" where
  "ON_CLOSE_ALLOWED = [''annotate_investigation'']"

subsection \<open>Playbooks\<close>

definition ENVELOPE_VERSION :: int where
  "ENVELOPE_VERSION = 2"

definition RESPONSE_STATE_CONTRACT :: "string list" where
  "RESPONSE_STATE_CONTRACT =
     [''disposition'', ''worker_disposition'', ''floor_vetoed'', ''verdict_confidence'', ''severity'',
      ''rule.groups'', ''rule.ids'', ''mitre.techniques'', ''mitre.tactics'']"

record response_action =
  ra_capability :: string
  ra_when :: "pyval option"
  ra_params :: pydict

record response_match =
  rm_groups :: "string list"
  rm_ids :: "string list"
  rm_techniques :: "string list"
  rm_tactics :: "string list"

record response_playbook =
  rp_id :: string
  rp_version :: int
  rp_tenant :: string
  rp_status :: string
  rp_priority :: int
  rp_applies_to :: response_match
  rp_on_escalate :: "response_action list"
  rp_on_close :: "response_action list"

definition action_legal :: "response_action \<Rightarrow> bool" where
  "action_legal a \<longleftrightarrow> capability_of (ra_capability a) \<noteq> None \<and>
     (case ra_when a of None \<Rightarrow> True | Some c \<Rightarrow> validate_condition RESPONSE_STATE_CONTRACT c = Inr ())"

definition block_legal :: "response_action list \<Rightarrow> response_action list \<Rightarrow> bool" where
  "block_legal on_escalate on_close \<longleftrightarrow>
     length on_escalate \<le> 8 \<and> length on_close \<le> 4 \<and>
     list_all action_legal on_escalate \<and> list_all action_legal on_close \<and>
     list_all (\<lambda>a. ra_capability a \<in> set ON_CLOSE_ALLOWED) on_close"

definition playbook_legal :: "response_playbook \<Rightarrow> bool" where
  "playbook_legal pb \<longleftrightarrow>
     1 \<le> length (rp_id pb) \<and> length (rp_id pb) \<le> 128 \<and> rp_status pb \<in> {''active'', ''shadow''} \<and>
     block_legal (rp_on_escalate pb) (rp_on_close pb)"

text \<open>\<open>ResponsePlaybook.model_validate\<close>: the coercion of the schema, then the legality checks.\<close>

definition validate_playbook :: "(pyval \<Rightarrow> response_playbook option) \<Rightarrow> pyval \<Rightarrow> response_playbook option" where
  "validate_playbook coerce raw =
     (case coerce raw of None \<Rightarrow> None | Some pb \<Rightarrow> if playbook_legal pb then Some pb else None)"

definition actions_for :: "response_playbook \<Rightarrow> string \<Rightarrow> response_action list" where
  "actions_for pb disposition =
     (if disposition = ''escalate'' then rp_on_escalate pb
      else if disposition = ''close_fp'' then rp_on_close pb else [])"

subsection \<open>The file registry\<close>

definition parse_response_playbook_text ::
    "(string \<Rightarrow> pyval option) \<Rightarrow> (pyval \<Rightarrow> response_playbook option) \<Rightarrow> string \<Rightarrow> policy_error + response_playbook" where
  "parse_response_playbook_text yaml_load coerce txt =
     (if int (length txt) > MAX_FILE_BYTES then Inl FileTooLarge
      else case yaml_load txt of
          None \<Rightarrow> Inl YamlInvalid
        | Some (PDict d) \<Rightarrow>
            (case validate_playbook coerce (PDict (dsetdefault ''status'' (PStr ''shadow'') d)) of
               None \<Rightarrow> Inl SchemaInvalid
             | Some pb \<Rightarrow> Inr pb)
        | Some _ \<Rightarrow> Inl RootNotDict)"

definition load_response_playbook_file ::
    "(string \<Rightarrow> pyval option) \<Rightarrow> (pyval \<Rightarrow> response_playbook option) \<Rightarrow> policy_file \<Rightarrow> policy_error + response_playbook" where
  "load_response_playbook_file yaml_load coerce f =
     (if st_size f > MAX_FILE_BYTES then Inl FileTooLarge
      else parse_response_playbook_text yaml_load coerce (content f))"

text \<open>A file that does not load, or repeats an identifier, is skipped.\<close>

fun load_response_files ::
    "(string \<Rightarrow> pyval option) \<Rightarrow> (pyval \<Rightarrow> response_playbook option) \<Rightarrow> string list \<Rightarrow> policy_file list
     \<Rightarrow> response_playbook list" where
  "load_response_files yaml_load coerce seen [] = []"
| "load_response_files yaml_load coerce seen (f # fs) =
     (case load_response_playbook_file yaml_load coerce f of
        Inl e \<Rightarrow> load_response_files yaml_load coerce seen fs
      | Inr pb \<Rightarrow>
          (if rp_id pb \<in> set seen then load_response_files yaml_load coerce seen fs
           else pb # load_response_files yaml_load coerce (rp_id pb # seen) fs))"

text \<open>\<open>listing\<close> gives the files of a directory in the order of their names, \<open>None\<close> if there is no such directory.\<close>

definition response_registry ::
    "(string \<Rightarrow> pyval option) \<Rightarrow> (pyval \<Rightarrow> response_playbook option) \<Rightarrow> (string \<Rightarrow> policy_file list option)
     \<Rightarrow> string option \<Rightarrow> response_playbook list" where
  "response_registry yaml_load coerce listing dir =
     (case dir of
        None \<Rightarrow> []
      | Some d \<Rightarrow>
          (if d = [] then []
           else case listing d of
               None \<Rightarrow> []
             | Some fs \<Rightarrow> sort_key rp_priority (load_response_files yaml_load coerce [] fs)))"

subsection \<open>Matching\<close>

text \<open>What a playbook is matched against: the evidence of the envelope and the names of the tenant.\<close>

record match_input =
  mi_groups :: "string list"
  mi_ids :: "string list"
  mi_tenants :: "string list"
  mi_techniques :: "string list"
  mi_tactics :: "string list"

definition response_matches :: "match_input \<Rightarrow> response_playbook \<Rightarrow> bool" where
  "response_matches mi pb =
     (let m = rp_applies_to pb in
      if rp_tenant pb \<noteq> ''*'' \<and> rp_tenant pb \<notin> set (mi_tenants mi) then False
      else if rm_groups m = [] \<and> rm_ids m = [] \<and> rm_techniques m = [] \<and> rm_tactics m = [] then True
      else if list_ex (\<lambda>g. str_lower g \<in> set (mi_groups mi)) (rm_groups m) then True
      else if list_ex (\<lambda>i. i \<in> set (mi_ids mi)) (rm_ids m) then True
      else if list_ex (\<lambda>i. i \<in> set (mi_techniques mi)) (rm_techniques m) then True
      else list_ex (\<lambda>i. i \<in> set (mi_tactics mi)) (rm_tactics m))"

definition match_response_playbooks ::
    "response_playbook list \<Rightarrow> match_input \<Rightarrow> string \<Rightarrow> response_playbook list" where
  "match_response_playbooks reg mi st = filter (\<lambda>pb. rp_status pb = st \<and> response_matches mi pb) reg"

subsection \<open>Authored playbooks\<close>

definition uid_text :: "uid \<Rightarrow> string" where
  "uid_text n = show_int (int n)"

definition RESPONSE_UPSERT_STATUSES :: "string list" where
  "RESPONSE_UPSERT_STATUSES = [''draft'', ''shadow'']"

definition validate_authored_response ::
    "(pyfloat \<Rightarrow> string) \<Rightarrow> (pyval \<Rightarrow> response_playbook option) \<Rightarrow> pyval \<Rightarrow> authoring_error + response_playbook" where
  "validate_authored_response float_repr coerce raw =
     (case raw of
        PDict d \<Rightarrow>
          (if int (length (json_dumps float_repr raw)) > MAX_AUTHORED_BYTES then Inl DefinitionTooLarge
           else case validate_playbook coerce (PDict (dset ''status'' (PStr ''shadow'') d)) of
               None \<Rightarrow> Inl InvalidSchema
             | Some pb \<Rightarrow> if slug_match (rp_id pb) then Inr pb else Inl BadSlug)
      | _ \<Rightarrow> Inl NotAMapping)"

record response_row =
  rs_tenant :: uid
  rs_playbook :: string
  rs_revision :: int
  rs_status :: string
  rs_definition :: pyval
  rs_created_by :: "uid option"

text \<open>\<open>ORDER BY revision DESC LIMIT 1\<close>.\<close>

definition latest_response :: "response_row list \<Rightarrow> uid \<Rightarrow> string \<Rightarrow> response_row option" where
  "latest_response tbl t p = select_first (\<lambda>r. rs_tenant r = t \<and> rs_playbook r = p) (\<lambda>r. - rs_revision r) tbl"

text \<open>\<open>DISTINCT ON (response_playbook_id) ... ORDER BY response_playbook_id, revision DESC\<close>.\<close>

definition latest_rows :: "response_row list \<Rightarrow> uid \<Rightarrow> response_row list" where
  "latest_rows tbl t = List.map_filter (latest_response tbl t)
     (sort (remdups (map rs_playbook (filter (\<lambda>r. rs_tenant r = t) tbl))))"

definition list_authored_response :: "response_row list \<Rightarrow> uid \<Rightarrow> response_row list" where
  "list_authored_response tbl t = filter (\<lambda>r. rs_status r \<noteq> ''retired'') (latest_rows tbl t)"

definition get_authored_response :: "response_row list \<Rightarrow> uid \<Rightarrow> string \<Rightarrow> response_row option" where
  "get_authored_response tbl t p =
     (case latest_response tbl t p of
        None \<Rightarrow> None
      | Some r \<Rightarrow> if rs_status r = ''retired'' then None else Some r)"

text \<open>The unique constraint on tenant, playbook and revision refuses a repeated revision.\<close>

definition insert_response :: "response_row list \<Rightarrow> response_row \<Rightarrow> response_row list option" where
  "insert_response tbl row =
     (if list_ex (\<lambda>r. (rs_tenant r, rs_playbook r, rs_revision r) = (rs_tenant row, rs_playbook row, rs_revision row)) tbl
      then None else Some (tbl @ [row]))"

definition upsert_authored_response ::
    "(pyfloat \<Rightarrow> string) \<Rightarrow> (pyval \<Rightarrow> response_playbook option) \<Rightarrow> (response_playbook \<Rightarrow> pydict) \<Rightarrow> response_row list
     \<Rightarrow> response_row list \<Rightarrow> uid \<Rightarrow> pydict \<Rightarrow> string \<Rightarrow> uid option
     \<Rightarrow> authoring_error + (response_row \<times> response_row list)" where
  "upsert_authored_response float_repr coerce dump snapshot tbl t defn st created_by =
     (if st \<notin> set RESPONSE_UPSERT_STATUSES then Inl BadStatus
      else case validate_authored_response float_repr coerce (PDict (dset ''tenant'' (PStr (uid_text t)) defn)) of
          Inl e \<Rightarrow> Inl e
        | Inr pb \<Rightarrow>
            (let row = \<lparr> rs_tenant = t, rs_playbook = rp_id pb,
                         rs_revision = (case latest_response snapshot t (rp_id pb) of
                                          None \<Rightarrow> 1 | Some r \<Rightarrow> rs_revision r + 1),
                         rs_status = st, rs_definition = PDict (dump pb), rs_created_by = created_by \<rparr>
             in case insert_response tbl row of
                 None \<Rightarrow> Inl Conflict
               | Some tbl' \<Rightarrow> Inr (row, tbl')))"

text \<open>\<open>dict(v)\<close> of a JSON value: a mapping, or a sequence of pairs with string keys.\<close>

fun pair_of :: "pyval \<Rightarrow> (string \<times> pyval) option" where
  "pair_of (PList [PStr k, v]) = Some (k, v)"
| "pair_of (PStr [a, b]) = Some ([a], PStr [b])"
| "pair_of (PDict [(k, _), (l, _)]) = Some (k, PStr l)"
| "pair_of _ = None"

fun dict_of :: "pyval \<Rightarrow> pydict option" where
  "dict_of (PDict d) = Some d"
| "dict_of (PList xs) = map_option (\<lambda>ps. fold (\<lambda>(k, v). dset k v) ps []) (py_map pair_of xs)"
| "dict_of (PStr []) = Some []"
| "dict_of _ = None"

definition retire_authored_response ::
    "response_row list \<Rightarrow> response_row list \<Rightarrow> uid \<Rightarrow> string \<Rightarrow> uid option
     \<Rightarrow> authoring_error + (bool \<times> response_row list)" where
  "retire_authored_response snapshot tbl t p retired_by =
     (case latest_response snapshot t p of
        None \<Rightarrow> Inr (False, tbl)
      | Some r \<Rightarrow>
          (if rs_status r = ''retired'' then Inr (False, tbl)
           else case dict_of (rs_definition r) of
               None \<Rightarrow> Inl NotAMapping
             | Some d \<Rightarrow>
                 (case insert_response tbl
                         \<lparr> rs_tenant = t, rs_playbook = p, rs_revision = rs_revision r + 1, rs_status = ''retired'',
                           rs_definition = PDict d, rs_created_by = retired_by \<rparr> of
                    None \<Rightarrow> Inl IntegrityViolation
                  | Some tbl' \<Rightarrow> Inr (True, tbl'))))"

text \<open>Activation validates the stored definition again; deactivation never does.\<close>

definition set_authored_response_status ::
    "(pyfloat \<Rightarrow> string) \<Rightarrow> (pyval \<Rightarrow> response_playbook option) \<Rightarrow> response_row list \<Rightarrow> response_row list
     \<Rightarrow> uid \<Rightarrow> string \<Rightarrow> string \<Rightarrow> uid option \<Rightarrow> authoring_error + (response_row option \<times> response_row list)" where
  "set_authored_response_status float_repr coerce snapshot tbl t p st created_by =
     (if st \<noteq> ''active'' \<and> st \<noteq> ''shadow'' then Inl BadStatus
      else case latest_response snapshot t p of
          None \<Rightarrow> Inr (None, tbl)
        | Some r \<Rightarrow>
            (if rs_status r = ''retired'' then Inr (None, tbl)
             else case (if st = ''active''
                        then (case validate_authored_response float_repr coerce (rs_definition r) of
                                Inl e \<Rightarrow> Some e | Inr _ \<Rightarrow> None)
                        else None) of
                 Some e \<Rightarrow> Inl e
               | None \<Rightarrow>
                   (let row = \<lparr> rs_tenant = t, rs_playbook = p, rs_revision = rs_revision r + 1, rs_status = st,
                                rs_definition = rs_definition r, rs_created_by = created_by \<rparr>
                    in case insert_response tbl row of
                        None \<Rightarrow> Inl Conflict
                      | Some tbl' \<Rightarrow> Inr (Some row, tbl'))))"

subsection \<open>What validation admits\<close>

lemma capability_of_Some:
  "capability_of n = Some c \<Longrightarrow> c \<in> set RESPONSE_CAPABILITIES \<and> cap_name c = n"
  by (auto simp: capability_of_def dest!: find_SomeD)

lemma validate_playbook_SomeD:
  "validate_playbook coerce raw = Some pb \<Longrightarrow> playbook_legal pb \<and> coerce raw = Some pb"
  by (auto simp: validate_playbook_def split: option.splits if_splits)

lemma validate_authored_response_InrD:
  "validate_authored_response fr coerce raw = Inr pb \<Longrightarrow> playbook_legal pb \<and> slug_match (rp_id pb)"
  by (cases raw) (auto simp: validate_authored_response_def split: if_splits option.splits dest: validate_playbook_SomeD)

lemma actions_for_legal:
  "playbook_legal pb \<Longrightarrow> a \<in> set (actions_for pb d) \<Longrightarrow>
     action_legal a \<and> (d = ''close_fp'' \<longrightarrow> ra_capability a = ''annotate_investigation'')"
  by (auto simp: playbook_legal_def block_legal_def actions_for_def list_all_iff ON_CLOSE_ALLOWED_def split: if_splits)

lemma actions_for_length: "playbook_legal pb \<Longrightarrow> length (actions_for pb d) \<le> 8"
  by (auto simp: playbook_legal_def block_legal_def actions_for_def)

text \<open>The capabilities that run without a human: a note on the case, or the tenant's own webhook.\<close>

lemma autonomous_capabilities:
  "c \<in> set RESPONSE_CAPABILITIES \<Longrightarrow> cap_approval c = Autonomous \<Longrightarrow>
     cap_handler c = AnnotateInvestigation \<or> cap_handler c = NotifyWebhook"
  by (auto simp: RESPONSE_CAPABILITIES_def)

lemma capability_cases:
  "capability_of n = Some c \<Longrightarrow>
     n = ''annotate_investigation'' \<and> cap_handler c = AnnotateInvestigation \<and> cap_approval c = Autonomous \<and> cap_class c = WriteSandbox \<or>
     n = ''notify_webhook'' \<and> cap_handler c = NotifyWebhook \<and> cap_approval c = Autonomous \<and> cap_class c = WriteExternal \<or>
     n = ''external_action'' \<and> cap_handler c = ExternalAction \<and> cap_approval c = TypedReason \<and> cap_class c = WriteExternal"
  by (auto simp: RESPONSE_CAPABILITIES_def dest!: capability_of_Some)

lemma load_response_files_sound:
  "distinct (map rp_id (load_response_files yl co seen fs)) \<and>
   (\<forall>pb\<in>set (load_response_files yl co seen fs). playbook_legal pb \<and> rp_id pb \<notin> set seen)"
proof (induction fs arbitrary: seen)
  case (Cons f fs)
  show ?case
  proof (cases "load_response_playbook_file yl co f")
    case (Inl e)
    with Cons.IH show ?thesis by simp
  next
    case (Inr pb)
    then have "playbook_legal pb"
      by (auto simp: load_response_playbook_file_def parse_response_playbook_text_def
          split: if_splits option.splits pyval.splits dest: validate_playbook_SomeD)
    with Cons.IH [of seen] Cons.IH [of "rp_id pb # seen"] Inr show ?thesis by (auto simp: image_iff)
  qed
qed simp

lemma response_registry_sound:
  "distinct (map rp_id (response_registry yl co li dir)) \<and>
   sorted (map rp_priority (response_registry yl co li dir)) \<and>
   (\<forall>pb\<in>set (response_registry yl co li dir). playbook_legal pb)"
proof -
  have "response_registry yl co li dir = [] \<or>
      (\<exists>fs. response_registry yl co li dir = sort_key rp_priority (load_response_files yl co [] fs))"
    by (auto simp: response_registry_def split: option.splits)
  then show ?thesis
    using load_response_files_sound [of yl co "[]"] by (auto simp: distinct_map)
qed

subsection \<open>The authored table meets the revision contract\<close>

lemma latest_response_Some:
  "latest_response tbl t p = Some r \<Longrightarrow> r \<in> set tbl \<and> rs_tenant r = t \<and> rs_playbook r = p \<and>
     (\<forall>q\<in>set tbl. rs_tenant q = t \<and> rs_playbook q = p \<longrightarrow> rs_revision q \<le> rs_revision r)"
  unfolding latest_response_def by (drule select_first_Some) auto

lemma latest_response_None:
  "latest_response tbl t p = None \<longleftrightarrow> (\<forall>q\<in>set tbl. \<not> (rs_tenant q = t \<and> rs_playbook q = p))"
  by (simp add: latest_response_def)

interpretation authored_responses: revision_store "\<lambda>r. (rs_tenant r, rs_playbook r)" rs_revision
    insert_response "\<lambda>tbl (t, p). latest_response tbl t p"
proof unfold_locales
  fix tbl k r
  show "(case k of (t, p) \<Rightarrow> latest_response tbl t p) = None \<longleftrightarrow>
      (\<forall>q\<in>set tbl. (rs_tenant q, rs_playbook q) \<noteq> k)"
    by (cases k) (auto simp: latest_response_None)
  show "(case k of (t, p) \<Rightarrow> latest_response tbl t p) = Some r \<Longrightarrow>
      r \<in> set tbl \<and> (rs_tenant r, rs_playbook r) = k \<and>
      (\<forall>q\<in>set tbl. (rs_tenant q, rs_playbook q) = k \<longrightarrow> rs_revision q \<le> rs_revision r)"
    by (cases k) (auto dest: latest_response_Some)
qed (auto simp: insert_response_def list_ex_iff split: if_splits)

lemma list_authored_response_iff:
  "r \<in> set (list_authored_response tbl t) \<longleftrightarrow>
     latest_response tbl t (rs_playbook r) = Some r \<and> rs_status r \<noteq> ''retired''"
proof
  assume "r \<in> set (list_authored_response tbl t)"
  then show "latest_response tbl t (rs_playbook r) = Some r \<and> rs_status r \<noteq> ''retired''"
    by (auto simp: list_authored_response_def latest_rows_def map_filter_def) (metis latest_response_Some)+
next
  assume r: "latest_response tbl t (rs_playbook r) = Some r \<and> rs_status r \<noteq> ''retired''"
  then have "rs_playbook r \<in> rs_playbook ` {q \<in> set tbl. rs_tenant q = t}"
    by (auto dest: latest_response_Some)
  with r show "r \<in> set (list_authored_response tbl t)"
    by (auto simp: list_authored_response_def latest_rows_def map_filter_def intro!: image_eqI [of _ _ "rs_playbook r"])
qed

end
