(* ===== verification/Rs_Dispatch.thy ===== *)
theory Rs_Dispatch
  imports Rs_Model "HOL-Library.Product_Lexorder"
begin

text \<open>
  From a finished run to queued response actions: the disposition envelope
  (\<open>response/envelope.py\<close>), the matching of file and authored playbooks, and the enqueue into the
  outbox inside the transaction that completes the run (\<open>response/dispatch.py\<close>). The store of the
  response plane is a record around the store of the run plane. The text of a float or of a
  container is the parameter \<open>repr\<close>; an identifier's text is its decimal form.
\<close>

subsection \<open>The store of the response plane\<close>

datatype rs_error =
    Malformed | ScopeMismatch | NotOwned | UnknownCapability string | CapabilityFailed
  | NotClaimable string | ProposalMissing | WrongProposalStatus string | NoToolHandler string | ToolFailed
  | NoOutboxHandler string

datatype outbox_status = Pending | InFlight | Succeeded | OutboxFailed

record outbox_row =
  ob_id :: uid
  ob_tenant :: uid
  ob_case :: uid
  ob_kind :: string
  ob_key :: string
  ob_payload :: pydict
  ob_system :: "string option"
  ob_ref :: "string option"
  ob_status :: outbox_status
  ob_attempts :: int
  ob_max_attempts :: int
  ob_error :: "rs_error option"
  ob_claimed_at :: "time option"
  ob_claimed_by :: "string option"
  ob_next_attempt :: time
  ob_succeeded_at :: "time option"

datatype proposal_status =
  Draft | Proposed | Approved | Rejected | Executing | Executed | RolledBack | ProposalFailed

fun status_value :: "proposal_status \<Rightarrow> string" where
  "status_value Draft = ''draft''"
| "status_value Proposed = ''proposed''"
| "status_value Approved = ''approved''"
| "status_value Rejected = ''rejected''"
| "status_value Executing = ''executing''"
| "status_value Executed = ''executed''"
| "status_value RolledBack = ''rolled_back''"
| "status_value ProposalFailed = ''failed''"

record proposal_row =
  pr_id :: uid
  pr_tenant :: uid
  pr_case :: uid
  pr_run :: "uid option"
  pr_action :: string
  pr_params :: pydict
  pr_rationale :: string
  pr_class :: string
  pr_status :: proposal_status
  pr_key :: string
  pr_approver :: "uid option"
  pr_approval_reason :: "string option"
  pr_rejected_reason :: "string option"

record exec_row =
  ex_tenant :: uid
  ex_case :: "uid option"
  ex_run :: "uid option"
  ex_kind :: string
  ex_subject :: string
  ex_capability :: pyval
  ex_ref :: "string option"
  ex_error :: "rs_error option"
  ex_playbook :: string
  ex_envelope :: pyval

record note_row =
  nt_tenant :: uid
  nt_case :: uid
  nt_author :: string
  nt_body :: string

text \<open>One row of the join of an investigation's alerts with their source events.\<close>

record evidence_row =
  ev_case :: uid
  ev_first_at :: time
  ev_severity :: int
  ev_rule :: "string option"
  ev_iocs :: pyval
  ev_mitre :: pyval
  ev_groups :: pyval
  ev_entities :: pyval

record action_db =
  core :: ir_db
  outbox :: "outbox_row list"
  proposals :: "proposal_row list"
  exec_log :: "exec_row list"
  case_notes :: "note_row list"
  response_rows :: "response_row list"
  tenant_slugs :: "(uid \<times> string) list"
  evidence :: "evidence_row list"

subsection \<open>The envelope\<close>

definition text_of :: "(pyval \<Rightarrow> string) \<Rightarrow> pyval \<Rightarrow> string" where
  "text_of repr v = (case py_str v of Some s \<Rightarrow> s | None \<Rightarrow> repr v)"

definition opt_text :: "string option \<Rightarrow> pyval" where
  "opt_text s = (case s of None \<Rightarrow> PNone | Some x \<Rightarrow> PStr x)"

record facets =
  fc_severity :: int
  fc_rule_ids :: "string list"
  fc_groups :: "string list"
  fc_techniques :: "string list"
  fc_tactics :: "string list"
  fc_names :: "string list"
  fc_entities :: "pyval list"
  fc_iocs :: "pyval list"

definition no_facets :: facets where
  "no_facets = \<lparr> fc_severity = 0, fc_rule_ids = [], fc_groups = [], fc_techniques = [], fc_tactics = [],
     fc_names = [], fc_entities = [], fc_iocs = [] \<rparr>"

text \<open>\<open>if x not in xs: xs.append(x)\<close>, on texts and on values.\<close>

definition add_new :: "string \<Rightarrow> string list \<Rightarrow> string list" where
  "add_new x xs = (if x \<in> set xs then xs else xs @ [x])"

definition add_value :: "pyval \<Rightarrow> pyval list \<Rightarrow> pyval list" where
  "add_value x xs = (if list_ex (py_eq x) xs then xs else xs @ [x])"

definition add_texts :: "(pyval \<Rightarrow> string) \<Rightarrow> pyval list \<Rightarrow> string list \<Rightarrow> string list" where
  "add_texts repr vs =
     fold (\<lambda>v acc. let s = text_of repr v in if s \<noteq> [] then add_new s acc else acc) vs"

fun scalar_or_list :: "pyval \<Rightarrow> pyval list" where
  "scalar_or_list PNone = []"
| "scalar_or_list (PList xs) = xs"
| "scalar_or_list v = [v]"

definition mitre_values :: "string list \<Rightarrow> pydict \<Rightarrow> pyval list" where
  "mitre_values keys d = concat (map (\<lambda>k. scalar_or_list (dget k d)) keys)"

definition collect_mitre :: "(pyval \<Rightarrow> string) \<Rightarrow> pyval \<Rightarrow> facets \<Rightarrow> facets" where
  "collect_mitre repr v fc =
     (case py_or_else v (PDict []) of
        PDict d \<Rightarrow>
          fc\<lparr> fc_techniques := add_texts repr (mitre_values [''ids'', ''id''] d) (fc_techniques fc),
              fc_tactics := add_texts repr (mitre_values [''tactics'', ''tactic''] d) (fc_tactics fc),
              fc_names := add_texts repr (mitre_values [''techniques'', ''technique''] d) (fc_names fc) \<rparr>
      | _ \<Rightarrow> fc)"

definition collect_row :: "(pyval \<Rightarrow> string) \<Rightarrow> evidence_row \<Rightarrow> facets \<Rightarrow> facets py" where
  "collect_row repr e fc = do {
     groups \<leftarrow> py_iter_or_empty (ev_groups e);
     entities \<leftarrow> py_iter_or_empty (ev_entities e);
     iocs \<leftarrow> py_iter_or_empty (ev_iocs e);
     let fc1 = fc\<lparr> fc_severity := max (fc_severity fc) (ev_severity e),
                   fc_rule_ids := (case ev_rule e of
                                     None \<Rightarrow> fc_rule_ids fc
                                   | Some r \<Rightarrow> if r = [] then fc_rule_ids fc else add_new r (fc_rule_ids fc)),
                   fc_groups := fold (\<lambda>g. add_new (str_lower (text_of repr g))) groups (fc_groups fc) \<rparr>;
     Some ((collect_mitre repr (ev_mitre e) fc1)\<lparr>
             fc_entities := fold add_value entities (fc_entities fc),
             fc_iocs := fold add_value iocs (fc_iocs fc) \<rparr>) }"

fun collect_rows :: "(pyval \<Rightarrow> string) \<Rightarrow> evidence_row list \<Rightarrow> facets \<Rightarrow> facets py" where
  "collect_rows repr [] fc = Some fc"
| "collect_rows repr (e # es) fc = do { fc' \<leftarrow> collect_row repr e fc; collect_rows repr es fc' }"

text \<open>What the completion hands over: the disposition and the verdict of the run.\<close>

record completed_run =
  cr_tenant :: uid
  cr_case :: uid
  cr_run :: uid
  cr_worker :: "string option"
  cr_effective :: string
  cr_veto :: "string option"
  cr_summary :: "string option"
  cr_confidence :: "rat option"
  cr_enrichments :: pydict

definition worker_vetoes_of :: "(pyval \<Rightarrow> string) \<Rightarrow> pydict \<Rightarrow> string list py" where
  "worker_vetoes_of repr enrichments =
     (case dget ''safety_floor'' enrichments of
        PDict d \<Rightarrow> map_option (map (text_of repr)) (py_iter_or_empty (dget ''vetoes'' d))
      | _ \<Rightarrow> Some [])"

definition envelope_dict :: "completed_run \<Rightarrow> string list \<Rightarrow> facets \<Rightarrow> pydict" where
  "envelope_dict cr vetoes fc =
     [(''version'', PInt ENVELOPE_VERSION),
      (''tenant_id'', PStr (uid_text (cr_tenant cr))),
      (''investigation_id'', PStr (uid_text (cr_case cr))),
      (''run_id'', PStr (uid_text (cr_run cr))),
      (''disposition'', PStr (cr_effective cr)),
      (''worker_disposition'', opt_text (cr_worker cr)),
      (''floor'', PDict [(''server_veto'', opt_text (cr_veto cr)), (''worker_vetoes'', pstrs vetoes)]),
      (''verdict'', PDict [(''summary'', opt_text (cr_summary cr)),
                           (''confidence'', case cr_confidence cr of None \<Rightarrow> PNone | Some q \<Rightarrow> PFloat (Fin q))]),
      (''severity'', PInt (fc_severity fc)),
      (''rule'', PDict [(''ids'', pstrs (fc_rule_ids fc)), (''groups'', pstrs (fc_groups fc))]),
      (''mitre'', PDict [(''techniques'', pstrs (fc_techniques fc)), (''tactics'', pstrs (fc_tactics fc)),
                         (''technique_names'', pstrs (fc_names fc))]),
      (''entities'', PList (take 64 (fc_entities fc))),
      (''iocs'', PList (take 64 (fc_iocs fc)))]"

definition build_envelope :: "(pyval \<Rightarrow> string) \<Rightarrow> completed_run \<Rightarrow> action_db \<Rightarrow> pydict py" where
  "build_envelope repr cr db = do {
     fc \<leftarrow> collect_rows repr
             (sort_key (\<lambda>e. (- ev_severity e, - ev_first_at e)) (filter (\<lambda>e. ev_case e = cr_case cr) (evidence db)))
             no_facets;
     vetoes \<leftarrow> worker_vetoes_of repr (cr_enrichments cr);
     Some (envelope_dict cr vetoes fc) }"

text \<open>\<open>(d.get(k) or {}).get(l)\<close>.\<close>

definition sub_get :: "string \<Rightarrow> string \<Rightarrow> pydict \<Rightarrow> pyval py" where
  "sub_get k l d = py_get l (py_or_else (dget k d) (PDict []))"

definition list_or_empty :: "pyval \<Rightarrow> pyval" where
  "list_or_empty v = py_or_else v (PList [])"

definition response_condition_context :: "pydict \<Rightarrow> pyval py" where
  "response_condition_context env = do {
     server \<leftarrow> sub_get ''floor'' ''server_veto'' env;
     worker \<leftarrow> sub_get ''floor'' ''worker_vetoes'' env;
     confidence \<leftarrow> sub_get ''verdict'' ''confidence'' env;
     groups \<leftarrow> sub_get ''rule'' ''groups'' env;
     ids \<leftarrow> sub_get ''rule'' ''ids'' env;
     techniques \<leftarrow> sub_get ''mitre'' ''techniques'' env;
     tactics \<leftarrow> sub_get ''mitre'' ''tactics'' env;
     Some (PDict
       [(''disposition'', dget ''disposition'' env),
        (''worker_disposition'', dget ''worker_disposition'' env),
        (''floor_vetoed'', PBool (truthy (py_or_else server worker))),
        (''verdict_confidence'', confidence),
        (''severity'', dget ''severity'' env),
        (''rule'', PDict [(''groups'', list_or_empty groups), (''ids'', list_or_empty ids)]),
        (''mitre'', PDict [(''techniques'', list_or_empty techniques), (''tactics'', list_or_empty tactics)])]) }"

subsection \<open>Dispatch\<close>

text \<open>
  What the process brings to a dispatch: the loaded file registry, the environment and the fresh
  identifier of an outbox row, as a function of its delivery key.
\<close>

record dispatch_env =
  de_repr :: "pyval \<Rightarrow> string"
  de_float :: "pyfloat \<Rightarrow> string"
  de_coerce :: "pyval \<Rightarrow> response_playbook option"
  de_registry :: "response_playbook list"
  de_kill :: "string option"
  de_policy :: policy_env
  de_outbox_id :: "string \<Rightarrow> uid"

definition RESPONSE_OUTBOX_KIND :: string where
  "RESPONSE_OUTBOX_KIND = ''response_action''"

definition EXECUTE_PROPOSAL_KIND :: string where
  "EXECUTE_PROPOSAL_KIND = ''execute_proposal''"

definition response_dispatch_killed :: "string option \<Rightarrow> pydict \<Rightarrow> bool" where
  "response_dispatch_killed kill policy \<longleftrightarrow>
     str_lower (env_text kill) \<in> {''1'', ''true'', ''yes''} \<or>
     policy \<noteq> [] \<and> dget ''response_dispatch_kill'' policy = PBool True"

definition delivery_key :: "uid \<Rightarrow> response_playbook \<Rightarrow> nat \<Rightarrow> string" where
  "delivery_key rid pb i =
     ''response:'' @ uid_text rid @ '':'' @ rp_id pb @ ''@'' @ show_int (rp_version pb) @ '':'' @ show_int (int i)"

definition action_selected :: "pyval \<Rightarrow> response_action \<Rightarrow> bool" where
  "action_selected ctx a \<longleftrightarrow> (case ra_when a of None \<Rightarrow> True | Some c \<Rightarrow> evaluate_condition c ctx)"

definition selected_actions :: "response_playbook \<Rightarrow> string \<Rightarrow> pyval \<Rightarrow> (nat \<times> response_action) list" where
  "selected_actions pb disposition ctx =
     filter (\<lambda>(i, a). action_selected ctx a) (List.enumerate 0 (actions_for pb disposition))"

definition tenant_identifiers :: "uid \<Rightarrow> action_db \<Rightarrow> string list" where
  "tenant_identifiers t db =
     uid_text t # (case map_of (tenant_slugs db) t of None \<Rightarrow> [] | Some s \<Rightarrow> if s = [] then [] else [s])"

text \<open>An authored row that governs at the status, if it still validates and is the tenant's own.\<close>

definition governing_playbook :: "dispatch_env \<Rightarrow> uid \<Rightarrow> string \<Rightarrow> response_row \<Rightarrow> response_playbook option" where
  "governing_playbook de t st r =
     (if rs_status r \<noteq> st then None
      else case dict_of (rs_definition r) of
          None \<Rightarrow> None
        | Some d \<Rightarrow>
            (if py_str (dget ''tenant'' d) \<noteq> Some (uid_text t) then None
             else case validate_authored_response (de_float de) (de_coerce de) (PDict d) of
                 Inl e \<Rightarrow> None
               | Inr pb \<Rightarrow> Some pb))"

definition load_dispatchable :: "dispatch_env \<Rightarrow> uid \<Rightarrow> string \<Rightarrow> action_db \<Rightarrow> response_playbook list" where
  "load_dispatchable de t st db = List.map_filter (governing_playbook de t st) (latest_rows (response_rows db) t)"

definition override_file :: "dispatch_env \<Rightarrow> match_input \<Rightarrow> uid \<Rightarrow> string \<Rightarrow> response_row
    \<Rightarrow> (string \<times> response_playbook) list \<Rightarrow> (string \<times> response_playbook) list" where
  "override_file de mi t st r by_id =
     (case governing_playbook de t st r of
        None \<Rightarrow> by_id
      | Some pb \<Rightarrow> if response_matches mi pb then dset (rp_id pb) pb by_id else by_id)"

definition matched :: "dispatch_env \<Rightarrow> match_input \<Rightarrow> uid \<Rightarrow> string \<Rightarrow> action_db \<Rightarrow> response_playbook list" where
  "matched de mi t st db =
     (let rows = list_authored_response (response_rows db) t;
          file = filter (\<lambda>pb. rp_id pb \<notin> rs_playbook ` set rows) (match_response_playbooks (de_registry de) mi st)
      in sort_key rp_priority (map snd
           (fold (override_file de mi t st) rows (fold (\<lambda>pb. dset (rp_id pb) pb) file []))))"

text \<open>\<open>(d.get(k) or {}).get(l) or []\<close>, read as texts.\<close>

definition envelope_texts :: "(pyval \<Rightarrow> string) \<Rightarrow> string \<Rightarrow> string \<Rightarrow> pydict \<Rightarrow> string list py" where
  "envelope_texts repr k l env =
     do { v \<leftarrow> sub_get k l env; xs \<leftarrow> py_iter_or_empty v; Some (map (text_of repr) xs) }"

definition match_input_of :: "dispatch_env \<Rightarrow> uid \<Rightarrow> pydict \<Rightarrow> action_db \<Rightarrow> match_input py" where
  "match_input_of de t env db = do {
     groups \<leftarrow> envelope_texts (de_repr de) ''rule'' ''groups'' env;
     ids \<leftarrow> envelope_texts (de_repr de) ''rule'' ''ids'' env;
     techniques \<leftarrow> envelope_texts (de_repr de) ''mitre'' ''techniques'' env;
     tactics \<leftarrow> envelope_texts (de_repr de) ''mitre'' ''tactics'' env;
     Some \<lparr> mi_groups = groups, mi_ids = ids, mi_tenants = tenant_identifiers t db, mi_techniques = techniques,
            mi_tactics = tactics \<rparr> }"

definition action_payload :: "pydict \<Rightarrow> response_playbook \<Rightarrow> response_action \<Rightarrow> string \<Rightarrow> pydict" where
  "action_payload env pb a delivery =
     [(''envelope'', PDict env),
      (''playbook'', PDict [(''id'', PStr (rp_id pb)), (''version'', PInt (rp_version pb))]),
      (''capability'', PStr (ra_capability a)),
      (''params'', PDict (ra_params a)),
      (''delivery'', PStr delivery)]"

definition new_outbox_row :: "uid \<Rightarrow> uid \<Rightarrow> uid \<Rightarrow> string \<Rightarrow> string \<Rightarrow> pydict \<Rightarrow> string option \<Rightarrow> time \<Rightarrow> outbox_row" where
  "new_outbox_row oid t c kind key payload system now =
     \<lparr> ob_id = oid, ob_tenant = t, ob_case = c, ob_kind = kind, ob_key = key, ob_payload = payload,
       ob_system = system, ob_ref = None, ob_status = Pending, ob_attempts = 0, ob_max_attempts = 5,
       ob_error = None, ob_claimed_at = None, ob_claimed_by = None, ob_next_attempt = now, ob_succeeded_at = None \<rparr>"

text \<open>\<open>INSERT ... ON CONFLICT (idempotency_key) DO NOTHING\<close>, with the number of rows inserted.\<close>

definition insert_outbox :: "outbox_row \<Rightarrow> outbox_row list \<Rightarrow> nat \<times> outbox_row list" where
  "insert_outbox r tbl = (if ob_key r \<in> ob_key ` set tbl then (0, tbl) else (1, tbl @ [r]))"

definition action_row :: "dispatch_env \<Rightarrow> completed_run \<Rightarrow> pydict \<Rightarrow> response_playbook \<Rightarrow> time
    \<Rightarrow> nat \<times> response_action \<Rightarrow> outbox_row" where
  "action_row de cr env pb now ia =
     (let key = delivery_key (cr_run cr) pb (fst ia) in
      new_outbox_row (de_outbox_id de key) (cr_tenant cr) (cr_case cr) RESPONSE_OUTBOX_KIND key
        (action_payload env pb (snd ia) key)
        (if ra_capability (snd ia) = ''notify_webhook'' then Some ''webhook'' else None) now)"

fun insert_rows :: "outbox_row list \<Rightarrow> outbox_row list \<Rightarrow> nat \<times> outbox_row list" where
  "insert_rows [] tbl = (0, tbl)"
| "insert_rows (r # rs) tbl =
     (let (n, tbl1) = insert_outbox r tbl; (m, tbl2) = insert_rows rs tbl1 in (n + m, tbl2))"

text \<open>The notes of the audit rows, and the audit itself.\<close>

definition playbook_label :: "response_playbook \<Rightarrow> string" where
  "playbook_label pb = rp_id pb @ ''@'' @ show_int (rp_version pb)"

definition audit_dispatch :: "string \<Rightarrow> completed_run \<Rightarrow> pyval \<Rightarrow> action_db \<Rightarrow> action_db" where
  "audit_dispatch act cr notes db =
     db\<lparr> core := log_audit (cr_tenant cr) act ''response_dispatch'' (cr_case cr) notes (core db) \<rparr>"

definition actions_note :: "completed_run \<Rightarrow> response_playbook \<Rightarrow> (nat \<times> response_action) list \<Rightarrow> pyval" where
  "actions_note cr pb selected = PDict
     [(''playbook'', PStr (playbook_label pb)), (''run_id'', PStr (uid_text (cr_run cr))),
      (''disposition'', PStr (cr_effective cr)),
      (''actions'', pstrs (map (ra_capability \<circ> snd) selected))]"

definition audit_shadow :: "completed_run \<Rightarrow> pyval \<Rightarrow> response_playbook \<Rightarrow> action_db \<Rightarrow> action_db" where
  "audit_shadow cr ctx pb db =
     (let selected = selected_actions pb (cr_effective cr) ctx in
      if selected = [] then db
      else audit_dispatch ''ir.response_playbook.shadow'' cr (actions_note cr pb selected) db)"

definition enqueue_playbook :: "dispatch_env \<Rightarrow> completed_run \<Rightarrow> pydict \<Rightarrow> pyval \<Rightarrow> time \<Rightarrow> response_playbook
    \<Rightarrow> nat \<times> action_db \<Rightarrow> nat \<times> action_db" where
  "enqueue_playbook de cr env ctx now pb = (\<lambda>(n, db).
     let selected = selected_actions pb (cr_effective cr) ctx;
         (m, tbl) = insert_rows (map (action_row de cr env pb now) selected) (outbox db);
         db1 = db\<lparr> outbox := tbl \<rparr>
     in (n + m, if m = 0 then db1
                else audit_dispatch ''ir.response_playbook.dispatched'' cr (actions_note cr pb selected) db1))"

definition dispatch_for_completed_run :: "dispatch_env \<Rightarrow> completed_run \<Rightarrow> time \<Rightarrow> action_db \<Rightarrow> (nat \<times> action_db) py" where
  "dispatch_for_completed_run de cr now db = do {
     env \<leftarrow> build_envelope (de_repr de) cr db;
     ctx \<leftarrow> response_condition_context env;
     mi \<leftarrow> match_input_of de (cr_tenant cr) env db;
     let db1 = fold (audit_shadow cr ctx) (matched de mi (cr_tenant cr) ''shadow'' db) db;
     let active = matched de mi (cr_tenant cr) ''active'' db1;
     if active = [] then Some (0, db1)
     else do {
       policy \<leftarrow> effective_policy (de_policy de) (Some (policies_of (cr_tenant cr) (core db1))) [] [];
       if response_dispatch_killed (de_kill de) policy
       then Some (0, audit_dispatch ''ir.response_playbook.dispatch_killed'' cr
              (PDict [(''run_id'', PStr (uid_text (cr_run cr))), (''playbooks'', pstrs (map rp_id active))]) db1)
       else Some (fold (enqueue_playbook de cr env ctx now) active (0, db1)) } }"

text \<open>The call in \<open>complete_run\<close> runs under a savepoint: a dispatch that raises changes nothing.\<close>

definition dispatch_guarded :: "dispatch_env \<Rightarrow> completed_run \<Rightarrow> time \<Rightarrow> action_db \<Rightarrow> action_db" where
  "dispatch_guarded de cr now db =
     (case dispatch_for_completed_run de cr now db of None \<Rightarrow> db | Some (n, db') \<Rightarrow> db')"

end
