(* ===== verification/Tn_Permissions.thy ===== *)
theory Tn_Permissions
  imports Ir_Store
begin

text \<open>
  Who may do what: roles and user types (\<open>core/tenancy/models.py\<close>), the permission bundles
  (\<open>core/tenancy/permissions.py\<close>) and the endpoint guards (\<open>core/tenancy/decorators.py\<close>). A guard
  reads the identity that the authentication middleware attached to the request, or its absence,
  and returns nothing or an HTTP error. Roles and user types are the strings the token carries.
\<close>

subsection \<open>Roles and permissions\<close>

datatype permission =
    VIEW_INVESTIGATIONS | TRIAGE_INVESTIGATION | REVIEW_DECIDE | APPROVE_PROPOSAL | VIEW_ALERTS
  | VIEW_DASHBOARD | VIEW_ANALYTICS | VIEW_AUDIT | USE_CHAT | VIEW_TRIAGE_POLICIES | VIEW_ENGAGEMENTS
  | VIEW_AUTHORIZATION_FACTS | VIEW_TENANTS
  | AUTHORIZE_ENGAGEMENT | MANAGE_AUTHORIZATION_FACTS | APPROVE_PRIVILEGED_PROPOSAL
  | CONFIGURE_INTEGRATIONS | MANAGE_EXTERNAL_SIEM | CONFIGURE_LLM | MANAGE_BRANDING | MANAGE_USERS
  | MANAGE_TRIAGE_POLICIES | MANAGE_TENANT_LIFECYCLE
  | TENANT_VIEW_INVESTIGATIONS | TENANT_VIEW_BRANDING | TENANT_MANAGE_LLM | TENANT_VIEW_ENGAGEMENTS
  | TENANT_AUTHORIZE_ENGAGEMENT | TENANT_VIEW_AUTHORIZATION_FACTS | TENANT_ASSERT_AUTHORIZATION_FACTS
  | TENANT_MANAGE_USERS | TENANT_TRIAGE_INVESTIGATION | TENANT_REVIEW_DECIDE | TENANT_APPROVE_PROPOSAL
  | TENANT_APPROVE_PRIVILEGED_PROPOSAL | TENANT_USE_CHAT

definition ANALYST_PERMISSIONS :: "permission list" where
  "ANALYST_PERMISSIONS =
     [VIEW_INVESTIGATIONS, TRIAGE_INVESTIGATION, REVIEW_DECIDE, APPROVE_PROPOSAL, VIEW_ALERTS, VIEW_DASHBOARD,
      VIEW_ANALYTICS, VIEW_AUDIT, USE_CHAT, VIEW_TRIAGE_POLICIES, VIEW_ENGAGEMENTS, VIEW_AUTHORIZATION_FACTS,
      VIEW_TENANTS]"

definition MANAGER_PERMISSIONS :: "permission list" where
  "MANAGER_PERMISSIONS =
     ANALYST_PERMISSIONS @ [AUTHORIZE_ENGAGEMENT, MANAGE_AUTHORIZATION_FACTS, APPROVE_PRIVILEGED_PROPOSAL]"

definition ADMIN_PERMISSIONS :: "permission list" where
  "ADMIN_PERMISSIONS =
     MANAGER_PERMISSIONS @ [CONFIGURE_INTEGRATIONS, MANAGE_EXTERNAL_SIEM, CONFIGURE_LLM, MANAGE_BRANDING,
       MANAGE_USERS, MANAGE_TRIAGE_POLICIES, MANAGE_TENANT_LIFECYCLE]"

definition TENANT_VIEWER_PERMISSIONS :: "permission list" where
  "TENANT_VIEWER_PERMISSIONS =
     [TENANT_VIEW_INVESTIGATIONS, TENANT_VIEW_BRANDING, TENANT_VIEW_ENGAGEMENTS, TENANT_VIEW_AUTHORIZATION_FACTS]"

definition TENANT_ANALYST_PERMISSIONS :: "permission list" where
  "TENANT_ANALYST_PERMISSIONS =
     TENANT_VIEWER_PERMISSIONS @ [TENANT_TRIAGE_INVESTIGATION, TENANT_REVIEW_DECIDE, TENANT_APPROVE_PROPOSAL,
       TENANT_USE_CHAT]"

definition TENANT_MANAGER_PERMISSIONS :: "permission list" where
  "TENANT_MANAGER_PERMISSIONS =
     TENANT_ANALYST_PERMISSIONS @ [TENANT_AUTHORIZE_ENGAGEMENT, TENANT_ASSERT_AUTHORIZATION_FACTS,
       TENANT_APPROVE_PRIVILEGED_PROPOSAL]"

definition TENANT_ADMIN_PERMISSIONS :: "permission list" where
  "TENANT_ADMIN_PERMISSIONS = TENANT_MANAGER_PERMISSIONS @ [TENANT_MANAGE_LLM, TENANT_MANAGE_USERS]"

definition ROLE_PERMISSIONS :: "(string \<times> permission list) list" where
  "ROLE_PERMISSIONS =
     [(''platform_admin'', ADMIN_PERMISSIONS), (''mssp_admin'', ADMIN_PERMISSIONS),
      (''mssp_manager'', MANAGER_PERMISSIONS), (''analyst'', ANALYST_PERMISSIONS),
      (''tenant_admin'', TENANT_ADMIN_PERMISSIONS), (''tenant_manager'', TENANT_MANAGER_PERMISSIONS),
      (''tenant_analyst'', TENANT_ANALYST_PERMISSIONS), (''customer_viewer'', TENANT_VIEWER_PERMISSIONS)]"

definition permissions_for :: "string option \<Rightarrow> permission list" where
  "permissions_for role =
     (case map_of ROLE_PERMISSIONS (case role of None \<Rightarrow> [] | Some r \<Rightarrow> r) of None \<Rightarrow> [] | Some ps \<Rightarrow> ps)"

definition has_permission :: "string option \<Rightarrow> permission \<Rightarrow> bool" where
  "has_permission role p \<longleftrightarrow> p \<in> set (permissions_for role)"

definition PRIVILEGED_CAPABILITY_CLASSES :: "string list" where
  "PRIVILEGED_CAPABILITY_CLASSES = [''write_external'']"

subsection \<open>Guards\<close>

text \<open>The identity as the middleware attaches it; a missing key reads as \<open>None\<close>.\<close>

record user_identity =
  id_user :: uid
  id_user_type :: "string option"
  id_role :: "string option"
  id_tenant :: "uid option"

datatype audience = Mssp | Tenant

definition user_type_of :: "audience \<Rightarrow> string" where
  "user_type_of a = (case a of Mssp \<Rightarrow> ''mssp'' | Tenant \<Rightarrow> ''tenant'')"

definition require_role :: "string list \<Rightarrow> user_identity option \<Rightarrow> failure + unit" where
  "require_role allowed who =
     (case who of
        None \<Rightarrow> Inl (Http 401)
      | Some i \<Rightarrow> if id_role i \<notin> Some ` set allowed then Inl (Http 403) else Inr ())"

text \<open>An empty list stands for the default set of tenant roles.\<close>

definition require_tenant_role :: "string list \<Rightarrow> user_identity option \<Rightarrow> failure + unit" where
  "require_tenant_role allowed who =
     (let ok = (if allowed = [] then [''tenant_admin'', ''tenant_manager'', ''tenant_analyst'', ''customer_viewer'']
                else allowed)
      in case who of
        None \<Rightarrow> Inl (Http 401)
      | Some i \<Rightarrow>
          if id_user_type i \<noteq> Some ''tenant'' then Inl (Http 403)
          else if id_role i \<notin> Some ` set ok then Inl (Http 403)
          else if id_tenant i = None then Inl (Http 400)
          else Inr ())"

definition require_permission :: "permission list \<Rightarrow> audience \<Rightarrow> user_identity option \<Rightarrow> failure + unit" where
  "require_permission perms a who =
     (case who of
        None \<Rightarrow> Inl (Http 401)
      | Some i \<Rightarrow>
          if id_user_type i \<noteq> Some (user_type_of a) then Inl (Http 403)
          else if a = Tenant \<and> id_tenant i = None then Inl (Http 400)
          else if list_ex (\<lambda>p. \<not> has_permission (id_role i) p) perms then Inl (Http 403)
          else Inr ())"

definition alternative_holds :: "user_identity \<Rightarrow> permission \<times> audience \<Rightarrow> bool" where
  "alternative_holds i pa \<longleftrightarrow>
     id_user_type i = Some (user_type_of (snd pa)) \<and> (snd pa = Tenant \<longrightarrow> id_tenant i \<noteq> None) \<and>
     has_permission (id_role i) (fst pa)"

definition require_permission_any :: "(permission \<times> audience) list \<Rightarrow> user_identity option \<Rightarrow> failure + unit" where
  "require_permission_any pairs who =
     (case who of
        None \<Rightarrow> Inl (Http 401)
      | Some i \<Rightarrow> if list_ex (alternative_holds i) pairs then Inr () else Inl (Http 403))"

subsection \<open>What the bundles separate\<close>

lemmas bundle_defs = ANALYST_PERMISSIONS_def MANAGER_PERMISSIONS_def ADMIN_PERMISSIONS_def
  TENANT_VIEWER_PERMISSIONS_def TENANT_ANALYST_PERMISSIONS_def TENANT_MANAGER_PERMISSIONS_def
  TENANT_ADMIN_PERMISSIONS_def

definition MANAGER_ROLES :: "string list" where
  "MANAGER_ROLES = [''platform_admin'', ''mssp_admin'', ''mssp_manager'', ''tenant_admin'', ''tenant_manager'']"

lemma permissions_for_cases:
  "permissions_for role \<noteq> [] \<Longrightarrow> \<exists>r. role = Some r \<and> (r, permissions_for role) \<in> set ROLE_PERMISSIONS"
  by (cases role) (auto simp: permissions_for_def ROLE_PERMISSIONS_def split: if_splits)

lemma privileged_is_manager:
  "has_permission role APPROVE_PRIVILEGED_PROPOSAL \<or> has_permission role TENANT_APPROVE_PRIVILEGED_PROPOSAL
     \<longleftrightarrow> role \<in> Some ` set MANAGER_ROLES"
  by (cases role)
    (auto simp: has_permission_def permissions_for_def ROLE_PERMISSIONS_def bundle_defs MANAGER_ROLES_def)

end
