(* ===== verification/Rs_Executor.thy ===== *)
theory Rs_Executor
  imports Rs_Dispatch Tn_Permissions Ir_Runs
begin

text \<open>
  The approval plane and the executor: proposals and the generic outbox (\<open>core/ir/runtime.py\<close>), the
  tool registry (\<open>core/ir/tools.py\<close>), the capability handlers (\<open>response/capabilities.py\<close>), the
  executor that drains the outbox (\<open>response/executor.py\<close>) and the routes on which a human decides
  (\<open>core/api/ir.py\<close>). A handler returns the requests it sent, its result or its error, and the
  store: requests that left are never taken back, whatever happens to the transaction.
\<close>

subsection \<open>Canonical JSON\<close>

fun canonical_json :: "(pyfloat \<Rightarrow> string) \<Rightarrow> pyval \<Rightarrow> string" where
  "canonical_json fr (PList xs) = ''['' @ join '','' (map (canonical_json fr) xs) @ '']''"
| "canonical_json fr (PDict d) =
     ''{'' @ join '',''
        (map snd (sort_key fst (map (\<lambda>(k, v). (k, json_str k @ '':'' @ canonical_json fr v)) d))) @ ''}''"
| "canonical_json fr v = json_dumps fr v"

subsection \<open>Capability handlers\<close>

record http_reply =
  hr_status :: int
  hr_x_request_id :: "string option"
  hr_request_id :: "string option"

text \<open>A request as it leaves, with the tenant, capability and payload it was sent for.\<close>

record request =
  rq_tenant :: uid
  rq_capability :: string
  rq_payload :: pydict
  rq_url :: string
  rq_body :: string
  rq_delivery :: string
  rq_signature :: "string option"

record url_parts =
  up_scheme :: string
  up_host :: "string option"
  up_port :: "int option"

text \<open>
  The process and the network: text of values and errors, policies, the keyed digest, the parser of
  URLs, name resolution (\<open>None\<close> when it fails, else whether each address is globally routable) and
  the reply to a request (\<open>None\<close> when the connection fails).
\<close>

record action_env =
  ae_repr :: "pyval \<Rightarrow> string"
  ae_float :: "pyfloat \<Rightarrow> string"
  ae_error_text :: "rs_error \<Rightarrow> string"
  ae_policy :: policy_env
  ae_hmac :: "string \<Rightarrow> string \<Rightarrow> string"
  ae_split :: "string \<Rightarrow> url_parts option"
  ae_resolve :: "string \<Rightarrow> int \<Rightarrow> bool list option"
  ae_allow_http :: "string option"
  ae_post :: "request \<Rightarrow> http_reply option"

definition sign_webhook_body :: "action_env \<Rightarrow> string \<Rightarrow> string \<Rightarrow> string" where
  "sign_webhook_body ae secret body = ''sha256='' @ ae_hmac ae secret body"

definition webhook_url_allowed :: "action_env \<Rightarrow> string \<Rightarrow> bool" where
  "webhook_url_allowed ae url \<longleftrightarrow>
     (case ae_split ae url of
        None \<Rightarrow> False
      | Some p \<Rightarrow>
          (up_scheme p = ''https'' \<or>
             str_lower (env_text (ae_allow_http ae)) \<in> {''1'', ''true'', ''yes''} \<and> up_scheme p = ''http'') \<and>
          (case up_host p of
             None \<Rightarrow> False
           | Some h \<Rightarrow> h \<noteq> [] \<and>
               (case ae_resolve ae h (case up_port p of None \<Rightarrow> 443 | Some n \<Rightarrow> if n = 0 then 443 else n) of
                  None \<Rightarrow> False
                | Some globals \<Rightarrow> list_all id globals)))"

definition MAX_NOTE_BODY :: nat where
  "MAX_NOTE_BODY = 4096"

definition uid_of_text :: "string \<Rightarrow> uid option" where
  "uid_of_text s = (case py_int_of_str s of None \<Rightarrow> None | Some i \<Rightarrow> if 0 \<le> i then Some (nat i) else None)"

text \<open>\<open>str(v or "")\<close>, and \<open>d.get(k) or {}\<close>.\<close>

definition text_or_empty :: "action_env \<Rightarrow> pyval \<Rightarrow> string" where
  "text_or_empty ae v = text_of (ae_repr ae) (py_or_else v (PStr []))"

definition dict_part :: "string \<Rightarrow> pydict \<Rightarrow> pyval" where
  "dict_part k d = py_or_else (dget k d) (PDict [])"

definition annotate_note :: "action_env \<Rightarrow> uid \<Rightarrow> pydict \<Rightarrow> note_row py" where
  "annotate_note ae t payload = do {
     inv \<leftarrow> sub_get ''envelope'' ''investigation_id'' payload;
     raw \<leftarrow> sub_get ''params'' ''body'' payload;
     pid \<leftarrow> sub_get ''playbook'' ''id'' payload;
     ver \<leftarrow> sub_get ''playbook'' ''version'' payload;
     disp \<leftarrow> sub_get ''envelope'' ''disposition'' payload;
     let stripped = str_strip (text_or_empty ae raw);
     let body = (if stripped = [] then ''response playbook fired'' else stripped);
     c \<leftarrow> (if truthy inv then uid_of_text (text_of (ae_repr ae) inv) else None);
     Some \<lparr> nt_tenant = t, nt_case = c,
            nt_author = ''response:'' @ text_of (ae_repr ae) pid,
            nt_body = take MAX_NOTE_BODY (body @ [CHR 0x0A, CHR 0x0A] @ ''[response playbook '' @
              text_of (ae_repr ae) pid @ ''@v'' @ text_of (ae_repr ae) ver @ '' on '' @
              text_of (ae_repr ae) disp @ '']'') \<rparr> }"

definition remote_ref :: "http_reply \<Rightarrow> string" where
  "remote_ref r =
     (case hr_x_request_id r of
        Some (c # cs) \<Rightarrow> c # cs
      | _ \<Rightarrow> (case hr_request_id r of
                Some (c # cs) \<Rightarrow> c # cs
              | _ \<Rightarrow> ''http:'' @ show_int (hr_status r)))"

text \<open>What a handler did: the requests sent, and either its reference and notes or a failure.\<close>

type_synonym handler_result = "request list \<times> (string option \<times> note_row list) py"

definition post_request :: "action_env \<Rightarrow> request \<Rightarrow> handler_result" where
  "post_request ae rq =
     ([rq], case ae_post ae rq of
              None \<Rightarrow> None
            | Some r \<Rightarrow> if 400 \<le> hr_status r then None else Some (Some (remote_ref r), []))"

definition make_request :: "action_env \<Rightarrow> uid \<Rightarrow> string \<Rightarrow> pydict \<Rightarrow> string \<Rightarrow> string \<Rightarrow> pyval \<Rightarrow> request" where
  "make_request ae t cap payload url secret body_obj =
     (let body = canonical_json (ae_float ae) body_obj in
      \<lparr> rq_tenant = t, rq_capability = cap, rq_payload = payload, rq_url = url, rq_body = body,
        rq_delivery = text_or_empty ae (dget ''delivery'' payload),
        rq_signature = (if secret = [] then None else Some (sign_webhook_body ae secret body)) \<rparr>)"

definition notify_webhook :: "action_env \<Rightarrow> uid \<Rightarrow> pydict \<Rightarrow> action_db \<Rightarrow> handler_result" where
  "notify_webhook ae t payload db =
     (case effective_policy (ae_policy ae) (Some (policies_of t (core db))) [] [] of
        None \<Rightarrow> ([], None)
      | Some policy \<Rightarrow>
          (let url = str_strip (text_or_empty ae (dget ''response_webhook_url'' policy)) in
           if url = [] \<or> \<not> webhook_url_allowed ae url then ([], None)
           else post_request ae (make_request ae t ''notify_webhook'' payload url
                  (text_or_empty ae (dget ''response_webhook_secret'' policy))
                  (PDict [(''envelope'', dict_part ''envelope'' payload),
                          (''playbook'', dict_part ''playbook'' payload),
                          (''params'', dict_part ''params'' payload)]))))"

definition resolve_endpoint :: "action_env \<Rightarrow> pydict \<Rightarrow> string \<Rightarrow> pydict py" where
  "resolve_endpoint ae policy endpoint =
     (case dict_part ''response_action_endpoints'' policy of
        PDict reg \<Rightarrow>
          (case dget endpoint reg of
             PDict cfg \<Rightarrow> if str_strip (text_or_empty ae (dget ''url'' cfg)) = [] then None else Some cfg
           | _ \<Rightarrow> None)
      | _ \<Rightarrow> None)"

definition external_action :: "action_env \<Rightarrow> uid \<Rightarrow> pydict \<Rightarrow> action_db \<Rightarrow> handler_result" where
  "external_action ae t payload db =
     (case dict_part ''params'' payload of
        PDict params \<Rightarrow>
          (let endpoint = str_strip (text_or_empty ae (dget ''endpoint'' params));
               action = str_strip (text_or_empty ae (dget ''action'' params))
           in if endpoint = [] \<or> action = [] then ([], None)
              else case do { policy \<leftarrow> effective_policy (ae_policy ae) (Some (policies_of t (core db))) [] [];
                             resolve_endpoint ae policy endpoint } of
                  None \<Rightarrow> ([], None)
                | Some cfg \<Rightarrow>
                    (let url = str_strip (text_of (ae_repr ae) (dget ''url'' cfg)) in
                     if \<not> webhook_url_allowed ae url then ([], None)
                     else post_request ae (make_request ae t ''external_action'' payload url
                            (text_or_empty ae (dget ''secret'' cfg))
                            (PDict [(''action'', PStr action),
                                    (''envelope'', dict_part ''envelope'' payload),
                                    (''playbook'', dict_part ''playbook'' payload),
                                    (''params'', PDict (filter (\<lambda>(k, v). k \<notin> {''endpoint'', ''action''}) params))]))))
      | _ \<Rightarrow> ([], None))"

fun run_handler :: "action_env \<Rightarrow> capability_handler \<Rightarrow> uid \<Rightarrow> pydict \<Rightarrow> action_db \<Rightarrow> handler_result" where
  "run_handler ae AnnotateInvestigation t payload db =
     ([], map_option (\<lambda>n. (None, [n])) (annotate_note ae t payload))"
| "run_handler ae NotifyWebhook t payload db = notify_webhook ae t payload db"
| "run_handler ae ExternalAction t payload db = external_action ae t payload db"

subsection \<open>Proposals\<close>

text \<open>The key is a digest of canonical JSON; the model keeps the text that is digested.\<close>

definition proposal_idempotency_key :: "(pyfloat \<Rightarrow> string) \<Rightarrow> uid \<Rightarrow> string \<Rightarrow> pydict \<Rightarrow> string" where
  "proposal_idempotency_key fr c act params =
     canonical_json fr
       (PDict [(''investigation_id'', PStr (uid_text c)), (''action_type'', PStr act), (''params'', PDict params)])"

definition transition_run :: "uid \<Rightarrow> run_status \<Rightarrow> string option \<Rightarrow> time \<Rightarrow> ir_db \<Rightarrow> ir_db" where
  "transition_run rid st err now db =
     db\<lparr> runs := update_where (\<lambda>r. run_id r = rid)
           (\<lambda>r. r\<lparr> run_status := st,
                   ended_at := (if st \<in> {RunCompleted, RunFailed} then Some now else ended_at r),
                   last_error := err \<rparr>) (runs db) \<rparr>"

definition transition_opt :: "uid option \<Rightarrow> run_status \<Rightarrow> time \<Rightarrow> ir_db \<Rightarrow> ir_db" where
  "transition_opt rn st now db = (case rn of None \<Rightarrow> db | Some rid \<Rightarrow> transition_run rid st None now db)"

definition proposal_event :: "uid \<Rightarrow> uid \<Rightarrow> uid option \<Rightarrow> string \<Rightarrow> pydict \<Rightarrow> string \<Rightarrow> ir_db \<Rightarrow> ir_db" where
  "proposal_event t c rn kind payload producer =
     append_event t c rn kind (PDict payload) ''mssp_only'' (DerivedKey c kind (PDict payload) producer)"

definition create_proposal ::
    "action_env \<Rightarrow> uid \<Rightarrow> uid \<Rightarrow> uid \<Rightarrow> uid option \<Rightarrow> string \<Rightarrow> pydict \<Rightarrow> string \<Rightarrow> string \<Rightarrow> time \<Rightarrow> action_db
     \<Rightarrow> uid \<times> action_db" where
  "create_proposal ae pid t c rn act params rationale cls now db =
     (let key = proposal_idempotency_key (ae_float ae) c act params in
      case find (\<lambda>p. pr_case p = c \<and> pr_key p = key) (proposals db) of
        Some p \<Rightarrow> (pr_id p, db)
      | None \<Rightarrow>
          (pid, db\<lparr> proposals := proposals db @
                   [\<lparr> pr_id = pid, pr_tenant = t, pr_case = c, pr_run = rn, pr_action = act, pr_params = params,
                      pr_rationale = rationale, pr_class = cls, pr_status = Proposed, pr_key = key,
                      pr_approver = None, pr_approval_reason = None, pr_rejected_reason = None \<rparr>],
                 core := log_audit t ''ir.proposal.created''
                   (case rn of None \<Rightarrow> ''ai'' | Some rid \<Rightarrow> ''run:'' @ uid_text rid) pid PNone
                   (transition_opt rn WaitingOnGate now
                     (proposal_event t c rn ''proposal_created''
                       [(''proposal_id'', PStr (uid_text pid)), (''action_type'', PStr act),
                        (''capability_class'', PStr cls)] ''ai'' (core db))) \<rparr>))"

definition update_proposal :: "uid \<Rightarrow> (proposal_row \<Rightarrow> proposal_row) \<Rightarrow> action_db \<Rightarrow> action_db" where
  "update_proposal pid f db = db\<lparr> proposals := update_where (\<lambda>p. pr_id p = pid) f (proposals db) \<rparr>"

definition approve_proposal ::
    "uid \<Rightarrow> uid \<Rightarrow> string \<Rightarrow> uid \<Rightarrow> time \<Rightarrow> action_db \<Rightarrow> rs_error + action_db" where
  "approve_proposal pid user why oid now db =
     (case find (\<lambda>p. pr_id p = pid) (proposals db) of
        None \<Rightarrow> Inl ProposalMissing
      | Some p \<Rightarrow>
          (if pr_status p \<noteq> Proposed then Inl (WrongProposalStatus (status_value (pr_status p)))
           else
             (let db1 = update_proposal pid (\<lambda>q. q\<lparr> pr_status := Approved, pr_approver := Some user,
                                                      pr_approval_reason := Some why \<rparr>) db;
                  row = new_outbox_row oid (pr_tenant p) (pr_case p) EXECUTE_PROPOSAL_KIND (''proposal:'' @ uid_text pid)
                          [(''proposal_id'', PStr (uid_text pid)), (''action_type'', PStr (pr_action p)),
                           (''params'', PDict (pr_params p)), (''capability_class'', PStr (pr_class p))] None now;
                  ev = [(''proposal_id'', PStr (uid_text pid)), (''reason'', PStr why)]
              in Inr (db1\<lparr> outbox := snd (insert_outbox row (outbox db1)),
                           core := log_audit (pr_tenant p) ''ir.proposal.approved'' (uid_text user) pid (PStr why)
                             (transition_opt (pr_run p) Active now
                               (proposal_event (pr_tenant p) (pr_case p) (pr_run p) ''proposal_approved'' ev ''human''
                                 (core db1))) \<rparr>))))"

definition reject_proposal :: "uid \<Rightarrow> uid \<Rightarrow> string \<Rightarrow> time \<Rightarrow> action_db \<Rightarrow> rs_error + action_db" where
  "reject_proposal pid user why now db =
     (case find (\<lambda>p. pr_id p = pid) (proposals db) of
        None \<Rightarrow> Inl ProposalMissing
      | Some p \<Rightarrow>
          (if pr_status p \<noteq> Proposed then Inl (WrongProposalStatus (status_value (pr_status p)))
           else
             (let db1 = update_proposal pid (\<lambda>q. q\<lparr> pr_status := Rejected, pr_approver := Some user,
                                                      pr_rejected_reason := Some why \<rparr>) db;
                  ev = [(''proposal_id'', PStr (uid_text pid)), (''reason'', PStr why)]
              in Inr (db1\<lparr> core := log_audit (pr_tenant p) ''ir.proposal.rejected'' (uid_text user) pid (PStr why)
                             (transition_opt (pr_run p) Active now
                               (proposal_event (pr_tenant p) (pr_case p) (pr_run p) ''proposal_rejected'' ev ''human''
                                 (core db1))) \<rparr>))))"

subsection \<open>The routes of the human decision\<close>

definition APPROVE_PROPOSAL_GUARD :: "user_identity option \<Rightarrow> failure + unit" where
  "APPROVE_PROPOSAL_GUARD = require_permission_any [(APPROVE_PROPOSAL, Mssp), (TENANT_APPROVE_PROPOSAL, Tenant)]"

definition is_tenant_user :: "user_identity \<Rightarrow> bool" where
  "is_tenant_user i \<longleftrightarrow> id_user_type i = Some ''tenant''"

definition may_approve_privileged :: "user_identity \<Rightarrow> bool" where
  "may_approve_privileged i =
     (if is_tenant_user i then has_permission (id_role i) TENANT_APPROVE_PRIVILEGED_PROPOSAL
      else has_permission (id_role i) APPROVE_PRIVILEGED_PROPOSAL)"

text \<open>A tenant operator sees the proposals of the tenant in the token, row by row.\<close>

definition visible_proposal :: "user_identity \<Rightarrow> uid \<Rightarrow> action_db \<Rightarrow> proposal_row option" where
  "visible_proposal i pid db =
     find (\<lambda>p. pr_id p = pid \<and> (is_tenant_user i \<longrightarrow> id_tenant i = Some (pr_tenant p))) (proposals db)"

definition approve_proposal_route ::
    "user_identity option \<Rightarrow> uid \<Rightarrow> string \<Rightarrow> uid \<Rightarrow> time \<Rightarrow> action_db \<Rightarrow> failure + action_db" where
  "approve_proposal_route who pid why oid now db =
     (case APPROVE_PROPOSAL_GUARD who of
        Inl e \<Rightarrow> Inl e
      | Inr _ \<Rightarrow>
          (case who of
             None \<Rightarrow> Inl (Http 401)
           | Some i \<Rightarrow>
               (if is_tenant_user i \<and> id_tenant i = None then Inl (Http 400)
                else case visible_proposal i pid db of
                    None \<Rightarrow> Inl (Http 404)
                  | Some p \<Rightarrow>
                      (if pr_class p \<in> set PRIVILEGED_CAPABILITY_CLASSES \<and> \<not> may_approve_privileged i
                       then Inl (Http 403)
                       else case approve_proposal pid (id_user i) why oid now db of
                           Inl e \<Rightarrow> Inl (Http 400)
                         | Inr db' \<Rightarrow> Inr db'))))"

definition reject_proposal_route ::
    "user_identity option \<Rightarrow> uid \<Rightarrow> string \<Rightarrow> time \<Rightarrow> action_db \<Rightarrow> failure + action_db" where
  "reject_proposal_route who pid why now db =
     (case APPROVE_PROPOSAL_GUARD who of
        Inl e \<Rightarrow> Inl e
      | Inr _ \<Rightarrow>
          (case who of
             None \<Rightarrow> Inl (Http 401)
           | Some i \<Rightarrow>
               (if is_tenant_user i \<and> id_tenant i = None then Inl (Http 400)
                else case visible_proposal i pid db of
                    None \<Rightarrow> Inl (Http 404)
                  | Some p \<Rightarrow>
                      (case reject_proposal pid (id_user i) why now db of
                         Inl e \<Rightarrow> Inl (Http 400)
                       | Inr db' \<Rightarrow> Inr db'))))"

subsection \<open>The outbox\<close>

definition OUTBOX_LEASE_SECONDS :: rat where
  "OUTBOX_LEASE_SECONDS = 60"

definition MAX_BACKOFF_SECONDS :: int where
  "MAX_BACKOFF_SECONDS = 30 * 60"

definition outbox_backoff :: "int \<Rightarrow> int" where
  "outbox_backoff attempt = min (10 * 2 ^ nat attempt) MAX_BACKOFF_SECONDS"

definition outbox_due :: "string list option \<Rightarrow> time \<Rightarrow> outbox_row \<Rightarrow> bool" where
  "outbox_due kinds now r \<longleftrightarrow>
     (ob_status r = Pending \<and> ob_next_attempt r \<le> now \<or>
      ob_status r = InFlight \<and>
        (case ob_claimed_at r of None \<Rightarrow> False | Some at0 \<Rightarrow> at0 < now - OUTBOX_LEASE_SECONDS)) \<and>
     (case kinds of None \<Rightarrow> True | Some ks \<Rightarrow> ob_kind r \<in> set ks)"

text \<open>\<open>locked\<close> are the rows another transaction holds; \<open>SKIP LOCKED\<close> passes over them.\<close>

definition claim_next_outbox ::
    "(uid \<Rightarrow> bool) \<Rightarrow> string \<Rightarrow> string list option \<Rightarrow> time \<Rightarrow> action_db \<Rightarrow> (outbox_row \<times> action_db) option" where
  "claim_next_outbox locked worker kinds now db =
     (case select_first (\<lambda>r. outbox_due kinds now r \<and> \<not> locked (ob_id r)) ob_next_attempt (outbox db) of
        None \<Rightarrow> None
      | Some r \<Rightarrow>
          (let claim = (\<lambda>q. q\<lparr> ob_status := InFlight, ob_claimed_at := Some now, ob_claimed_by := Some worker \<rparr>)
           in Some (claim r, db\<lparr> outbox := update_where (\<lambda>q. ob_id q = ob_id r) claim (outbox db) \<rparr>)))"

definition mark_outbox_succeeded :: "uid \<Rightarrow> string option \<Rightarrow> time \<Rightarrow> action_db \<Rightarrow> action_db" where
  "mark_outbox_succeeded oid ref now db =
     db\<lparr> outbox := update_where (\<lambda>q. ob_id q = oid)
           (\<lambda>q. q\<lparr> ob_status := Succeeded, ob_succeeded_at := Some now,
                   ob_ref := (case ref of None \<Rightarrow> ob_ref q | Some r \<Rightarrow> Some r) \<rparr>) (outbox db) \<rparr>"

definition fail_outbox_row :: "rs_error \<Rightarrow> time \<Rightarrow> outbox_row \<Rightarrow> outbox_row" where
  "fail_outbox_row err now r =
     (let n = ob_attempts r + 1 in
      if n \<ge> ob_max_attempts r
      then r\<lparr> ob_status := OutboxFailed, ob_attempts := n, ob_error := Some err \<rparr>
      else r\<lparr> ob_status := Pending, ob_attempts := n, ob_error := Some err, ob_claimed_at := None,
              ob_claimed_by := None, ob_next_attempt := now + of_int (outbox_backoff n) \<rparr>)"

definition mark_outbox_failed :: "uid \<Rightarrow> rs_error \<Rightarrow> time \<Rightarrow> action_db \<Rightarrow> action_db" where
  "mark_outbox_failed oid err now db =
     db\<lparr> outbox := update_where (\<lambda>q. ob_id q = oid) (fail_outbox_row err now) (outbox db) \<rparr>"

text \<open>The requests sent, the error or the external reference, and the store.\<close>

type_synonym outcome = "request list \<times> (rs_error + string option) \<times> action_db"

type_synonym outbox_handler = "outbox_row \<Rightarrow> action_db \<Rightarrow> outcome"

definition audit_outbox :: "outbox_row \<Rightarrow> string \<Rightarrow> string \<Rightarrow> pyval \<Rightarrow> action_db \<Rightarrow> action_db" where
  "audit_outbox r suffix worker notes db =
     db\<lparr> core := log_audit (ob_tenant r) (''ir.outbox.'' @ ob_kind r @ suffix) worker (ob_id r) notes (core db) \<rparr>"

definition execute_one ::
    "action_env \<Rightarrow> (string \<times> outbox_handler) list \<Rightarrow> (uid \<Rightarrow> bool) \<Rightarrow> string \<Rightarrow> string list option \<Rightarrow> time
     \<Rightarrow> action_db \<Rightarrow> bool \<times> request list \<times> action_db" where
  "execute_one ae handlers locked worker kinds now db =
     (case claim_next_outbox locked worker kinds now db of
        None \<Rightarrow> (False, [], db)
      | Some (r, db1) \<Rightarrow>
          (case (case map_of handlers (ob_kind r) of
                   None \<Rightarrow> ([], Inl (NoOutboxHandler (ob_kind r)), db1)
                 | Some h \<Rightarrow> h r db1) of
             (rqs, Inr ref, db2) \<Rightarrow>
               (True, rqs, audit_outbox r ''.succeeded'' worker PNone (mark_outbox_succeeded (ob_id r) ref now db2))
           | (rqs, Inl e, db2) \<Rightarrow>
               (True, rqs, audit_outbox r ''.failed'' worker (PStr (take 500 (ae_error_text ae e)))
                             (mark_outbox_failed (ob_id r) e now db2))))"

subsection \<open>The execution log\<close>

definition uuid_or_none :: "action_env \<Rightarrow> pyval \<Rightarrow> uid option" where
  "uuid_or_none ae v = uid_of_text (text_of (ae_repr ae) v)"

text \<open>References into another tenant, or to nothing, are stored as null.\<close>

definition write_execution_log ::
    "action_env \<Rightarrow> uid \<Rightarrow> pydict \<Rightarrow> string \<Rightarrow> string option \<Rightarrow> rs_error option \<Rightarrow> action_db \<Rightarrow> action_db py" where
  "write_execution_log ae t payload st ref err db = do {
     c \<leftarrow> sub_get ''envelope'' ''investigation_id'' payload;
     rn \<leftarrow> sub_get ''envelope'' ''run_id'' payload;
     ver \<leftarrow> sub_get ''envelope'' ''version'' payload;
     pid \<leftarrow> sub_get ''playbook'' ''id'' payload;
     pver \<leftarrow> sub_get ''playbook'' ''version'' payload;
     let has_version = (case dict_part ''envelope'' payload of PDict d \<Rightarrow> map_of d ''version'' \<noteq> None | _ \<Rightarrow> False);
     Some (db\<lparr> exec_log := exec_log db @
       [\<lparr> ex_tenant = t,
          ex_case = (case uuid_or_none ae c of
                       None \<Rightarrow> None
                     | Some i \<Rightarrow> if \<exists>x\<in>set (cases (core db)). case_id x = i \<and> case_tenant x = t then Some i else None),
          ex_run = (case uuid_or_none ae rn of
                      None \<Rightarrow> None
                    | Some i \<Rightarrow> if \<exists>x\<in>set (runs (core db)). run_id x = i \<and> run_tenant x = t then Some i else None),
          ex_kind = ''response_action.'' @ st,
          ex_subject = take 128 (text_or_empty ae (dget ''delivery'' payload)),
          ex_capability = dget ''capability'' payload,
          ex_ref = ref, ex_error = err,
          ex_playbook = text_of (ae_repr ae) pid @ ''@'' @ text_of (ae_repr ae) pver,
          ex_envelope = (if has_version then ver else PInt ENVELOPE_VERSION) \<rparr>] \<rparr>) }"

text \<open>Log, then return; a log that raises turns the outcome into that error.\<close>

definition log_then ::
    "action_env \<Rightarrow> uid \<Rightarrow> pydict \<Rightarrow> string \<Rightarrow> string option \<Rightarrow> rs_error option \<Rightarrow> rs_error + string option
     \<Rightarrow> action_db \<Rightarrow> (rs_error + string option) \<times> action_db" where
  "log_then ae t payload st ref err result db =
     (case write_execution_log ae t payload st ref err db of
        None \<Rightarrow> (Inl Malformed, db)
      | Some db' \<Rightarrow> (result, db'))"

subsection \<open>Response actions\<close>

definition route_to_proposal ::
    "action_env \<Rightarrow> uid \<Rightarrow> uid \<Rightarrow> uid \<Rightarrow> pydict \<Rightarrow> response_capability \<Rightarrow> time \<Rightarrow> action_db \<Rightarrow> (uid \<times> action_db) py" where
  "route_to_proposal ae pid t c payload spec now db = do {
     pbid \<leftarrow> sub_get ''playbook'' ''id'' payload;
     ver \<leftarrow> sub_get ''playbook'' ''version'' payload;
     disp \<leftarrow> sub_get ''envelope'' ''disposition'' payload;
     Some (create_proposal ae pid t c None (text_or_empty ae (dget ''capability'' payload)) payload
             (take 512 (''response playbook '' @ text_of (ae_repr ae) pbid @ ''@v'' @ text_of (ae_repr ae) ver @
                        '' on '' @ text_of (ae_repr ae) disp))
             (class_value (cap_class spec)) now db) }"

definition run_capability ::
    "action_env \<Rightarrow> response_capability \<Rightarrow> uid \<Rightarrow> pydict \<Rightarrow> action_db \<Rightarrow> outcome" where
  "run_capability ae spec t payload db =
     (case run_handler ae (cap_handler spec) t payload db of
        (rqs, None) \<Rightarrow>
          (rqs, log_then ae t payload ''failed'' None (Some CapabilityFailed) (Inl CapabilityFailed) db)
      | (rqs, Some (ref, ns)) \<Rightarrow>
          (rqs, log_then ae t payload ''executed'' ref None (Inr ref) (db\<lparr> case_notes := case_notes db @ ns \<rparr>)))"

definition owned_case :: "uid \<Rightarrow> uid \<Rightarrow> action_db \<Rightarrow> bool" where
  "owned_case t c db \<longleftrightarrow> (\<exists>x\<in>set (cases (core db)). case_id x = c \<and> case_tenant x = t)"

definition handle_response_action :: "action_env \<Rightarrow> uid \<Rightarrow> time \<Rightarrow> outbox_handler" where
  "handle_response_action ae pid now row db =
     (let payload = ob_payload row; t = ob_tenant row;
          name = text_or_empty ae (dget ''capability'' payload)
      in case dict_part ''envelope'' payload of
        PDict env \<Rightarrow>
          (if py_str (dget ''tenant_id'' env) \<noteq> Some (uid_text t) \<or>
              py_str (dget ''investigation_id'' env) \<noteq> Some (uid_text (ob_case row))
           then ([], log_then ae t payload ''rejected'' None (Some ScopeMismatch) (Inl ScopeMismatch) db)
           else if \<not> owned_case t (ob_case row) db
           then ([], log_then ae t payload ''rejected'' None (Some NotOwned) (Inl NotOwned) db)
           else case capability_of name of
               None \<Rightarrow>
                 ([], log_then ae t payload ''rejected'' None (Some (UnknownCapability name)) (Inl (UnknownCapability name)) db)
             | Some spec \<Rightarrow>
                 (if cap_approval spec \<noteq> Autonomous
                  then (case route_to_proposal ae pid t (ob_case row) payload spec now db of
                          None \<Rightarrow> ([], Inl Malformed, db)
                        | Some (p, db1) \<Rightarrow>
                            (let ref = Some (''proposal:'' @ uid_text p)
                             in ([], log_then ae t payload ''routed'' ref None (Inr ref) db1)))
                  else run_capability ae spec t payload db))
      | _ \<Rightarrow> ([], Inl Malformed, db))"

subsection \<open>Approved proposals\<close>

record tool_spec =
  tool_name :: string
  tool_class :: capability_class
  tool_cost_tokens :: int

definition register_tool :: "tool_spec \<Rightarrow> tool_spec list \<Rightarrow> tool_spec list py" where
  "register_tool spec reg =
     (if list_ex (\<lambda>s. tool_name s = tool_name spec) reg then None else Some (reg @ [spec]))"

definition BUILTIN_TOOLS :: "tool_spec list" where
  "BUILTIN_TOOLS =
     [\<lparr> tool_name = ''investigation.list_iocs'', tool_class = ReadLocal, tool_cost_tokens = 50 \<rparr>,
      \<lparr> tool_name = ''investigation.list_assets'', tool_class = ReadLocal, tool_cost_tokens = 50 \<rparr>]"

text \<open>Both tools are stubs of one keyword argument.\<close>

definition invoke_tool :: "string \<Rightarrow> pydict \<Rightarrow> rs_error + pydict" where
  "invoke_tool act params =
     (if list_ex (\<lambda>s. tool_name s = act) BUILTIN_TOOLS
      then (case params of
              [(k, v)] \<Rightarrow> if k = ''investigation_id''
                then Inr [(''not_implemented'', PBool True), (''investigation_id'', v)] else Inl ToolFailed
            | _ \<Rightarrow> Inl ToolFailed)
      else Inl (NoToolHandler act))"

definition set_proposal_status :: "uid \<Rightarrow> proposal_status \<Rightarrow> action_db \<Rightarrow> action_db" where
  "set_proposal_status pid st = update_proposal pid (\<lambda>p. p\<lparr> pr_status := st \<rparr>)"

definition log_core :: "(ir_db \<Rightarrow> ir_db) \<Rightarrow> action_db \<Rightarrow> action_db" where
  "log_core f db = db\<lparr> core := f (core db) \<rparr>"

text \<open>A missing identifier is a \<open>KeyError\<close>, one that is no UUID a \<open>ValueError\<close>.\<close>

definition payload_proposal :: "action_env \<Rightarrow> pydict \<Rightarrow> uid option" where
  "payload_proposal ae payload =
     (case map_of payload ''proposal_id'' of None \<Rightarrow> None | Some v \<Rightarrow> uuid_or_none ae v)"

definition handle_tool_proposal :: "action_env \<Rightarrow> outbox_handler" where
  "handle_tool_proposal ae row db =
     (let payload = ob_payload row;
          act = text_of (ae_repr ae) (case map_of payload ''action_type'' of None \<Rightarrow> PStr [] | Some v \<Rightarrow> v)
      in case payload_proposal ae payload of
        None \<Rightarrow> ([], Inl Malformed, db)
      | Some pid \<Rightarrow>
          (case find (\<lambda>p. pr_id p = pid) (proposals db) of
             None \<Rightarrow> ([], Inl ProposalMissing, db)
           | Some p \<Rightarrow>
               (let db1 = set_proposal_status pid Executing db;
                    ids = [(''proposal_id'', PStr (uid_text pid)), (''action_type'', PStr act)]
                in case invoke_tool act (pr_params p) of
                  Inr result \<Rightarrow>
                    ([], Inr None,
                     log_core (proposal_event (pr_tenant p) (pr_case p) (pr_run p) ''proposal_executed''
                                 (ids @ [(''result'', PDict result)]) ''executor'')
                       (set_proposal_status pid Executed db1))
                | Inl e \<Rightarrow>
                    ([], Inl e,
                     log_core (proposal_event (pr_tenant p) (pr_case p) (pr_run p) ''proposal_failed''
                                 (ids @ [(''error'', PStr (take 500 (ae_error_text ae e)))]) ''executor'')
                       (set_proposal_status pid ProposalFailed db1)))))"

text \<open>Best effort: an event that cannot be appended is dropped.\<close>

definition emit_proposal_event ::
    "action_env \<Rightarrow> uid \<Rightarrow> pydict \<Rightarrow> uid \<Rightarrow> string \<Rightarrow> string \<Rightarrow> pydict \<Rightarrow> action_db \<Rightarrow> action_db" where
  "emit_proposal_event ae t env pid act kind detail db =
     (let inv = dget ''investigation_id'' env in
      if \<not> truthy inv then db
      else case uuid_or_none ae inv of
          None \<Rightarrow> db
        | Some c \<Rightarrow>
            log_core (proposal_event t c None (if kind = ''executed'' then ''proposal_executed'' else ''proposal_failed'')
              ([(''proposal_id'', PStr (uid_text pid)), (''action_type'', PStr act)] @ detail) ''executor'') db)"

definition claimable_proposal :: "uid \<Rightarrow> uid \<Rightarrow> string \<Rightarrow> proposal_row \<Rightarrow> bool" where
  "claimable_proposal pid t act p \<longleftrightarrow> pr_id p = pid \<and> pr_tenant p = t \<and> pr_action p = act \<and> pr_status p = Approved"

text \<open>The claimed proposal is run; the first component of the store change is the claim itself.\<close>

definition run_claimed :: "action_env \<Rightarrow> response_capability \<Rightarrow> uid \<Rightarrow> string \<Rightarrow> proposal_row \<Rightarrow> action_db \<Rightarrow> outcome" where
  "run_claimed ae spec t act p db =
     (let payload = pr_params p; pid = pr_id p in
      case dict_part ''envelope'' payload of
        PDict env \<Rightarrow>
          (if py_str (dget ''tenant_id'' env) \<noteq> Some (uid_text t) \<or>
              py_str (dget ''investigation_id'' env) \<noteq> Some (uid_text (pr_case p))
           then ([], log_then ae t payload ''rejected'' None (Some ScopeMismatch) (Inl ScopeMismatch)
                       (set_proposal_status pid ProposalFailed db))
           else case run_handler ae (cap_handler spec) t payload db of
               (rqs, None) \<Rightarrow>
                 (rqs, case log_then ae t payload ''failed'' None (Some CapabilityFailed) (Inl CapabilityFailed)
                              (set_proposal_status pid ProposalFailed db) of
                    (result, db1) \<Rightarrow>
                      (result, if result = Inl CapabilityFailed
                               then emit_proposal_event ae t env pid act ''failed''
                                      [(''error'', PStr (take 500 (ae_error_text ae CapabilityFailed)))] db1
                               else db1))
             | (rqs, Some (ref, ns)) \<Rightarrow>
                 (rqs, case log_then ae t payload ''executed'' ref None (Inr ref)
                              (set_proposal_status pid Executed (db\<lparr> case_notes := case_notes db @ ns \<rparr>)) of
                    (result, db1) \<Rightarrow>
                      (result, if result = Inr ref
                               then emit_proposal_event ae t env pid act ''executed'' [(''external_ref'', opt_text ref)] db1
                               else db1)))
      | _ \<Rightarrow> ([], Inl Malformed, db))"

definition handle_execute_proposal :: "action_env \<Rightarrow> outbox_handler" where
  "handle_execute_proposal ae row db =
     (let payload = ob_payload row; t = ob_tenant row;
          act = text_or_empty ae (dget ''action_type'' payload)
      in case capability_of act of
        None \<Rightarrow> handle_tool_proposal ae row db
      | Some spec \<Rightarrow>
          (case payload_proposal ae payload of
             None \<Rightarrow> ([], Inl Malformed, db)
           | Some pid \<Rightarrow>
               (case find (claimable_proposal pid t act) (proposals db) of
                  None \<Rightarrow>
                    (let cur = map_option (status_value \<circ> pr_status)
                                 (find (\<lambda>p. pr_id p = pid \<and> pr_tenant p = t) (proposals db));
                         seen = (case cur of None \<Rightarrow> ''missing'' | Some s \<Rightarrow> s)
                     in ([], log_then ae t payload ''skipped'' None (Some (NotClaimable seen))
                               (Inr (Some (''noop:'' @ seen))) db))
                | Some p \<Rightarrow>
                    run_claimed ae spec t act p
                      (db\<lparr> proposals := update_where (claimable_proposal pid t act)
                             (\<lambda>q. q\<lparr> pr_status := Executing \<rparr>) (proposals db) \<rparr>))))"

definition RESPONSE_KINDS :: "string list" where
  "RESPONSE_KINDS = [RESPONSE_OUTBOX_KIND, EXECUTE_PROPOSAL_KIND]"

definition response_handlers :: "action_env \<Rightarrow> uid \<Rightarrow> time \<Rightarrow> (string \<times> outbox_handler) list" where
  "response_handlers ae pid now =
     [(RESPONSE_OUTBOX_KIND, handle_response_action ae pid now), (EXECUTE_PROPOSAL_KIND, handle_execute_proposal ae)]"

definition default_handlers :: "action_env \<Rightarrow> (string \<times> outbox_handler) list" where
  "default_handlers ae = [(EXECUTE_PROPOSAL_KIND, handle_tool_proposal ae)]"

text \<open>One turn of the executor's loop.\<close>

definition executor_turn ::
    "action_env \<Rightarrow> uid \<Rightarrow> (uid \<Rightarrow> bool) \<Rightarrow> string \<Rightarrow> time \<Rightarrow> action_db \<Rightarrow> bool \<times> request list \<times> action_db" where
  "executor_turn ae pid locked worker now =
     execute_one ae (response_handlers ae pid now) locked worker (Some RESPONSE_KINDS) now"

end
