(* ===== verification/Rs_Dispatch_Correct.thy ===== *)
theory Rs_Dispatch_Correct
  imports Rs_Dispatch
begin

text \<open>
  What dispatch promises: a delivery key names one action of one version of one playbook for one
  run; every queued action is an action of a governing, matching, active playbook whose condition
  holds; a killed tenant queues nothing; a repeated dispatch queues nothing.
\<close>

subsection \<open>Delivery keys\<close>

lemma split_first:
  assumes "xs @ c # ys = xs' @ c # ys'" and "c \<notin> set xs" and "c \<notin> set xs'"
  shows "xs = xs' \<and> ys = ys'"
  using assms by (auto simp: append_eq_append_conv2 append_eq_Cons_conv Cons_eq_append_conv)

lemma split_last:
  assumes "xs @ c # ys = xs' @ c # ys'" and "c \<notin> set ys" and "c \<notin> set ys'"
  shows "xs = xs' \<and> ys = ys'"
proof -
  have "rev ys @ c # rev xs = rev ys' @ c # rev xs'"
    using arg_cong [OF assms(1), of rev] by simp
  from split_first [OF this] assms(2,3) show ?thesis by simp
qed

lemma show_int_chars: "c \<in> set (show_int i) \<Longrightarrow> is_digit c \<or> c = CHR ''-''"
  using show_nat_digits by (auto simp: show_int_def split: if_splits)

lemma show_int_no_mark: "CHR '':'' \<notin> set (show_int i)" "CHR ''@'' \<notin> set (show_int i)"
  using show_int_chars by (fastforce simp: is_digit_def)+

lemma show_int_inject: "show_int i = show_int j \<longleftrightarrow> i = j"
  by (metis option.inject py_int_of_show_int)

lemma uid_text_inject [simp]: "uid_text m = uid_text n \<longleftrightarrow> m = n"
  by (simp add: uid_text_def show_int_inject)

text \<open>
  A delivery key determines the run, the playbook, its version and the position of the action,
  whatever characters the identifier of the playbook contains: distinct actions never share a key,
  so suppressing a repeated key never drops a different action.
\<close>

theorem delivery_key_injective:
  "delivery_key rid pb i = delivery_key rid' pb' i' \<longleftrightarrow>
     rid = rid' \<and> rp_id pb = rp_id pb' \<and> rp_version pb = rp_version pb' \<and> i = i'"
proof
  assume eq: "delivery_key rid pb i = delivery_key rid' pb' i'"
  then have "uid_text rid @ CHR '':'' # (rp_id pb @ ''@'' @ show_int (rp_version pb) @ '':'' @ show_int (int i)) =
      uid_text rid' @ CHR '':'' # (rp_id pb' @ ''@'' @ show_int (rp_version pb') @ '':'' @ show_int (int i'))"
    by (simp add: delivery_key_def)
  then have 1: "uid_text rid = uid_text rid'"
      and rest: "rp_id pb @ ''@'' @ show_int (rp_version pb) @ '':'' @ show_int (int i) =
                 rp_id pb' @ ''@'' @ show_int (rp_version pb') @ '':'' @ show_int (int i')"
    by (auto dest!: split_first simp: uid_text_def show_int_no_mark)
  from rest have "(rp_id pb @ ''@'' @ show_int (rp_version pb)) @ CHR '':'' # show_int (int i) =
      (rp_id pb' @ ''@'' @ show_int (rp_version pb')) @ CHR '':'' # show_int (int i')"
    by simp
  from split_last [OF this] have 2: "show_int (int i) = show_int (int i')"
      and "rp_id pb @ CHR ''@'' # show_int (rp_version pb) = rp_id pb' @ CHR ''@'' # show_int (rp_version pb')"
    by (simp_all add: show_int_no_mark)
  from split_last [OF this(2)] have "rp_id pb = rp_id pb'" "show_int (rp_version pb) = show_int (rp_version pb')"
    by (simp_all add: show_int_no_mark)
  with 1 2 show "rid = rid' \<and> rp_id pb = rp_id pb' \<and> rp_version pb = rp_version pb' \<and> i = i'"
    by (simp add: show_int_inject)
qed (auto simp: delivery_key_def)

subsection \<open>Inserting rows\<close>

lemma insert_rows_spec:
  assumes "insert_rows rs tbl = (n, tbl')"
  shows "\<exists>new. tbl' = tbl @ new \<and> set new \<subseteq> set rs \<and> length new = n \<and> ob_key ` set rs \<subseteq> ob_key ` set tbl' \<and>
    (distinct (map ob_key tbl) \<longrightarrow> distinct (map ob_key tbl'))"
  using assms
proof (induction rs arbitrary: tbl n tbl')
  case (Cons r rs)
  show ?case
  proof (cases "ob_key r \<in> ob_key ` set tbl")
    case True
    with Cons.prems have "insert_rows rs tbl = (n, tbl')" by (auto simp: insert_outbox_def split: prod.splits)
    from Cons.IH [OF this] True show ?thesis by fastforce
  next
    case False
    with Cons.prems obtain m where m: "insert_rows rs (tbl @ [r]) = (m, tbl')" "n = Suc m"
      by (auto simp: insert_outbox_def split: prod.splits)
    from Cons.IH [OF m(1)] obtain new where
      new: "tbl' = (tbl @ [r]) @ new" "set new \<subseteq> set rs" "length new = m" "ob_key ` set rs \<subseteq> ob_key ` set tbl'"
        "distinct (map ob_key (tbl @ [r])) \<longrightarrow> distinct (map ob_key tbl')"
      by blast
    with False m(2) show ?thesis by (intro exI [of _ "r # new"]) auto
  qed
qed simp

lemma insert_rows_known: "ob_key ` set rs \<subseteq> ob_key ` set tbl \<Longrightarrow> insert_rows rs tbl = (0, tbl)"
  by (induction rs) (auto simp: insert_outbox_def)

subsection \<open>What dispatch reads and writes\<close>

text \<open>Two stores that differ only in the outbox and the audit trail.\<close>

definition dispatch_frame :: "action_db \<Rightarrow> action_db \<Rightarrow> bool" where
  "dispatch_frame db db' \<longleftrightarrow>
     evidence db' = evidence db \<and> response_rows db' = response_rows db \<and> tenant_slugs db' = tenant_slugs db \<and>
     proposals db' = proposals db \<and> exec_log db' = exec_log db \<and> case_notes db' = case_notes db \<and>
     (core db')\<lparr> audits := [] \<rparr> = (core db)\<lparr> audits := [] \<rparr>"

lemma dispatch_frame_refl [simp]: "dispatch_frame db db"
  by (simp add: dispatch_frame_def)

lemma dispatch_frame_trans: "dispatch_frame a b \<Longrightarrow> dispatch_frame b c \<Longrightarrow> dispatch_frame a c"
  by (simp add: dispatch_frame_def)

lemma dispatch_frame_audit [simp]: "dispatch_frame db (audit_dispatch act cr notes db)"
  by (simp add: dispatch_frame_def audit_dispatch_def log_audit_def)

lemma outbox_audit_dispatch [simp]: "outbox (audit_dispatch act cr notes db) = outbox db"
  by (simp add: audit_dispatch_def)

text \<open>Two stores on which dispatch reads the same.\<close>

definition same_inputs :: "action_db \<Rightarrow> action_db \<Rightarrow> bool" where
  "same_inputs db db' \<longleftrightarrow>
     evidence db' = evidence db \<and> response_rows db' = response_rows db \<and> tenant_slugs db' = tenant_slugs db \<and>
     tenant_policies (core db') = tenant_policies (core db)"

lemma same_inputs_trans: "same_inputs a b \<Longrightarrow> same_inputs b c \<Longrightarrow> same_inputs a c"
  by (simp add: same_inputs_def)

lemma dispatch_frame_inputs: "dispatch_frame db db' \<Longrightarrow> same_inputs db db'"
proof -
  assume fr: "dispatch_frame db db'"
  then have "(core db')\<lparr> audits := [] \<rparr> = (core db)\<lparr> audits := [] \<rparr>" by (simp add: dispatch_frame_def)
  then have "tenant_policies ((core db')\<lparr> audits := [] \<rparr>) = tenant_policies ((core db)\<lparr> audits := [] \<rparr>)"
    by (rule arg_cong)
  then have "tenant_policies (core db') = tenant_policies (core db)" by simp
  with fr show ?thesis by (simp add: dispatch_frame_def same_inputs_def)
qed

lemma frame_policies: "same_inputs db db' \<Longrightarrow> policies_of t (core db') = policies_of t (core db)"
  by (simp add: same_inputs_def policies_of_def)

lemma frame_matched: "same_inputs db db' \<Longrightarrow> matched de mi t st db' = matched de mi t st db"
  by (simp add: same_inputs_def matched_def)

lemma frame_envelope: "same_inputs db db' \<Longrightarrow> build_envelope repr cr db' = build_envelope repr cr db"
  by (simp add: same_inputs_def build_envelope_def)

lemma frame_input: "same_inputs db db' \<Longrightarrow> match_input_of de t env db' = match_input_of de t env db"
  by (simp add: same_inputs_def match_input_of_def tenant_identifiers_def)

lemma audit_shadow_frame: "dispatch_frame db (audit_shadow cr ctx pb db) \<and> outbox (audit_shadow cr ctx pb db) = outbox db"
  by (simp add: audit_shadow_def Let_def)

lemma audit_shadows_frame:
  "dispatch_frame db (fold (audit_shadow cr ctx) pbs db) \<and> outbox (fold (audit_shadow cr ctx) pbs db) = outbox db"
proof (induction pbs arbitrary: db)
  case (Cons pb pbs)
  with audit_shadow_frame [of db cr ctx pb] show ?case by (auto intro: dispatch_frame_trans)
qed simp

lemma enqueue_playbook_spec:
  assumes "enqueue_playbook de cr env ctx now pb (n, db) = (n', db')"
  shows "dispatch_frame db db' \<and> (\<exists>new. outbox db' = outbox db @ new \<and> n' = n + length new \<and>
      set new \<subseteq> action_row de cr env pb now ` set (selected_actions pb (cr_effective cr) ctx) \<and>
      (distinct (map ob_key (outbox db)) \<longrightarrow> distinct (map ob_key (outbox db'))) \<and>
      delivery_key (cr_run cr) pb ` fst ` set (selected_actions pb (cr_effective cr) ctx) \<subseteq> ob_key ` set (outbox db'))"
proof -
  let ?sel = "selected_actions pb (cr_effective cr) ctx"
  obtain m tbl where ins: "insert_rows (map (action_row de cr env pb now) ?sel) (outbox db) = (m, tbl)"
    by fastforce
  have keys: "ob_key ` set (map (action_row de cr env pb now) ?sel) = delivery_key (cr_run cr) pb ` fst ` set ?sel"
    by (force simp: action_row_def new_outbox_row_def Let_def image_iff)
  from assms ins have db': "n' = n + m" "outbox db' = tbl"
      and fr: "dispatch_frame (db\<lparr> outbox := tbl \<rparr>) db'"
    by (auto simp: enqueue_playbook_def Let_def split: if_splits)
  have "dispatch_frame db (db\<lparr> outbox := tbl \<rparr>)" by (simp add: dispatch_frame_def)
  from dispatch_frame_trans [OF this fr] insert_rows_spec [OF ins] db' keys show ?thesis by auto
qed

lemma enqueue_playbook_known:
  assumes "delivery_key (cr_run cr) pb ` fst ` set (selected_actions pb (cr_effective cr) ctx) \<subseteq> ob_key ` set (outbox db)"
  shows "enqueue_playbook de cr env ctx now pb (n, db) = (n, db)"
proof -
  have "insert_rows (map (action_row de cr env pb now) (selected_actions pb (cr_effective cr) ctx)) (outbox db) = (0, outbox db)"
    using assms by (intro insert_rows_known) (force simp: action_row_def new_outbox_row_def Let_def image_iff)
  then show ?thesis by (simp add: enqueue_playbook_def)
qed

lemma enqueue_all_spec:
  assumes "fold (enqueue_playbook de cr env ctx now) pbs (n, db) = (n', db')"
  shows "dispatch_frame db db' \<and> (\<exists>new. outbox db' = outbox db @ new \<and> n' = n + length new \<and>
      (\<forall>r\<in>set new. \<exists>pb\<in>set pbs. r \<in> action_row de cr env pb now ` set (selected_actions pb (cr_effective cr) ctx)) \<and>
      (distinct (map ob_key (outbox db)) \<longrightarrow> distinct (map ob_key (outbox db'))) \<and>
      (\<forall>pb\<in>set pbs. delivery_key (cr_run cr) pb ` fst ` set (selected_actions pb (cr_effective cr) ctx)
         \<subseteq> ob_key ` set (outbox db')))"
  using assms
proof (induction pbs arbitrary: n db)
  case (Cons pb pbs)
  obtain m db1 where 1: "enqueue_playbook de cr env ctx now pb (n, db) = (m, db1)" by fastforce
  with Cons.prems have 2: "fold (enqueue_playbook de cr env ctx now) pbs (m, db1) = (n', db')" by simp
  from enqueue_playbook_spec [OF 1] obtain new1 where new1:
    "dispatch_frame db db1" "outbox db1 = outbox db @ new1" "m = n + length new1"
    "set new1 \<subseteq> action_row de cr env pb now ` set (selected_actions pb (cr_effective cr) ctx)"
    "distinct (map ob_key (outbox db)) \<longrightarrow> distinct (map ob_key (outbox db1))"
    "delivery_key (cr_run cr) pb ` fst ` set (selected_actions pb (cr_effective cr) ctx) \<subseteq> ob_key ` set (outbox db1)"
    by blast
  from Cons.IH [OF 2] obtain new2 where new2:
    "dispatch_frame db1 db'" "outbox db' = outbox db1 @ new2" "n' = m + length new2"
    "\<forall>r\<in>set new2. \<exists>pb\<in>set pbs. r \<in> action_row de cr env pb now ` set (selected_actions pb (cr_effective cr) ctx)"
    "distinct (map ob_key (outbox db1)) \<longrightarrow> distinct (map ob_key (outbox db'))"
    "\<forall>pb\<in>set pbs. delivery_key (cr_run cr) pb ` fst ` set (selected_actions pb (cr_effective cr) ctx)
       \<subseteq> ob_key ` set (outbox db')"
    by blast
  have "outbox db' = outbox db @ (new1 @ new2)" "n' = n + length (new1 @ new2)"
    using new1 new2 by simp_all
  moreover have "\<forall>r\<in>set (new1 @ new2). \<exists>pb\<in>set (pb # pbs).
      r \<in> action_row de cr env pb now ` set (selected_actions pb (cr_effective cr) ctx)"
    using new1(4) new2(4) by fastforce
  moreover have "distinct (map ob_key (outbox db)) \<longrightarrow> distinct (map ob_key (outbox db'))"
    using new1(5) new2(5) by blast
  moreover have "\<forall>pb\<in>set (pb # pbs). delivery_key (cr_run cr) pb ` fst ` set (selected_actions pb (cr_effective cr) ctx)
       \<subseteq> ob_key ` set (outbox db')"
  proof -
    have "ob_key ` set (outbox db1) \<subseteq> ob_key ` set (outbox db')" using new2(2) by auto
    with new1(6) new2(6) show ?thesis by (simp only: list.set ball_simps) blast
  qed
  ultimately show ?case using dispatch_frame_trans [OF new1(1) new2(1)] by blast
qed simp

lemma enqueue_all_known:
  "\<forall>pb\<in>set pbs. delivery_key (cr_run cr) pb ` fst ` set (selected_actions pb (cr_effective cr) ctx)
      \<subseteq> ob_key ` set (outbox db) \<Longrightarrow>
   fold (enqueue_playbook de cr env ctx now) pbs (n, db) = (n, db)"
  by (induction pbs) (simp_all add: enqueue_playbook_known)

subsection \<open>Who governs\<close>

lemma dset_values: "snd ` set (dset k v d) \<subseteq> insert v (snd ` set d)"
  by (induction k v d rule: dset.induct) auto

lemma fold_file_values: "snd ` set (fold (\<lambda>pb. dset (f pb) pb) pbs d) \<subseteq> set pbs \<union> snd ` set d"
proof (induction pbs arbitrary: d)
  case (Cons pb pbs)
  from Cons.IH [of "dset (f pb) pb d"]
  have "snd ` set (fold (\<lambda>pb. dset (f pb) pb) (pb # pbs) d) \<subseteq> set pbs \<union> snd ` set (dset (f pb) pb d)" by simp
  also have "\<dots> \<subseteq> set pbs \<union> insert pb (snd ` set d)" by (rule Un_mono [OF subset_refl dset_values])
  also have "\<dots> = set (pb # pbs) \<union> snd ` set d" by simp
  finally show ?case .
qed simp

lemma override_file_values:
  "snd ` set (fold (override_file de mi t st) rows d) \<subseteq>
     {pb. response_matches mi pb \<and> (\<exists>r\<in>set rows. governing_playbook de t st r = Some pb)} \<union> snd ` set d"
proof (induction rows arbitrary: d)
  case (Cons r rows)
  have "snd ` set (override_file de mi t st r d) \<subseteq>
      {pb. response_matches mi pb \<and> governing_playbook de t st r = Some pb} \<union> snd ` set d"
  proof (cases "governing_playbook de t st r")
    case (Some pb)
    with dset_values [of "rp_id pb" pb d] show ?thesis by (auto simp: override_file_def)
  qed (simp add: override_file_def)
  moreover have "snd ` set (fold (override_file de mi t st) (r # rows) d) \<subseteq>
      {pb. response_matches mi pb \<and> (\<exists>r\<in>set rows. governing_playbook de t st r = Some pb)} \<union>
      snd ` set (override_file de mi t st r d)"
    using Cons.IH [of "override_file de mi t st r d"] by simp
  ultimately show ?case by (simp only: list.set bex_simps) blast
qed simp

text \<open>
  A playbook that governs comes from a file whose identifier the tenant has not authored, or from
  the newest authored revision of the tenant, at the status asked for.
\<close>

definition governs :: "dispatch_env \<Rightarrow> uid \<Rightarrow> string \<Rightarrow> action_db \<Rightarrow> response_playbook \<Rightarrow> bool" where
  "governs de t st db pb \<longleftrightarrow>
     (pb \<in> set (de_registry de) \<and> rp_status pb = st \<and>
        \<not> (\<exists>r. latest_response (response_rows db) t (rp_id pb) = Some r \<and> rs_status r \<noteq> ''retired'')) \<or>
     (\<exists>r. latest_response (response_rows db) t (rs_playbook r) = Some r \<and> rs_status r = st \<and>
        (\<exists>d. dict_of (rs_definition r) = Some d \<and> py_str (dget ''tenant'' d) = Some (uid_text t) \<and>
           validate_authored_response (de_float de) (de_coerce de) (PDict d) = Inr pb))"

lemma governing_playbook_SomeD:
  "governing_playbook de t st r = Some pb \<Longrightarrow> rs_status r = st \<and>
     (\<exists>d. dict_of (rs_definition r) = Some d \<and> py_str (dget ''tenant'' d) = Some (uid_text t) \<and>
        validate_authored_response (de_float de) (de_coerce de) (PDict d) = Inr pb)"
  by (auto simp: governing_playbook_def split: if_splits option.splits sum.splits)

lemma matched_governs:
  assumes "pb \<in> set (matched de mi t st db)"
  shows "response_matches mi pb \<and> governs de t st db pb"
proof -
  let ?rows = "list_authored_response (response_rows db) t"
  let ?file = "filter (\<lambda>pb. rp_id pb \<notin> rs_playbook ` set ?rows) (match_response_playbooks (de_registry de) mi st)"
  from assms have "pb \<in> snd ` set (fold (override_file de mi t st) ?rows (fold (\<lambda>pb. dset (rp_id pb) pb) ?file []))"
    by (simp add: matched_def Let_def)
  with override_file_values [of de mi t st ?rows] fold_file_values [of rp_id ?file "[]"]
  have "pb \<in> {pb. response_matches mi pb \<and> (\<exists>r\<in>set ?rows. governing_playbook de t st r = Some pb)} \<union> (set ?file \<union> snd ` set ([] :: (string \<times> response_playbook) list))"
    by blast
  then have "pb \<in> set ?file \<or> response_matches mi pb \<and> (\<exists>r\<in>set ?rows. governing_playbook de t st r = Some pb)"
    by auto
  then show ?thesis
  proof
    assume "pb \<in> set ?file"
    moreover have "rp_id pb \<notin> rs_playbook ` set ?rows \<Longrightarrow>
        \<not> (\<exists>r. latest_response (response_rows db) t (rp_id pb) = Some r \<and> rs_status r \<noteq> ''retired'')"
    proof
      assume no: "rp_id pb \<notin> rs_playbook ` set ?rows"
      assume "\<exists>r. latest_response (response_rows db) t (rp_id pb) = Some r \<and> rs_status r \<noteq> ''retired''"
      then obtain r where r: "latest_response (response_rows db) t (rp_id pb) = Some r" "rs_status r \<noteq> ''retired''"
        by blast
      with latest_response_Some [OF r(1)] have "r \<in> set ?rows" by (simp add: list_authored_response_iff)
      with no latest_response_Some [OF r(1)] show False by force
    qed
    ultimately show ?thesis by (auto simp: governs_def match_response_playbooks_def)
  next
    assume "response_matches mi pb \<and> (\<exists>r\<in>set ?rows. governing_playbook de t st r = Some pb)"
    then show ?thesis
      unfolding governs_def using list_authored_response_iff governing_playbook_SomeD by metis
  qed
qed

lemma governs_legal:
  "governs de t st db pb \<Longrightarrow> \<forall>p\<in>set (de_registry de). playbook_legal p \<Longrightarrow> playbook_legal pb"
  by (auto simp: governs_def dest: validate_authored_response_InrD)

subsection \<open>What is queued\<close>

definition killed_tenant :: "dispatch_env \<Rightarrow> uid \<Rightarrow> action_db \<Rightarrow> bool" where
  "killed_tenant de t db \<longleftrightarrow>
     (\<exists>policy. effective_policy (de_policy de) (Some (policies_of t (core db))) [] [] = Some policy \<and>
               response_dispatch_killed (de_kill de) policy)"

lemma dispatch_run_cases:
  assumes "dispatch_for_completed_run de cr now db = Some (n, db')"
  obtains (quiet) env ctx mi where
    "build_envelope (de_repr de) cr db = Some env" "response_condition_context env = Some ctx"
    "match_input_of de (cr_tenant cr) env db = Some mi"
    "n = 0" "outbox db' = outbox db" "dispatch_frame db db'"
    "matched de mi (cr_tenant cr) ''active'' db = [] \<or> killed_tenant de (cr_tenant cr) db"
  | (live) env ctx mi db1 where
    "build_envelope (de_repr de) cr db = Some env" "response_condition_context env = Some ctx"
    "match_input_of de (cr_tenant cr) env db = Some mi"
    "dispatch_frame db db1" "outbox db1 = outbox db"
    "matched de mi (cr_tenant cr) ''active'' db \<noteq> []" "\<not> killed_tenant de (cr_tenant cr) db"
    "fold (enqueue_playbook de cr env ctx now) (matched de mi (cr_tenant cr) ''active'' db) (0, db1) = (n, db')"
proof -
  from assms obtain env ctx mi where 1: "build_envelope (de_repr de) cr db = Some env"
      "response_condition_context env = Some ctx" "match_input_of de (cr_tenant cr) env db = Some mi"
    by (auto simp: dispatch_for_completed_run_def split: bind_splits)
  let ?db1 = "fold (audit_shadow cr ctx) (matched de mi (cr_tenant cr) ''shadow'' db) db"
  have fr: "dispatch_frame db ?db1" "outbox ?db1 = outbox db" using audit_shadows_frame by blast+
  note pol = frame_policies [OF dispatch_frame_inputs [OF fr(1)], of "cr_tenant cr"]
    and mat = frame_matched [OF dispatch_frame_inputs [OF fr(1)], of de mi "cr_tenant cr"]
  have step: "(if matched de mi (cr_tenant cr) ''active'' ?db1 = [] then Some (0, ?db1)
      else do {
        policy \<leftarrow> effective_policy (de_policy de) (Some (policies_of (cr_tenant cr) (core ?db1))) [] [];
        if response_dispatch_killed (de_kill de) policy
        then Some (0, audit_dispatch ''ir.response_playbook.dispatch_killed'' cr
              (PDict [(''run_id'', PStr (uid_text (cr_run cr))),
                (''playbooks'', pstrs (map rp_id (matched de mi (cr_tenant cr) ''active'' ?db1)))]) ?db1)
        else Some (fold (enqueue_playbook de cr env ctx now) (matched de mi (cr_tenant cr) ''active'' ?db1) (0, ?db1)) }) =
      Some (n, db')"
    using assms unfolding dispatch_for_completed_run_def 1 Let_def Option.bind.bind_lunit .
  have act: "matched de mi (cr_tenant cr) ''active'' ?db1 = matched de mi (cr_tenant cr) ''active'' db" by (rule mat)
  show thesis
  proof (cases "matched de mi (cr_tenant cr) ''active'' db = [] \<or> killed_tenant de (cr_tenant cr) db")
    case True
    with step [unfolded pol] fr act have "n = 0 \<and> outbox db' = outbox db \<and> dispatch_frame db db'"
      unfolding killed_tenant_def
      by (auto split: if_splits intro: dispatch_frame_trans [OF fr(1) dispatch_frame_audit])
    with quiet [OF 1] True show thesis by blast
  next
    case False
    with step [unfolded pol] act
    have "fold (enqueue_playbook de cr env ctx now) (matched de mi (cr_tenant cr) ''active'' db) (0, ?db1) = (n, db')"
      unfolding killed_tenant_def by (auto simp: bind_eq_Some_conv split: if_splits)
    with live [OF 1 fr] False show thesis by blast
  qed
qed

lemma selected_actions_iff:
  "(i, a) \<in> set (selected_actions pb d ctx) \<longleftrightarrow>
     i < length (actions_for pb d) \<and> a = actions_for pb d ! i \<and> action_selected ctx a"
  by (auto simp: selected_actions_def in_set_enumerate_eq)

lemma dispatch_new_rows:
  assumes "dispatch_for_completed_run de cr now db = Some (n, db')"
  shows "dispatch_frame db db' \<and> (\<exists>new. outbox db' = outbox db @ new \<and> n = length new) \<and>
    (distinct (map ob_key (outbox db)) \<longrightarrow> distinct (map ob_key (outbox db')))"
  using assms
proof (cases rule: dispatch_run_cases)
  case (live env ctx mi db1)
  from enqueue_all_spec [OF live(8)] have "dispatch_frame db1 db'" by blast
  from dispatch_frame_trans [OF live(4) this] enqueue_all_spec [OF live(8)] live(5) show ?thesis by auto
qed auto

text \<open>
  Nothing reaches the outbox but what an active playbook asks for: every row a dispatch adds
  carries one action, at its position, of a legal playbook that governs the tenant at status
  active, matches the evidence, and whose condition holds of the projected envelope; on a close
  the only capability is the case note; and the tenant was not killed.
\<close>

theorem dispatch_enqueues_only_active:
  assumes "dispatch_for_completed_run de cr now db = Some (n, db')"
    and "de_registry de = response_registry yaml_load (de_coerce de) listing dir"
    and "r \<in> set (outbox db')" and "r \<notin> set (outbox db)"
  shows "\<not> killed_tenant de (cr_tenant cr) db \<and>
    (\<exists>pb i env ctx mi.
      build_envelope (de_repr de) cr db = Some env \<and> response_condition_context env = Some ctx \<and>
      match_input_of de (cr_tenant cr) env db = Some mi \<and>
      playbook_legal pb \<and> governs de (cr_tenant cr) ''active'' db pb \<and> response_matches mi pb \<and>
      i < length (actions_for pb (cr_effective cr)) \<and>
      action_selected ctx (actions_for pb (cr_effective cr) ! i) \<and>
      r = action_row de cr env pb now (i, actions_for pb (cr_effective cr) ! i) \<and>
      (cr_effective cr = ''close_fp'' \<longrightarrow>
         ra_capability (actions_for pb (cr_effective cr) ! i) = ''annotate_investigation''))"
  using assms(1)
proof (cases rule: dispatch_run_cases)
  case quiet
  with assms(3,4) show ?thesis by simp
next
  case (live env ctx mi db1)
  from enqueue_all_spec [OF live(8)] obtain new where new: "outbox db' = outbox db1 @ new"
      "\<forall>r\<in>set new. \<exists>pb\<in>set (matched de mi (cr_tenant cr) ''active'' db).
         r \<in> action_row de cr env pb now ` set (selected_actions pb (cr_effective cr) ctx)"
    by blast
  from new(1) live(5) assms(3,4) have "r \<in> set new" by simp
  with new(2) obtain pb
    where pb: "pb \<in> set (matched de mi (cr_tenant cr) ''active'' db)"
      "r \<in> action_row de cr env pb now ` set (selected_actions pb (cr_effective cr) ctx)"
    by blast
  then obtain i where i: "r = action_row de cr env pb now (i, actions_for pb (cr_effective cr) ! i)"
      "i < length (actions_for pb (cr_effective cr))" "action_selected ctx (actions_for pb (cr_effective cr) ! i)"
    by (auto simp: selected_actions_iff)
  from matched_governs [OF pb(1)] have g: "response_matches mi pb" "governs de (cr_tenant cr) ''active'' db pb" by auto
  from g(2) have legal: "playbook_legal pb"
    by (rule governs_legal) (simp add: assms(2) response_registry_sound)
  from live g legal i actions_for_legal [OF legal nth_mem [OF i(2)]] show ?thesis by blast
qed

text \<open>
  A dispatch that is repeated for the same run, later and against the store the first one left,
  queues nothing and reports nothing, whatever became of the rows of the first.
\<close>

theorem dispatch_idempotent:
  assumes "dispatch_for_completed_run de cr now db = Some (n, db')"
    and "same_inputs db' db2" and "ob_key ` set (outbox db') \<subseteq> ob_key ` set (outbox db2)"
    and "dispatch_for_completed_run de cr later db2 = Some (m, db3)"
  shows "m = 0 \<and> outbox db3 = outbox db2"
  using assms(4)
proof (cases rule: dispatch_run_cases)
  case second: (live env ctx mi db1)
  have fr: "same_inputs db db2"
    using dispatch_new_rows [OF assms(1)] assms(2) by (blast intro: same_inputs_trans dispatch_frame_inputs)
  have same: "build_envelope (de_repr de) cr db = Some env" "match_input_of de (cr_tenant cr) env db = Some mi"
      "matched de mi (cr_tenant cr) ''active'' db = matched de mi (cr_tenant cr) ''active'' db2"
      "killed_tenant de (cr_tenant cr) db = killed_tenant de (cr_tenant cr) db2"
    using second frame_envelope [OF fr] frame_input [OF fr] frame_matched [OF fr] frame_policies [OF fr]
    by (auto simp: killed_tenant_def)
  from assms(1) have "\<forall>pb\<in>set (matched de mi (cr_tenant cr) ''active'' db2).
      delivery_key (cr_run cr) pb ` fst ` set (selected_actions pb (cr_effective cr) ctx) \<subseteq> ob_key ` set (outbox db')"
  proof (cases rule: dispatch_run_cases)
    case quiet
    with same second show ?thesis by auto
  next
    case (live env' ctx' mi' dbx)
    with same second have "env' = env" "ctx' = ctx" "mi' = mi" by auto
    with enqueue_all_spec [OF live(8)] same(3) show ?thesis by (simp only:) blast
  qed
  with assms(3) second(5) have "\<forall>pb\<in>set (matched de mi (cr_tenant cr) ''active'' db2).
      delivery_key (cr_run cr) pb ` fst ` set (selected_actions pb (cr_effective cr) ctx) \<subseteq> ob_key ` set (outbox db1)"
    by (simp only: second(5)) blast
  from enqueue_all_known [OF this, of de env later 0] second(5,8) show ?thesis by simp
qed auto

end
