(* ===== verification/Rs_Executor_Correct.thy ===== *)
theory Rs_Executor_Correct
  imports Rs_Executor Rs_Dispatch_Correct
begin

text \<open>
  What the single operations of the approval plane and the executor promise: where a request may go,
  what a handler does to the proposals, that routing is idempotent, and how the outbox retries.
\<close>

subsection \<open>Identifiers as text\<close>

lemma uid_of_uid_text [simp]: "uid_of_text (uid_text n) = Some n"
  by (simp add: uid_of_text_def uid_text_def py_int_of_show_int)

lemma uuid_or_none_text [simp]: "uuid_or_none ae (PStr (uid_text n)) = Some n"
  by (simp add: uuid_or_none_def text_of_def)

subsection \<open>Requests\<close>

text \<open>
  The target of a request is the operator's: the tenant's webhook, or the address the tenant policy
  gives for a named endpoint; and it passed the address check.
\<close>

definition operator_target :: "action_env \<Rightarrow> action_db \<Rightarrow> request \<Rightarrow> bool" where
  "operator_target ae db q \<longleftrightarrow>
     (\<exists>policy. effective_policy (ae_policy ae) (Some (policies_of (rq_tenant q) (core db))) [] [] = Some policy \<and>
       (rq_capability q = ''notify_webhook'' \<and>
          rq_url q = str_strip (text_or_empty ae (dget ''response_webhook_url'' policy)) \<or>
        rq_capability q = ''external_action'' \<and>
          (\<exists>endpoint cfg. resolve_endpoint ae policy endpoint = Some cfg \<and>
             rq_url q = str_strip (text_of (ae_repr ae) (dget ''url'' cfg)))))"

lemma make_request_fields [simp]:
  "rq_tenant (make_request ae t cap payload url secret b) = t"
  "rq_capability (make_request ae t cap payload url secret b) = cap"
  "rq_payload (make_request ae t cap payload url secret b) = payload"
  "rq_url (make_request ae t cap payload url secret b) = url"
  "rq_delivery (make_request ae t cap payload url secret b) = text_or_empty ae (dget ''delivery'' payload)"
  by (simp_all add: make_request_def Let_def)

lemma post_request_sent: "post_request ae rq = (rqs, res) \<Longrightarrow> rqs = [rq] \<and> (\<forall>ref ns. res = Some (ref, ns) \<longrightarrow> ns = [])"
  by (auto simp: post_request_def split: option.splits if_splits)

lemma notify_webhook_spec:
  assumes "notify_webhook ae t payload db = (rqs, res)" and "q \<in> set rqs"
  shows "rq_tenant q = t \<and> rq_payload q = payload \<and> rq_capability q = ''notify_webhook'' \<and>
    webhook_url_allowed ae (rq_url q) \<and> operator_target ae db q"
  using assms
  by (auto simp: notify_webhook_def Let_def operator_target_def dest!: post_request_sent split: option.splits if_splits)

lemma external_action_spec:
  assumes "external_action ae t payload db = (rqs, res)" and "q \<in> set rqs"
  shows "rq_tenant q = t \<and> rq_payload q = payload \<and> rq_capability q = ''external_action'' \<and>
    webhook_url_allowed ae (rq_url q) \<and> operator_target ae db q"
  using assms
  by (auto simp: external_action_def Let_def operator_target_def bind_eq_Some_conv
      dest!: post_request_sent split: option.splits if_splits pyval.splits) blast

lemma run_handler_spec:
  assumes "run_handler ae h t payload db = (rqs, res)" and "q \<in> set rqs"
  shows "rq_tenant q = t \<and> rq_payload q = payload \<and> webhook_url_allowed ae (rq_url q) \<and> operator_target ae db q \<and>
    (h = NotifyWebhook \<and> rq_capability q = ''notify_webhook'' \<or>
     h = ExternalAction \<and> rq_capability q = ''external_action'')"
  using assms notify_webhook_spec external_action_spec by (cases h) (auto; blast)+

lemma handler_notes:
  "run_handler ae h t payload db = (rqs, Some (ref, ns)) \<Longrightarrow> n \<in> set ns \<Longrightarrow>
     h = AnnotateInvestigation \<and> annotate_note ae t payload = Some n"
proof (cases h)
  case NotifyWebhook
  assume "run_handler ae h t payload db = (rqs, Some (ref, ns))" "n \<in> set ns"
  with NotifyWebhook show ?thesis
    by (auto simp: notify_webhook_def Let_def post_request_def split: option.splits if_splits)
next
  case ExternalAction
  assume "run_handler ae h t payload db = (rqs, Some (ref, ns))" "n \<in> set ns"
  with ExternalAction show ?thesis
    by (auto simp: external_action_def Let_def post_request_def split: option.splits if_splits pyval.splits)
qed auto

subsection \<open>What the log leaves alone\<close>

lemma write_log_frame:
  "write_execution_log ae t payload st ref err db = Some db' \<Longrightarrow>
     core db' = core db \<and> outbox db' = outbox db \<and> proposals db' = proposals db \<and> case_notes db' = case_notes db \<and>
     response_rows db' = response_rows db \<and> tenant_slugs db' = tenant_slugs db \<and> evidence db' = evidence db"
  by (auto simp: write_execution_log_def Let_def split: bind_splits)

lemma log_then_frame:
  "log_then ae t payload st ref err result db = (res, db') \<Longrightarrow>
     core db' = core db \<and> outbox db' = outbox db \<and> proposals db' = proposals db \<and> case_notes db' = case_notes db"
  by (auto simp: log_then_def dest!: write_log_frame split: option.splits)

lemma log_then_frames [simp]:
  "core (snd (log_then ae t payload st ref err result db)) = core db"
  "outbox (snd (log_then ae t payload st ref err result db)) = outbox db"
  "proposals (snd (log_then ae t payload st ref err result db)) = proposals db"
  "case_notes (snd (log_then ae t payload st ref err result db)) = case_notes db"
  using log_then_frame [of ae t payload st ref err result db] by (auto simp: prod_eq_iff)

lemma emit_event_frame [simp]:
  "outbox (emit_proposal_event ae t env pid act kind detail db) = outbox db"
  "proposals (emit_proposal_event ae t env pid act kind detail db) = proposals db"
  "case_notes (emit_proposal_event ae t env pid act kind detail db) = case_notes db"
  by (simp_all add: emit_proposal_event_def log_core_def Let_def split: option.splits)

lemma set_status_frame [simp]:
  "outbox (set_proposal_status pid st db) = outbox db"
  "core (set_proposal_status pid st db) = core db"
  "case_notes (set_proposal_status pid st db) = case_notes db"
  "proposals (set_proposal_status pid st db) =
     update_where (\<lambda>p. pr_id p = pid) (\<lambda>p. p\<lparr> pr_status := st \<rparr>) (proposals db)"
  by (simp_all add: set_proposal_status_def update_proposal_def)

subsection \<open>Routing\<close>

lemma create_proposal_spec:
  assumes "create_proposal ae pid t c rn act params rationale cls now db = (p, db')"
  shows "outbox db' = outbox db \<and> case_notes db' = case_notes db \<and>
    ((\<exists>q\<in>set (proposals db). pr_case q = c \<and> pr_key q = proposal_idempotency_key (ae_float ae) c act params \<and> p = pr_id q \<and> db' = db) \<or>
     (\<forall>q\<in>set (proposals db). \<not> (pr_case q = c \<and> pr_key q = proposal_idempotency_key (ae_float ae) c act params)) \<and> p = pid \<and>
     proposals db' = proposals db @
       [\<lparr> pr_id = pid, pr_tenant = t, pr_case = c, pr_run = rn, pr_action = act, pr_params = params,
          pr_rationale = rationale, pr_class = cls, pr_status = Proposed,
          pr_key = proposal_idempotency_key (ae_float ae) c act params,
          pr_approver = None, pr_approval_reason = None, pr_rejected_reason = None \<rparr>])"
  using assms
  by (auto simp: create_proposal_def Let_def find_None_iff dest!: find_SomeD split: option.splits)

text \<open>
  Routing is idempotent: an action that is drained again, with another fresh identifier and whatever
  happened to its proposal meanwhile, resolves to the proposal of the first time and creates nothing.
\<close>

theorem routing_idempotent:
  assumes "create_proposal ae pid t c rn act params rationale cls now db = (p, db')"
    and "map (\<lambda>q. (pr_id q, pr_case q, pr_key q)) (proposals db2) =
         map (\<lambda>q. (pr_id q, pr_case q, pr_key q)) (proposals db')"
    and "distinct (map (\<lambda>q. (pr_case q, pr_key q)) (proposals db'))"
  shows "create_proposal ae pid' t' c rn' act params rationale' cls' later db2 = (p, db2)"
proof -
  let ?key = "proposal_idempotency_key (ae_float ae) c act params"
  have "\<exists>q\<in>set (proposals db'). pr_case q = c \<and> pr_key q = ?key \<and> pr_id q = p"
    using create_proposal_spec [OF assms(1)] by auto
  then have "(p, c, ?key) \<in> set (map (\<lambda>q. (pr_id q, pr_case q, pr_key q)) (proposals db2))"
    unfolding assms(2) by force
  then obtain q where q: "q \<in> set (proposals db2)" "pr_case q = c" "pr_key q = ?key" "pr_id q = p" by auto
  have dist: "distinct (map (\<lambda>q. (pr_case q, pr_key q)) (proposals db2))"
    using assms(3) arg_cong [OF assms(2), of "map snd"] by (simp add: comp_def)
  have "find (\<lambda>q. pr_case q = c \<and> pr_key q = ?key) (proposals db2) = Some q"
  proof (cases "find (\<lambda>q. pr_case q = c \<and> pr_key q = ?key) (proposals db2)")
    case None
    with q show ?thesis by (auto simp: find_None_iff)
  next
    case (Some q')
    from find_SomeD [OF this] have "q' \<in> set (proposals db2)" "pr_case q' = c" "pr_key q' = ?key" by auto
    with q dist have "q' = q" by (auto simp: distinct_map inj_on_def)
    with Some show ?thesis by simp
  qed
  with q(4) show ?thesis by (simp add: create_proposal_def)
qed

end
