(* ===== verification/Rs_Plane.thy ===== *)
theory Rs_Plane
  imports Rs_Executor_Correct Ir_Plane
begin

text \<open>
  The response plane as a step relation. A state is the log of human approvals, the log of requests
  that left, and the store; a step is one committed transaction, or an executor that dies after its
  request left and before it committed. The two logs are what an observer outside the database sees:
  nothing in the program reads them.
\<close>

subsection \<open>Completion with its dispatch\<close>

text \<open>
  \<open>complete_run\<close> calls the dispatch before it starts the follow-up run; the two touch disjoint parts
  of the store, so the dispatch is put after the rest. It runs once for the call the completion made.
\<close>

definition completed_of :: "uid \<Rightarrow> complete_payload \<Rightarrow> dispatch_call \<Rightarrow> completed_run" where
  "completed_of t p d =
     \<lparr> cr_tenant = t, cr_case = dispatch_case d, cr_run = dispatch_run d, cr_worker = dispatch_worker d,
       cr_effective = dispatch_effective d, cr_veto = dispatch_veto d, cr_summary = cp_summary p,
       cr_confidence = cp_confidence p, cr_enrichments = cp_enrichments p \<rparr>"

definition complete_and_dispatch ::
    "completion_env \<Rightarrow> dispatch_env \<Rightarrow> uid \<Rightarrow> uid \<Rightarrow> complete_payload \<Rightarrow> time \<Rightarrow> action_db
     \<Rightarrow> failure + (bool \<times> action_db)" where
  "complete_and_dispatch ce de t rid p now db =
     (case complete_run ce t rid p now (core db) of
        Inl e \<Rightarrow> Inl e
      | Inr (changed, core') \<Rightarrow>
          Inr (changed, fold (\<lambda>d. dispatch_guarded de (completed_of t p d) now)
                 (drop (length (dispatches (core db))) (dispatches core')) (db\<lparr> core := core' \<rparr>)))"

subsection \<open>Steps\<close>

type_synonym action_plane = "(user_identity \<times> uid) list \<times> request list \<times> action_db"

inductive action_step :: "(pyfloat \<Rightarrow> string) \<Rightarrow> action_plane \<Rightarrow> action_plane \<Rightarrow> bool" for fr where
  complete: "\<lbrakk> complete_and_dispatch ce de t rid p now db = Inr (ch, db'); distinct (map ob_id (outbox db')) \<rbrakk>
    \<Longrightarrow> action_step fr (A, w, db) (A, w, db')"
| approve: "\<lbrakk> oid \<notin> ob_id ` set (outbox db); approve_proposal_route (Some i) pid why oid now db = Inr db' \<rbrakk>
    \<Longrightarrow> action_step fr (A, w, db) ((i, pid) # A, w, db')"
| reject: "reject_proposal_route (Some i) pid why now db = Inr db' \<Longrightarrow> action_step fr (A, w, db) (A, w, db')"
| turn: "\<lbrakk> ae_float ae = fr; pid \<notin> pr_id ` set (proposals db); executor_turn ae pid locked worker now db = (b, rqs, db') \<rbrakk>
    \<Longrightarrow> action_step fr (A, w, db) (A, w @ rqs, db')"
| crash: "\<lbrakk> ae_float ae = fr; pid \<notin> pr_id ` set (proposals db); executor_turn ae pid locked worker now db = (b, rqs, db') \<rbrakk>
    \<Longrightarrow> action_step fr (A, w, db) (A, w @ rqs, db)"
| elsewhere: "\<lbrakk> outbox db' = outbox db; proposals db' = proposals db \<rbrakk> \<Longrightarrow> action_step fr (A, w, db) (A, w, db')"

abbreviation action_steps :: "(pyfloat \<Rightarrow> string) \<Rightarrow> action_plane \<Rightarrow> action_plane \<Rightarrow> bool" where
  "action_steps fr \<equiv> (action_step fr)\<^sup>*\<^sup>*"

definition reachable_actions :: "(pyfloat \<Rightarrow> string) \<Rightarrow> action_plane \<Rightarrow> bool" where
  "reachable_actions fr s \<longleftrightarrow> (\<exists>db0. outbox db0 = [] \<and> proposals db0 = [] \<and> action_steps fr ([], [], db0) s)"

subsection \<open>What a stored row stands for\<close>

text \<open>The payload of an action names the tenant and the case it belongs to.\<close>

definition scoped :: "uid \<Rightarrow> uid \<Rightarrow> pydict \<Rightarrow> bool" where
  "scoped t c payload \<longleftrightarrow>
     (\<exists>env. dict_part ''envelope'' payload = PDict env \<and> py_str (dget ''tenant_id'' env) = Some (uid_text t) \<and>
            py_str (dget ''investigation_id'' env) = Some (uid_text c))"

lemma scoped_unique: "scoped t c pl \<Longrightarrow> scoped t' c' pl \<Longrightarrow> t' = t \<and> c' = c"
  by (auto simp: scoped_def)

text \<open>A human with the right to approve the proposal's class approved it, as one of its tenant or of the provider.\<close>

definition approved_by :: "user_identity \<Rightarrow> proposal_row \<Rightarrow> bool" where
  "approved_by i p \<longleftrightarrow>
     APPROVE_PROPOSAL_GUARD (Some i) = Inr () \<and> may_approve_privileged i \<and>
     (is_tenant_user i \<longrightarrow> id_tenant i = Some (pr_tenant p))"

definition proposal_ok :: "(pyfloat \<Rightarrow> string) \<Rightarrow> (user_identity \<times> uid) list \<Rightarrow> proposal_row \<Rightarrow> bool" where
  "proposal_ok fr A p \<longleftrightarrow>
     (\<exists>spec. capability_of (pr_action p) = Some spec \<and> cap_approval spec \<noteq> Autonomous \<and>
             pr_class p = class_value (cap_class spec)) \<and>
     pr_run p = None \<and> scoped (pr_tenant p) (pr_case p) (pr_params p) \<and>
     pr_key p = proposal_idempotency_key fr (pr_case p) (pr_action p) (pr_params p) \<and>
     (pr_status p \<in> {Approved, Executing, Executed, ProposalFailed} \<longrightarrow>
        (\<exists>i. (i, pr_id p) \<in> set A \<and> pr_approver p = Some (id_user i) \<and> approved_by i p)) \<and>
     pr_status p \<notin> {Draft, RolledBack}"

text \<open>A queued execution carries the identifier, the tenant and the action of its proposal.\<close>

definition backed :: "proposal_row list \<Rightarrow> outbox_row \<Rightarrow> bool" where
  "backed ps r \<longleftrightarrow> ob_kind r = EXECUTE_PROPOSAL_KIND \<longrightarrow>
     (\<exists>p\<in>set ps. map_of (ob_payload r) ''proposal_id'' = Some (PStr (uid_text (pr_id p))) \<and>
        dget ''action_type'' (ob_payload r) = PStr (pr_action p) \<and>
        ob_tenant r = pr_tenant p \<and> ob_case r = pr_case p)"

definition outbox_ok :: "outbox_row \<Rightarrow> bool" where
  "outbox_ok r \<longleftrightarrow> ob_max_attempts r = 5 \<and> 0 \<le> ob_attempts r \<and> ob_attempts r \<le> 5 \<and>
     (ob_status r = OutboxFailed \<longleftrightarrow> ob_attempts r = 5) \<and> ob_kind r \<in> set RESPONSE_KINDS"

text \<open>An external action that left was one of a proposal a human approved.\<close>

definition sanctioned :: "(user_identity \<times> uid) list \<Rightarrow> proposal_row list \<Rightarrow> request \<Rightarrow> bool" where
  "sanctioned A ps q \<longleftrightarrow> rq_capability q = ''external_action'' \<longrightarrow>
     (\<exists>p\<in>set ps. pr_action p = ''external_action'' \<and> pr_tenant p = rq_tenant q \<and> pr_params p = rq_payload q \<and>
        pr_status p \<noteq> Proposed \<and> pr_status p \<noteq> Rejected \<and>
        (\<exists>i. (i, pr_id p) \<in> set A \<and> pr_approver p = Some (id_user i) \<and> approved_by i p))"

definition plane_inv :: "(pyfloat \<Rightarrow> string) \<Rightarrow> action_plane \<Rightarrow> bool" where
  "plane_inv fr s \<longleftrightarrow> (case s of (A, w, db) \<Rightarrow>
     distinct (map pr_id (proposals db)) \<and> distinct (map (\<lambda>p. (pr_case p, pr_key p)) (proposals db)) \<and>
     distinct (map ob_id (outbox db)) \<and> distinct (map ob_key (outbox db)) \<and>
     (\<forall>p\<in>set (proposals db). proposal_ok fr A p) \<and>
     (\<forall>r\<in>set (outbox db). backed (proposals db) r \<and> outbox_ok r) \<and>
     (\<forall>q\<in>set w. sanctioned A (proposals db) q))"

subsection \<open>The life of a proposal\<close>

inductive pr_life :: "(user_identity \<times> uid) list \<Rightarrow> proposal_row \<Rightarrow> proposal_row \<Rightarrow> bool" for A where
  idle: "pr_life A p p"
| approved: "\<lbrakk> pr_status p = Proposed; (i, pr_id p) \<in> set A; approved_by i p \<rbrakk>
    \<Longrightarrow> pr_life A p (p\<lparr> pr_status := Approved, pr_approver := Some (id_user i), pr_approval_reason := Some why \<rparr>)"
| rejected: "pr_status p = Proposed
    \<Longrightarrow> pr_life A p (p\<lparr> pr_status := Rejected, pr_approver := Some u, pr_rejected_reason := Some why \<rparr>)"
| ran: "\<lbrakk> pr_status p = Approved; st \<in> {Executing, Executed, ProposalFailed} \<rbrakk>
    \<Longrightarrow> pr_life A p (p\<lparr> pr_status := st \<rparr>)"

inductive_cases pr_lifeE: "pr_life A p p'"

lemma pr_life_same:
  "pr_life A p p' \<Longrightarrow> pr_id p' = pr_id p \<and> pr_tenant p' = pr_tenant p \<and> pr_case p' = pr_case p \<and>
     pr_action p' = pr_action p \<and> pr_params p' = pr_params p \<and> pr_key p' = pr_key p \<and> pr_class p' = pr_class p \<and>
     pr_run p' = pr_run p"
  by (erule pr_lifeE) simp_all

lemma pr_life_ok: "pr_life A p p' \<Longrightarrow> proposal_ok fr A p \<Longrightarrow> proposal_ok fr A p'"
  by (erule pr_lifeE) (auto simp: proposal_ok_def approved_by_def)

lemma pr_life_final: "pr_life A p p' \<Longrightarrow> pr_status p \<notin> {Proposed, Approved} \<Longrightarrow> p' = p"
  by (erule pr_lifeE) auto

lemma pr_life_sanctioned:
  assumes "list_all2 (pr_life A) ps mid" "sanctioned A ps q"
  shows "sanctioned A (mid @ new) q"
  unfolding sanctioned_def
proof
  assume "rq_capability q = ''external_action''"
  with assms(2) obtain p where p: "p \<in> set ps" "pr_action p = ''external_action''" "pr_tenant p = rq_tenant q"
      "pr_params p = rq_payload q" "pr_status p \<noteq> Proposed" "pr_status p \<noteq> Rejected"
      and a: "\<exists>i. (i, pr_id p) \<in> set A \<and> pr_approver p = Some (id_user i) \<and> approved_by i p"
    unfolding sanctioned_def by blast
  from list_all2_setI [OF assms(1) p(1)] obtain p' where p': "p' \<in> set mid" "pr_life A p p'" by blast
  from p'(2) p(5,6) have "pr_approver p' = pr_approver p \<and> pr_status p' \<noteq> Proposed \<and> pr_status p' \<noteq> Rejected"
    by (cases rule: pr_lifeE) auto
  with p' pr_life_same [OF p'(2)] p(2-4) a show "\<exists>p\<in>set (mid @ new). pr_action p = ''external_action'' \<and>
      pr_tenant p = rq_tenant q \<and> pr_params p = rq_payload q \<and> pr_status p \<noteq> Proposed \<and> pr_status p \<noteq> Rejected \<and>
      (\<exists>i. (i, pr_id p) \<in> set A \<and> pr_approver p = Some (id_user i) \<and> approved_by i p)"
    by (intro bexI [of _ p']) (auto simp: approved_by_def)
qed

text \<open>Proposals move along their lives, and a new one is proposed, gated, scoped and fresh in its key.\<close>

definition pr_new :: "(pyfloat \<Rightarrow> string) \<Rightarrow> proposal_row list \<Rightarrow> proposal_row \<Rightarrow> bool" where
  "pr_new fr ps n \<longleftrightarrow> pr_status n = Proposed \<and> proposal_ok fr [] n \<and> pr_id n \<notin> pr_id ` set ps \<and>
     (pr_case n, pr_key n) \<notin> (\<lambda>p. (pr_case p, pr_key p)) ` set ps"

definition pr_moves :: "(pyfloat \<Rightarrow> string) \<Rightarrow> (user_identity \<times> uid) list \<Rightarrow> proposal_row list \<Rightarrow> proposal_row list \<Rightarrow> bool" where
  "pr_moves fr A ps ps' \<longleftrightarrow>
     (\<exists>mid new. ps' = mid @ new \<and> list_all2 (pr_life A) ps mid \<and> (new = [] \<or> (\<exists>n. new = [n] \<and> pr_new fr mid n)))"

lemma pr_moves_refl [simp]: "pr_moves fr A ps ps"
  unfolding pr_moves_def by (intro exI [of _ ps] exI [of _ "[]"]) (simp add: list_all2_refl pr_life.idle)

lemma pr_moves_update:
  "(\<And>p. p \<in> set ps \<Longrightarrow> P p \<Longrightarrow> pr_life A p (f p)) \<Longrightarrow> pr_moves fr A ps (update_where P f ps)"
  unfolding pr_moves_def
  by (intro exI [of _ "update_where P f ps"] exI [of _ "[]"])
    (auto intro!: list_all2_update_where pr_life.idle)

lemma pr_moves_new: "pr_new fr ps n \<Longrightarrow> pr_moves fr A ps (ps @ [n])"
  unfolding pr_moves_def by (intro exI [of _ ps] exI [of _ "[n]"]) (auto simp: list_all2_refl pr_life.idle)

end
