(* ===== verification/Rs_Plane_Correct.thy ===== *)
theory Rs_Plane_Correct
  imports Rs_Plane
begin

text \<open>
  Every step of the response plane keeps \<open>plane_inv\<close>: each writer of proposals and of the outbox is
  described once, as moves of rows, and the invariant follows from the moves.
\<close>

subsection \<open>Decisions\<close>

lemma approve_route_spec:
  assumes "approve_proposal_route (Some i) pid why oid now db = Inr db'"
    and "distinct (map pr_id (proposals db))" and "\<forall>p\<in>set (proposals db). proposal_ok fr A p"
  obtains p where "p \<in> set (proposals db)" "pr_id p = pid" "pr_status p = Proposed" "approved_by i p"
    "proposals db' = update_where (\<lambda>q. pr_id q = pid)
       (\<lambda>q. q\<lparr> pr_status := Approved, pr_approver := Some (id_user i), pr_approval_reason := Some why \<rparr>) (proposals db)"
    "outbox db' = snd (insert_outbox (new_outbox_row oid (pr_tenant p) (pr_case p) EXECUTE_PROPOSAL_KIND
       (''proposal:'' @ uid_text pid)
       [(''proposal_id'', PStr (uid_text pid)), (''action_type'', PStr (pr_action p)),
        (''params'', PDict (pr_params p)), (''capability_class'', PStr (pr_class p))] None now) (outbox db))"
proof -
  from assms(1) obtain v where g: "APPROVE_PROPOSAL_GUARD (Some i) = Inr ()"
      and t: "\<not> (is_tenant_user i \<and> id_tenant i = None)"
      and v: "visible_proposal i pid db = Some v"
      and c: "\<not> (pr_class v \<in> set PRIVILEGED_CAPABILITY_CLASSES \<and> \<not> may_approve_privileged i)"
      and ap: "approve_proposal pid (id_user i) why oid now db = Inr db'"
    by (auto simp: approve_proposal_route_def split: sum.splits option.splits if_splits)
  from v have v': "v \<in> set (proposals db)" "pr_id v = pid" "is_tenant_user i \<longrightarrow> id_tenant i = Some (pr_tenant v)"
    by (auto simp: visible_proposal_def dest!: find_SomeD)
  from ap obtain p where p: "find (\<lambda>p. pr_id p = pid) (proposals db) = Some p" "pr_status p = Proposed"
    by (auto simp: approve_proposal_def split: option.splits if_splits)
  from find_SomeD [OF p(1)] v'(1,2) assms(2) have "p = v" by (auto simp: distinct_map inj_on_def)
  from assms(3) v'(1) have "pr_class v \<in> set PRIVILEGED_CAPABILITY_CLASSES"
    by (auto simp: proposal_ok_def PRIVILEGED_CAPABILITY_CLASSES_def dest!: capability_cases)
  with g c v' \<open>p = v\<close> have a: "approved_by i p" by (simp add: approved_by_def)
  show thesis
    using that [OF _ _ p(2) a] find_SomeD [OF p(1)] ap p
    by (auto simp: approve_proposal_def Let_def update_proposal_def)
qed

lemma reject_route_spec:
  assumes "reject_proposal_route (Some i) pid why now db = Inr db'"
  obtains u p where "p \<in> set (proposals db)" "pr_id p = pid" "pr_status p = Proposed"
    "proposals db' = update_where (\<lambda>q. pr_id q = pid)
       (\<lambda>q. q\<lparr> pr_status := Rejected, pr_approver := Some u, pr_rejected_reason := Some why \<rparr>) (proposals db)"
    "outbox db' = outbox db"
proof -
  from assms have r: "reject_proposal pid (id_user i) why now db = Inr db'"
    by (auto simp: reject_proposal_route_def split: sum.splits option.splits if_splits)
  then obtain p where p: "find (\<lambda>p. pr_id p = pid) (proposals db) = Some p" "pr_status p = Proposed"
    by (auto simp: reject_proposal_def split: option.splits if_splits)
  with r that [of p "id_user i"] find_SomeD [OF p(1)] show thesis
    by (auto simp: reject_proposal_def Let_def update_proposal_def)
qed

subsection \<open>Handlers\<close>

lemma run_capability_spec:
  assumes "run_capability ae spec t payload db = (rqs, res, db')"
  shows "outbox db' = outbox db \<and> proposals db' = proposals db \<and>
    (\<exists>res'. run_handler ae (cap_handler spec) t payload db = (rqs, res'))"
  using assms
  by (auto simp: run_capability_def split: prod.splits option.splits dest!: log_then_frame)

lemma route_spec:
  assumes "route_to_proposal ae pid t c payload spec now db = Some (p, db')"
  shows "\<exists>r. create_proposal ae pid t c None (text_or_empty ae (dget ''capability'' payload)) payload r
           (class_value (cap_class spec)) now db = (p, db')"
  using assms by (auto simp: route_to_proposal_def split: bind_splits)

lemma handle_response_spec:
  assumes "handle_response_action ae pid now row db = (rqs, res, db')"
    and "ae_float ae = fr" and "pid \<notin> pr_id ` set (proposals db)"
  shows "outbox db' = outbox db \<and> pr_moves fr A (proposals db) (proposals db') \<and>
    (\<forall>q\<in>set rqs. rq_capability q = ''notify_webhook'' \<and> webhook_url_allowed ae (rq_url q) \<and> operator_target ae db q)"
proof -
  let ?payload = "ob_payload row" and ?t = "ob_tenant row" and ?c = "ob_case row"
  let ?name = "text_or_empty ae (dget ''capability'' ?payload)"
  consider (quiet) "rqs = []" "outbox db' = outbox db" "proposals db' = proposals db"
    | (routed) spec p db1 where "capability_of ?name = Some spec" "cap_approval spec \<noteq> Autonomous"
        "scoped ?t ?c ?payload" "rqs = []" "route_to_proposal ae pid ?t ?c ?payload spec now db = Some (p, db1)"
        "outbox db' = outbox db1" "proposals db' = proposals db1"
    | (fired) spec where "capability_of ?name = Some spec" "cap_approval spec = Autonomous"
        "run_capability ae spec ?t ?payload db = (rqs, res, db')"
  proof (cases "dict_part ''envelope'' ?payload")
    case (PDict env)
    show thesis
    proof (cases "py_str (dget ''tenant_id'' env) \<noteq> Some (uid_text ?t) \<or>
                  py_str (dget ''investigation_id'' env) \<noteq> Some (uid_text ?c)")
      case True
      with PDict assms(1) show thesis
        by (intro quiet) (auto simp: handle_response_action_def Let_def dest: log_then_frame)
    next
      case False
      then have sc: "scoped ?t ?c ?payload" using PDict by (simp add: scoped_def)
      have eq: "(if \<not> owned_case ?t ?c db
           then ([], log_then ae ?t ?payload ''rejected'' None (Some NotOwned) (Inl NotOwned) db)
           else case capability_of ?name of
               None \<Rightarrow> ([], log_then ae ?t ?payload ''rejected'' None (Some (UnknownCapability ?name))
                             (Inl (UnknownCapability ?name)) db)
             | Some spec \<Rightarrow>
                 (if cap_approval spec \<noteq> Autonomous
                  then (case route_to_proposal ae pid ?t ?c ?payload spec now db of
                          None \<Rightarrow> ([], Inl Malformed, db)
                        | Some (p, db1) \<Rightarrow>
                            (let ref = Some (''proposal:'' @ uid_text p)
                             in ([], log_then ae ?t ?payload ''routed'' ref None (Inr ref) db1)))
                  else run_capability ae spec ?t ?payload db)) = (rqs, res, db')"
        using assms(1) False PDict by (simp add: handle_response_action_def Let_def)
      show thesis
      proof (cases "owned_case ?t ?c db")
        case False
        with eq show thesis by (intro quiet) (auto dest: log_then_frame)
      next
        case owned: True
        show thesis
        proof (cases "capability_of ?name")
          case None
          with eq owned show thesis by (intro quiet) (auto dest: log_then_frame)
        next
          case (Some spec)
          show thesis
          proof (cases "cap_approval spec = Autonomous")
            case True
            with eq owned Some show thesis by (intro fired [of spec]) simp_all
          next
            case gated: False
            show thesis
            proof (cases "route_to_proposal ae pid ?t ?c ?payload spec now db")
              case None
              with eq owned Some gated show thesis by (intro quiet) simp_all
            next
              case (Some x)
              obtain p db1 where "x = (p, db1)" by fastforce
              with Some eq owned \<open>capability_of ?name = Some spec\<close> gated sc show thesis
                by (intro routed [of spec p db1]) (auto simp: Let_def dest: log_then_frame)
            qed
          qed
        qed
      qed
    qed
  qed (use assms(1) in \<open>(intro quiet; simp add: handle_response_action_def Let_def)+\<close>)
  then show ?thesis
  proof cases
    case quiet
    then show ?thesis by simp
  next
    case (routed spec p db1)
    from route_spec [OF routed(5)] obtain r where
      "create_proposal ae pid ?t ?c None ?name ?payload r (class_value (cap_class spec)) now db = (p, db1)" by blast
    from create_proposal_spec [OF this] show ?thesis
    proof (elim conjE disjE)
      assume "\<exists>q\<in>set (proposals db). pr_case q = ?c \<and>
        pr_key q = proposal_idempotency_key (ae_float ae) ?c ?name ?payload \<and> p = pr_id q \<and> db1 = db"
      with routed show ?thesis by auto
    next
      let ?n = "\<lparr> pr_id = pid, pr_tenant = ?t, pr_case = ?c, pr_run = None, pr_action = ?name, pr_params = ?payload,
          pr_rationale = r, pr_class = class_value (cap_class spec), pr_status = Proposed,
          pr_key = proposal_idempotency_key (ae_float ae) ?c ?name ?payload,
          pr_approver = None, pr_approval_reason = None, pr_rejected_reason = None \<rparr>"
      assume n: "\<forall>q\<in>set (proposals db). \<not> (pr_case q = ?c \<and>
          pr_key q = proposal_idempotency_key (ae_float ae) ?c ?name ?payload)"
        "proposals db1 = proposals db @ [?n]" "outbox db1 = outbox db"
      have "pr_new fr (proposals db) ?n"
        using n(1) routed(1-3) assms(2,3) by (auto simp: pr_new_def proposal_ok_def)
      with n routed pr_moves_new show ?thesis by simp
    qed
  next
    case (fired spec)
    from run_capability_spec [OF fired(3)] obtain res' where
      h: "run_handler ae (cap_handler spec) ?t ?payload db = (rqs, res')" "outbox db' = outbox db" "proposals db' = proposals db"
      by blast
    from fired(1,2) have "cap_handler spec \<noteq> ExternalAction" by (auto dest: capability_cases)
    with run_handler_spec [OF h(1)] h show ?thesis by auto
  qed
qed

lemma update_twice:
  "(\<And>p. Q (f p) = Q p) \<Longrightarrow> (\<And>p. g (f p) = g p) \<Longrightarrow>
     update_where Q g (update_where Q f ps) = update_where Q g ps"
  by (simp add: update_where_def)

text \<open>What an execution did to its proposal, and which requests it sent for it.\<close>

definition execution_of :: "action_env \<Rightarrow> action_db \<Rightarrow> uid \<Rightarrow> string \<Rightarrow> request list \<Rightarrow> proposal_row list \<Rightarrow> bool" where
  "execution_of ae db t act rqs ps' \<longleftrightarrow>
     (\<exists>p\<in>set (proposals db). \<exists>st\<in>{Executing, Executed, ProposalFailed}.
        pr_status p = Approved \<and> pr_tenant p = t \<and> pr_action p = act \<and>
        ps' = update_where (\<lambda>q. pr_id q = pr_id p) (\<lambda>q. q\<lparr> pr_status := st \<rparr>) (proposals db) \<and>
        (\<forall>q\<in>set rqs. rq_tenant q = t \<and> rq_payload q = pr_params p \<and> rq_capability q = act \<and>
            scoped t (pr_case p) (pr_params p) \<and>
            webhook_url_allowed ae (rq_url q) \<and> operator_target ae db q))"

lemma operator_target_core: "core db' = core db \<Longrightarrow> operator_target ae db' q = operator_target ae db q"
  by (simp add: operator_target_def)

lemma run_claimed_spec:
  assumes "run_claimed ae spec t act p db = (rqs, res, db')"
  shows "outbox db' = outbox db \<and>
    (proposals db' = proposals db \<or> (\<exists>st\<in>{Executed, ProposalFailed}.
       proposals db' = update_where (\<lambda>q. pr_id q = pr_id p) (\<lambda>q. q\<lparr> pr_status := st \<rparr>) (proposals db))) \<and>
    (rqs \<noteq> [] \<longrightarrow> scoped t (pr_case p) (pr_params p) \<and>
       (\<exists>res'. run_handler ae (cap_handler spec) t (pr_params p) db = (rqs, res')))"
proof (cases "dict_part ''envelope'' (pr_params p)")
  case (PDict env)
  show ?thesis
  proof (cases "py_str (dget ''tenant_id'' env) \<noteq> Some (uid_text t) \<or>
                py_str (dget ''investigation_id'' env) \<noteq> Some (uid_text (pr_case p))")
    case True
    with PDict assms show ?thesis
      by (auto simp: run_claimed_def Let_def dest!: log_then_frame)
  next
    case False
    then have sc: "scoped t (pr_case p) (pr_params p)" using PDict by (simp add: scoped_def)
    obtain hq hres where h: "run_handler ae (cap_handler spec) t (pr_params p) db = (hq, hres)" by fastforce
    show ?thesis
    proof (cases hres)
      case None
      let ?log = "log_then ae t (pr_params p) ''failed'' None (Some CapabilityFailed) (Inl CapabilityFailed)
                    (set_proposal_status (pr_id p) ProposalFailed db)"
      obtain r db1 where l: "?log = (r, db1)" by fastforce
      from assms h False PDict None l have "rqs = hq" "outbox db' = outbox db1" "proposals db' = proposals db1"
        by (auto simp: run_claimed_def Let_def split: if_splits)
      with log_then_frame [OF l] h sc show ?thesis by auto
    next
      case (Some x)
      obtain ref ns where x: "x = (ref, ns)" by fastforce
      let ?log = "log_then ae t (pr_params p) ''executed'' ref None (Inr ref)
                    (set_proposal_status (pr_id p) Executed (db\<lparr> case_notes := case_notes db @ ns \<rparr>))"
      obtain r db1 where l: "?log = (r, db1)" by fastforce
      from assms h False PDict Some x l have "rqs = hq" "outbox db' = outbox db1" "proposals db' = proposals db1"
        by (auto simp: run_claimed_def Let_def split: if_splits)
      with log_then_frame [OF l] h sc show ?thesis by auto
    qed
  qed
qed (use assms in \<open>simp_all add: run_claimed_def Let_def\<close>)

lemma handle_execute_spec:
  assumes "handle_execute_proposal ae row db = (rqs, res, db')"
    and "distinct (map pr_id (proposals db))" and "\<forall>p\<in>set (proposals db). proposal_ok fr A p"
    and "backed (proposals db) row" and "ob_kind row = EXECUTE_PROPOSAL_KIND"
  shows "outbox db' = outbox db \<and>
    (proposals db' = proposals db \<and> rqs = [] \<or>
     execution_of ae db (ob_tenant row) (text_or_empty ae (dget ''action_type'' (ob_payload row))) rqs (proposals db'))"
proof -
  let ?t = "ob_tenant row" and ?payload = "ob_payload row"
  from assms(4,5) obtain p0 where p0: "p0 \<in> set (proposals db)"
      "map_of ?payload ''proposal_id'' = Some (PStr (uid_text (pr_id p0)))"
      "dget ''action_type'' ?payload = PStr (pr_action p0)" "?t = pr_tenant p0"
    by (auto simp: backed_def)
  let ?act = "text_or_empty ae (dget ''action_type'' ?payload)" and ?pid = "pr_id p0"
  have act: "?act = pr_action p0" by (simp add: p0(3) text_or_empty_def text_of_def py_or_else_def)
  have pid: "payload_proposal ae ?payload = Some ?pid" by (simp add: payload_proposal_def p0(2))
  from assms(3) p0(1) act obtain spec where spec: "capability_of ?act = Some spec" by (auto simp: proposal_ok_def)
  show ?thesis
  proof (cases "find (claimable_proposal ?pid ?t ?act) (proposals db)")
    case None
    with assms(1) spec pid show ?thesis
      by (auto simp: handle_execute_proposal_def Let_def dest!: log_then_frame)
  next
    case (Some p)
    from find_SomeD [OF Some] have p: "p \<in> set (proposals db)" "pr_id p = ?pid" "pr_tenant p = ?t"
      "pr_action p = ?act" "pr_status p = Approved"
      by (auto simp: claimable_proposal_def)
    let ?db1 = "db\<lparr> proposals := update_where (claimable_proposal ?pid ?t ?act)
                      (\<lambda>q. q\<lparr> pr_status := Executing \<rparr>) (proposals db) \<rparr>"
    have same: "claimable_proposal ?pid ?t ?act q \<longleftrightarrow> pr_id q = pr_id p" if "q \<in> set (proposals db)" for q
    proof
      assume "pr_id q = pr_id p"
      with that p(1) assms(2) have "q = p" by (auto simp: distinct_map dest: inj_onD)
      with p show "claimable_proposal ?pid ?t ?act q" by (simp add: claimable_proposal_def)
    qed (simp add: claimable_proposal_def p(2))
    have one: "update_where (claimable_proposal ?pid ?t ?act) (\<lambda>q. q\<lparr> pr_status := Executing \<rparr>) (proposals db) =
        update_where (\<lambda>q. pr_id q = pr_id p) (\<lambda>q. q\<lparr> pr_status := Executing \<rparr>) (proposals db)"
      unfolding update_where_def using same by (intro map_cong) auto
    have two: "update_where (\<lambda>q. pr_id q = pr_id p) (\<lambda>q. q\<lparr> pr_status := st \<rparr>) (proposals ?db1) =
        update_where (\<lambda>q. pr_id q = pr_id p) (\<lambda>q. q\<lparr> pr_status := st \<rparr>) (proposals db)" for st
      unfolding one by (simp, rule update_twice) auto
    have run: "run_claimed ae spec ?t ?act p ?db1 = (rqs, res, db')"
      using assms(1) spec pid Some by (simp add: handle_execute_proposal_def Let_def)
    from run_claimed_spec [OF run] have out: "outbox db' = outbox db"
      and ps: "proposals db' = proposals ?db1 \<or> (\<exists>st\<in>{Executed, ProposalFailed}.
         proposals db' = update_where (\<lambda>q. pr_id q = pr_id p) (\<lambda>q. q\<lparr> pr_status := st \<rparr>) (proposals ?db1))"
      and h: "rqs \<noteq> [] \<longrightarrow> scoped ?t (pr_case p) (pr_params p) \<and>
          (\<exists>res'. run_handler ae (cap_handler spec) ?t (pr_params p) ?db1 = (rqs, res'))"
      by simp_all
    have ex: "proposals ?db1 = update_where (\<lambda>q. pr_id q = pr_id p) (\<lambda>q. q\<lparr> pr_status := Executing \<rparr>) (proposals db)"
      using one by simp
    from ps [unfolded two] have "\<exists>st\<in>{Executing, Executed, ProposalFailed}.
        proposals db' = update_where (\<lambda>q. pr_id q = pr_id p) (\<lambda>q. q\<lparr> pr_status := st \<rparr>) (proposals db)"
    proof
      assume "proposals db' = proposals ?db1"
      with ex show ?thesis by (intro bexI [of _ Executing]) simp_all
    qed blast
    then obtain st where st: "st \<in> {Executing, Executed, ProposalFailed}"
        "proposals db' = update_where (\<lambda>q. pr_id q = pr_id p) (\<lambda>q. q\<lparr> pr_status := st \<rparr>) (proposals db)"
      by blast
    have "rq_tenant q = ?t \<and> rq_payload q = pr_params p \<and> rq_capability q = ?act \<and> scoped ?t (pr_case p) (pr_params p) \<and>
        webhook_url_allowed ae (rq_url q) \<and> operator_target ae db q" if q: "q \<in> set rqs" for q
    proof -
      from q have "rqs \<noteq> []" by auto
      with h obtain res' where "run_handler ae (cap_handler spec) ?t (pr_params p) ?db1 = (rqs, res')"
          "scoped ?t (pr_case p) (pr_params p)" by blast
      with run_handler_spec [OF this(1) q] capability_cases [OF spec] operator_target_core [of ?db1 db ae q]
      show ?thesis by auto
    qed
    with p st out show ?thesis unfolding execution_of_def by blast
  qed
qed

subsection \<open>A turn of the executor\<close>

definition claim_row :: "string \<Rightarrow> time \<Rightarrow> outbox_row \<Rightarrow> outbox_row" where
  "claim_row worker now q = q\<lparr> ob_status := InFlight, ob_claimed_at := Some now, ob_claimed_by := Some worker \<rparr>"

definition succeed_row :: "string option \<Rightarrow> time \<Rightarrow> outbox_row \<Rightarrow> outbox_row" where
  "succeed_row ref now q = q\<lparr> ob_status := Succeeded, ob_succeeded_at := Some now,
     ob_ref := (case ref of None \<Rightarrow> ob_ref q | Some r \<Rightarrow> Some r) \<rparr>"

definition finish_row :: "string \<Rightarrow> time \<Rightarrow> rs_error + string option \<Rightarrow> outbox_row \<Rightarrow> outbox_row" where
  "finish_row worker now res q =
     (case res of Inl e \<Rightarrow> fail_outbox_row e now (claim_row worker now q)
                | Inr ref \<Rightarrow> succeed_row ref now (claim_row worker now q))"

lemma claim_row_fields [simp]:
  "ob_id (claim_row w now q) = ob_id q" "ob_tenant (claim_row w now q) = ob_tenant q"
  "ob_case (claim_row w now q) = ob_case q" "ob_kind (claim_row w now q) = ob_kind q"
  "ob_key (claim_row w now q) = ob_key q" "ob_payload (claim_row w now q) = ob_payload q"
  "ob_attempts (claim_row w now q) = ob_attempts q" "ob_max_attempts (claim_row w now q) = ob_max_attempts q"
  by (simp_all add: claim_row_def)

lemma finish_row_fields [simp]:
  "ob_id (finish_row w now res q) = ob_id q" "ob_tenant (finish_row w now res q) = ob_tenant q"
  "ob_case (finish_row w now res q) = ob_case q" "ob_kind (finish_row w now res q) = ob_kind q"
  "ob_key (finish_row w now res q) = ob_key q" "ob_payload (finish_row w now res q) = ob_payload q"
  "ob_max_attempts (finish_row w now res q) = ob_max_attempts q"
  by (simp_all add: finish_row_def succeed_row_def fail_outbox_row_def Let_def split: sum.splits)

lemma backed_fields:
  "ob_kind r' = ob_kind r \<Longrightarrow> ob_payload r' = ob_payload r \<Longrightarrow> ob_tenant r' = ob_tenant r \<Longrightarrow> ob_case r' = ob_case r \<Longrightarrow>
     backed ps r' = backed ps r"
  by (simp add: backed_def)

lemma finish_row_ok:
  assumes "outbox_ok r" and "ob_status r \<in> {Pending, InFlight}"
  shows "outbox_ok (finish_row w now res r) \<and>
    (ob_status (finish_row w now res r) \<in> {Succeeded, OutboxFailed} \<or>
     ob_status (finish_row w now res r) = Pending \<and> ob_attempts (finish_row w now res r) = ob_attempts r + 1)"
proof (cases res)
  case (Inl e)
  with assms show ?thesis
    by (auto simp: finish_row_def fail_outbox_row_def outbox_ok_def Let_def)
next
  case (Inr ref)
  with assms show ?thesis by (auto simp: finish_row_def succeed_row_def claim_row_def outbox_ok_def)
qed

lemma outbox_due_open: "outbox_due kinds now r \<Longrightarrow> ob_status r \<in> {Pending, InFlight}"
  by (auto simp: outbox_due_def)

lemma update_where_compose:
  "(\<And>q. Q (f q) = Q q) \<Longrightarrow> update_where Q g (update_where Q f ps) = update_where Q (\<lambda>q. g (f q)) ps"
  by (simp add: update_where_def)

lemma claim_next_spec:
  "claim_next_outbox locked worker kinds now db = Some (r', db1) \<Longrightarrow>
     \<exists>r\<in>set (outbox db). r' = claim_row worker now r \<and> outbox_due kinds now r \<and> \<not> locked (ob_id r) \<and>
       db1 = db\<lparr> outbox := update_where (\<lambda>q. ob_id q = ob_id r) (claim_row worker now) (outbox db) \<rparr>"
  unfolding claim_next_outbox_def claim_row_def
  by (auto dest!: select_first_Some split: option.splits simp: Let_def)

lemma claim_next_None:
  "claim_next_outbox locked worker kinds now db = None \<longleftrightarrow> (\<forall>r\<in>set (outbox db). outbox_due kinds now r \<longrightarrow> locked (ob_id r))"
  by (auto simp: claim_next_outbox_def Let_def split: option.splits dest!: select_first_Some)

lemma execute_one_cases:
  assumes "execute_one ae handlers locked worker kinds now db = (b, rqs, db')"
  obtains (idle) "\<not> b" "rqs = []" "db' = db" "\<forall>r\<in>set (outbox db). outbox_due kinds now r \<longrightarrow> locked (ob_id r)"
  | (work) r db1 res db2 where "b" "r \<in> set (outbox db)" "outbox_due kinds now r"
      "db1 = db\<lparr> outbox := update_where (\<lambda>q. ob_id q = ob_id r) (claim_row worker now) (outbox db) \<rparr>"
      "(case map_of handlers (ob_kind r) of
          None \<Rightarrow> ([], Inl (NoOutboxHandler (ob_kind r)), db1)
        | Some h \<Rightarrow> h (claim_row worker now r) db1) = (rqs, res, db2)"
      "proposals db' = proposals db2" "case_notes db' = case_notes db2"
      "outbox db2 = outbox db1 \<Longrightarrow>
         outbox db' = update_where (\<lambda>q. ob_id q = ob_id r) (finish_row worker now res) (outbox db)"
proof (cases "claim_next_outbox locked worker kinds now db")
  case None
  with assms idle show thesis by (auto simp: execute_one_def claim_next_None)
next
  case (Some x)
  obtain r' db1 where x: "x = (r', db1)" by fastforce
  from claim_next_spec [OF Some [unfolded x]] obtain r where r: "r \<in> set (outbox db)" "r' = claim_row worker now r"
      "outbox_due kinds now r"
      "db1 = db\<lparr> outbox := update_where (\<lambda>q. ob_id q = ob_id r) (claim_row worker now) (outbox db) \<rparr>"
    by blast
  obtain rqs' res db2 where h': "(case map_of handlers (ob_kind r') of
          None \<Rightarrow> ([], Inl (NoOutboxHandler (ob_kind r')), db1)
        | Some h \<Rightarrow> h r' db1) = (rqs', res, db2)"
    by (metis prod_cases3)
  note h = h' [unfolded r(2) claim_row_fields]
  have ob: "ob_id r' = ob_id r" by (simp add: r(2))
  have fin: "update_where (\<lambda>q. ob_id q = ob_id r) (finish_row worker now res) (outbox db) =
      update_where (\<lambda>q. ob_id q = ob_id r)
        (case res of Inl e \<Rightarrow> fail_outbox_row e now | Inr ref \<Rightarrow> succeed_row ref now) (outbox db1)"
    unfolding r(4) finish_row_def by (cases res) (simp_all add: update_where_compose)
  show thesis
  proof (cases res)
    case (Inl e)
    with assms Some x h' ob have "b" "rqs = rqs'" "proposals db' = proposals db2" "case_notes db' = case_notes db2"
        "outbox db' = update_where (\<lambda>q. ob_id q = ob_id r) (fail_outbox_row e now) (outbox db2)"
      by (auto simp: execute_one_def mark_outbox_failed_def audit_outbox_def)
    with Inl r h fin show thesis by (intro work [of r db1 res db2]) auto
  next
    case (Inr ref)
    with assms Some x h' ob have "b" "rqs = rqs'" "proposals db' = proposals db2" "case_notes db' = case_notes db2"
        "outbox db' = update_where (\<lambda>q. ob_id q = ob_id r) (succeed_row ref now) (outbox db2)"
      by (auto simp: execute_one_def mark_outbox_succeeded_def audit_outbox_def succeed_row_def [abs_def])
    with Inr r h fin show thesis by (intro work [of r db1 res db2]) auto
  qed
qed

text \<open>Everything a turn does, under the invariant.\<close>

lemma turn_spec:
  assumes "executor_turn ae pid locked worker now db = (b, rqs, db')" and "plane_inv (ae_float ae) (A, w, db)"
    and "pid \<notin> pr_id ` set (proposals db)"
  obtains (idle) "\<not> b" "rqs = []" "db' = db"
      "\<forall>r\<in>set (outbox db). outbox_due (Some RESPONSE_KINDS) now r \<longrightarrow> locked (ob_id r)"
  | (work) r res where "b" "r \<in> set (outbox db)" "outbox_due (Some RESPONSE_KINDS) now r"
      "outbox db' = update_where (\<lambda>q. ob_id q = ob_id r) (finish_row worker now res) (outbox db)"
      "pr_moves (ae_float ae) A (proposals db) (proposals db')"
      "(\<forall>q\<in>set rqs. rq_capability q = ''notify_webhook'' \<and> webhook_url_allowed ae (rq_url q) \<and> operator_target ae db q) \<or>
       execution_of ae db (ob_tenant r) (text_or_empty ae (dget ''action_type'' (ob_payload r))) rqs (proposals db')"
proof -
  from assms(2) have inv: "distinct (map pr_id (proposals db))" "\<forall>p\<in>set (proposals db). proposal_ok (ae_float ae) A p"
      "\<forall>r\<in>set (outbox db). backed (proposals db) r \<and> outbox_ok r"
    by (auto simp: plane_inv_def)
  from assms(1) have "execute_one ae (response_handlers ae pid now) locked worker (Some RESPONSE_KINDS) now db = (b, rqs, db')"
    by (simp add: executor_turn_def)
  then show thesis
  proof (cases rule: execute_one_cases)
    case idle
    with that(1) show thesis by blast
  next
    case (work r db1 res db2)
    have pdb1: "proposals db1 = proposals db" "core db1 = core db" unfolding work(4) by simp_all
    from inv(3) work(2) have r: "backed (proposals db) r" "ob_kind r \<in> set RESPONSE_KINDS" by (auto simp: outbox_ok_def)
    show thesis
    proof (cases "ob_kind r = RESPONSE_OUTBOX_KIND")
      case True
      with work(5) have "handle_response_action ae pid now (claim_row worker now r) db1 = (rqs, res, db2)"
        by (simp add: response_handlers_def)
      from handle_response_spec [OF this refl, of A] pdb1 assms(3)
      have "outbox db2 = outbox db1" "pr_moves (ae_float ae) A (proposals db) (proposals db')"
          "\<forall>q\<in>set rqs. rq_capability q = ''notify_webhook'' \<and> webhook_url_allowed ae (rq_url q) \<and> operator_target ae db q"
        using operator_target_core [OF pdb1(2)] by (simp_all add: work(6))
      with that(2) work show thesis by blast
    next
      case False
      with r(2) have k: "ob_kind r = EXECUTE_PROPOSAL_KIND" by (simp add: RESPONSE_KINDS_def)
      with False work(5) have h: "handle_execute_proposal ae (claim_row worker now r) db1 = (rqs, res, db2)"
        by (simp add: response_handlers_def)
      from handle_execute_spec [OF h, of "ae_float ae" A] inv(1,2) r(1) k pdb1
      have ex: "outbox db2 = outbox db1" "proposals db' = proposals db \<and> rqs = [] \<or>
          execution_of ae db1 (ob_tenant r) (text_or_empty ae (dget ''action_type'' (ob_payload r))) rqs (proposals db')"
        using backed_fields [of "claim_row worker now r" r] by (simp_all add: work(6))
      have same: "execution_of ae db1 t act rqs ps = execution_of ae db t act rqs ps" for t act ps
        unfolding execution_of_def using operator_target_core [OF pdb1(2)] pdb1(1) by simp
      have "pr_moves (ae_float ae) A (proposals db) (proposals db')"
        using ex(2) unfolding same
      proof
        assume "execution_of ae db (ob_tenant r) (text_or_empty ae (dget ''action_type'' (ob_payload r))) rqs (proposals db')"
        then obtain p st where p: "p \<in> set (proposals db)" "st \<in> {Executing, Executed, ProposalFailed}" "pr_status p = Approved"
            "proposals db' = update_where (\<lambda>q. pr_id q = pr_id p) (\<lambda>q. q\<lparr> pr_status := st \<rparr>) (proposals db)"
          unfolding execution_of_def by blast
        show ?thesis
          unfolding p(4)
        proof (rule pr_moves_update)
          fix q assume "q \<in> set (proposals db)" "pr_id q = pr_id p"
          with p(1) inv(1) have "q = p" by (auto simp: distinct_map dest: inj_onD)
          with p show "pr_life A q (q\<lparr> pr_status := st \<rparr>)" by (auto intro: pr_life.ran)
        qed
      qed simp
      with that(2) work ex same show thesis by (metis all_not_in_conv empty_set)
    qed
  qed
qed

subsection \<open>The invariant\<close>

lemma pr_moves_ids:
  assumes "pr_moves fr A ps ps'" and "distinct (map pr_id ps)" and "distinct (map (\<lambda>p. (pr_case p, pr_key p)) ps)"
  shows "distinct (map pr_id ps') \<and> distinct (map (\<lambda>p. (pr_case p, pr_key p)) ps')"
proof -
  from assms(1) obtain mid new where m: "ps' = mid @ new" "list_all2 (pr_life A) ps mid"
      "new = [] \<or> (\<exists>n. new = [n] \<and> pr_new fr mid n)"
    by (auto simp: pr_moves_def)
  have "map pr_id mid = map pr_id ps" "map (\<lambda>p. (pr_case p, pr_key p)) mid = map (\<lambda>p. (pr_case p, pr_key p)) ps"
    by (rule list_all2_map_eq [OF m(2)], simp add: pr_life_same)+
  then have "distinct (map pr_id mid)" "distinct (map (\<lambda>p. (pr_case p, pr_key p)) mid)"
    using assms(2,3) by simp_all
  with m(1,3) show ?thesis by (auto simp: pr_new_def image_iff)
qed

lemma proposal_ok_more: "proposal_ok fr A p \<Longrightarrow> set A \<subseteq> set A' \<Longrightarrow> proposal_ok fr A' p"
  unfolding proposal_ok_def by blast

lemma sanctioned_more: "sanctioned A ps q \<Longrightarrow> set A \<subseteq> set A' \<Longrightarrow> sanctioned A' ps q"
  unfolding sanctioned_def by blast

lemma pr_moves_ok:
  assumes "pr_moves fr A ps ps'" and "\<forall>p\<in>set ps. proposal_ok fr A p"
  shows "\<forall>p\<in>set ps'. proposal_ok fr A p"
proof -
  from assms(1) obtain mid new where m: "ps' = mid @ new" "list_all2 (pr_life A) ps mid"
      "new = [] \<or> (\<exists>n. new = [n] \<and> pr_new fr mid n)"
    by (auto simp: pr_moves_def)
  have "proposal_ok fr A p" if "p \<in> set mid" for p
    using list_all2_setD [OF m(2) that] assms(2) pr_life_ok by blast
  with m(1,3) show ?thesis by (auto simp: pr_new_def intro: proposal_ok_more)
qed

lemma pr_moves_backed:
  assumes "pr_moves fr A ps ps'" and "backed ps r"
  shows "backed ps' r"
  unfolding backed_def
proof
  assume "ob_kind r = EXECUTE_PROPOSAL_KIND"
  with assms(2) obtain p where p: "p \<in> set ps" "map_of (ob_payload r) ''proposal_id'' = Some (PStr (uid_text (pr_id p)))"
      "dget ''action_type'' (ob_payload r) = PStr (pr_action p)" "ob_tenant r = pr_tenant p" "ob_case r = pr_case p"
    by (auto simp: backed_def)
  from assms(1) obtain mid new where m: "ps' = mid @ new" "list_all2 (pr_life A) ps mid"
    by (auto simp: pr_moves_def)
  from list_all2_setI [OF m(2) p(1)] obtain p' where "p' \<in> set mid" "pr_life A p p'" by blast
  with m(1) p pr_life_same [OF this(2)] show "\<exists>p\<in>set ps'. map_of (ob_payload r) ''proposal_id'' = Some (PStr (uid_text (pr_id p))) \<and>
      dget ''action_type'' (ob_payload r) = PStr (pr_action p) \<and> ob_tenant r = pr_tenant p \<and> ob_case r = pr_case p"
    by (intro bexI [of _ p']) auto
qed

lemma pr_moves_sanctioned: "pr_moves fr A ps ps' \<Longrightarrow> sanctioned A ps q \<Longrightarrow> sanctioned A ps' q"
  unfolding pr_moves_def using pr_life_sanctioned by blast

text \<open>Moves of proposals, with an outbox whose rows are well formed, keep the invariant.\<close>

lemma plane_inv_moves:
  assumes "plane_inv fr (A, w, db)" and "pr_moves fr A' (proposals db) (proposals db')" and "set A \<subseteq> set A'"
    and "distinct (map ob_id (outbox db'))" "distinct (map ob_key (outbox db'))"
    and "\<forall>r\<in>set (outbox db'). backed (proposals db') r \<and> outbox_ok r"
    and "\<forall>q\<in>set rqs. sanctioned A' (proposals db') q"
  shows "plane_inv fr (A', w @ rqs, db')"
proof -
  from assms(1) have inv: "distinct (map pr_id (proposals db))" "distinct (map (\<lambda>p. (pr_case p, pr_key p)) (proposals db))"
      "\<forall>p\<in>set (proposals db). proposal_ok fr A p" "\<forall>q\<in>set w. sanctioned A (proposals db) q"
    by (auto simp: plane_inv_def)
  from inv(3) assms(3) have ok: "\<forall>p\<in>set (proposals db). proposal_ok fr A' p" by (blast intro: proposal_ok_more)
  from inv(4) assms(2,3) have "\<forall>q\<in>set w. sanctioned A' (proposals db') q"
    by (blast intro: sanctioned_more pr_moves_sanctioned)
  with assms pr_moves_ids [OF assms(2) inv(1,2)] pr_moves_ok [OF assms(2) ok] show ?thesis
    by (auto simp: plane_inv_def)
qed

lemma update_where_unique:
  assumes "distinct (map ob_id rs)" "r \<in> set rs" "q \<in> set (update_where (\<lambda>q. ob_id q = ob_id r) f rs)"
  shows "q = f r \<or> q \<in> set rs"
  using assms by (auto simp: set_update_where distinct_map split: if_splits dest: inj_onD)

lemma insert_outbox_cases:
  "snd (insert_outbox r tbl) = tbl \<or> ob_key r \<notin> ob_key ` set tbl \<and> snd (insert_outbox r tbl) = tbl @ [r]"
  by (auto simp: insert_outbox_def)

text \<open>What a completion queues.\<close>

lemma dispatch_guarded_rows:
  "proposals (dispatch_guarded de cr now db) = proposals db \<and>
   (\<exists>new. outbox (dispatch_guarded de cr now db) = outbox db @ new \<and>
      (\<forall>r\<in>set new. ob_kind r = RESPONSE_OUTBOX_KIND \<and> outbox_ok r)) \<and>
   (distinct (map ob_key (outbox db)) \<longrightarrow> distinct (map ob_key (outbox (dispatch_guarded de cr now db))))"
proof (cases "dispatch_for_completed_run de cr now db")
  case None
  then show ?thesis by (simp add: dispatch_guarded_def)
next
  case (Some x)
  obtain n db' where x: "x = (n, db')" by fastforce
  from Some x have d: "dispatch_for_completed_run de cr now db = Some (n, db')" by simp
  then have rows: "\<exists>new. outbox db' = outbox db @ new \<and> (\<forall>r\<in>set new. ob_kind r = RESPONSE_OUTBOX_KIND \<and> outbox_ok r)"
  proof (cases rule: dispatch_run_cases)
    case (live env ctx mi db1)
    from enqueue_all_spec [OF live(8)] obtain new where new: "outbox db' = outbox db1 @ new"
        "\<forall>r\<in>set new. \<exists>pb\<in>set (matched de mi (cr_tenant cr) ''active'' db).
           r \<in> action_row de cr env pb now ` set (selected_actions pb (cr_effective cr) ctx)"
      by blast
    have "ob_kind r = RESPONSE_OUTBOX_KIND \<and> outbox_ok r" if "r \<in> set new" for r
      using new(2) that
      by (fastforce simp: action_row_def new_outbox_row_def Let_def outbox_ok_def RESPONSE_KINDS_def)
    with new(1) live(5) show ?thesis by auto
  qed auto
  with dispatch_new_rows [OF d] Some x show ?thesis
    by (auto simp: dispatch_guarded_def dispatch_frame_def)
qed

lemma dispatches_rows:
  "proposals (fold (\<lambda>d. dispatch_guarded de (f d) now) ds db) = proposals db \<and>
   (\<exists>new. outbox (fold (\<lambda>d. dispatch_guarded de (f d) now) ds db) = outbox db @ new \<and>
      (\<forall>r\<in>set new. ob_kind r = RESPONSE_OUTBOX_KIND \<and> outbox_ok r)) \<and>
   (distinct (map ob_key (outbox db)) \<longrightarrow>
      distinct (map ob_key (outbox (fold (\<lambda>d. dispatch_guarded de (f d) now) ds db))))"
proof (induction ds arbitrary: db)
  case (Cons d ds)
  let ?db1 = "dispatch_guarded de (f d) now db"
  from dispatch_guarded_rows [of de "f d" now db] obtain new1 where
    1: "proposals ?db1 = proposals db" "outbox ?db1 = outbox db @ new1"
      "\<forall>r\<in>set new1. ob_kind r = RESPONSE_OUTBOX_KIND \<and> outbox_ok r"
      "distinct (map ob_key (outbox db)) \<longrightarrow> distinct (map ob_key (outbox ?db1))"
    by blast
  from Cons.IH [of ?db1] obtain new2 where
    2: "proposals (fold (\<lambda>d. dispatch_guarded de (f d) now) ds ?db1) = proposals ?db1"
      "outbox (fold (\<lambda>d. dispatch_guarded de (f d) now) ds ?db1) = outbox ?db1 @ new2"
      "\<forall>r\<in>set new2. ob_kind r = RESPONSE_OUTBOX_KIND \<and> outbox_ok r"
      "distinct (map ob_key (outbox ?db1)) \<longrightarrow>
         distinct (map ob_key (outbox (fold (\<lambda>d. dispatch_guarded de (f d) now) ds ?db1)))"
    by blast
  from 1 2 show ?case by auto
qed simp

lemma execution_sanctioned:
  assumes "execution_of ae db t act rqs ps'" and "plane_inv fr (A, w, db)" and "q \<in> set rqs"
  shows "sanctioned A ps' q"
proof -
  from assms(1) obtain p st where p: "p \<in> set (proposals db)" "st \<in> {Executing, Executed, ProposalFailed}"
      "pr_status p = Approved" "pr_tenant p = t" "pr_action p = act"
      "ps' = update_where (\<lambda>q. pr_id q = pr_id p) (\<lambda>q. q\<lparr> pr_status := st \<rparr>) (proposals db)"
      "rq_tenant q = t" "rq_payload q = pr_params p" "rq_capability q = act"
    unfolding execution_of_def using assms(3) by blast
  from assms(2) p(1) have "proposal_ok fr A p" by (auto simp: plane_inv_def)
  with p(3) obtain i where i: "(i, pr_id p) \<in> set A" "pr_approver p = Some (id_user i)" "approved_by i p"
    by (auto simp: proposal_ok_def)
  have "p\<lparr> pr_status := st \<rparr> \<in> set ps'"
    using p(1) unfolding p(6) set_update_where by (force simp: image_iff)
  with p i show ?thesis
    unfolding sanctioned_def by (intro impI bexI [of _ "p\<lparr> pr_status := st \<rparr>"]) (auto simp: approved_by_def)
qed

lemma turn_inv:
  assumes "executor_turn ae pid locked worker now db = (b, rqs, db')" and "plane_inv (ae_float ae) (A, w, db)"
    and "pid \<notin> pr_id ` set (proposals db)"
  shows "plane_inv (ae_float ae) (A, w @ rqs, db')"
  using assms
proof (cases rule: turn_spec)
  case idle
  with assms(2) show ?thesis by simp
next
  case (work r res)
  from assms(2) have inv: "distinct (map ob_id (outbox db))" "distinct (map ob_key (outbox db))"
      "\<forall>r\<in>set (outbox db). backed (proposals db) r \<and> outbox_ok r"
    by (auto simp: plane_inv_def)
  show ?thesis
  proof (rule plane_inv_moves [OF assms(2) work(5) subset_refl])
    show "distinct (map ob_id (outbox db'))" "distinct (map ob_key (outbox db'))"
      using inv(1,2) unfolding work(4) by (simp_all add: update_where_map)
    show "\<forall>q\<in>set (outbox db'). backed (proposals db') q \<and> outbox_ok q"
    proof
      fix q assume "q \<in> set (outbox db')"
      then have "q = finish_row worker now res r \<or> q \<in> set (outbox db)"
        unfolding work(4) by (rule update_where_unique [OF inv(1) work(2)])
      then show "backed (proposals db') q \<and> outbox_ok q"
      proof
        assume "q = finish_row worker now res r"
        with inv(3) work(2) finish_row_ok [of r worker now res] outbox_due_open [OF work(3)]
          pr_moves_backed [OF work(5)] backed_fields [of q r]
        show ?thesis by auto
      next
        assume "q \<in> set (outbox db)"
        with inv(3) pr_moves_backed [OF work(5)] show ?thesis by blast
      qed
    qed
    show "\<forall>q\<in>set rqs. sanctioned A (proposals db') q"
      using work(6) execution_sanctioned [OF _ assms(2)] by (auto simp: sanctioned_def)
  qed
qed

lemma approve_inv:
  assumes "approve_proposal_route (Some i) pid why oid now db = Inr db'" and "plane_inv fr (A, w, db)"
    and "oid \<notin> ob_id ` set (outbox db)"
  shows "plane_inv fr ((i, pid) # A, w, db') \<and> pr_moves fr ((i, pid) # A) (proposals db) (proposals db')"
proof -
  from assms(2) have inv: "distinct (map pr_id (proposals db))" "\<forall>p\<in>set (proposals db). proposal_ok fr A p"
      "distinct (map ob_id (outbox db))" "distinct (map ob_key (outbox db))"
      "\<forall>r\<in>set (outbox db). backed (proposals db) r \<and> outbox_ok r"
    by (auto simp: plane_inv_def)
  from assms(1) inv(1,2) obtain p where p: "p \<in> set (proposals db)" "pr_id p = pid" "pr_status p = Proposed" "approved_by i p"
    "proposals db' = update_where (\<lambda>q. pr_id q = pid)
       (\<lambda>q. q\<lparr> pr_status := Approved, pr_approver := Some (id_user i), pr_approval_reason := Some why \<rparr>) (proposals db)"
    "outbox db' = snd (insert_outbox (new_outbox_row oid (pr_tenant p) (pr_case p) EXECUTE_PROPOSAL_KIND
       (''proposal:'' @ uid_text pid)
       [(''proposal_id'', PStr (uid_text pid)), (''action_type'', PStr (pr_action p)),
        (''params'', PDict (pr_params p)), (''capability_class'', PStr (pr_class p))] None now) (outbox db))"
    by (rule approve_route_spec)
  let ?row = "new_outbox_row oid (pr_tenant p) (pr_case p) EXECUTE_PROPOSAL_KIND (''proposal:'' @ uid_text pid)
       [(''proposal_id'', PStr (uid_text pid)), (''action_type'', PStr (pr_action p)),
        (''params'', PDict (pr_params p)), (''capability_class'', PStr (pr_class p))] None now"
  have mv: "pr_moves fr ((i, pid) # A) (proposals db) (proposals db')"
    unfolding p(5)
  proof (rule pr_moves_update)
    fix q assume "q \<in> set (proposals db)" "pr_id q = pid"
    with p(1,2) inv(1) have "q = p" by (auto simp: distinct_map dest: inj_onD)
    with p(2-4) show "pr_life ((i, pid) # A) q
        (q\<lparr> pr_status := Approved, pr_approver := Some (id_user i), pr_approval_reason := Some why \<rparr>)"
      by (intro pr_life.approved) simp_all
  qed
  have new: "backed (proposals db) ?row" "outbox_ok ?row" "ob_id ?row = oid"
    using p(1,2) by (auto simp: backed_def outbox_ok_def new_outbox_row_def RESPONSE_KINDS_def)
  have "plane_inv fr ((i, pid) # A, w @ [], db')"
  proof (rule plane_inv_moves [OF assms(2) mv])
    show "distinct (map ob_id (outbox db'))" "distinct (map ob_key (outbox db'))"
      using insert_outbox_cases [of ?row "outbox db"] inv(3,4) assms(3) new(3) unfolding p(6) by auto
    show "\<forall>r\<in>set (outbox db'). backed (proposals db') r \<and> outbox_ok r"
      using insert_outbox_cases [of ?row "outbox db"] inv(5) new(1,2) pr_moves_backed [OF mv] unfolding p(6) by auto
  qed auto
  with mv show ?thesis by simp
qed

lemma reject_inv:
  assumes "reject_proposal_route (Some i) pid why now db = Inr db'" and "plane_inv fr (A, w, db)"
  shows "plane_inv fr (A, w, db') \<and> pr_moves fr A (proposals db) (proposals db')"
proof -
  from assms(1) obtain u p where p: "p \<in> set (proposals db)" "pr_id p = pid" "pr_status p = Proposed"
    "proposals db' = update_where (\<lambda>q. pr_id q = pid)
       (\<lambda>q. q\<lparr> pr_status := Rejected, pr_approver := Some u, pr_rejected_reason := Some why \<rparr>) (proposals db)"
    "outbox db' = outbox db"
    by (rule reject_route_spec)
  have mv: "pr_moves fr A (proposals db) (proposals db')"
    unfolding p(4)
  proof (rule pr_moves_update)
    fix q assume "q \<in> set (proposals db)" "pr_id q = pid"
    with p(1,2) assms(2) have "q = p" by (auto simp: plane_inv_def distinct_map dest: inj_onD)
    with p(3) show "pr_life A q (q\<lparr> pr_status := Rejected, pr_approver := Some u, pr_rejected_reason := Some why \<rparr>)"
      by (intro pr_life.rejected) simp
  qed
  have "plane_inv fr (A, w @ [], db')"
    using assms(2) pr_moves_backed [OF mv]
    by (intro plane_inv_moves [OF assms(2) mv]) (auto simp: p(5) plane_inv_def)
  with mv show ?thesis by simp
qed

text \<open>
  A request that left with a transaction that never committed is still one of an approved proposal:
  the proposal it was sent for is in the store the crash left, approved and not yet executed.
\<close>

lemma crash_inv:
  assumes "executor_turn ae pid locked worker now db = (b, rqs, db')" and "plane_inv (ae_float ae) (A, w, db)"
    and "pid \<notin> pr_id ` set (proposals db)"
  shows "plane_inv (ae_float ae) (A, w @ rqs, db)"
proof -
  have "sanctioned A (proposals db) q" if q: "q \<in> set rqs" for q
    using assms
  proof (cases rule: turn_spec)
    case idle
    with q show ?thesis by simp
  next
    case (work r res)
    from work(6) show ?thesis
    proof
      assume "execution_of ae db (ob_tenant r) (text_or_empty ae (dget ''action_type'' (ob_payload r))) rqs (proposals db')"
      then obtain p where p: "p \<in> set (proposals db)" "pr_status p = Approved" "pr_tenant p = ob_tenant r"
          "rq_tenant q = ob_tenant r" "rq_payload q = pr_params p" "rq_capability q = pr_action p"
        using q unfolding execution_of_def by metis
      from assms(2) p(1) have "proposal_ok (ae_float ae) A p" by (auto simp: plane_inv_def)
      with p show ?thesis by (auto simp: sanctioned_def proposal_ok_def)
    qed (use q in \<open>auto simp: sanctioned_def\<close>)
  qed
  with assms(2) show ?thesis by (auto simp: plane_inv_def)
qed

lemma plane_inv_start: "outbox db = [] \<Longrightarrow> proposals db = [] \<Longrightarrow> plane_inv fr ([], [], db)"
  by (simp add: plane_inv_def)

lemma action_step_inv: "action_step fr s s' \<Longrightarrow> plane_inv fr s \<Longrightarrow> plane_inv fr s'"
proof (induction rule: action_step.induct)
  case (complete ce de t rid p now db ch db' A w)
  from complete.hyps(1) obtain core' where c: "db' = fold (\<lambda>d. dispatch_guarded de (completed_of t p d) now)
                 (drop (length (dispatches (core db))) (dispatches core')) (db\<lparr> core := core' \<rparr>)"
    by (auto simp: complete_and_dispatch_def split: sum.splits)
  from dispatches_rows [of de "completed_of t p" now "drop (length (dispatches (core db))) (dispatches core')" "db\<lparr> core := core' \<rparr>"]
  obtain new where new: "proposals db' = proposals db" "outbox db' = outbox db @ new"
      "\<forall>r\<in>set new. ob_kind r = RESPONSE_OUTBOX_KIND \<and> outbox_ok r"
      "distinct (map ob_key (outbox db)) \<longrightarrow> distinct (map ob_key (outbox db'))"
    unfolding c by auto
  have "plane_inv fr (A, w @ [], db')"
  proof (rule plane_inv_moves [OF complete.prems _ subset_refl])
    show "pr_moves fr A (proposals db) (proposals db')" by (simp add: new(1))
    show "\<forall>r\<in>set (outbox db'). backed (proposals db') r \<and> outbox_ok r"
      using complete.prems new(2,3)
      by (auto simp: new(1) plane_inv_def backed_def EXECUTE_PROPOSAL_KIND_def RESPONSE_OUTBOX_KIND_def)
  qed (use complete new(4) in \<open>auto simp: plane_inv_def\<close>)
  then show ?case by simp
next
  case (approve oid db i pid why now db' A w)
  then show ?case by (blast dest: approve_inv)
next
  case (reject i pid why now db db' A w)
  then show ?case by (blast dest: reject_inv)
next
  case (turn ae pid db locked worker now b rqs db' A w)
  then show ?case using turn_inv by blast
next
  case (crash ae pid db locked worker now b rqs db' A w)
  then show ?case by (blast intro: crash_inv)
next
  case (elsewhere db' db A w)
  then show ?case by (simp add: plane_inv_def)
qed

end
