(* ===== verification/Rs_Props.thy ===== *)
theory Rs_Props
  imports Rs_Plane_Correct Ir_Memo_Props
begin

text \<open>
  The properties of the response plane, over every interleaving of completions, human decisions,
  executor turns, crashes and the other writers of the store, and a concrete plane for the witnesses.
\<close>

subsection \<open>What a step sends\<close>

text \<open>An external action leaves for a proposal that is approved at that moment, and in its scope.\<close>

definition fires :: "proposal_row list \<Rightarrow> request \<Rightarrow> bool" where
  "fires ps q \<longleftrightarrow> rq_capability q = ''external_action'' \<longrightarrow>
     (\<exists>p\<in>set ps. pr_status p = Approved \<and> pr_action p = ''external_action'' \<and> pr_params p = rq_payload q \<and>
        scoped (rq_tenant q) (pr_case p) (rq_payload q))"

lemma turn_fires:
  assumes "executor_turn ae pid locked worker now db = (b, rqs, db')" and "plane_inv (ae_float ae) (A, w, db)"
    and "pid \<notin> pr_id ` set (proposals db)"
  shows "pr_moves (ae_float ae) A (proposals db) (proposals db') \<and>
    (\<forall>q\<in>set rqs. fires (proposals db) q \<and> webhook_url_allowed ae (rq_url q) \<and> operator_target ae db q)"
  using assms
proof (cases rule: turn_spec)
  case (work r res)
  from work(6) have "\<forall>q\<in>set rqs. fires (proposals db) q \<and> webhook_url_allowed ae (rq_url q) \<and> operator_target ae db q"
  proof
    assume "execution_of ae db (ob_tenant r) (text_or_empty ae (dget ''action_type'' (ob_payload r))) rqs (proposals db')"
    then obtain p where p: "p \<in> set (proposals db)" "pr_status p = Approved"
        "pr_action p = text_or_empty ae (dget ''action_type'' (ob_payload r))"
        "\<forall>q\<in>set rqs. rq_tenant q = ob_tenant r \<and> rq_payload q = pr_params p \<and>
           rq_capability q = text_or_empty ae (dget ''action_type'' (ob_payload r)) \<and>
           scoped (ob_tenant r) (pr_case p) (pr_params p) \<and> webhook_url_allowed ae (rq_url q) \<and> operator_target ae db q"
      unfolding execution_of_def by blast
    then show ?thesis unfolding fires_def by (metis (no_types, lifting))
  qed (simp add: fires_def)
  with work(5) show ?thesis by blast
qed simp

lemma action_step_effect:
  assumes "action_step fr s s'" and "plane_inv fr s"
  shows "set (fst s) \<subseteq> set (fst s') \<and>
    pr_moves fr (fst s') (proposals (snd (snd s))) (proposals (snd (snd s'))) \<and>
    (\<exists>rqs. fst (snd s') = fst (snd s) @ rqs \<and> (\<forall>q\<in>set rqs. fires (proposals (snd (snd s))) q))"
  using assms
proof (induction rule: action_step.induct)
  case (complete ce de t rid p now db ch db' A w)
  from complete.hyps(1) have "proposals db' = proposals db"
    by (auto simp: complete_and_dispatch_def dispatches_rows split: sum.splits)
  then show ?case by simp
next
  case (approve oid db i pid why now db' A w)
  then show ?case by (auto dest: approve_inv)
next
  case (reject i pid why now db db' A w)
  then show ?case by (auto dest: reject_inv)
next
  case (turn ae pid db locked worker now b rqs db' A w)
  with turn_fires [OF turn.hyps(3)] show ?case by auto
next
  case (crash ae pid db locked worker now b rqs db' A w)
  with turn_fires [OF crash.hyps(3)] show ?case by auto
qed simp

lemma steps_inv: "action_steps fr s s' \<Longrightarrow> plane_inv fr s \<Longrightarrow> plane_inv fr s'"
  by (induction rule: rtranclp_induct) (blast intro: action_step_inv)+

lemma reachable_actions_inv: "reachable_actions fr s \<Longrightarrow> plane_inv fr s"
  unfolding reachable_actions_def by (blast intro: steps_inv plane_inv_start)

lemma reachable_step: "reachable_actions fr s \<Longrightarrow> action_step fr s s' \<Longrightarrow> reachable_actions fr s'"
  unfolding reachable_actions_def by (blast intro: rtranclp.rtrancl_into_rtrancl)

text \<open>Two proposals of one case with the same parameters for the one gated capability are the same.\<close>

lemma gated_action: "proposal_ok fr A p \<Longrightarrow> pr_action p = ''external_action''"
  by (auto simp: proposal_ok_def dest!: capability_cases)

lemma queued_action:
  assumes "dispatch_for_completed_run de cr now db = Some (n, db')"
    and "de_registry de = response_registry yaml_load (de_coerce de) listing dir"
    and "r \<in> set (outbox db')" and "r \<notin> set (outbox db)"
  shows "ob_tenant r = cr_tenant cr \<and> ob_case r = cr_case cr \<and>
    (\<exists>cap. dget ''capability'' (ob_payload r) = PStr cap \<and>
       (cr_effective cr = ''close_fp'' \<longrightarrow> cap = ''annotate_investigation''))"
  using assms(1)
proof (cases rule: dispatch_run_cases)
  case (live env ctx mi db1)
  from enqueue_all_spec [OF live(8)] live(5) assms(3,4) obtain pb
    where pb: "pb \<in> set (matched de mi (cr_tenant cr) ''active'' db)"
      "r \<in> action_row de cr env pb now ` set (selected_actions pb (cr_effective cr) ctx)"
    by fastforce
  then obtain i a where i: "r = action_row de cr env pb now (i, a)" "a \<in> set (actions_for pb (cr_effective cr))"
    by (auto simp: selected_actions_iff)
  have "playbook_legal pb"
    by (rule governs_legal [OF conjunct2 [OF matched_governs [OF pb(1)]]]) (simp add: assms(2) response_registry_sound)
  from i actions_for_legal [OF this i(2)] show ?thesis
    by (simp add: action_row_def new_outbox_row_def action_payload_def Let_def)
qed (use assms in simp)

lemma approved_by_manager: "approved_by i p \<Longrightarrow> id_role i \<in> Some ` set MANAGER_ROLES"
  by (simp add: approved_by_def may_approve_privileged_def privileged_is_manager [symmetric] split: if_splits)

lemma webhook_allowed_parts:
  "webhook_url_allowed ae url \<Longrightarrow>
     \<exists>u h globals. ae_split ae url = Some u \<and> up_host u = Some h \<and> h \<noteq> [] \<and>
       (up_scheme u = ''https'' \<or>
        up_scheme u = ''http'' \<and> str_lower (env_text (ae_allow_http ae)) \<in> {''1'', ''true'', ''yes''}) \<and>
       (\<exists>port. ae_resolve ae h port = Some globals) \<and> list_all id globals"
  unfolding webhook_url_allowed_def by (auto split: option.splits)

lemma proposal_ok_key:
  "proposal_ok fr A p \<Longrightarrow> scoped (pr_tenant p) (pr_case p) (pr_params p) \<and>
     pr_key p = proposal_idempotency_key fr (pr_case p) (pr_action p) (pr_params p)"
  by (auto simp: proposal_ok_def)

lemma same_params:
  assumes "plane_inv fr (A, w, db)" "p \<in> set (proposals db)" "p' \<in> set (proposals db)" "pr_params p = pr_params p'"
  shows "p = p'"
proof -
  from assms(1-3) have ok: "proposal_ok fr A p" "proposal_ok fr A p'"
      and key: "distinct (map (\<lambda>p. (pr_case p, pr_key p)) (proposals db))"
    by (auto simp: plane_inv_def)
  note a = ok [THEN proposal_ok_key] and c = ok [THEN gated_action]
  from a assms(4) scoped_unique have case_eq: "pr_case p = pr_case p'" by metis
  with a c assms(4) have "pr_key p = pr_key p'" by metis
  with case_eq show ?thesis by (intro distinct_map_eq [OF key assms(2,3)]) simp
qed

lemma final_row_kept:
  assumes "pr_moves fr A ps ps'" "p \<in> set ps" "pr_status p \<notin> {Proposed, Approved}"
  shows "p \<in> set ps'"
proof -
  from assms(1) obtain mid new where m: "ps' = mid @ new" "list_all2 (pr_life A) ps mid" by (auto simp: pr_moves_def)
  from list_all2_setI [OF m(2) assms(2)] obtain p' where "p' \<in> set mid" "pr_life A p p'" by blast
  with m(1) pr_life_final [OF this(2) assms(3)] show ?thesis by simp
qed

lemma final_step:
  assumes "action_step fr (A, w, db) (A', w', db')" and "plane_inv fr (A, w, db)"
    and "p \<in> set (proposals db)" and "pr_status p \<notin> {Proposed, Approved}"
  shows "p \<in> set (proposals db') \<and>
    (\<exists>rqs. w' = w @ rqs \<and> (\<forall>q\<in>set rqs. rq_capability q = ''external_action'' \<longrightarrow> rq_payload q \<noteq> pr_params p))"
proof -
  from action_step_effect [OF assms(1,2)] obtain rqs where
    e: "pr_moves fr A' (proposals db) (proposals db')" "w' = w @ rqs" "\<forall>q\<in>set rqs. fires (proposals db) q"
    by auto
  have "rq_payload q \<noteq> pr_params p" if "q \<in> set rqs" "rq_capability q = ''external_action''" for q
  proof
    assume "rq_payload q = pr_params p"
    with that e(3) obtain p' where "p' \<in> set (proposals db)" "pr_status p' = Approved" "pr_params p' = pr_params p"
      by (auto simp: fires_def)
    with same_params [OF assms(2) this(1) assms(3)] assms(4) show False by simp
  qed
  with e(2) final_row_kept [OF e(1) assms(3,4)] show ?thesis by blast
qed

subsection \<open>Safety\<close>

text \<open>
  Property C5. No external action leaves the system without a human: every external request sent
  so far, whatever crashed, was retried or was redelivered, carries the stored payload of a
  proposal of the same tenant, that proposal is past approval, and its approval was given by a
  manager or an administrator, who for a user of a tenant belongs to that tenant.
\<close>

theorem external_action_needs_approval:
  assumes "reachable_actions fr (A, w, db)" and "q \<in> set w" and "rq_capability q = ''external_action''"
  shows "\<exists>p\<in>set (proposals db). \<exists>i.
    pr_action p = ''external_action'' \<and> pr_tenant p = rq_tenant q \<and> pr_params p = rq_payload q \<and>
    pr_status p \<notin> {Proposed, Rejected} \<and> (i, pr_id p) \<in> set A \<and> pr_approver p = Some (id_user i) \<and>
    id_role i \<in> Some ` set MANAGER_ROLES \<and> (is_tenant_user i \<longrightarrow> id_tenant i = Some (pr_tenant p))"
proof -
  from reachable_actions_inv [OF assms(1)] assms(2) have "sanctioned A (proposals db) q" by (simp add: plane_inv_def)
  with assms(3) obtain p i where p: "p \<in> set (proposals db)" "pr_action p = ''external_action''"
      "pr_tenant p = rq_tenant q" "pr_params p = rq_payload q" "pr_status p \<noteq> Proposed" "pr_status p \<noteq> Rejected"
      "(i, pr_id p) \<in> set A" "pr_approver p = Some (id_user i)" "approved_by i p"
    unfolding sanctioned_def by blast
  with approved_by_manager [OF p(9)] show ?thesis by (intro bexI [of _ p] exI [of _ i]) (auto simp: approved_by_def)
qed


text \<open>
  Property C12. A turn of the executor contacts only operators' targets: the URL of every
  request it sends is the stripped webhook of the tenant's effective policy or a registered
  endpoint of it, never text from the playbook or the evidence, and it is https (or plain http
  where the installation allows it) to a host that resolves to global addresses only.
\<close>

theorem requests_go_to_operator_targets:
  assumes "reachable_actions fr (A, w, db)" and "ae_float ae = fr" and "pid \<notin> pr_id ` set (proposals db)"
    and "executor_turn ae pid locked worker now db = (b, rqs, db')" and "q \<in> set rqs"
  shows "operator_target ae db q \<and>
    (\<exists>u h globals. ae_split ae (rq_url q) = Some u \<and> up_host u = Some h \<and> h \<noteq> [] \<and>
       (up_scheme u = ''https'' \<or>
        up_scheme u = ''http'' \<and> str_lower (env_text (ae_allow_http ae)) \<in> {''1'', ''true'', ''yes''}) \<and>
       (\<exists>port. ae_resolve ae h port = Some globals) \<and> list_all id globals)"
proof -
  from reachable_actions_inv [OF assms(1)] assms(2) have "plane_inv (ae_float ae) (A, w, db)" by simp
  from turn_fires [OF assms(4) this assms(3)] assms(5) have t: "webhook_url_allowed ae (rq_url q)" "operator_target ae db q"
    by auto
  from webhook_allowed_parts [OF t(1)] t(2) show ?thesis by blast
qed

text \<open>
  Property C11. The shape of the two tables: proposals and outbox rows have identifiers and keys
  of their own, an outbox row was attempted at most five times, it is failed exactly when the
  five are used up, and every proposal is of the one gated capability, scoped to its tenant and
  case by its own payload.
\<close>

theorem response_plane_invariant:
  assumes "reachable_actions fr (A, w, db)"
  shows "distinct (map pr_id (proposals db)) \<and> distinct (map (\<lambda>p. (pr_case p, pr_key p)) (proposals db)) \<and>
    distinct (map ob_id (outbox db)) \<and> distinct (map ob_key (outbox db)) \<and>
    (\<forall>r\<in>set (outbox db). 0 \<le> ob_attempts r \<and> ob_attempts r \<le> 5 \<and> (ob_status r = OutboxFailed \<longleftrightarrow> ob_attempts r = 5)) \<and>
    (\<forall>p\<in>set (proposals db). pr_action p = ''external_action'' \<and> scoped (pr_tenant p) (pr_case p) (pr_params p))"
  using reachable_actions_inv [OF assms] gated_action proposal_ok_key by (fastforce simp: plane_inv_def outbox_ok_def)

subsection \<open>Composition with the completion\<close>

lemma finish_case_dispatch:
  assumes "finish_case ce t c rid p now db = Some (ch, db')" and "ce_new_run ce \<notin> run_id ` set (runs db)"
  obtains eff veto db1 where "server_floor (ce_env ce) t c rid p now db = Some (eff, veto, db1)"
    "dispatches db' = dispatches db @
       (case eff of None \<Rightarrow> []
        | Some d \<Rightarrow> if cp_status p = RunCompleted \<and> ch \<and> d \<in> {''close_fp'', ''escalate''}
            then [\<lparr> dispatch_run = rid, dispatch_case = c, dispatch_worker = cp_disposition p,
                    dispatch_effective = d, dispatch_veto = veto \<rparr>] else [])"
proof -
  from assms(1) obtain eff veto db1 db2
    where 1: "server_floor (ce_env ce) t c rid p now db = Some (eff, veto, db1)"
      and 2: "apply_disposition (ce_env ce) (ce_sha ce) (ce_review ce) t c rid p eff veto now db1 = Some (ch, db2)"
      and 3: "follow_up (ce_env ce) (ce_prices ce) (ce_new_run ce) t c p now
                (dispatch_response c rid p eff veto ch (memoize t c p eff now db2)) = Some db'"
    by (auto simp: finish_case_def split: bind_splits)
  let ?db3 = "dispatch_response c rid p eff veto ch (memoize t c p eff now db2)"
  have part: "plane_part (memoize t c p eff now db2) = plane_part db"
    using server_floor_part [OF 1] apply_disposition_part [OF 2] memoize_part [of t c p eff now db2] by simp
  then have "runs ?db3 = runs db" using dispatch_response_part by (simp add: plane_part_def)
  then have "dispatches db' = dispatches ?db3" using follow_up_part [OF 3] assms(2) by auto
  with part show thesis
    by (intro that [OF 1]) (auto simp: dispatch_response_def plane_part_def split: option.splits)
qed


subsection \<open>The outbox drains\<close>

text \<open>The attempts the open rows of the outbox have left.\<close>

definition row_work :: "outbox_row \<Rightarrow> nat" where
  "row_work r = (if ob_status r \<in> {Pending, InFlight} then nat (5 - ob_attempts r) else 0)"

definition outbox_work :: "outbox_row list \<Rightarrow> nat" where
  "outbox_work rs = (\<Sum>r\<leftarrow>rs. row_work r)"

lemma outbox_work_update:
  assumes "distinct (map ob_id rs)" "r \<in> set rs" "row_work (f r) < row_work r"
  shows "outbox_work (update_where (\<lambda>q. ob_id q = ob_id r) f rs) < outbox_work rs"
  using assms
proof (induction rs)
  case (Cons x xs)
  show ?case
  proof (cases "x = r")
    case True
    with Cons.prems have "update_where (\<lambda>q. ob_id q = ob_id r) f xs = xs"
      by (intro update_where_id) (force simp: image_iff)
    with True Cons.prems(3) show ?thesis by (simp add: outbox_work_def)
  next
    case False
    with Cons.prems have "r \<in> set xs" "ob_id x \<noteq> ob_id r" by auto
    with Cons show ?thesis by (simp add: outbox_work_def)
  qed
qed simp

lemma finish_row_work:
  assumes "outbox_ok r" "ob_status r \<in> {Pending, InFlight}"
  shows "row_work (finish_row w now res r) < row_work r"
proof -
  from assms have "ob_attempts r < 5" "0 \<le> ob_attempts r" by (auto simp: outbox_ok_def)
  with finish_row_ok [OF assms, of w now res] assms(2) show ?thesis by (auto simp: row_work_def)
qed

text \<open>
  Property C19. The executor comes to rest. A turn that finds work uses up one of the attempts
  its row has left, whatever the handler does, so between two enqueues at most five turns per
  open row do anything; a turn that reports no work has sent nothing and changed nothing, and
  every row that is due is held by another transaction.
\<close>

theorem outbox_drains:
  assumes "reachable_actions (ae_float ae) (A, w, db)" and "pid \<notin> pr_id ` set (proposals db)"
    and "executor_turn ae pid locked worker now db = (b, rqs, db')"
  shows "(b \<longrightarrow> outbox_work (outbox db') < outbox_work (outbox db)) \<and>
    outbox_work (outbox db) \<le> 5 * length (filter (\<lambda>r. ob_status r \<in> {Pending, InFlight}) (outbox db)) \<and>
    (\<not> b \<longrightarrow> rqs = [] \<and> db' = db \<and>
       (\<forall>r\<in>set (outbox db). outbox_due (Some RESPONSE_KINDS) now r \<longrightarrow> locked (ob_id r)))"
proof -
  have inv: "plane_inv (ae_float ae) (A, w, db)" by (rule reachable_actions_inv [OF assms(1)])
  then have ok: "distinct (map ob_id (outbox db))" "\<forall>r\<in>set (outbox db). outbox_ok r" by (auto simp: plane_inv_def)
  have "outbox_work rs \<le> 5 * length (filter (\<lambda>r. ob_status r \<in> {Pending, InFlight}) rs)" if "\<forall>r\<in>set rs. outbox_ok r" for rs
    using that by (induction rs) (auto simp: outbox_work_def row_work_def outbox_ok_def)
  note bound = this [OF ok(2)]
  from assms(3) inv assms(2) show ?thesis
  proof (cases rule: turn_spec)
    case (work r res)
    with ok(2) finish_row_work [of r worker now res] outbox_due_open [OF work(3)]
    have "outbox_work (outbox db') < outbox_work (outbox db)"
      unfolding work(4) by (intro outbox_work_update [OF ok(1)]) auto
    with work(1) bound show ?thesis by simp
  qed (use bound in simp)
qed

subsection \<open>Behaviours worth knowing\<close>

text \<open>The payload an approval queues.\<close>

definition approved_payload :: "proposal_row \<Rightarrow> pydict" where
  "approved_payload p =
     [(''proposal_id'', PStr (uid_text (pr_id p))), (''action_type'', PStr (pr_action p)),
      (''params'', PDict (pr_params p)), (''capability_class'', PStr (pr_class p))]"

lemma approved_payload_reads:
  "map_of (approved_payload p) ''proposal_id'' = Some (PStr (uid_text (pr_id p)))"
  "text_or_empty ae (dget ''action_type'' (approved_payload p)) = pr_action p"
  "payload_proposal ae (approved_payload p) = Some (pr_id p)"
  "write_execution_log ae t (approved_payload p) st ref err db \<noteq> None"
  by (simp_all add: approved_payload_def text_or_empty_def text_of_def py_or_else_def payload_proposal_def
      write_execution_log_def sub_get_def)

lemma failed_run_marks:
  assumes "run_claimed ae spec t act p db = (rqs, Inl CapabilityFailed, db1)"
  shows "proposals db1 = update_where (\<lambda>q. pr_id q = pr_id p) (\<lambda>q. q\<lparr> pr_status := ProposalFailed \<rparr>) (proposals db)"
proof (cases "dict_part ''envelope'' (pr_params p)")
  case (PDict env)
  show ?thesis
  proof (cases "py_str (dget ''tenant_id'' env) \<noteq> Some (uid_text t) \<or>
                py_str (dget ''investigation_id'' env) \<noteq> Some (uid_text (pr_case p))")
    case True
    with PDict assms show ?thesis by (auto simp: run_claimed_def Let_def log_then_def split: option.splits)
  next
    case False
    obtain hq hres where h: "run_handler ae (cap_handler spec) t (pr_params p) db = (hq, hres)" by fastforce
    show ?thesis
    proof (cases hres)
      case None
      obtain r dbl where l: "log_then ae t (pr_params p) ''failed'' None (Some CapabilityFailed) (Inl CapabilityFailed)
                    (set_proposal_status (pr_id p) ProposalFailed db) = (r, dbl)" by fastforce
      from assms h False PDict None l have "proposals db1 = proposals dbl"
        by (auto simp: run_claimed_def Let_def split: if_splits)
      with log_then_frame [OF l] show ?thesis by simp
    next
      case (Some x)
      with assms h False PDict show ?thesis
        by (cases x) (auto simp: run_claimed_def Let_def log_then_def split: option.splits if_splits)
    qed
  qed
qed (use assms in \<open>simp_all add: run_claimed_def Let_def\<close>)

text \<open>
  Property C32. An approved action whose delivery fails is never tried again, although the
  handler re-raises so that the outbox retries. The failure marks the proposal failed; the retry
  twenty seconds to half an hour later finds it no longer approved, sends nothing, and reports
  success with the reference \<open>noop:failed\<close>: a transient error at the endpoint loses
  the action, and the outbox row ends as succeeded.
\<close>

theorem failed_action_never_retried:
  assumes "p \<in> set (proposals db)" and "pr_action p = ''external_action''"
    and "ob_payload row = approved_payload p" and "ob_tenant row = pr_tenant p"
    and "handle_execute_proposal ae row db = (rqs, Inl CapabilityFailed, db1)"
    and "proposals db2 = proposals db1" and "ob_payload row' = ob_payload row" and "ob_tenant row' = ob_tenant row"
  shows "\<exists>db3. handle_execute_proposal ae' row' db2 = ([], Inr (Some ''noop:failed''), db3) \<and>
    proposals db3 = proposals db2 \<and> ob_status (finish_row worker later (Inr (Some ''noop:failed'')) row') = Succeeded"
proof -
  obtain spec where spec: "capability_of ''external_action'' = Some spec"
    by (simp add: capability_of_def RESPONSE_CAPABILITIES_def)
  note reads = approved_payload_reads [where p = p]
  from assms(5) spec obtain p1 where p1: "pr_id p1 = pr_id p"
      "run_claimed ae spec (pr_tenant p) ''external_action'' p1
         (db\<lparr> proposals := update_where (claimable_proposal (pr_id p) (pr_tenant p) ''external_action'')
                             (\<lambda>q. q\<lparr> pr_status := Executing \<rparr>) (proposals db) \<rparr>) = (rqs, Inl CapabilityFailed, db1)"
    unfolding handle_execute_proposal_def Let_def assms(2,3,4) reads
    by (auto simp: log_then_def claimable_proposal_def dest!: find_SomeD split: option.splits)
  have ps: "proposals db2 = update_where (\<lambda>q. pr_id q = pr_id p) (\<lambda>q. q\<lparr> pr_status := ProposalFailed \<rparr>)
      (update_where (claimable_proposal (pr_id p) (pr_tenant p) ''external_action'')
                             (\<lambda>q. q\<lparr> pr_status := Executing \<rparr>) (proposals db))"
    using failed_run_marks [OF p1(2)] assms(6) p1(1) by simp
  have none: "find (claimable_proposal (pr_id p) (pr_tenant p) ''external_action'') (proposals db2) = None"
    by (auto simp: ps find_None_iff set_update_where claimable_proposal_def)
  have "(\<lambda>q. (pr_id q, pr_tenant q)) ` set (proposals db2) = (\<lambda>q. (pr_id q, pr_tenant q)) ` set (proposals db)"
    unfolding ps by (simp add: image_update_where)
  with imageI [OF assms(1), of "\<lambda>q. (pr_id q, pr_tenant q)"]
  have "(pr_id p, pr_tenant p) \<in> (\<lambda>q. (pr_id q, pr_tenant q)) ` set (proposals db2)" by simp
  then have "find (\<lambda>q. pr_id q = pr_id p \<and> pr_tenant q = pr_tenant p) (proposals db2) \<noteq> None"
    unfolding find_None_iff by auto
  then obtain q where q: "find (\<lambda>q. pr_id q = pr_id p \<and> pr_tenant q = pr_tenant p) (proposals db2) = Some q"
    by blast
  from find_SomeD [OF q] have "pr_status q = ProposalFailed" by (auto simp: ps set_update_where split: if_splits)
  with none q spec approved_payload_reads(4) [of ae' "pr_tenant p" p "''skipped''" None "Some (NotClaimable ''failed'')" db2]
  obtain db3 where db3: "write_execution_log ae' (pr_tenant p) (approved_payload p) ''skipped'' None (Some (NotClaimable ''failed'')) db2 = Some db3"
      "handle_execute_proposal ae' row' db2 = ([], Inr (Some ''noop:failed''), db3)"
    unfolding handle_execute_proposal_def Let_def assms(2,3,4,7,8) reads by (auto simp: log_then_def)
  with write_log_frame [OF db3(1)] show ?thesis by (simp add: finish_row_def succeed_row_def)
qed

text \<open>
  A draft silences a file. A tenant whose authored rows are none of them active, and who has only a
  draft for the identifier of an active file playbook, has neither: the file playbook no longer
  governs, because the override counts every authored row that is not retired, a draft included.
\<close>

theorem draft_silences_file_playbook:
  assumes "latest_response (response_rows db) t (rp_id pb) = Some r" and "rs_status r = ''draft''"
    and "\<forall>q\<in>set (response_rows db). rs_tenant q = t \<longrightarrow> rs_status q \<noteq> ''active''"
  shows "pb \<notin> set (matched de mi t ''active'' db)"
proof
  assume "pb \<in> set (matched de mi t ''active'' db)"
  from matched_governs [OF this] assms(1,2)
  obtain q where q: "latest_response (response_rows db) t (rs_playbook q) = Some q" "rs_status q = ''active''"
    by (auto simp: governs_def)
  with latest_response_Some [OF q(1)] assms(3) show False by auto
qed

subsection \<open>A concrete plane\<close>

text \<open>
  One escalated investigation of tenant 1: the completion queues an external action, a turn routes
  it to a proposal, a manager approves it, and a second turn sends it.
\<close>

definition demo_action :: response_action where
  "demo_action = \<lparr> ra_capability = ''external_action'', ra_when = None,
     ra_params = [(''endpoint'', PStr ''edr''), (''action'', PStr ''isolate'')] \<rparr>"

definition demo_playbook :: response_playbook where
  "demo_playbook = \<lparr> rp_id = ''contain'', rp_version = 1, rp_tenant = ''*'', rp_status = ''active'', rp_priority = 1,
     rp_applies_to = \<lparr> rm_groups = [''ssh''], rm_ids = [], rm_techniques = [], rm_tactics = [] \<rparr>,
     rp_on_escalate = [demo_action], rp_on_close = [] \<rparr>"

definition demo_yaml :: "string \<Rightarrow> pyval option" where
  "demo_yaml = (\<lambda>_. Some (PDict []))"

definition demo_coerce :: "pyval \<Rightarrow> response_playbook option" where
  "demo_coerce = (\<lambda>_. Some demo_playbook)"

definition demo_listing :: "string \<Rightarrow> policy_file list option" where
  "demo_listing = (\<lambda>_. Some [\<lparr> st_size = 2, content = ''{}'' \<rparr>])"

definition demo_de :: dispatch_env where
  "demo_de = \<lparr> de_repr = (\<lambda>_. ''?''), de_float = (\<lambda>_. ''0''), de_coerce = demo_coerce,
     de_registry = response_registry demo_yaml demo_coerce demo_listing (Some ''d''), de_kill = None,
     de_policy = demo_env, de_outbox_id = (\<lambda>_. 2) \<rparr>"

definition demo_ae :: action_env where
  "demo_ae = \<lparr> ae_repr = (\<lambda>_. ''?''), ae_float = (\<lambda>_. ''0''), ae_error_text = (\<lambda>_. ''error''), ae_policy = demo_env,
     ae_hmac = (\<lambda>s b. s), ae_split = (\<lambda>_. Some \<lparr> up_scheme = ''https'', up_host = Some ''edr'', up_port = None \<rparr>),
     ae_resolve = (\<lambda>_ _. Some [True]), ae_allow_http = None,
     ae_post = (\<lambda>_. Some \<lparr> hr_status = 200, hr_x_request_id = None, hr_request_id = None \<rparr>) \<rparr>"

definition demo_policies :: pydict where
  "demo_policies = [(''response_action_endpoints'', PDict [(''edr'', PDict [(''url'', PStr ''https://edr'')])])]"

definition demo_a0 :: action_db where
  "demo_a0 = \<lparr> core = demo_leased\<lparr> tenant_policies := [(1, demo_policies)] \<rparr>, outbox = [], proposals = [], exec_log = [],
     case_notes = [], response_rows = [], tenant_slugs = [],
     evidence = [\<lparr> ev_case = 1, ev_first_at = 0, ev_severity = 7, ev_rule = None, ev_iocs = PNone, ev_mitre = PNone,
                   ev_groups = PList [PStr ''ssh''], ev_entities = PNone \<rparr>] \<rparr>"

definition sum_store :: "'e + action_db \<Rightarrow> action_db" where
  "sum_store r = (case r of Inl _ \<Rightarrow> demo_a0 | Inr db \<Rightarrow> db)"

definition demo_a1 :: action_db where
  "demo_a1 = sum_store (map_sum id snd (complete_and_dispatch demo_ce demo_de 1 7 demo_escalate 2 demo_a0))"

definition demo_a2 :: action_db where
  "demo_a2 = snd (snd (executor_turn demo_ae 3 (\<lambda>_. False) ''x'' 3 demo_a1))"

definition demo_manager :: user_identity where
  "demo_manager = \<lparr> id_user = 6, id_user_type = Some ''mssp'', id_role = Some ''mssp_manager'', id_tenant = None \<rparr>"

definition demo_a3 :: action_db where
  "demo_a3 = sum_store (approve_proposal_route (Some demo_manager) 3 ''contain it'' 4 4 demo_a2)"

definition demo_a4 :: action_db where
  "demo_a4 = snd (snd (executor_turn demo_ae 5 (\<lambda>_. False) ''x'' 5 demo_a3))"

definition action_probe :: "action_db \<Rightarrow> (uid \<times> string \<times> outbox_status \<times> int) list \<times> (uid \<times> string \<times> proposal_status) list" where
  "action_probe db = (map (\<lambda>r. (ob_id r, ob_kind r, ob_status r, ob_attempts r)) (outbox db),
     map (\<lambda>p. (pr_id p, pr_action p, pr_status p)) (proposals db))"

definition is_right :: "'e + 'a \<Rightarrow> bool" where
  "is_right r = (case r of Inl _ \<Rightarrow> False | Inr _ \<Rightarrow> True)"

lemma demo_chain_values:
  "(let r1 = complete_and_dispatch demo_ce demo_de 1 7 demo_escalate 2 demo_a0; a1 = sum_store (map_sum id snd r1);
        a2 = snd (snd (executor_turn demo_ae 3 (\<lambda>_. False) ''x'' 3 a1));
        r3 = approve_proposal_route (Some demo_manager) 3 ''contain it'' 4 4 a2; a3 = sum_store r3;
        t4 = executor_turn demo_ae 5 (\<lambda>_. False) ''x'' 5 a3
    in (is_right r1, action_probe a1, action_probe a2, is_right r3, action_probe a3,
        map rq_capability (fst (snd t4)), action_probe (snd (snd t4)))) =
   (True, ([(2, ''response_action'', Pending, 0)], []),
    ([(2, ''response_action'', Succeeded, 0)], [(3, ''external_action'', Proposed)]),
    True, ([(2, ''response_action'', Succeeded, 0), (4, ''execute_proposal'', Pending, 0)], [(3, ''external_action'', Approved)]),
    [''external_action''],
    ([(2, ''response_action'', Succeeded, 0), (4, ''execute_proposal'', Succeeded, 0)], [(3, ''external_action'', Executed)]))"
  by code_simp

lemma demo_chain:
  "is_right (complete_and_dispatch demo_ce demo_de 1 7 demo_escalate 2 demo_a0)"
  "action_probe demo_a1 = ([(2, ''response_action'', Pending, 0)], [])"
  "action_probe demo_a2 = ([(2, ''response_action'', Succeeded, 0)], [(3, ''external_action'', Proposed)])"
  "is_right (approve_proposal_route (Some demo_manager) 3 ''contain it'' 4 4 demo_a2)"
  "action_probe demo_a3 =
     ([(2, ''response_action'', Succeeded, 0), (4, ''execute_proposal'', Pending, 0)], [(3, ''external_action'', Approved)])"
  "map rq_capability (fst (snd (executor_turn demo_ae 5 (\<lambda>_. False) ''x'' 5 demo_a3))) = [''external_action'']"
  "action_probe demo_a4 =
     ([(2, ''response_action'', Succeeded, 0), (4, ''execute_proposal'', Succeeded, 0)], [(3, ''external_action'', Executed)])"
  using demo_chain_values unfolding Let_def demo_a1_def [symmetric]
  unfolding demo_a2_def [symmetric] unfolding demo_a3_def [symmetric] unfolding demo_a4_def [symmetric]
  by simp_all

lemma probe_ids:
  assumes "action_probe db = (rs, ps)"
  shows "map ob_id (outbox db) = map fst rs" "map pr_id (proposals db) = map fst ps"
  using assms by (auto simp: action_probe_def)

lemma is_right_store: "is_right r \<Longrightarrow> r = Inr (sum_store r)"
  by (cases r) (simp_all add: is_right_def sum_store_def)

lemma is_right_pair: "is_right r \<Longrightarrow> \<exists>x. r = Inr (x, sum_store (map_sum id snd r))"
  by (cases r) (auto simp: is_right_def sum_store_def)

abbreviation demo_float :: "pyfloat \<Rightarrow> string" where
  "demo_float \<equiv> \<lambda>_. ''0''"

definition demo_turn :: "bool \<times> request list \<times> action_db" where
  "demo_turn = executor_turn demo_ae 5 (\<lambda>_. False) ''x'' 5 demo_a3"

lemma demo_turn_eq: "executor_turn demo_ae 5 (\<lambda>_. False) ''x'' 5 demo_a3 = (fst demo_turn, fst (snd demo_turn), demo_a4)"
  by (simp add: demo_turn_def demo_a4_def)

lemma demo_completed: "\<exists>ch. complete_and_dispatch demo_ce demo_de 1 7 demo_escalate 2 demo_a0 = Inr (ch, demo_a1)"
  unfolding demo_a1_def by (rule is_right_pair [OF demo_chain(1)])

definition demo_sent :: "request list" where
  "demo_sent = fst (snd (executor_turn demo_ae 3 (\<lambda>_. False) ''x'' 3 demo_a1))"

lemma demo_ids:
  "3 \<notin> pr_id ` set (proposals demo_a1)" "4 \<notin> ob_id ` set (outbox demo_a2)" "5 \<notin> pr_id ` set (proposals demo_a3)"
  "distinct (map ob_id (outbox demo_a1))"
  using demo_chain(2,3,5) [THEN probe_ids(1)] demo_chain(2,3,5) [THEN probe_ids(2)]
  by (simp_all flip: list.set_map)

lemma demo_plane_reachable:
  "reachable_actions demo_float ([], [], demo_a1)"
  "reachable_actions demo_float ([(demo_manager, 3)], demo_sent, demo_a3)"
  "reachable_actions demo_float ([(demo_manager, 3)], demo_sent @ fst (snd demo_turn), demo_a4)"
proof -
  have fl: "ae_float demo_ae = demo_float" by (simp add: demo_ae_def)
  have start: "reachable_actions demo_float ([], [], demo_a0)"
    unfolding reachable_actions_def by (intro exI [of _ demo_a0]) (simp add: demo_a0_def)
  from demo_completed obtain ch where c: "complete_and_dispatch demo_ce demo_de 1 7 demo_escalate 2 demo_a0 = Inr (ch, demo_a1)" ..
  show a1: "reachable_actions demo_float ([], [], demo_a1)"
    by (rule reachable_step [OF start action_step.complete [OF c demo_ids(4)]])
  have "executor_turn demo_ae 3 (\<lambda>_. False) ''x'' 3 demo_a1 =
      (fst (executor_turn demo_ae 3 (\<lambda>_. False) ''x'' 3 demo_a1), demo_sent, demo_a2)"
    by (simp add: demo_sent_def demo_a2_def)
  from reachable_step [OF a1 action_step.turn [OF fl demo_ids(1) this]]
  have a2: "reachable_actions demo_float ([], demo_sent, demo_a2)" by simp
  from is_right_store [OF demo_chain(4)]
  have "approve_proposal_route (Some demo_manager) 3 ''contain it'' 4 4 demo_a2 = Inr demo_a3" by (simp add: demo_a3_def)
  from reachable_step [OF a2 action_step.approve [OF demo_ids(2) this]]
  show a3: "reachable_actions demo_float ([(demo_manager, 3)], demo_sent, demo_a3)" .
  from reachable_step [OF a3 action_step.turn [OF fl demo_ids(3) demo_turn_eq]]
  show "reachable_actions demo_float ([(demo_manager, 3)], demo_sent @ fst (snd demo_turn), demo_a4)" .
qed

lemma demo_external: "\<exists>q. q \<in> set (fst (snd demo_turn)) \<and> rq_capability q = ''external_action''"
  using demo_chain(6) unfolding demo_turn_def by (auto simp: map_eq_Cons_conv)

theorem external_action_needs_approval_witness:
  "\<exists>p\<in>set (proposals demo_a4). \<exists>i. (i, pr_id p) \<in> {(demo_manager, 3)} \<and> pr_status p = Executed"
proof -
  obtain q where "q \<in> set (demo_sent @ fst (snd demo_turn))" "rq_capability q = ''external_action''"
    using demo_external by auto
  from external_action_needs_approval [OF demo_plane_reachable(3) this] obtain p i
    where "p \<in> set (proposals demo_a4)" "(i, pr_id p) \<in> set [(demo_manager, 3)]" by blast
  with demo_chain(7) show ?thesis by (intro bexI [of _ p] exI [of _ i]) (auto simp: action_probe_def)
qed


theorem requests_go_to_operator_targets_witness:
  "\<exists>q. rq_capability q = ''external_action'' \<and> operator_target demo_ae demo_a3 q"
proof -
  obtain q where q: "q \<in> set (fst (snd demo_turn))" "rq_capability q = ''external_action''" using demo_external by auto
  have "ae_float demo_ae = demo_float" by (simp add: demo_ae_def)
  from requests_go_to_operator_targets [OF demo_plane_reachable(2) this demo_ids(3) demo_turn_eq q(1)] q(2)
  show ?thesis by blast
qed

theorem response_plane_invariant_witness: "distinct (map ob_key (outbox demo_a4)) \<and> length (outbox demo_a4) = 2"
proof -
  have "length (outbox demo_a4) = 2" using demo_chain(7) by (auto simp: action_probe_def map_eq_Cons_conv)
  with response_plane_invariant [OF demo_plane_reachable(3)] show ?thesis by blast
qed


theorem outbox_drains_witness: "outbox_work (outbox demo_a4) < 6"
proof -
  have inv: "reachable_actions (ae_float demo_ae) ([(demo_manager, 3)], demo_sent, demo_a3)"
    using demo_plane_reachable(2) by (simp add: demo_ae_def)
  from demo_chain(5) have "outbox_work (outbox demo_a3) = 5"
    by (auto simp: action_probe_def map_eq_Cons_conv outbox_work_def row_work_def)
  moreover have "fst demo_turn \<or> fst (snd demo_turn) = []"
    using outbox_drains [OF inv demo_ids(3) demo_turn_eq] by blast
  ultimately show ?thesis using outbox_drains [OF inv demo_ids(3) demo_turn_eq] demo_external by auto
qed

text \<open>An endpoint that is down, and an approved proposal.\<close>

definition demo_down :: action_env where
  "demo_down = demo_ae\<lparr> ae_post := (\<lambda>_. None) \<rparr>"

definition demo_approved :: proposal_row where
  "demo_approved = \<lparr> pr_id = 3, pr_tenant = 1, pr_case = 1, pr_run = None, pr_action = ''external_action'',
     pr_params = [(''envelope'', PDict [(''tenant_id'', PStr ''1''), (''investigation_id'', PStr ''1'')]),
                  (''params'', PDict [(''endpoint'', PStr ''edr''), (''action'', PStr ''isolate'')])],
     pr_rationale = [], pr_class = ''write-external'', pr_status = Approved, pr_key = [], pr_approver = Some 6,
     pr_approval_reason = None, pr_rejected_reason = None \<rparr>"

definition demo_due :: outbox_row where
  "demo_due = new_outbox_row 4 1 1 EXECUTE_PROPOSAL_KIND ''proposal:3'' (approved_payload demo_approved) None 0"

definition demo_ready :: action_db where
  "demo_ready = demo_a0\<lparr> core := empty_db\<lparr> tenant_policies := [(1, demo_policies)] \<rparr>, proposals := [demo_approved] \<rparr>"

theorem failed_action_never_retried_witness:
  "\<exists>rqs db1 db3. handle_execute_proposal demo_down demo_due demo_ready = (rqs, Inl CapabilityFailed, db1) \<and>
     handle_execute_proposal demo_ae demo_due db1 = ([], Inr (Some ''noop:failed''), db3)"
proof -
  have "case handle_execute_proposal demo_down demo_due demo_ready of (rqs, r, db) \<Rightarrow> r = Inl CapabilityFailed" by code_simp
  then obtain rqs db1 where f: "handle_execute_proposal demo_down demo_due demo_ready = (rqs, Inl CapabilityFailed, db1)"
    by (auto split: prod.splits)
  have "demo_approved \<in> set (proposals demo_ready)" "pr_action demo_approved = ''external_action''"
      "ob_payload demo_due = approved_payload demo_approved" "ob_tenant demo_due = pr_tenant demo_approved"
    by (simp_all add: demo_ready_def demo_approved_def demo_due_def new_outbox_row_def)
  from failed_action_never_retried [OF this f refl refl refl, of demo_ae] f show ?thesis by blast
qed

definition demo_run_done :: completed_run where
  "demo_run_done = \<lparr> cr_tenant = 1, cr_case = 1, cr_run = 7, cr_worker = Some ''escalate'', cr_effective = ''escalate'',
     cr_veto = None, cr_summary = None, cr_confidence = None, cr_enrichments = [] \<rparr>"

theorem dispatch_enqueues_only_active_witness:
  "\<exists>n db. dispatch_for_completed_run demo_de demo_run_done 2 demo_ready = Some (n, db) \<and> outbox db \<noteq> [] \<and>
     \<not> killed_tenant demo_de 1 demo_ready"
proof -
  have "case dispatch_for_completed_run demo_de demo_run_done 2 demo_ready of None \<Rightarrow> False | Some (n, db) \<Rightarrow> outbox db \<noteq> []"
    by code_simp
  then obtain n db where d: "dispatch_for_completed_run demo_de demo_run_done 2 demo_ready = Some (n, db)" "outbox db \<noteq> []"
    by (auto split: option.splits)
  obtain r where r: "r \<in> set (outbox db)" using d(2) by (cases "outbox db") auto
  have reg: "de_registry demo_de = response_registry demo_yaml (de_coerce demo_de) demo_listing (Some ''d'')"
      and new: "r \<notin> set (outbox demo_ready)"
    by (simp_all add: demo_de_def demo_ready_def demo_a0_def)
  from dispatch_enqueues_only_active [OF d(1) reg r new] d show ?thesis by (auto simp: demo_run_done_def)
qed

theorem draft_silences_file_playbook_witness:
  "demo_playbook \<notin> set (matched demo_de mi 1 ''active'' (demo_a0\<lparr> response_rows :=
     [\<lparr> rs_tenant = 1, rs_playbook = ''contain'', rs_revision = 1, rs_status = ''draft'', rs_definition = PNone,
        rs_created_by = None \<rparr>] \<rparr>))" (is "_ \<notin> set (matched _ _ _ _ ?db)")
proof (rule draft_silences_file_playbook)
  show "latest_response (response_rows ?db) 1 (rp_id demo_playbook) = Some (hd (response_rows ?db))" by code_simp
qed simp_all

end
