(* ===== verification/PyUrl.thy ===== *)
theory PyUrl
  imports PyValue
begin

text \<open>
  \<open>urllib.parse.urlsplit\<close> as far as the code reads it: the scheme, the host and the port of a URL.
  \<open>None\<close> stands for the \<open>ValueError\<close> of an unbalanced bracket or of a bad port.
\<close>

subsection \<open>Cutting texts\<close>

text \<open>\<open>s.partition(c)\<close> and \<open>s.rpartition(c)\<close>, without the separator.\<close>

definition str_before :: "char \<Rightarrow> string \<Rightarrow> string" where
  "str_before c s = takeWhile (\<lambda>x. x \<noteq> c) s"

definition str_after :: "char \<Rightarrow> string \<Rightarrow> string" where
  "str_after c s = tl (dropWhile (\<lambda>x. x \<noteq> c) s)"

definition str_after_last :: "char \<Rightarrow> string \<Rightarrow> string" where
  "str_after_last c s = rev (takeWhile (\<lambda>x. x \<noteq> c) (rev s))"

definition str_lstrip :: "string \<Rightarrow> string \<Rightarrow> string" where
  "str_lstrip cs s = dropWhile (\<lambda>c. c \<in> set cs) s"

definition ends_with :: "string \<Rightarrow> string \<Rightarrow> bool" where
  "ends_with suffix s \<longleftrightarrow> length suffix \<le> length s \<and> drop (length s - length suffix) s = suffix"

lemma ends_with_append [simp]: "ends_with suffix (s @ suffix)"
  by (simp add: ends_with_def)

lemma ends_with_iff: "ends_with suffix s \<longleftrightarrow> (\<exists>pre. s = pre @ suffix)"
  unfolding ends_with_def by (metis append_take_drop_id diff_diff_cancel length_append le_add2 append_eq_conv_conj diff_add_inverse2)

subsection \<open>The parser\<close>

record url =
  url_scheme :: string
  url_netloc :: string

definition is_scheme_char :: "char \<Rightarrow> bool" where
  "is_scheme_char c \<longleftrightarrow> CHR ''a'' \<le> char_lower c \<and> char_lower c \<le> CHR ''z'' \<or> is_digit c \<or> c \<in> set ''+-.''"

definition is_letter :: "char \<Rightarrow> bool" where
  "is_letter c \<longleftrightarrow> CHR ''a'' \<le> char_lower c \<and> char_lower c \<le> CHR ''z''"

text \<open>Leading controls and spaces are dropped, tabs and line breaks removed.\<close>

definition clean_url :: "string \<Rightarrow> string" where
  "clean_url s = filter (\<lambda>c. c \<notin> {CHR 0x09, CHR 0x0A, CHR 0x0D}) (dropWhile (\<lambda>c. c \<le> CHR 0x20) s)"

definition url_parts_of :: "string \<Rightarrow> string \<times> string" where
  "url_parts_of s =
     (let scheme = str_before (CHR '':'') s in
      if CHR '':'' \<in> set s \<and> scheme \<noteq> [] \<and> is_letter (hd scheme) \<and> list_all is_scheme_char scheme
      then (str_lower scheme, str_after (CHR '':'') s) else ([], s))"

definition urlsplit :: "string \<Rightarrow> url option" where
  "urlsplit raw =
     (let (scheme, rest) = url_parts_of (clean_url raw);
          netloc = (if take 2 rest = ''//''
                    then takeWhile (\<lambda>c. c \<notin> {CHR ''/'', CHR ''?'', CHR ''#''}) (drop 2 rest) else [])
      in if (CHR ''['' \<in> set netloc) \<noteq> (CHR '']'' \<in> set netloc) then None
         else Some \<lparr> url_scheme = scheme, url_netloc = netloc \<rparr>)"

definition host_info :: "url \<Rightarrow> string \<times> string" where
  "host_info u =
     (let info = str_after_last (CHR ''@'') (url_netloc u) in
      if CHR ''['' \<in> set info
      then (let bracketed = str_after (CHR ''['') info
            in (str_before (CHR '']'') bracketed, str_after (CHR '':'') (str_after (CHR '']'') bracketed)))
      else (str_before (CHR '':'') info, str_after (CHR '':'') info))"

text \<open>The host is lower-cased up to a zone identifier; an empty host is \<open>None\<close>.\<close>

definition url_host :: "url \<Rightarrow> string option" where
  "url_host u =
     (let h = fst (host_info u) in
      if h = [] then None
      else Some (str_lower (str_before (CHR ''%'') h) @ dropWhile (\<lambda>c. c \<noteq> CHR ''%'') h))"

text \<open>The outer option is the exception, the inner one Python's \<open>None\<close>.\<close>

definition url_port :: "url \<Rightarrow> int option option" where
  "url_port u =
     (let p = snd (host_info u) in
      if p = [] then Some None
      else if list_all is_digit p
      then (case parse_digits 0 p of
              None \<Rightarrow> None
            | Some n \<Rightarrow> if n \<le> 65535 then Some (Some n) else None)
      else None)"

end
