(* ===== verification/Id_Store.thy ===== *)
theory Id_Store
  imports Tn_Permissions PyUrl
begin

text \<open>
  The identity plane: the tables of users, passwords and sessions (\<open>core/tenancy/models.py\<close>,
  \<open>core/auth/models.py\<close>), passwords (\<open>core/auth/passwords.py\<close>), the rate limiter
  (\<open>core/auth/rate_limit.py\<close>), sessions (\<open>core/auth/sessions.py\<close>) and the sign-in service
  (\<open>core/auth/service.py\<close>). Hashing is a parameter; an operation gets the time and its fresh
  identifiers as arguments.
\<close>

subsection \<open>Tables\<close>

record user_row =
  us_id :: uid
  us_email :: string
  us_name :: string
  us_type :: string
  us_role :: string
  us_tenant :: "uid option"
  us_active :: bool

record cred_row =
  cd_user :: uid
  cd_hash :: string
  cd_must_change :: bool
  cd_updated :: time
  cd_last_used :: "time option"
  cd_failures :: int
  cd_locked_until :: "time option"

record session_row =
  ss_id :: uid
  ss_user :: uid
  ss_context :: "uid option"
  ss_created :: time
  ss_seen :: time
  ss_absolute :: time
  ss_idle :: time
  ss_revoked :: "time option"
  ss_ip :: "string option"
  ss_agent :: "string option"

record id_audit =
  ia_at :: time
  ia_action :: string
  ia_actor :: "uid option"
  ia_tenant :: "uid option"
  ia_resource :: "uid option"
  ia_notes :: string

record id_db =
  db_users :: "user_row list"
  db_creds :: "cred_row list"
  db_sessions :: "session_row list"
  db_slugs :: "(string \<times> uid) list"
  db_audit :: "id_audit list"

definition audit_id :: "time \<Rightarrow> string \<Rightarrow> uid option \<Rightarrow> uid option \<Rightarrow> uid option \<Rightarrow> string \<Rightarrow> id_db \<Rightarrow> id_db" where
  "audit_id now act actor t resource notes db =
     db\<lparr> db_audit := db_audit db @ [\<lparr> ia_at = now, ia_action = act, ia_actor = actor, ia_tenant = t,
                                      ia_resource = resource, ia_notes = notes \<rparr>] \<rparr>"

text \<open>
  What a transaction comes to. The session of a request is committed on success and rolled back on
  an error response, unless the handler committed what it had recorded before it raised.
\<close>

datatype 'a outcome = Succeeds 'a id_db | Refuses failure | Records failure id_db

definition commit_outcome :: "id_db \<Rightarrow> 'a outcome \<Rightarrow> id_db" where
  "commit_outcome db0 out = (case out of Succeeds _ db \<Rightarrow> db | Refuses _ \<Rightarrow> db0 | Records _ db \<Rightarrow> db)"

text \<open>The row-level policy of the application role on users.\<close>

definition visible_user :: "uid option \<Rightarrow> user_row \<Rightarrow> bool" where
  "visible_user ctx u \<longleftrightarrow> us_tenant u = None \<or> us_tenant u = ctx"

subsection \<open>Passwords\<close>

definition MIN_PASSWORD_LENGTH :: nat where
  "MIN_PASSWORD_LENGTH = 12"

definition MAX_PASSWORD_LENGTH :: nat where
  "MAX_PASSWORD_LENGTH = 4096"

text \<open>The hasher: its check of a stored hash, the age of its parameters, and a fresh hash.\<close>

record hasher =
  hs_matches :: "string \<Rightarrow> string \<Rightarrow> bool"
  hs_outdated :: "string \<Rightarrow> bool"
  hs_hash :: "string \<Rightarrow> string"

definition validate_password :: "string \<Rightarrow> bool" where
  "validate_password p \<longleftrightarrow> MIN_PASSWORD_LENGTH \<le> length p \<and> length p \<le> MAX_PASSWORD_LENGTH"

definition verify_password :: "hasher \<Rightarrow> string \<Rightarrow> string \<Rightarrow> bool \<times> string option" where
  "verify_password hs plain stored =
     (if \<not> hs_matches hs plain stored then (False, None)
      else if hs_outdated hs stored then (True, Some (hs_hash hs plain)) else (True, None))"

definition normalize_email :: "string \<Rightarrow> string" where
  "normalize_email e = str_lower (str_strip e)"

subsection \<open>The rate limiter\<close>

definition MAX_ATTEMPTS :: nat where
  "MAX_ATTEMPTS = 10"

definition WINDOW_SECONDS :: time where
  "WINDOW_SECONDS = 15 * 60"

type_synonym limiter = "(string \<times> time list) list"

definition bucket :: "string \<Rightarrow> limiter \<Rightarrow> time list" where
  "bucket key lm = (case map_of lm key of None \<Rightarrow> [] | Some hits \<Rightarrow> hits)"

definition limiter_hit :: "string \<Rightarrow> time \<Rightarrow> limiter \<Rightarrow> bool \<times> limiter" where
  "limiter_hit key now lm =
     (let hits = dropWhile (\<lambda>h. h < now - WINDOW_SECONDS) (bucket key lm) in
      if length hits \<ge> MAX_ATTEMPTS then (False, dset key hits lm) else (True, dset key (hits @ [now]) lm))"

definition limiter_reset :: "string \<Rightarrow> limiter \<Rightarrow> limiter" where
  "limiter_reset key lm = ddel key lm"

definition forget_email :: "string \<Rightarrow> limiter \<Rightarrow> limiter" where
  "forget_email email lm = filter (\<lambda>(k, _). \<not> ends_with ('':'' @ str_lower (str_strip email)) k) lm"

subsection \<open>Sessions\<close>

definition ABSOLUTE_TTL :: time where
  "ABSOLUTE_TTL = 12 * 3600"

definition IDLE_TTL :: time where
  "IDLE_TTL = 30 * 60"

definition LAST_SEEN_REFRESH_INTERVAL :: time where
  "LAST_SEEN_REFRESH_INTERVAL = 60"

definition new_session :: "uid \<Rightarrow> uid \<Rightarrow> uid option \<Rightarrow> string option \<Rightarrow> string option \<Rightarrow> time \<Rightarrow> session_row" where
  "new_session sid u ctx ip agent now =
     \<lparr> ss_id = sid, ss_user = u, ss_context = ctx, ss_created = now, ss_seen = now, ss_absolute = now + ABSOLUTE_TTL,
       ss_idle = now + IDLE_TTL, ss_revoked = None, ss_ip = ip, ss_agent = agent \<rparr>"

definition create_session ::
    "uid \<Rightarrow> uid \<Rightarrow> uid option \<Rightarrow> string option \<Rightarrow> string option \<Rightarrow> time \<Rightarrow> id_db \<Rightarrow> id_db" where
  "create_session sid u ctx ip agent now db =
     db\<lparr> db_sessions := db_sessions db @ [new_session sid u ctx ip agent now] \<rparr>"

definition session_live :: "time \<Rightarrow> session_row \<Rightarrow> bool" where
  "session_live now s \<longleftrightarrow> ss_revoked s = None \<and> now < ss_absolute s \<and> now < ss_idle s"

definition touch_session :: "time \<Rightarrow> session_row \<Rightarrow> session_row" where
  "touch_session now s = s\<lparr> ss_seen := now, ss_idle := now + IDLE_TTL \<rparr>"

text \<open>The idle expiry slides, written back at most once a minute.\<close>

definition resolve_session :: "uid \<Rightarrow> time \<Rightarrow> id_db \<Rightarrow> session_row option \<times> id_db" where
  "resolve_session sid now db =
     (case find (\<lambda>s. ss_id s = sid) (db_sessions db) of
        None \<Rightarrow> (None, db)
      | Some s \<Rightarrow>
          (if \<not> session_live now s then (None, db)
           else if now - ss_seen s < LAST_SEEN_REFRESH_INTERVAL then (Some s, db)
           else (Some (touch_session now s),
                 db\<lparr> db_sessions := update_where (\<lambda>q. ss_id q = sid) (touch_session now) (db_sessions db) \<rparr>)))"

definition revoke_session :: "uid \<Rightarrow> time \<Rightarrow> id_db \<Rightarrow> id_db" where
  "revoke_session sid now db =
     db\<lparr> db_sessions := update_where (\<lambda>s. ss_id s = sid \<and> ss_revoked s = None) (\<lambda>s. s\<lparr> ss_revoked := Some now \<rparr>)
           (db_sessions db) \<rparr>"

definition revoke_all_user_sessions :: "uid \<Rightarrow> uid option \<Rightarrow> time \<Rightarrow> id_db \<Rightarrow> id_db" where
  "revoke_all_user_sessions u keep now db =
     db\<lparr> db_sessions := update_where (\<lambda>s. ss_user s = u \<and> ss_revoked s = None \<and> Some (ss_id s) \<noteq> keep)
           (\<lambda>s. s\<lparr> ss_revoked := Some now \<rparr>) (db_sessions db) \<rparr>"

subsection \<open>Looking users up\<close>

definition lookup_user_by_email :: "string \<Rightarrow> user_row list \<Rightarrow> user_row option" where
  "lookup_user_by_email email us =
     (case find (\<lambda>u. us_email u = email) us of
        Some u \<Rightarrow> Some u
      | None \<Rightarrow>
          (case filter (\<lambda>u. str_lower (us_email u) = normalize_email email) us of
             [u] \<Rightarrow> Some u
           | _ \<Rightarrow> None))"

definition user_of :: "uid \<Rightarrow> id_db \<Rightarrow> user_row option" where
  "user_of u db = find (\<lambda>r. us_id r = u) (db_users db)"

definition cred_of :: "uid \<Rightarrow> id_db \<Rightarrow> cred_row option" where
  "cred_of u db = find (\<lambda>c. cd_user c = u) (db_creds db)"

definition update_cred :: "uid \<Rightarrow> (cred_row \<Rightarrow> cred_row) \<Rightarrow> id_db \<Rightarrow> id_db" where
  "update_cred u f db = db\<lparr> db_creds := update_where (\<lambda>c. cd_user c = u) f (db_creds db) \<rparr>"

subsection \<open>The sign-in service\<close>

definition LOCKOUT_THRESHOLD :: int where
  "LOCKOUT_THRESHOLD = 10"

definition LOCKOUT_DURATION :: time where
  "LOCKOUT_DURATION = 15 * 60"

datatype auth_error = InvalidCredentials | AccountLocked time | PasswordPolicy | TargetMissing

definition cred_locked :: "time \<Rightarrow> cred_row \<Rightarrow> bool" where
  "cred_locked now c \<longleftrightarrow> (case cd_locked_until c of None \<Rightarrow> False | Some l \<Rightarrow> now < l)"

text \<open>A wrong password, at sign-in or at a change: one failure more, and the lock at the threshold.\<close>

definition count_failure :: "time \<Rightarrow> cred_row \<Rightarrow> cred_row" where
  "count_failure now c =
     (let n = cd_failures c + 1 in
      if n \<ge> LOCKOUT_THRESHOLD then c\<lparr> cd_failures := n, cd_locked_until := Some (now + LOCKOUT_DURATION) \<rparr>
      else c\<lparr> cd_failures := n \<rparr>)"

definition locks_now :: "cred_row \<Rightarrow> bool" where
  "locks_now c \<longleftrightarrow> cd_failures c + 1 \<ge> LOCKOUT_THRESHOLD"

definition audit_lockout :: "string \<Rightarrow> time \<Rightarrow> uid option \<Rightarrow> cred_row \<Rightarrow> id_db \<Rightarrow> id_db" where
  "audit_lockout via now t c db =
     (if locks_now c
      then audit_id now ''auth.lockout.triggered'' None t None
        (''user_id='' @ show_int (int (cd_user c)) @ '' failures='' @ show_int (cd_failures c + 1) @ via) db
      else db)"

definition sign_in :: "time \<Rightarrow> string option \<Rightarrow> cred_row \<Rightarrow> cred_row" where
  "sign_in now fresh c =
     c\<lparr> cd_hash := (case fresh of None \<Rightarrow> cd_hash c | Some h \<Rightarrow> h), cd_failures := 0, cd_last_used := Some now,
        cd_locked_until := None \<rparr>"

text \<open>
  The result, the number of password verifications it cost, and the store. The first component of a
  success is the session, the second the user, the third whether the password must be changed.
\<close>

definition authenticate ::
    "hasher \<Rightarrow> uid \<Rightarrow> string \<Rightarrow> string \<Rightarrow> string option \<Rightarrow> string option \<Rightarrow> time \<Rightarrow> id_db
     \<Rightarrow> (auth_error + uid \<times> user_row \<times> bool) \<times> nat \<times> id_db" where
  "authenticate hs sid email password ip agent now db =
     (case lookup_user_by_email (normalize_email email) (db_users db) of
        None \<Rightarrow> (Inl InvalidCredentials, 1, audit_id now ''auth.login.failure'' None None None ''reason=unknown_email'' db)
      | Some u \<Rightarrow>
          (let fail = (\<lambda>why. audit_id now ''auth.login.failure'' (Some (us_id u)) (us_tenant u) None why) in
           if \<not> us_active u then (Inl InvalidCredentials, 1, fail ''reason=inactive_user'' db)
           else case cred_of (us_id u) db of
               None \<Rightarrow> (Inl InvalidCredentials, 1, fail ''reason=no_credential'' db)
             | Some c \<Rightarrow>
                 (if cred_locked now c
                  then (Inl (AccountLocked (the (cd_locked_until c))), 0, fail ''reason=locked'' db)
                  else case verify_password hs password (cd_hash c) of
                      (False, _) \<Rightarrow>
                        (Inl InvalidCredentials, 1,
                         fail ''reason=bad_password''
                           (audit_lockout [] now (us_tenant u) c (update_cred (us_id u) (count_failure now) db)))
                    | (True, fresh) \<Rightarrow>
                        (Inr (sid, u, cd_must_change c), 1,
                         audit_id now ''auth.login.success'' (Some (us_id u)) (us_tenant u) None []
                           (create_session sid (us_id u) (if us_type u = ''tenant'' then us_tenant u else None) ip agent now
                             (update_cred (us_id u) (sign_in now fresh) db))))))"

definition set_password :: "string \<Rightarrow> bool \<Rightarrow> time \<Rightarrow> cred_row \<Rightarrow> cred_row" where
  "set_password h must now c =
     c\<lparr> cd_hash := h, cd_must_change := must, cd_updated := now, cd_failures := 0, cd_locked_until := None \<rparr>"

definition change_password ::
    "hasher \<Rightarrow> uid \<Rightarrow> uid \<Rightarrow> string \<Rightarrow> string \<Rightarrow> time \<Rightarrow> id_db \<Rightarrow> (auth_error + unit) \<times> id_db" where
  "change_password hs u sid old new now db =
     (if \<not> validate_password new then (Inl PasswordPolicy, db)
      else case cred_of u db of
          None \<Rightarrow> (Inl InvalidCredentials, db)
        | Some c \<Rightarrow>
            (let t = (case user_of u db of None \<Rightarrow> None | Some r \<Rightarrow> us_tenant r);
                 fail = (\<lambda>why. audit_id now ''auth.password.change.failure'' (Some u) t None why)
             in if cred_locked now c then (Inl (AccountLocked (the (cd_locked_until c))), fail ''reason=locked'' db)
                else if \<not> fst (verify_password hs old (cd_hash c))
                then (Inl InvalidCredentials,
                      fail ''reason=bad_password''
                        ((if locks_now c then revoke_all_user_sessions u None now else id)
                          (audit_lockout '' via=password_change'' now t c (update_cred u (count_failure now) db))))
                else if new = old then (Inl PasswordPolicy, db)
                else (Inr (),
                      audit_id now ''auth.password.changed'' (Some u) t None []
                        (revoke_all_user_sessions u (Some sid) now
                          (update_cred u (set_password (hs_hash hs new) False now) db)))))"

definition admin_reset_password ::
    "hasher \<Rightarrow> uid \<Rightarrow> uid \<Rightarrow> string \<Rightarrow> time \<Rightarrow> limiter \<Rightarrow> id_db \<Rightarrow> (auth_error + string) \<times> limiter \<times> id_db" where
  "admin_reset_password hs actor u plain now lm db =
     (case user_of u db of
        None \<Rightarrow> (Inl TargetMissing, lm, db)
      | Some target \<Rightarrow>
          (let db1 = (case cred_of u db of
                        None \<Rightarrow> db\<lparr> db_creds := db_creds db @
                          [\<lparr> cd_user = u, cd_hash = hs_hash hs plain, cd_must_change = True, cd_updated = now,
                             cd_last_used = None, cd_failures = 0, cd_locked_until = None \<rparr>] \<rparr>
                      | Some c \<Rightarrow> update_cred u (set_password (hs_hash hs plain) True now) db)
           in (Inr plain, forget_email (us_email target) lm,
               audit_id now ''auth.password.reset.admin'' (Some actor) (us_tenant target) (Some u) []
                 (revoke_all_user_sessions u None now db1))))"

definition logout_session :: "uid \<Rightarrow> uid \<Rightarrow> uid option \<Rightarrow> time \<Rightarrow> id_db \<Rightarrow> id_db" where
  "logout_session sid u t now db = audit_id now ''auth.logout'' (Some u) t None [] (revoke_session sid now db)"

end
