(* ===== verification/Id_Routes.thy ===== *)
theory Id_Routes
  imports Id_Store Ir_Policies
begin

text \<open>
  The origin check (\<open>core/auth/config.py\<close>, \<open>core/auth/csrf.py\<close>), the middleware that turns a session
  cookie into an identity (\<open>core/auth/middleware.py\<close>) and the routes of sign-in, sign-out, tenant
  pin and password change (\<open>core/api/auth.py\<close>). A handler returns what its transaction comes to.
\<close>

subsection \<open>Trusted origins\<close>

record web_env =
  we_origin :: "string option"
  we_base :: "string option"

definition public_origins :: "web_env \<Rightarrow> string list" where
  "public_origins we =
     (let raw = str_strip (env_text (we_origin we)) in
      if raw = [] then [] else filter (\<lambda>p. p \<noteq> []) (map str_strip (str_split (CHR '','') raw)))"

definition public_origin :: "web_env \<Rightarrow> string option" where
  "public_origin we = (case public_origins we of [] \<Rightarrow> None | p # _ \<Rightarrow> Some p)"

definition public_origin_wildcard_base :: "web_env \<Rightarrow> string option" where
  "public_origin_wildcard_base we =
     (case we_base we of
        None \<Rightarrow> None
      | Some v \<Rightarrow> if v = [] then None else Some (str_lstrip ''.'' (str_strip v)))"

text \<open>The comparison with the wildcard can raise: a port of the origin that is no port.\<close>

definition matches_wildcard :: "string \<Rightarrow> string \<Rightarrow> string \<Rightarrow> bool py" where
  "matches_wildcard base canonical origin = do {
     c \<leftarrow> urlsplit canonical;
     p \<leftarrow> urlsplit origin;
     if url_scheme p \<noteq> url_scheme c then Some False
     else do {
       pp \<leftarrow> url_port p;
       cp \<leftarrow> url_port c;
       if pp \<noteq> cp then Some False
       else (let host = str_lower (case url_host p of None \<Rightarrow> [] | Some h \<Rightarrow> h)
             in Some (host \<noteq> str_lower base \<and> ends_with (''.'' @ str_lower base) host)) } }"

definition origin_is_trusted :: "web_env \<Rightarrow> string \<Rightarrow> bool py" where
  "origin_is_trusted we origin =
     (if origin = [] then Some False
      else if origin \<in> set (public_origins we) then Some True
      else case public_origin_wildcard_base we of
          None \<Rightarrow> Some False
        | Some base \<Rightarrow>
            (case public_origins we of
               [] \<Rightarrow> Some False
             | canonical # _ \<Rightarrow> if base = [] then Some False else matches_wildcard base canonical origin))"

definition STATE_CHANGING_METHODS :: "string list" where
  "STATE_CHANGING_METHODS = [''POST'', ''PUT'', ''PATCH'', ''DELETE'']"

definition origin_of :: "string \<Rightarrow> string py" where
  "origin_of u = do {
     p \<leftarrow> urlsplit u;
     (case url_host p of
        None \<Rightarrow> Some []
      | Some h \<Rightarrow>
          (if url_scheme p = [] then Some []
           else do {
             port \<leftarrow> url_port p;
             Some (url_scheme p @ ''://'' @ h @
                   (case port of None \<Rightarrow> [] | Some n \<Rightarrow> if n = 0 then [] else '':'' @ show_int n)) })) }"

datatype cookie = NoCookie | EmptyCookie | BadCookie | SessionCookie uid

record web_request =
  wr_method :: string
  wr_path :: string
  wr_cookie :: cookie
  wr_origin :: "string option"
  wr_referer :: "string option"
  wr_ip :: "string option"
  wr_agent :: "string option"

definition request_origin_is_trusted :: "web_env \<Rightarrow> web_request \<Rightarrow> bool py" where
  "request_origin_is_trusted we rq =
     (if str_upper (wr_method rq) \<notin> set STATE_CHANGING_METHODS then Some True
      else if wr_cookie rq = NoCookie then Some True
      else if public_origin we = None then Some False
      else if env_text (wr_origin rq) \<noteq> [] then origin_is_trusted we (env_text (wr_origin rq))
      else if env_text (wr_referer rq) \<noteq> [] then do { x \<leftarrow> origin_of (env_text (wr_referer rq)); origin_is_trusted we x }
      else Some False)"

subsection \<open>The middleware\<close>

record request_state =
  rx_identity :: user_identity
  rx_email :: string
  rx_current :: "uid option"
  rx_session :: uid

datatype gate = Rejected failure | Anonymous | Known request_state

definition MUST_CHANGE_WHITELIST :: "(string \<times> string) list" where
  "MUST_CHANGE_WHITELIST =
     [(''GET'', ''/api/auth/me''), (''POST'', ''/api/auth/password/change''), (''POST'', ''/api/auth/logout'')]"

definition must_change_whitelisted :: "string \<Rightarrow> string \<Rightarrow> bool" where
  "must_change_whitelisted meth p \<longleftrightarrow> (str_upper meth, p) \<in> set MUST_CHANGE_WHITELIST"

definition identity_of :: "user_row \<Rightarrow> user_identity" where
  "identity_of u = \<lparr> id_user = us_id u, id_user_type = Some (us_type u), id_role = Some (us_role u), id_tenant = us_tenant u \<rparr>"

definition must_change :: "uid \<Rightarrow> id_db \<Rightarrow> bool" where
  "must_change u db \<longleftrightarrow> (case cred_of u db of None \<Rightarrow> False | Some c \<Rightarrow> cd_must_change c)"

definition session_middleware :: "web_env \<Rightarrow> web_request \<Rightarrow> time \<Rightarrow> id_db \<Rightarrow> gate \<times> id_db" where
  "session_middleware we rq now db =
     (case request_origin_is_trusted we rq of
        None \<Rightarrow> (Rejected Raised, db)
      | Some False \<Rightarrow> (Rejected (Http 403), db)
      | Some True \<Rightarrow>
          (case wr_cookie rq of
             SessionCookie sid \<Rightarrow>
               (case resolve_session sid now db of
                  (None, db1) \<Rightarrow> (Anonymous, db1)
                | (Some s, db1) \<Rightarrow>
                    (case find (\<lambda>u. us_id u = ss_user s \<and> visible_user (ss_context s) u) (db_users db1) of
                       None \<Rightarrow> (Anonymous, db1)
                     | Some u \<Rightarrow>
                         (if \<not> us_active u then (Anonymous, db1)
                          else if must_change (us_id u) db1 \<and> \<not> must_change_whitelisted (wr_method rq) (wr_path rq)
                          then (Rejected (Http 403), db1)
                          else (Known \<lparr> rx_identity = identity_of u, rx_email = us_email u,
                                        rx_current = (if ss_context s = None \<and> us_type u = ''tenant'' then us_tenant u
                                                      else ss_context s),
                                        rx_session = sid \<rparr>, db1))))
           | _ \<Rightarrow> (Anonymous, db)))"

text \<open>The handler under the middleware, and the store the request leaves behind.\<close>

definition serve ::
    "web_env \<Rightarrow> web_request \<Rightarrow> time \<Rightarrow> (request_state option \<Rightarrow> id_db \<Rightarrow> 'a outcome) \<Rightarrow> id_db \<Rightarrow> 'a outcome" where
  "serve we rq now h db =
     (case session_middleware we rq now db of
        (Rejected f, _) \<Rightarrow> Refuses f
      | (Anonymous, db1) \<Rightarrow> h None db1
      | (Known st, db1) \<Rightarrow> h (Some st) db1)"

subsection \<open>Signing in and out\<close>

record login_payload =
  lg_email :: string
  lg_password :: string
  lg_slug :: "string option"

definition login_valid :: "login_payload \<Rightarrow> bool" where
  "login_valid p \<longleftrightarrow> length (lg_email p) \<le> 320 \<and> 1 \<le> length (lg_password p) \<and> length (lg_password p) \<le> 4096 \<and>
     length (env_text (lg_slug p)) \<le> 64"

definition rate_key :: "web_request \<Rightarrow> string \<Rightarrow> string" where
  "rate_key rq email = (case wr_ip rq of None \<Rightarrow> ''unknown'' | Some ip \<Rightarrow> if ip = [] then ''unknown'' else ip) @
     '':'' @ normalize_email email"

definition pin_session :: "uid \<Rightarrow> uid option \<Rightarrow> id_db \<Rightarrow> id_db" where
  "pin_session sid ctx db =
     db\<lparr> db_sessions := update_where (\<lambda>s. ss_id s = sid) (\<lambda>s. s\<lparr> ss_context := ctx \<rparr>) (db_sessions db) \<rparr>"

definition login_pin :: "login_payload \<Rightarrow> uid \<Rightarrow> user_row \<Rightarrow> id_db \<Rightarrow> failure + id_db" where
  "login_pin p sid u db =
     (if env_text (lg_slug p) = [] then Inr db
      else case map_of (db_slugs db) (env_text (lg_slug p)) of
          None \<Rightarrow> Inl (Http 404)
        | Some t \<Rightarrow> if us_type u = ''tenant'' \<and> us_tenant u \<noteq> Some t then Inl (Http 403) else Inr (pin_session sid (Some t) db))"

definition login ::
    "hasher \<Rightarrow> web_request \<Rightarrow> login_payload \<Rightarrow> uid \<Rightarrow> time \<Rightarrow> limiter \<Rightarrow> id_db \<Rightarrow> limiter \<times> (uid \<times> bool) outcome" where
  "login hs rq p sid now lm db =
     (if \<not> login_valid p then (lm, Refuses (Http 422))
      else
        (let key = rate_key rq (lg_email p); (ok, lm1) = limiter_hit key now lm in
         if \<not> ok then (lm1, Refuses (Http 429))
         else case authenticate hs sid (lg_email p) (lg_password p) (wr_ip rq) (wr_agent rq) now db of
             (Inl (AccountLocked l), _, db1) \<Rightarrow> (lm1, Records (Http 423) db1)
           | (Inl _, _, db1) \<Rightarrow> (lm1, Records (Http 401) db1)
           | (Inr (s, u, must), _, db1) \<Rightarrow>
               (case login_pin p s u db1 of
                  Inl e \<Rightarrow> (lm1, Refuses e)
                | Inr db2 \<Rightarrow> (limiter_reset key lm1, Succeeds (s, must) db2))))"

definition logout :: "time \<Rightarrow> request_state option \<Rightarrow> id_db \<Rightarrow> unit outcome" where
  "logout now who db =
     (case who of
        None \<Rightarrow> Succeeds () db
      | Some st \<Rightarrow>
          Succeeds () (logout_session (rx_session st) (id_user (rx_identity st))
            (case rx_current st of None \<Rightarrow> id_tenant (rx_identity st) | Some t \<Rightarrow> Some t) now db))"

subsection \<open>The tenant pin\<close>

datatype tenant_ref = NoRef | BadRef | TenantRef uid

definition assumed_tenant :: "string option \<Rightarrow> tenant_ref \<Rightarrow> id_db \<Rightarrow> failure + uid option" where
  "assumed_tenant slug ref db =
     (if env_text slug \<noteq> []
      then (case map_of (db_slugs db) (env_text slug) of None \<Rightarrow> Inl (Http 404) | Some t \<Rightarrow> Inr (Some t))
      else case ref of
          NoRef \<Rightarrow> Inr None
        | BadRef \<Rightarrow> Inl (Http 400)
        | TenantRef t \<Rightarrow> if t \<in> snd ` set (db_slugs db) then Inr (Some t) else Inl (Http 404))"

definition audit_pin :: "time \<Rightarrow> uid \<Rightarrow> uid option \<Rightarrow> uid option \<Rightarrow> id_db \<Rightarrow> id_db" where
  "audit_pin now user previous target db =
     (case target of
        Some t \<Rightarrow> if target = previous then db
          else audit_id now ''user.impersonate'' (Some user) (Some t) (Some t)
            (''tenant pin set; previous='' @ (case previous of None \<Rightarrow> ''none'' | Some q \<Rightarrow> show_int (int q))) db
      | None \<Rightarrow>
          (case previous of
             None \<Rightarrow> db
           | Some t \<Rightarrow> audit_id now ''user.impersonate'' (Some user) (Some t) (Some t) ''tenant pin cleared'' db))"

definition assume_tenant :: "string option \<Rightarrow> tenant_ref \<Rightarrow> time \<Rightarrow> request_state option \<Rightarrow> id_db \<Rightarrow> uid option outcome" where
  "assume_tenant slug ref now who db =
     (case who of
        None \<Rightarrow> Refuses (Http 401)
      | Some st \<Rightarrow>
          (if id_user_type (rx_identity st) \<noteq> Some ''mssp'' then Refuses (Http 403)
           else case assumed_tenant slug ref db of
               Inl e \<Rightarrow> Refuses e
             | Inr target \<Rightarrow>
                 (case find (\<lambda>s. ss_id s = rx_session st) (db_sessions db) of
                    None \<Rightarrow> Refuses (Http 401)
                  | Some s \<Rightarrow>
                      Succeeds target (audit_pin now (id_user (rx_identity st)) (ss_context s) target
                        (pin_session (rx_session st) target db)))))"

subsection \<open>Changing one's password\<close>

definition password_change ::
    "hasher \<Rightarrow> string \<Rightarrow> string \<Rightarrow> time \<Rightarrow> request_state option \<Rightarrow> id_db \<Rightarrow> unit outcome" where
  "password_change hs old new now who db =
     (if old = [] \<or> new = [] \<or> length old > 4096 \<or> length new > 4096 then Refuses (Http 422)
      else case who of
        None \<Rightarrow> Refuses (Http 401)
      | Some st \<Rightarrow>
          (case change_password hs (id_user (rx_identity st)) (rx_session st) old new now db of
             (Inl (AccountLocked l), db1) \<Rightarrow> Records (Http 423) db1
           | (Inl InvalidCredentials, db1) \<Rightarrow> Records (Http 400) db1
           | (Inl _, _) \<Rightarrow> Refuses (Http 400)
           | (Inr _, db1) \<Rightarrow> Succeeds () db1))"

end
