(* ===== verification/Id_Admin.thy ===== *)
theory Id_Admin
  imports Id_Routes
begin

text \<open>
  User administration: the shared guards (\<open>core/api/user_admin.py\<close>), MSSP staff
  (\<open>core/api/mssp_users.py\<close>), tenant self-service (\<open>core/api/users.py\<close>) and the administrator's
  password reset (\<open>core/api/auth.py\<close>).
\<close>

subsection \<open>Shared guards\<close>

definition TENANT_ASSIGNABLE_ROLES :: "string list" where
  "TENANT_ASSIGNABLE_ROLES = [''customer_viewer'', ''tenant_analyst'', ''tenant_manager'', ''tenant_admin'']"

definition MSSP_ASSIGNABLE_ROLES :: "string list" where
  "MSSP_ASSIGNABLE_ROLES = [''analyst'', ''mssp_manager'', ''mssp_admin'', ''platform_admin'']"

definition admin_roles :: "audience \<Rightarrow> string list" where
  "admin_roles a = (case a of Mssp \<Rightarrow> [''platform_admin'', ''mssp_admin''] | Tenant \<Rightarrow> [''tenant_admin''])"

text \<open>\<open>None\<close> is the \<open>ValueError\<close>, which the request model turns into a 422.\<close>

definition validate_email :: "string \<Rightarrow> string option" where
  "validate_email raw =
     (let v = normalize_email raw; local = str_before (CHR ''@'') v; domain = str_after (CHR ''@'') v in
      if list_ex (\<lambda>c. is_space c \<or> c < CHR 0x20) v then None
      else if CHR ''@'' \<notin> set v \<or> local = [] \<or> CHR ''.'' \<notin> set domain \<or> hd domain = CHR ''.'' \<or> last domain = CHR ''.'' \<or>
              CHR ''@'' \<in> set domain
      then None else Some v)"

definition is_platform_admin :: "user_identity \<Rightarrow> bool" where
  "is_platform_admin i \<longleftrightarrow> id_role i = Some ''platform_admin''"

definition assert_role_assignable :: "user_identity \<Rightarrow> string \<Rightarrow> audience \<Rightarrow> failure + unit" where
  "assert_role_assignable i role a =
     (if role \<notin> set (case a of Mssp \<Rightarrow> MSSP_ASSIGNABLE_ROLES | Tenant \<Rightarrow> TENANT_ASSIGNABLE_ROLES) then Inl (Http 422)
      else if role = ''platform_admin'' \<and> \<not> is_platform_admin i then Inl (Http 403) else Inr ())"

definition assert_target_not_protected :: "user_identity \<Rightarrow> string \<Rightarrow> failure + unit" where
  "assert_target_not_protected i role =
     (if role = ''platform_admin'' \<and> \<not> is_platform_admin i then Inl (Http 403) else Inr ())"

definition in_audience :: "audience \<Rightarrow> uid option \<Rightarrow> user_row \<Rightarrow> bool" where
  "in_audience a t u \<longleftrightarrow>
     us_type u = user_type_of a \<and> us_tenant u = (case a of Mssp \<Rightarrow> None | Tenant \<Rightarrow> t)"

definition active_admins :: "audience \<Rightarrow> uid option \<Rightarrow> user_row list \<Rightarrow> (uid \<times> string) list" where
  "active_admins a t us =
     map (\<lambda>u. (us_id u, us_role u))
       (filter (\<lambda>u. us_active u \<and> us_role u \<in> set (admin_roles a) \<and> in_audience a t u) us)"

definition guard_admin_floor ::
    "audience \<Rightarrow> uid option \<Rightarrow> uid \<Rightarrow> string \<Rightarrow> bool \<Rightarrow> user_row list \<Rightarrow> failure + unit" where
  "guard_admin_floor a t target final_role final_active us =
     (let cur = active_admins a t us;
          post = (if final_active \<and> final_role \<in> set (admin_roles a)
                  then dset target final_role cur else ddel target cur)
      in if cur \<noteq> [] \<and> post = [] then Inl (Http 409)
         else if a = Mssp \<and> ''platform_admin'' \<in> snd ` set cur \<and> ''platform_admin'' \<notin> snd ` set post then Inl (Http 409)
         else Inr ())"

definition revoke_sessions_if_needed :: "uid \<Rightarrow> bool \<Rightarrow> bool \<Rightarrow> time \<Rightarrow> id_db \<Rightarrow> id_db" where
  "revoke_sessions_if_needed u role_changed deactivated now db =
     (if role_changed \<or> deactivated then revoke_all_user_sessions u None now db else db)"

definition update_user :: "uid \<Rightarrow> (user_row \<Rightarrow> user_row) \<Rightarrow> id_db \<Rightarrow> id_db" where
  "update_user u f db = db\<lparr> db_users := update_where (\<lambda>r. us_id r = u) f (db_users db) \<rparr>"

subsection \<open>Requests\<close>

record user_patch =
  pa_role :: "string option"
  pa_name :: "string option"
  pa_active :: "bool option"

definition apply_user_patch :: "user_patch \<Rightarrow> user_row \<Rightarrow> user_row" where
  "apply_user_patch p u =
     u\<lparr> us_role := (case pa_role p of None \<Rightarrow> us_role u | Some r \<Rightarrow> r),
        us_active := (case pa_active p of None \<Rightarrow> us_active u | Some b \<Rightarrow> b),
        us_name := (case pa_name p of None \<Rightarrow> us_name u | Some n \<Rightarrow> n) \<rparr>"

definition new_user :: "uid \<Rightarrow> string \<Rightarrow> string option \<Rightarrow> string \<Rightarrow> string \<Rightarrow> uid option \<Rightarrow> user_row" where
  "new_user u email name typ role t =
     \<lparr> us_id = u, us_email = email,
       us_name = (case name of None \<Rightarrow> str_before (CHR ''@'') email
                  | Some n \<Rightarrow> if n = [] then str_before (CHR ''@'') email else n),
       us_type = typ, us_role = role, us_tenant = t, us_active = True \<rparr>"

definition insert_user :: "hasher \<Rightarrow> user_row \<Rightarrow> string \<Rightarrow> time \<Rightarrow> id_db \<Rightarrow> id_db option" where
  "insert_user hs u plain now db =
     (if us_email u \<in> us_email ` set (db_users db) then None
      else Some (db\<lparr> db_users := db_users db @ [u],
                     db_creds := db_creds db @
                       [\<lparr> cd_user = us_id u, cd_hash = hs_hash hs plain, cd_must_change = True, cd_updated = now,
                          cd_last_used = None, cd_failures = 0, cd_locked_until = None \<rparr>] \<rparr>))"

text \<open>The handlers after their guard: an identity is there.\<close>

definition guarded :: "failure + unit \<Rightarrow> request_state option \<Rightarrow> (user_identity \<Rightarrow> 'a outcome) \<Rightarrow> 'a outcome" where
  "guarded g who h =
     (case g of
        Inl e \<Rightarrow> Refuses e
      | Inr _ \<Rightarrow> (case who of None \<Rightarrow> Refuses (Http 401) | Some st \<Rightarrow> h (rx_identity st)))"

definition checked :: "failure + unit \<Rightarrow> 'a outcome \<Rightarrow> 'a outcome" where
  "checked c out = (case c of Inl e \<Rightarrow> Refuses e | Inr _ \<Rightarrow> out)"

definition mssp_guard :: "request_state option \<Rightarrow> failure + unit" where
  "mssp_guard who = require_permission [MANAGE_USERS] Mssp (map_option rx_identity who)"

definition tenant_guard :: "request_state option \<Rightarrow> failure + unit" where
  "tenant_guard who = require_permission [TENANT_MANAGE_USERS] Tenant (map_option rx_identity who)"

subsection \<open>MSSP staff\<close>

definition mssp_target :: "uid \<Rightarrow> id_db \<Rightarrow> user_row option" where
  "mssp_target u db = find (\<lambda>r. us_id r = u \<and> in_audience Mssp None r) (db_users db)"

definition create_mssp_user ::
    "hasher \<Rightarrow> uid \<Rightarrow> string \<Rightarrow> string \<Rightarrow> string \<Rightarrow> string option \<Rightarrow> time \<Rightarrow> request_state option \<Rightarrow> id_db \<Rightarrow> user_row outcome" where
  "create_mssp_user hs uid plain email role name now who db =
     (case validate_email email of
        None \<Rightarrow> Refuses (Http 422)
      | Some e \<Rightarrow>
          guarded (mssp_guard who) who (\<lambda>i.
            checked (assert_role_assignable i role Mssp)
              (let u = new_user uid e name ''mssp'' role None in
               case insert_user hs u plain now db of
                 None \<Rightarrow> Refuses (Http 409)
               | Some db1 \<Rightarrow> Succeeds u (audit_id now ''user.create'' (Some (id_user i)) None (Some uid) ''mssp staff user creation'' db1))))"

definition final_state :: "user_patch \<Rightarrow> user_row \<Rightarrow> string \<times> bool" where
  "final_state p u = (us_role (apply_user_patch p u), us_active (apply_user_patch p u))"

definition update_mssp_user ::
    "uid \<Rightarrow> user_patch \<Rightarrow> time \<Rightarrow> request_state option \<Rightarrow> id_db \<Rightarrow> user_row outcome" where
  "update_mssp_user uid p now who db =
     guarded (mssp_guard who) who (\<lambda>i.
       if id_user i = uid then Refuses (Http 400)
       else if pa_role p = None \<and> pa_name p = None \<and> pa_active p = None then Refuses (Http 400)
       else checked (case pa_role p of None \<Rightarrow> Inr () | Some r \<Rightarrow> assert_role_assignable i r Mssp)
         (case mssp_target uid db of
            None \<Rightarrow> Refuses (Http 404)
          | Some u \<Rightarrow>
              checked (assert_target_not_protected i (us_role u))
                (checked (guard_admin_floor Mssp None uid (fst (final_state p u)) (snd (final_state p u)) (db_users db))
                  (Succeeds (apply_user_patch p u)
                    (audit_id now ''user.update'' (Some (id_user i)) None (Some uid) []
                      (revoke_sessions_if_needed uid
                        (pa_role p \<noteq> None \<and> fst (final_state p u) \<noteq> us_role u)
                        (\<not> snd (final_state p u) \<and> us_active u) now
                        (update_user uid (apply_user_patch p) db)))))))"

definition deactivate_mssp_user :: "uid \<Rightarrow> time \<Rightarrow> request_state option \<Rightarrow> id_db \<Rightarrow> uid outcome" where
  "deactivate_mssp_user uid now who db =
     guarded (mssp_guard who) who (\<lambda>i.
       if id_user i = uid then Refuses (Http 400)
       else case mssp_target uid db of
           None \<Rightarrow> Refuses (Http 404)
         | Some u \<Rightarrow>
             checked (assert_target_not_protected i (us_role u))
               (checked (guard_admin_floor Mssp None uid (us_role u) False (db_users db))
                 (Succeeds uid
                   (audit_id now ''user.delete'' (Some (id_user i)) None (Some uid) ''mssp staff deactivation''
                     (revoke_sessions_if_needed uid False True now
                       (update_user uid (\<lambda>r. r\<lparr> us_active := False \<rparr>) db))))))"

text \<open>The reset runs on the session of the request, under the policy of the caller's pin.\<close>

definition admin_reset ::
    "hasher \<Rightarrow> uid \<Rightarrow> string \<Rightarrow> time \<Rightarrow> limiter \<Rightarrow> request_state option \<Rightarrow> id_db \<Rightarrow> limiter \<times> string outcome" where
  "admin_reset hs uid plain now lm who db =
     (case mssp_guard who of
        Inl e \<Rightarrow> (lm, Refuses e)
      | Inr _ \<Rightarrow>
          (case who of
             None \<Rightarrow> (lm, Refuses (Http 401))
           | Some st \<Rightarrow>
               (case find (\<lambda>r. us_id r = uid \<and> visible_user (rx_current st) r) (db_users db) of
                  None \<Rightarrow> (lm, Refuses (Http 404))
                | Some target \<Rightarrow>
                    (if us_type target \<noteq> ''mssp'' \<or> us_tenant target \<noteq> None then (lm, Refuses (Http 404))
                     else case assert_target_not_protected (rx_identity st) (us_role target) of
                         Inl e \<Rightarrow> (lm, Refuses e)
                       | Inr _ \<Rightarrow>
                           (if \<not> list_ex (\<lambda>r. us_id r = id_user (rx_identity st) \<and> visible_user (rx_current st) r) (db_users db)
                            then (lm, Refuses (Http 500))
                            else case admin_reset_password hs (id_user (rx_identity st)) uid plain now lm db of
                                (Inl _, lm1, _) \<Rightarrow> (lm1, Refuses Raised)
                              | (Inr pw, lm1, db1) \<Rightarrow> (lm1, Succeeds pw db1))))))"

subsection \<open>Tenant self-service\<close>

text \<open>Rows of the tenant, or of no tenant, whose type is \<open>tenant\<close>.\<close>

definition tenant_target :: "uid \<Rightarrow> uid \<Rightarrow> id_db \<Rightarrow> user_row option" where
  "tenant_target t u db = find (\<lambda>r. us_id r = u \<and> us_type r = ''tenant'' \<and> visible_user (Some t) r) (db_users db)"

definition with_tenant :: "user_identity \<Rightarrow> (uid \<Rightarrow> 'a outcome) \<Rightarrow> 'a outcome" where
  "with_tenant i h = (case id_tenant i of None \<Rightarrow> Refuses (Http 400) | Some t \<Rightarrow> h t)"

definition create_tenant_user ::
    "hasher \<Rightarrow> uid \<Rightarrow> string \<Rightarrow> string \<Rightarrow> string \<Rightarrow> string option \<Rightarrow> time \<Rightarrow> request_state option \<Rightarrow> id_db \<Rightarrow> user_row outcome" where
  "create_tenant_user hs uid plain email role name now who db =
     (case validate_email email of
        None \<Rightarrow> Refuses (Http 422)
      | Some e \<Rightarrow>
          guarded (tenant_guard who) who (\<lambda>i.
            checked (assert_role_assignable i role Tenant)
              (with_tenant i (\<lambda>t.
                let u = new_user uid e name ''tenant'' role (Some t) in
                case insert_user hs u plain now db of
                  None \<Rightarrow> Refuses (Http 409)
                | Some db1 \<Rightarrow>
                    Succeeds u (audit_id now ''user.create'' (Some (id_user i)) (Some t) (Some uid)
                      ''tenant self-service user creation'' db1)))))"

definition update_tenant_user ::
    "uid \<Rightarrow> user_patch \<Rightarrow> time \<Rightarrow> request_state option \<Rightarrow> id_db \<Rightarrow> user_row outcome" where
  "update_tenant_user uid p now who db =
     guarded (tenant_guard who) who (\<lambda>i.
       if id_user i = uid then Refuses (Http 400)
       else if pa_role p = None \<and> pa_name p = None \<and> pa_active p = None then Refuses (Http 400)
       else checked (case pa_role p of None \<Rightarrow> Inr () | Some r \<Rightarrow> assert_role_assignable i r Tenant)
         (with_tenant i (\<lambda>t.
           case tenant_target t uid db of
             None \<Rightarrow> Refuses (Http 404)
           | Some u \<Rightarrow>
               checked (guard_admin_floor Tenant (Some t) uid (fst (final_state p u)) (snd (final_state p u)) (db_users db))
                 (Succeeds (apply_user_patch p u)
                   (revoke_sessions_if_needed uid
                     (pa_role p \<noteq> None \<and> fst (final_state p u) \<noteq> us_role u)
                     (\<not> snd (final_state p u) \<and> us_active u) now
                     (audit_id now ''user.update'' (Some (id_user i)) (Some t) (Some uid) []
                       (update_user uid (apply_user_patch p) db)))))))"

definition deactivate_tenant_user :: "uid \<Rightarrow> time \<Rightarrow> request_state option \<Rightarrow> id_db \<Rightarrow> uid outcome" where
  "deactivate_tenant_user uid now who db =
     guarded (tenant_guard who) who (\<lambda>i.
       if id_user i = uid then Refuses (Http 400)
       else with_tenant i (\<lambda>t.
         case tenant_target t uid db of
           None \<Rightarrow> Refuses (Http 404)
         | Some u \<Rightarrow>
             checked (guard_admin_floor Tenant (Some t) uid (us_role u) False (db_users db))
               (Succeeds uid
                 (revoke_sessions_if_needed uid False True now
                   (audit_id now ''user.delete'' (Some (id_user i)) (Some t) (Some uid) ''tenant self-service deactivation''
                     (update_user uid (\<lambda>r. r\<lparr> us_active := False \<rparr>) db))))))"

text \<open>\<open>internal\<close> is the authentication mode of the installation.\<close>

definition reset_tenant_user_password ::
    "bool \<Rightarrow> hasher \<Rightarrow> uid \<Rightarrow> string \<Rightarrow> time \<Rightarrow> limiter \<Rightarrow> request_state option \<Rightarrow> id_db \<Rightarrow> limiter \<times> string outcome" where
  "reset_tenant_user_password internal hs uid plain now lm who db =
     (case tenant_guard who of
        Inl e \<Rightarrow> (lm, Refuses e)
      | Inr _ \<Rightarrow>
          (case who of
             None \<Rightarrow> (lm, Refuses (Http 401))
           | Some st \<Rightarrow>
               (if \<not> internal then (lm, Refuses (Http 404))
                else if id_user (rx_identity st) = uid then (lm, Refuses (Http 400))
                else case id_tenant (rx_identity st) of
                    None \<Rightarrow> (lm, Refuses (Http 400))
                  | Some t \<Rightarrow>
                      (case find (\<lambda>r. us_id r = uid \<and> in_audience Tenant (Some t) r) (db_users db) of
                         None \<Rightarrow> (lm, Refuses (Http 404))
                       | Some u \<Rightarrow>
                           (if \<not> us_active u then (lm, Refuses (Http 409))
                            else if \<not> list_ex (\<lambda>r. us_id r = id_user (rx_identity st) \<and> visible_user (Some t) r) (db_users db)
                            then (lm, Refuses (Http 500))
                            else case admin_reset_password hs (id_user (rx_identity st)) uid plain now lm db of
                                (Inl _, lm1, _) \<Rightarrow> (lm1, Refuses Raised)
                              | (Inr pw, lm1, db1) \<Rightarrow> (lm1, Succeeds pw db1))))))"

end
