(* ===== verification/Id_Plane.thy ===== *)
theory Id_Plane
  imports Id_Admin Ir_Plane
begin

text \<open>
  The identity plane as a step relation: requests under the middleware, the clock, a restart of the
  process, which forgets the rate limiter, and the other writers of the store. The effect of a request
  is read table by table, as the life of a session, the move of a credential with its audit entries,
  and the change of a user.
\<close>

subsection \<open>Requests\<close>

datatype id_request =
    Login login_payload uid
  | Logout
  | AssumeTenant "string option" tenant_ref
  | PasswordChange string string
  | CreateStaff uid string string string "string option"
  | UpdateStaff uid user_patch
  | DeactivateStaff uid
  | ResetStaff uid string
  | CreateTenantUser uid string string string "string option"
  | UpdateTenantUser uid user_patch
  | DeactivateTenantUser uid
  | ResetTenantUser uid string
  | OtherRequest bool

fun done_outcome :: "'a outcome \<Rightarrow> unit outcome" where
  "done_outcome (Succeeds x db) = Succeeds () db"
| "done_outcome (Refuses e) = Refuses e"
| "done_outcome (Records e db) = Records e db"

fun handle_request ::
    "hasher \<Rightarrow> web_request \<Rightarrow> id_request \<Rightarrow> time \<Rightarrow> limiter \<Rightarrow> request_state option \<Rightarrow> id_db \<Rightarrow> limiter \<times> unit outcome" where
  "handle_request hs rq (Login p sid) now lm who db = map_prod id done_outcome (login hs rq p sid now lm db)"
| "handle_request hs rq Logout now lm who db = (lm, logout now who db)"
| "handle_request hs rq (AssumeTenant slug ref) now lm who db = (lm, done_outcome (assume_tenant slug ref now who db))"
| "handle_request hs rq (PasswordChange old new) now lm who db = (lm, password_change hs old new now who db)"
| "handle_request hs rq (CreateStaff u plain email role name) now lm who db =
     (lm, done_outcome (create_mssp_user hs u plain email role name now who db))"
| "handle_request hs rq (UpdateStaff u p) now lm who db = (lm, done_outcome (update_mssp_user u p now who db))"
| "handle_request hs rq (DeactivateStaff u) now lm who db = (lm, done_outcome (deactivate_mssp_user u now who db))"
| "handle_request hs rq (ResetStaff u plain) now lm who db =
     map_prod id done_outcome (admin_reset hs u plain now lm who db)"
| "handle_request hs rq (CreateTenantUser u plain email role name) now lm who db =
     (lm, done_outcome (create_tenant_user hs u plain email role name now who db))"
| "handle_request hs rq (UpdateTenantUser u p) now lm who db = (lm, done_outcome (update_tenant_user u p now who db))"
| "handle_request hs rq (DeactivateTenantUser u) now lm who db = (lm, done_outcome (deactivate_tenant_user u now who db))"
| "handle_request hs rq (ResetTenantUser u plain) now lm who db =
     map_prod id done_outcome (reset_tenant_user_password True hs u plain now lm who db)"
| "handle_request hs rq (OtherRequest ok) now lm who db = (lm, if ok then Succeeds () db else Refuses (Http 400))"

definition serve_request ::
    "hasher \<Rightarrow> web_env \<Rightarrow> web_request \<Rightarrow> id_request \<Rightarrow> time \<Rightarrow> limiter \<Rightarrow> id_db \<Rightarrow> limiter \<times> id_db" where
  "serve_request hs we rq req now lm db =
     (case session_middleware we rq now db of
        (Rejected f, _) \<Rightarrow> (lm, db)
      | (Anonymous, db1) \<Rightarrow> map_prod id (commit_outcome db) (handle_request hs rq req now lm None db1)
      | (Known st, db1) \<Rightarrow> map_prod id (commit_outcome db) (handle_request hs rq req now lm (Some st) db1))"

text \<open>A fresh identifier is one no row and no audit entry carries.\<close>

definition unused_user :: "uid \<Rightarrow> id_db \<Rightarrow> bool" where
  "unused_user u db \<longleftrightarrow> u \<notin> us_id ` set (db_users db) \<and> u \<notin> cd_user ` set (db_creds db) \<and>
     (\<forall>e\<in>set (db_audit db). ia_actor e \<noteq> Some u \<and> ia_resource e \<noteq> Some u)"

fun fresh_rows :: "id_request \<Rightarrow> id_db \<Rightarrow> bool" where
  "fresh_rows (Login p sid) db \<longleftrightarrow> sid \<notin> ss_id ` set (db_sessions db)"
| "fresh_rows (CreateStaff u plain email role name) db \<longleftrightarrow> unused_user u db"
| "fresh_rows (CreateTenantUser u plain email role name) db \<longleftrightarrow> unused_user u db"
| "fresh_rows req db \<longleftrightarrow> True"

type_synonym id_state = "time \<times> limiter \<times> id_db"

inductive id_step :: "hasher \<Rightarrow> id_state \<Rightarrow> id_state \<Rightarrow> bool" for hs where
  tick: "now \<le> later \<Longrightarrow> id_step hs (now, lm, db) (later, lm, db)"
| request: "\<lbrakk> fresh_rows req db; serve_request hs we rq req now lm db = (lm', db') \<rbrakk> \<Longrightarrow> id_step hs (now, lm, db) (now, lm', db')"
| restart: "id_step hs (now, lm, db) (now, [], db)"
| elsewhere: "id_step hs (now, lm, db) (now, lm, db\<lparr> db_slugs := slugs \<rparr>)"

abbreviation id_steps :: "hasher \<Rightarrow> id_state \<Rightarrow> id_state \<Rightarrow> bool" where
  "id_steps hs \<equiv> (id_step hs)\<^sup>*\<^sup>*"

text \<open>An installation starts with its users, some with a password nobody has mistyped yet, and nothing else.\<close>

definition initial_ids :: "id_state \<Rightarrow> bool" where
  "initial_ids s \<longleftrightarrow> (case s of (now, lm, db) \<Rightarrow>
     lm = [] \<and> db_sessions db = [] \<and> db_audit db = [] \<and> distinct (map us_id (db_users db)) \<and>
     distinct (map cd_user (db_creds db)) \<and>
     (\<forall>c\<in>set (db_creds db). cd_failures c = 0 \<and> cd_locked_until c = None \<and> cd_user c \<in> us_id ` set (db_users db)))"

definition reachable_ids :: "hasher \<Rightarrow> id_state \<Rightarrow> bool" where
  "reachable_ids hs s \<longleftrightarrow> (\<exists>s0. initial_ids s0 \<and> id_steps hs s0 s)"

subsection \<open>The life of a session\<close>

definition staff_user :: "user_row list \<Rightarrow> uid \<Rightarrow> bool" where
  "staff_user us u \<longleftrightarrow> (\<exists>r\<in>set us. us_id r = u \<and> us_type r = ''mssp'')"

inductive session_life :: "time \<Rightarrow> user_row list \<Rightarrow> session_row \<Rightarrow> session_row \<Rightarrow> bool" for now us where
  idle: "session_life now us s s"
| touch: "\<lbrakk> session_life now us s s'; session_live now s' \<rbrakk> \<Longrightarrow> session_life now us s (touch_session now s')"
| revoke: "session_life now us s s' \<Longrightarrow> session_life now us s (s'\<lparr> ss_revoked := Some now \<rparr>)"
| pin: "\<lbrakk> session_life now us s s'; staff_user us (ss_user s') \<rbrakk> \<Longrightarrow> session_life now us s (s'\<lparr> ss_context := ctx \<rparr>)"

lemma session_life_same:
  "session_life now us s s' \<Longrightarrow>
     ss_id s' = ss_id s \<and> ss_user s' = ss_user s \<and> ss_created s' = ss_created s \<and> ss_absolute s' = ss_absolute s"
  by (induction rule: session_life.induct) (simp_all add: touch_session_def)

lemma session_life_dead: "session_life now us s s' \<Longrightarrow> \<not> session_live now s \<Longrightarrow> now \<le> later \<Longrightarrow> \<not> session_live later s'"
proof -
  assume "session_life now us s s'" "\<not> session_live now s" "now \<le> later"
  then have "\<not> session_live now s' \<and> \<not> session_live later s'"
  proof (induction rule: session_life.induct)
    case (touch s s')
    then show ?case by blast
  qed (auto simp: session_live_def)
  then show ?thesis ..
qed

definition session_moves :: "time \<Rightarrow> user_row list \<Rightarrow> session_row list \<Rightarrow> session_row list \<Rightarrow> bool" where
  "session_moves now us = list_all2 (session_life now us)"

lemma session_moves_refl [simp]: "session_moves now us ss ss"
  by (simp add: session_moves_def list_all2_refl session_life.idle)

lemma session_moves_update:
  assumes "session_moves now us ss mid" and "\<And>s s'. session_life now us s s' \<Longrightarrow> P s' \<Longrightarrow> session_life now us s (f s')"
  shows "session_moves now us ss (update_where P f mid)"
  using assms unfolding session_moves_def update_where_def
  by (auto simp: list_all2_conv_all_nth)

lemma session_moves_revoke_all:
  "session_moves now us ss (db_sessions db) \<Longrightarrow>
     session_moves now us ss (db_sessions (revoke_all_user_sessions u keep now db))"
  by (auto simp: revoke_all_user_sessions_def intro: session_moves_update session_life.revoke)

lemma session_moves_revoke:
  "session_moves now us ss (db_sessions db) \<Longrightarrow> session_moves now us ss (db_sessions (revoke_session sid now db))"
  by (auto simp: revoke_session_def intro: session_moves_update session_life.revoke)

subsection \<open>Credentials and their audit trail\<close>

definition wrong_entry :: "uid \<Rightarrow> id_audit \<Rightarrow> bool" where
  "wrong_entry u e \<longleftrightarrow> ia_notes e = ''reason=bad_password'' \<and> ia_actor e = Some u"

definition reset_entry :: "uid \<Rightarrow> id_audit \<Rightarrow> bool" where
  "reset_entry u e \<longleftrightarrow>
     ia_action e \<in> {''auth.login.success'', ''auth.password.changed''} \<and> ia_actor e = Some u \<or>
     ia_action e = ''auth.password.reset.admin'' \<and> ia_resource e = Some u"

definition quiet_entry :: "id_audit \<Rightarrow> bool" where
  "quiet_entry e \<longleftrightarrow> (\<forall>u. \<not> wrong_entry u e \<and> \<not> reset_entry u e)"

text \<open>The times of the wrong passwords of a user since the last sign-in, change or reset.\<close>

definition streak :: "uid \<Rightarrow> id_audit list \<Rightarrow> time list" where
  "streak u es =
     fold (\<lambda>e acc. if reset_entry u e then [] else if wrong_entry u e then acc @ [ia_at e] else acc) es []"

lemma streak_Nil [simp]: "streak u [] = []"
  by (simp add: streak_def)

lemma streak_snoc:
  "streak u (es @ [e]) = (if reset_entry u e then [] else if wrong_entry u e then streak u es @ [ia_at e] else streak u es)"
  by (simp add: streak_def)

lemma streak_quiet: "\<forall>e\<in>set qs. quiet_entry e \<Longrightarrow> streak u (es @ qs) = streak u es"
  by (induction qs rule: rev_induct) (auto simp: streak_snoc quiet_entry_def simp flip: append_assoc)

text \<open>What a request does to the credentials, with the entries it writes.\<close>

inductive cred_move :: "time \<Rightarrow> cred_row list \<times> id_audit list \<Rightarrow> cred_row list \<times> id_audit list \<Rightarrow> bool" for now where
  quiet: "\<forall>e\<in>set qs. quiet_entry e \<Longrightarrow> cred_move now (cs, es) (cs, es @ qs)"
| wrong: "\<lbrakk> find (\<lambda>c. cd_user c = u) cs = Some c; \<not> cred_locked now c; \<forall>e\<in>set qs. quiet_entry e;
     wrong_entry u e; \<not> reset_entry u e; \<forall>v. v \<noteq> u \<longrightarrow> \<not> wrong_entry v e \<and> \<not> reset_entry v e; ia_at e = now \<rbrakk>
    \<Longrightarrow> cred_move now (cs, es) (update_where (\<lambda>c. cd_user c = u) (count_failure now) cs, es @ qs @ [e])"
| reset: "\<lbrakk> \<And>c. cd_user (f c) = cd_user c \<and> cd_failures (f c) = 0 \<and> cd_locked_until (f c) = None;
     reset_entry u e; \<forall>v. v \<noteq> u \<longrightarrow> \<not> wrong_entry v e \<and> \<not> reset_entry v e \<rbrakk>
    \<Longrightarrow> cred_move now (cs, es) (update_where (\<lambda>c. cd_user c = u) f cs, es @ [e])"
| first: "\<lbrakk> u \<notin> cd_user ` set cs; cd_user c = u; cd_failures c = 0; cd_locked_until c = None;
     reset_entry u e; \<forall>v. v \<noteq> u \<longrightarrow> \<not> wrong_entry v e \<and> \<not> reset_entry v e \<rbrakk>
    \<Longrightarrow> cred_move now (cs, es) (cs @ [c], es @ [e])"
| born: "\<lbrakk> u \<notin> cd_user ` set cs; streak u es = []; cd_user c = u; cd_failures c = 0; cd_locked_until c = None;
     \<forall>e\<in>set qs. quiet_entry e \<rbrakk>
    \<Longrightarrow> cred_move now (cs, es) (cs @ [c], es @ qs)"

end
