(* ===== verification/Id_Plane_Correct.thy ===== *)
theory Id_Plane_Correct
  imports Id_Plane
begin

text \<open>
  What a request of the identity plane does to each table, handler by handler: the users only gain a
  row or change role, name or activity, the credentials make one \<open>cred_move\<close>, the sessions live on
  and gain at most the one of a sign-in.
\<close>

subsection \<open>Users\<close>

definition same_person :: "user_row \<Rightarrow> user_row \<Rightarrow> bool" where
  "same_person u v \<longleftrightarrow> us_id v = us_id u \<and> us_type v = us_type u \<and> us_tenant v = us_tenant u \<and> us_email v = us_email u"

definition user_moves :: "user_row list \<Rightarrow> user_row list \<Rightarrow> bool" where
  "user_moves us us' \<longleftrightarrow> (\<exists>mid new. us' = mid @ new \<and> list_all2 same_person us mid \<and>
     distinct (map us_id new) \<and> (\<forall>u\<in>set new. us_id u \<notin> us_id ` set us))"

lemma same_person_refl [simp]: "same_person u u"
  by (simp add: same_person_def)

lemma user_moves_refl [simp]: "user_moves us us"
  unfolding user_moves_def by (rule exI [of _ us], rule exI [of _ "[]"]) (simp add: list_all2_refl)

lemma user_moves_update: "(\<And>u. same_person u (f u)) \<Longrightarrow> user_moves us (update_where P f us)"
  unfolding user_moves_def update_where_def
  by (rule exI [of _ "map (\<lambda>x. if P x then f x else x) us"], rule exI [of _ "[]"])
    (auto simp: list_all2_conv_all_nth)

lemma user_moves_insert: "us_id u \<notin> us_id ` set us \<Longrightarrow> user_moves us (us @ [u])"
  unfolding user_moves_def by (rule exI [of _ us], rule exI [of _ "[u]"]) (simp add: list_all2_refl)

lemma user_moves_ids: "list_all2 same_person us mid \<Longrightarrow> map us_id mid = map us_id us"
  by (auto simp: list_all2_conv_all_nth same_person_def intro!: nth_equalityI)

lemma user_moves_distinct: "user_moves us us' \<Longrightarrow> distinct (map us_id us) \<Longrightarrow> distinct (map us_id us')"
proof -
  assume "user_moves us us'" "distinct (map us_id us)"
  then obtain mid new where m: "us' = mid @ new" "list_all2 same_person us mid" "distinct (map us_id new)"
    "\<forall>u\<in>set new. us_id u \<notin> us_id ` set us"
    by (auto simp: user_moves_def)
  have ids: "map us_id mid = map us_id us" using m(2) by (rule user_moves_ids)
  then have "us_id ` set mid = us_id ` set us" by (metis list.set_map)
  then show ?thesis using m ids \<open>distinct (map us_id us)\<close> by (auto simp: image_iff) metis
qed

lemma user_moves_kept: "user_moves us us' \<Longrightarrow> u \<in> set us \<Longrightarrow> \<exists>v\<in>set us'. same_person u v"
proof -
  assume "user_moves us us'" "u \<in> set us"
  then obtain mid new where "us' = mid @ new" "list_all2 same_person us mid" by (auto simp: user_moves_def)
  moreover obtain i where "i < length us" "us ! i = u" using \<open>u \<in> set us\<close> by (auto simp: in_set_conv_nth)
  ultimately have "same_person u (mid ! i)" "mid ! i \<in> set us'" by (auto simp: list_all2_conv_all_nth)
  then show ?thesis by blast
qed

subsection \<open>The effect of a request\<close>

definition born_session :: "time \<Rightarrow> id_db \<Rightarrow> id_db \<Rightarrow> session_row \<Rightarrow> bool" where
  "born_session now db db' s \<longleftrightarrow> ss_id s \<notin> ss_id ` set (db_sessions db) \<and> ss_created s = now \<and>
     ss_absolute s = now + ABSOLUTE_TTL \<and> ss_revoked s = None \<and>
     (\<exists>u\<in>set (db_users db'). us_id u = ss_user s \<and> us_active u \<and> (us_type u = ''tenant'' \<longrightarrow> ss_context s = us_tenant u)) \<and>
     (\<exists>e\<in>set (db_audit db'). ia_action e = ''auth.login.success'' \<and> ia_at e = now \<and> ia_actor e = Some (ss_user s))"

definition session_effect :: "time \<Rightarrow> id_db \<Rightarrow> id_db \<Rightarrow> bool" where
  "session_effect now db db' \<longleftrightarrow> (\<exists>mid new. db_sessions db' = mid @ new \<and>
     session_moves now (db_users db) (db_sessions db) mid \<and> length new \<le> 1 \<and>
     (\<forall>s\<in>set new. born_session now db db' s))"

definition id_effect :: "time \<Rightarrow> id_db \<Rightarrow> id_db \<Rightarrow> bool" where
  "id_effect now db db' \<longleftrightarrow> user_moves (db_users db) (db_users db') \<and>
     cred_move now (db_creds db, db_audit db) (db_creds db', db_audit db') \<and> session_effect now db db'"

definition outcome_effect :: "time \<Rightarrow> id_db \<Rightarrow> 'a outcome \<Rightarrow> bool" where
  "outcome_effect now db out \<longleftrightarrow>
     (case out of Succeeds _ db' \<Rightarrow> id_effect now db db' | Refuses _ \<Rightarrow> True | Records _ db' \<Rightarrow> id_effect now db db')"

lemma outcome_effect_simps [simp]:
  "outcome_effect now db (Succeeds x db') = id_effect now db db'"
  "outcome_effect now db (Refuses e)"
  "outcome_effect now db (Records e db') = id_effect now db db'"
  by (simp_all add: outcome_effect_def)

lemma cred_move_calm: "cred_move now (cs, es) (cs, es)"
  using cred_move.quiet [of "[]" now cs es] by simp

lemma cred_move_quiet1: "quiet_entry e \<Longrightarrow> cred_move now (cs, es) (cs, es @ [e])"
  using cred_move.quiet [of "[e]" now cs es] by simp

lemma session_effect_moves:
  "session_moves now (db_users db) (db_sessions db) (db_sessions db') \<Longrightarrow> session_effect now db db'"
  unfolding session_effect_def by (rule exI [of _ "db_sessions db'"], rule exI [of _ "[]"]) simp

lemma id_effect_refl [simp]: "id_effect now db db"
  by (simp add: id_effect_def cred_move_calm session_effect_moves)

text \<open>The projections of the elementary updates.\<close>

lemma audit_id_simps [simp]:
  "db_users (audit_id now a b c d n db) = db_users db" "db_creds (audit_id now a b c d n db) = db_creds db"
  "db_sessions (audit_id now a b c d n db) = db_sessions db" "db_slugs (audit_id now a b c d n db) = db_slugs db"
  "db_audit (audit_id now a b c d n db) = db_audit db @
     [\<lparr> ia_at = now, ia_action = a, ia_actor = b, ia_tenant = c, ia_resource = d, ia_notes = n \<rparr>]"
  by (simp_all add: audit_id_def)

lemma revoke_all_simps [simp]:
  "db_users (revoke_all_user_sessions u k now db) = db_users db"
  "db_creds (revoke_all_user_sessions u k now db) = db_creds db"
  "db_slugs (revoke_all_user_sessions u k now db) = db_slugs db"
  "db_audit (revoke_all_user_sessions u k now db) = db_audit db"
  by (simp_all add: revoke_all_user_sessions_def)

lemma revoke_needed_simps [simp]:
  "db_users (revoke_sessions_if_needed u r d now db) = db_users db"
  "db_creds (revoke_sessions_if_needed u r d now db) = db_creds db"
  "db_slugs (revoke_sessions_if_needed u r d now db) = db_slugs db"
  "db_audit (revoke_sessions_if_needed u r d now db) = db_audit db"
  by (simp_all add: revoke_sessions_if_needed_def)

lemma session_moves_needed:
  "session_moves now us ss (db_sessions db) \<Longrightarrow>
     session_moves now us ss (db_sessions (revoke_sessions_if_needed u r d now db))"
  by (simp add: revoke_sessions_if_needed_def session_moves_revoke_all)

lemma update_user_simps [simp]:
  "db_users (update_user u f db) = update_where (\<lambda>r. us_id r = u) f (db_users db)"
  "db_creds (update_user u f db) = db_creds db" "db_sessions (update_user u f db) = db_sessions db"
  "db_slugs (update_user u f db) = db_slugs db" "db_audit (update_user u f db) = db_audit db"
  by (simp_all add: update_user_def)

lemma update_cred_simps [simp]:
  "db_users (update_cred u f db) = db_users db"
  "db_creds (update_cred u f db) = update_where (\<lambda>c. cd_user c = u) f (db_creds db)"
  "db_sessions (update_cred u f db) = db_sessions db" "db_slugs (update_cred u f db) = db_slugs db"
  "db_audit (update_cred u f db) = db_audit db"
  by (simp_all add: update_cred_def)

lemma pin_session_simps [simp]:
  "db_users (pin_session s c db) = db_users db" "db_creds (pin_session s c db) = db_creds db"
  "db_slugs (pin_session s c db) = db_slugs db" "db_audit (pin_session s c db) = db_audit db"
  "db_sessions (pin_session s c db) =
     update_where (\<lambda>r. ss_id r = s) (\<lambda>r. r\<lparr> ss_context := c \<rparr>) (db_sessions db)"
  by (simp_all add: pin_session_def)

lemma same_person_patch [simp]: "same_person u (apply_user_patch p u)" "same_person u (u\<lparr> us_active := b \<rparr>)"
  by (simp_all add: same_person_def apply_user_patch_def)

lemmas entry_defs = quiet_entry_def wrong_entry_def reset_entry_def

subsection \<open>Administration\<close>

lemma update_mssp_user_effect: "outcome_effect now db (update_mssp_user uid p now who db)"
  by (auto simp: update_mssp_user_def guarded_def checked_def id_effect_def entry_defs
      split: sum.split option.split
      intro!: user_moves_update cred_move_quiet1 session_effect_moves session_moves_needed)

lemma deactivate_mssp_user_effect: "outcome_effect now db (deactivate_mssp_user uid now who db)"
  by (auto simp: deactivate_mssp_user_def guarded_def checked_def id_effect_def entry_defs
      split: sum.split option.split
      intro!: user_moves_update cred_move_quiet1 session_effect_moves session_moves_needed)

lemma update_tenant_user_effect: "outcome_effect now db (update_tenant_user uid p now who db)"
  by (auto simp: update_tenant_user_def guarded_def checked_def with_tenant_def id_effect_def entry_defs
      split: sum.split option.split
      intro!: user_moves_update cred_move_quiet1 session_effect_moves session_moves_needed)

lemma deactivate_tenant_user_effect: "outcome_effect now db (deactivate_tenant_user uid now who db)"
  by (auto simp: deactivate_tenant_user_def guarded_def checked_def with_tenant_def id_effect_def entry_defs
      split: sum.split option.split
      intro!: user_moves_update cred_move_quiet1 session_effect_moves session_moves_needed)

text \<open>A new user, with a new password.\<close>

lemma streak_no_wrong: "\<forall>e\<in>set es. \<not> wrong_entry u e \<Longrightarrow> streak u es = []"
  by (induction es rule: rev_induct) (auto simp: streak_snoc)

lemma streak_unused: "unused_user u db \<Longrightarrow> streak u (db_audit db) = []"
  by (rule streak_no_wrong) (auto simp: unused_user_def wrong_entry_def)

lemma insert_user_effect:
  assumes "insert_user hs u plain now db = Some db1" "unused_user (us_id u) db" "n \<noteq> ''reason=bad_password''"
  shows "id_effect now db (audit_id now ''user.create'' a t r n db1)"
proof -
  let ?e = "\<lparr> ia_at = now, ia_action = ''user.create'', ia_actor = a, ia_tenant = t, ia_resource = r, ia_notes = n \<rparr>"
  have "quiet_entry ?e" using assms(3) by (auto simp: entry_defs)
  then have "cred_move now (db_creds db, db_audit db) (db_creds db1, db_audit db1 @ [?e])"
    using assms(1,2) streak_unused [OF assms(2)]
    by (auto simp: insert_user_def unused_user_def split: if_splits intro!: cred_move.born [where u = "us_id u" and qs = "[?e]"])
  moreover have "user_moves (db_users db) (db_users db1)" "db_sessions db1 = db_sessions db"
    using assms(1,2) by (auto simp: insert_user_def unused_user_def split: if_splits intro!: user_moves_insert)
  ultimately show ?thesis by (simp add: id_effect_def session_effect_moves)
qed

lemma new_user_id [simp]: "us_id (new_user u e name typ role t) = u"
  by (simp add: new_user_def)

lemma create_mssp_user_effect:
  "unused_user uid db \<Longrightarrow> outcome_effect now db (create_mssp_user hs uid plain email role name now who db)"
  by (auto simp: create_mssp_user_def guarded_def checked_def Let_def intro!: insert_user_effect
      split: option.split sum.split)

lemma create_tenant_user_effect:
  "unused_user uid db \<Longrightarrow> outcome_effect now db (create_tenant_user hs uid plain email role name now who db)"
  by (auto simp: create_tenant_user_def guarded_def checked_def with_tenant_def Let_def intro!: insert_user_effect
      split: option.split sum.split)

subsection \<open>Passwords\<close>

lemma admin_reset_password_effect:
  assumes "admin_reset_password hs actor u plain now lm db = (Inr pw, lm', db')"
  shows "id_effect now db db'"
proof -
  obtain target where t: "user_of u db = Some target"
    using assms by (auto simp: admin_reset_password_def split: option.splits)
  show ?thesis
  proof (cases "cred_of u db")
    case None
    then have "u \<notin> cd_user ` set (db_creds db)" by (auto simp: cred_of_def find_None_iff)
    then show ?thesis using assms t None
      by (auto simp: admin_reset_password_def Let_def id_effect_def entry_defs
          intro!: cred_move.first [where u = u] session_effect_moves session_moves_revoke_all)
  next
    case (Some c)
    then show ?thesis using assms t
      by (auto simp: admin_reset_password_def Let_def id_effect_def entry_defs set_password_def
          intro!: cred_move.reset [where u = u] session_effect_moves session_moves_revoke_all)
  qed
qed

lemma admin_reset_effect: "outcome_effect now db (snd (admin_reset hs uid plain now lm who db))"
  by (auto simp: admin_reset_def dest: admin_reset_password_effect split: option.split sum.split prod.split)

lemma reset_tenant_user_password_effect:
  "outcome_effect now db (snd (reset_tenant_user_password internal hs uid plain now lm who db))"
  by (auto simp: reset_tenant_user_password_def dest: admin_reset_password_effect
      split: option.split sum.split prod.split)

lemma audit_lockout_simps [simp]:
  "db_users (audit_lockout via now t c db) = db_users db" "db_creds (audit_lockout via now t c db) = db_creds db"
  "db_sessions (audit_lockout via now t c db) = db_sessions db" "db_slugs (audit_lockout via now t c db) = db_slugs db"
  by (simp_all add: audit_lockout_def)

lemma audit_lockout_audit:
  obtains qs where "db_audit (audit_lockout via now t c db) = db_audit db @ qs" "\<forall>e\<in>set qs. quiet_entry e"
proof (cases "locks_now c")
  case True
  show ?thesis by (rule that [of "[_]"]) (auto simp: audit_lockout_def True entry_defs)
next
  case False
  show ?thesis by (rule that [of "[]"]) (auto simp: audit_lockout_def False)
qed

lemma wrong_password_move:
  assumes "cred_of u db = Some c" "\<not> cred_locked now c"
    and "ia_notes e = ''reason=bad_password''" "ia_actor e = Some u" "ia_at e = now"
    and "ia_action e \<in> {''auth.login.failure'', ''auth.password.change.failure''}"
  shows "cred_move now (db_creds db, db_audit db)
     (update_where (\<lambda>c. cd_user c = u) (count_failure now) (db_creds db),
      db_audit (audit_lockout via now t c (update_cred u (count_failure now) db)) @ [e])"
proof -
  obtain qs where qs: "db_audit (audit_lockout via now t c (update_cred u (count_failure now) db)) = db_audit db @ qs"
    "\<forall>e\<in>set qs. quiet_entry e"
    using audit_lockout_audit [of via now t c "update_cred u (count_failure now) db"] by auto
  have "cred_move now (db_creds db, db_audit db)
     (update_where (\<lambda>c. cd_user c = u) (count_failure now) (db_creds db), db_audit db @ qs @ [e])"
    by (rule cred_move.wrong [where c = c]) (use assms qs(2) in \<open>auto simp: cred_of_def entry_defs\<close>)
  then show ?thesis using qs(1) by simp
qed

lemma change_password_effect: "change_password hs u sid old new now db = (r, db') \<Longrightarrow> id_effect now db db'"
  apply (simp add: change_password_def Let_def split: if_splits option.splits)
  apply (auto simp: id_effect_def entry_defs set_password_def
      intro!: wrong_password_move cred_move_quiet1 cred_move.reset [where u = u] cred_move_calm
        session_effect_moves session_moves_revoke_all)
  done

lemma password_change_effect: "outcome_effect now db (password_change hs old new now who db)"
  by (auto simp: password_change_def dest: change_password_effect
      split: option.split sum.split prod.split auth_error.split)

subsection \<open>Signing in\<close>

lemma lookup_user_in: "lookup_user_by_email e us = Some u \<Longrightarrow> u \<in> set us"
proof -
  assume l: "lookup_user_by_email e us = Some u"
  show ?thesis
  proof (cases "find (\<lambda>u. us_email u = e) us")
    case (Some v)
    then show ?thesis using l by (auto simp: lookup_user_by_email_def dest: find_SomeD)
  next
    case None
    then have "filter (\<lambda>u. str_lower (us_email u) = normalize_email e) us = [u]"
      using l by (auto simp: lookup_user_by_email_def split: list.splits)
    then have "u \<in> set (filter (\<lambda>u. str_lower (us_email u) = normalize_email e) us)" by simp
    then show ?thesis by (metis filter_is_subset subsetD)
  qed
qed

text \<open>What a successful authentication leaves.\<close>

lemma authenticate_success:
  assumes "authenticate hs sid email password ip agent now db = (Inr (s, u, must), n, db')"
  obtains c fresh where "s = sid" "u \<in> set (db_users db)" "us_active u" "cred_of (us_id u) db = Some c"
    "\<not> cred_locked now c" "hs_matches hs password (cd_hash c)" "must = cd_must_change c"
    "db' = audit_id now ''auth.login.success'' (Some (us_id u)) (us_tenant u) None []
       (create_session sid (us_id u) (if us_type u = ''tenant'' then us_tenant u else None) ip agent now
         (update_cred (us_id u) (sign_in now fresh) db))"
proof -
  obtain v where v: "lookup_user_by_email (normalize_email email) (db_users db) = Some v"
    using assms by (auto simp: authenticate_def split: option.splits)
  then have a: "us_active v" using assms by (auto simp: authenticate_def Let_def split: if_splits)
  obtain c where c: "cred_of (us_id v) db = Some c"
    using assms v a by (auto simp: authenticate_def Let_def split: option.splits)
  then have l: "\<not> cred_locked now c" using assms v a by (auto simp: authenticate_def Let_def split: if_splits)
  obtain ok fresh where f: "verify_password hs password (cd_hash c) = (ok, fresh)" by fastforce
  then have ok: "ok" using assms v a c l by (cases ok) (auto simp: authenticate_def Let_def)
  then have "hs_matches hs password (cd_hash c)" using f by (auto simp: verify_password_def split: if_splits)
  then show ?thesis
    using that [of c fresh] assms v a c l f ok lookup_user_in [OF v] by (auto simp: authenticate_def Let_def)
qed

lemma authenticate_failure_effect:
  assumes "authenticate hs sid email password ip agent now db = (Inl e, n, db')"
  shows "id_effect now db db'"
proof (cases "lookup_user_by_email (normalize_email email) (db_users db)")
  case None
  then show ?thesis using assms
    by (auto simp: authenticate_def id_effect_def entry_defs intro!: cred_move_quiet1 session_effect_moves)
next
  case (Some u)
  show ?thesis
  proof (cases "\<exists>c. us_active u \<and> cred_of (us_id u) db = Some c \<and> \<not> cred_locked now c")
    case True
    then obtain c where c: "us_active u" "cred_of (us_id u) db = Some c" "\<not> cred_locked now c" by blast
    obtain ok fresh where f: "verify_password hs password (cd_hash c) = (ok, fresh)" by fastforce
    then have "\<not> ok" using assms Some c by (cases ok) (auto simp: authenticate_def Let_def)
    then show ?thesis using assms Some c f
      by (auto simp: authenticate_def Let_def id_effect_def intro!: wrong_password_move session_effect_moves)
  next
    case False
    then show ?thesis using assms Some
      by (auto simp: authenticate_def Let_def id_effect_def entry_defs split: option.splits if_splits
          intro!: cred_move_quiet1 session_effect_moves)
  qed
qed

lemma sign_in_effect:
  assumes "u \<in> set (db_users db)" "us_active u" "sid \<notin> ss_id ` set (db_sessions db)"
    and "us_type u = ''tenant'' \<Longrightarrow> ctx = us_tenant u"
    and "db_users db' = db_users db" "db_creds db' = update_where (\<lambda>c. cd_user c = us_id u) (sign_in now fresh) (db_creds db)"
    and "db_sessions db' = db_sessions db @ [new_session sid (us_id u) ctx ip agent now]"
    and "db_audit db' = db_audit db @ [e]" "ia_action e = ''auth.login.success''" "ia_at e = now" "ia_actor e = Some (us_id u)"
    and "ia_notes e = []"
  shows "id_effect now db db'"
proof -
  have "cred_move now (db_creds db, db_audit db) (db_creds db', db_audit db')"
    unfolding assms(6,8) by (rule cred_move.reset) (use assms(9-12) in \<open>auto simp: entry_defs sign_in_def\<close>)
  moreover have "born_session now db db' (new_session sid (us_id u) ctx ip agent now)"
    using assms by (auto simp: born_session_def new_session_def)
  then have "session_effect now db db'"
    unfolding session_effect_def
    by (intro exI [of _ "db_sessions db"] exI [of _ "[new_session sid (us_id u) ctx ip agent now]"]) (simp add: assms(7))
  ultimately show ?thesis using assms(5) by (simp add: id_effect_def)
qed

lemma login_pin_cases:
  assumes "login_pin p sid u db = Inr db'"
  obtains "db' = db" | t where "db' = pin_session sid (Some t) db" "us_type u = ''tenant'' \<longrightarrow> us_tenant u = Some t"
  using assms by (auto simp: login_pin_def split: if_splits option.splits)

lemma update_fresh_session:
  "sid \<notin> ss_id ` set ss \<Longrightarrow> update_where (\<lambda>r. ss_id r = sid) f ss = ss"
  by (rule update_where_id) auto

lemma login_effect:
  assumes "sid \<notin> ss_id ` set (db_sessions db)"
  shows "outcome_effect now db (snd (login hs rq p sid now lm db))"
proof (cases "login_valid p \<and> fst (limiter_hit (rate_key rq (lg_email p)) now lm)")
  case False
  then show ?thesis by (cases "limiter_hit (rate_key rq (lg_email p)) now lm") (auto simp: login_def)
next
  case True
  obtain r n db1 where a: "authenticate hs sid (lg_email p) (lg_password p) (wr_ip rq) (wr_agent rq) now db = (r, n, db1)"
    by (metis prod_cases3)
  obtain lm1 where l: "limiter_hit (rate_key rq (lg_email p)) now lm = (True, lm1)" using True by (metis prod.collapse)
  show ?thesis
  proof (cases r)
    case (Inl e)
    then have "id_effect now db db1" using a authenticate_failure_effect by blast
    then show ?thesis using Inl a l True by (cases e) (auto simp: login_def)
  next
    case (Inr x)
    then obtain s u must where x: "r = Inr (s, u, must)" by (metis prod_cases3)
    then have a': "authenticate hs sid (lg_email p) (lg_password p) (wr_ip rq) (wr_agent rq) now db = (Inr (s, u, must), n, db1)"
      using a by simp
    obtain c fresh where k: "s = sid" "u \<in> set (db_users db)" "us_active u" and db1:
      "db1 = audit_id now ''auth.login.success'' (Some (us_id u)) (us_tenant u) None []
       (create_session sid (us_id u) (if us_type u = ''tenant'' then us_tenant u else None) (wr_ip rq) (wr_agent rq) now
         (update_cred (us_id u) (sign_in now fresh) db))"
      by (rule authenticate_success [OF a'])
    show ?thesis
    proof (cases "login_pin p s u db1")
      case (Inl e)
      then show ?thesis using x a l True by (auto simp: login_def)
    next
      case (Inr db2)
      have "id_effect now db db2"
        using Inr
      proof (cases rule: login_pin_cases)
        case 1
        show ?thesis
          unfolding 1 db1 by (rule sign_in_effect [OF k(2,3) assms]) (auto simp: create_session_def)
      next
        case (2 t)
        show ?thesis
          unfolding 2(1) db1 k(1)
          by (rule sign_in_effect [OF k(2,3) assms, of "Some t"])
            (use 2(2) assms in \<open>auto simp: create_session_def update_fresh_session new_session_def\<close>)
      qed
      then show ?thesis using x a l True Inr by (auto simp: login_def)
    qed
  qed
qed

lemma logout_effect: "outcome_effect now db (logout now who db)"
  by (auto simp: logout_def logout_session_def revoke_session_def id_effect_def entry_defs split: option.split
      intro!: cred_move_quiet1 session_effect_moves session_moves_update session_life.revoke)

subsection \<open>The middleware\<close>

lemma resolve_session_cases:
  assumes "resolve_session sid now db = (r, db1)"
  obtains (dead) "r = None" "db1 = db"
  | (fresh) s where "r = Some s" "db1 = db" "find (\<lambda>s. ss_id s = sid) (db_sessions db) = Some s" "session_live now s"
  | (touched) s where "r = Some (touch_session now s)" "find (\<lambda>s. ss_id s = sid) (db_sessions db) = Some s" "session_live now s"
      "db1 = db\<lparr> db_sessions := update_where (\<lambda>q. ss_id q = sid) (touch_session now) (db_sessions db) \<rparr>"
proof (cases "find (\<lambda>s. ss_id s = sid) (db_sessions db)")
  case None
  then show ?thesis using assms dead by (simp add: resolve_session_def)
next
  case (Some s)
  then show ?thesis using assms dead fresh [of s] touched [of s]
    by (simp add: resolve_session_def split: if_splits)
qed

definition touched_only :: "time \<Rightarrow> id_db \<Rightarrow> id_db \<Rightarrow> bool" where
  "touched_only now db db1 \<longleftrightarrow> db_users db1 = db_users db \<and> db_creds db1 = db_creds db \<and> db_slugs db1 = db_slugs db \<and>
     db_audit db1 = db_audit db \<and> map ss_id (db_sessions db1) = map ss_id (db_sessions db) \<and>
     session_moves now (db_users db) (db_sessions db) (db_sessions db1)"

lemma touched_only_refl [simp]: "touched_only now db db"
  by (simp add: touched_only_def)

text \<open>Equal identifiers mean one row, so touching a live row touches nothing else.\<close>

lemma resolve_session_touches:
  assumes "resolve_session sid now db = (r, db1)" "distinct (map ss_id (db_sessions db))"
  shows "touched_only now db db1"
  using assms(1)
proof (cases rule: resolve_session_cases)
  case (touched s)
  have one: "session_live now q" if "q \<in> set (db_sessions db)" "ss_id q = sid" for q
  proof -
    have "s \<in> set (db_sessions db) \<and> ss_id s = sid" using find_SomeD [OF touched(2)] by simp
    then have "q = s" using that assms(2) by (metis distinct_map inj_onD)
    then show ?thesis using touched(3) by simp
  qed
  have "session_moves now (db_users db) (db_sessions db) (db_sessions db1)"
    using one unfolding session_moves_def touched(4) update_where_def
    by (auto simp: list_all2_conv_all_nth in_set_conv_nth intro: session_life.idle session_life.touch)
  moreover have "map ss_id (db_sessions db1) = map ss_id (db_sessions db)"
    unfolding touched(4) by (simp add: update_where_map touch_session_def)
  ultimately show ?thesis by (simp add: touched_only_def touched(4))
qed auto

lemma middleware_touches:
  assumes "session_middleware we rq now db = (g, db1)" "distinct (map ss_id (db_sessions db))"
  shows "touched_only now db db1"
proof (cases "request_origin_is_trusted we rq = Some True \<and> (\<exists>sid. wr_cookie rq = SessionCookie sid)")
  case True
  then obtain sid where sid: "wr_cookie rq = SessionCookie sid" by blast
  obtain r d where r: "resolve_session sid now db = (r, d)" by fastforce
  then have "d = db1" using assms(1) True sid
    by (auto simp: session_middleware_def split: option.splits if_splits)
  then show ?thesis using resolve_session_touches [OF r assms(2)] by simp
next
  case False
  then show ?thesis using assms(1)
    by (auto simp: session_middleware_def split: option.splits bool.splits cookie.splits)
qed

text \<open>Whom a request is answered as.\<close>

lemma middleware_known:
  assumes "session_middleware we rq now db = (Known st, db1)"
  obtains s u where "request_origin_is_trusted we rq = Some True" "wr_cookie rq = SessionCookie (rx_session st)"
    "find (\<lambda>s. ss_id s = rx_session st) (db_sessions db) = Some s" "session_live now s"
    "u \<in> set (db_users db)" "us_id u = ss_user s" "visible_user (ss_context s) u" "us_active u"
    "must_change (us_id u) db \<Longrightarrow> must_change_whitelisted (wr_method rq) (wr_path rq)"
    "rx_identity st = identity_of u" "rx_email st = us_email u"
    "rx_current st = (if ss_context s = None \<and> us_type u = ''tenant'' then us_tenant u else ss_context s)"
proof -
  have t: "request_origin_is_trusted we rq = Some True"
    using assms by (auto simp: session_middleware_def split: option.splits bool.splits)
  then obtain sid where sid: "wr_cookie rq = SessionCookie sid"
    using assms by (auto simp: session_middleware_def split: cookie.splits)
  obtain r d where r: "resolve_session sid now db = (r, d)" by fastforce
  then obtain s' where s': "r = Some s'" using assms t sid by (cases r) (auto simp: session_middleware_def)
  obtain s where s: "find (\<lambda>s. ss_id s = sid) (db_sessions db) = Some s" "session_live now s"
    "ss_user s' = ss_user s" "ss_context s' = ss_context s" and d: "db_users d = db_users db" "db_creds d = db_creds db"
    using r s' by (cases rule: resolve_session_cases) (auto simp: touch_session_def)
  obtain u where u: "find (\<lambda>u. us_id u = ss_user s \<and> visible_user (ss_context s) u) (db_users db) = Some u"
    using assms t sid r s' s d by (auto simp: session_middleware_def split: option.splits)
  have m: "must_change v d = must_change v db" for v by (simp add: must_change_def cred_of_def d)
  have mw: "session_middleware we rq now db =
      (if \<not> us_active u then (Anonymous, d)
       else if must_change (us_id u) db \<and> \<not> must_change_whitelisted (wr_method rq) (wr_path rq)
       then (Rejected (Http 403), d)
       else (Known \<lparr> rx_identity = identity_of u, rx_email = us_email u,
                     rx_current = (if ss_context s = None \<and> us_type u = ''tenant'' then us_tenant u else ss_context s),
                     rx_session = sid \<rparr>, d))"
    using t sid r s' s d u m by (simp add: session_middleware_def)
  then have k: "us_active u" "must_change (us_id u) db \<longrightarrow> must_change_whitelisted (wr_method rq) (wr_path rq)"
    "st = \<lparr> rx_identity = identity_of u, rx_email = us_email u,
            rx_current = (if ss_context s = None \<and> us_type u = ''tenant'' then us_tenant u else ss_context s),
            rx_session = sid \<rparr>"
    using assms by (auto split: if_splits)
  show ?thesis
    by (rule that [of s u]) (use t sid s(1,2) k find_SomeD [OF u] in simp_all)
qed

subsection \<open>Under the middleware\<close>

definition sound_caller :: "request_state \<Rightarrow> id_db \<Rightarrow> bool" where
  "sound_caller st db \<longleftrightarrow> (\<exists>s\<in>set (db_sessions db). ss_id s = rx_session st \<and>
     (\<exists>u\<in>set (db_users db). us_id u = ss_user s \<and> rx_identity st = identity_of u))"

lemma session_life_trans: "session_life now us s' s'' \<Longrightarrow> session_life now us s s' \<Longrightarrow> session_life now us s s''"
  by (induction rule: session_life.induct) (auto intro: session_life.intros)

lemma session_moves_trans:
  assumes "session_moves now us a b" "session_moves now us b c" shows "session_moves now us a c"
  using list_all2_trans [of "session_life now us" "session_life now us" "session_life now us" a b c]
    session_life_trans assms unfolding session_moves_def by blast

lemma session_moves_in:
  "session_moves now us a b \<Longrightarrow> s \<in> set a \<Longrightarrow> \<exists>s'\<in>set b. session_life now us s s'"
  unfolding session_moves_def list_all2_conv_all_nth in_set_conv_nth by (metis nth_mem)

lemma session_moves_from:
  "session_moves now us a b \<Longrightarrow> s' \<in> set b \<Longrightarrow> \<exists>s\<in>set a. session_life now us s s'"
  unfolding session_moves_def list_all2_conv_all_nth in_set_conv_nth by (metis nth_mem)

lemma session_moves_ids: "session_moves now us a b \<Longrightarrow> map ss_id b = map ss_id a"
  unfolding session_moves_def list_all2_conv_all_nth
  by (intro nth_equalityI) (simp_all, metis session_life_same)

lemma touched_ids: "touched_only now db db1 \<Longrightarrow> ss_id ` set (db_sessions db1) = ss_id ` set (db_sessions db)"
  unfolding touched_only_def by (metis list.set_map)

lemma touched_then_effect:
  assumes "touched_only now db db1" "id_effect now db1 db2"
  shows "id_effect now db db2"
proof -
  have same: "db_users db1 = db_users db" "db_creds db1 = db_creds db" "db_audit db1 = db_audit db"
    and m: "session_moves now (db_users db) (db_sessions db) (db_sessions db1)"
    using assms(1) by (simp_all add: touched_only_def)
  obtain mid new where e: "db_sessions db2 = mid @ new" "session_moves now (db_users db1) (db_sessions db1) mid"
    "length new \<le> 1" "\<forall>s\<in>set new. born_session now db1 db2 s"
    using assms(2) by (auto simp: id_effect_def session_effect_def)
  have "session_moves now (db_users db) (db_sessions db) mid" using session_moves_trans m e(2) same by metis
  moreover have "\<forall>s\<in>set new. born_session now db db2 s"
    using e(4) touched_ids [OF assms(1)] by (auto simp: born_session_def)
  ultimately have "session_effect now db db2" using e(1,3) by (auto simp: session_effect_def)
  then show ?thesis using assms(2) same by (simp add: id_effect_def)
qed

lemma touched_fresh: "touched_only now db db1 \<Longrightarrow> fresh_rows req db \<Longrightarrow> fresh_rows req db1"
  by (cases req) (auto simp: touched_ids unused_user_def, simp_all add: touched_only_def)

lemma known_sound_caller:
  assumes "session_middleware we rq now db = (Known st, db1)" "distinct (map ss_id (db_sessions db))"
  shows "sound_caller st db1"
proof -
  obtain s u where s: "find (\<lambda>s. ss_id s = rx_session st) (db_sessions db) = Some s" "u \<in> set (db_users db)"
    "us_id u = ss_user s" "rx_identity st = identity_of u"
    using middleware_known [OF assms(1)] by metis
  have t: "touched_only now db db1" using middleware_touches assms by blast
  then have "session_moves now (db_users db) (db_sessions db) (db_sessions db1)" by (simp add: touched_only_def)
  then obtain s' where "s' \<in> set (db_sessions db1)" "session_life now (db_users db) s s'"
    using session_moves_in find_SomeD [OF s(1)] by blast
  then have "ss_id s' = rx_session st" "ss_user s' = ss_user s"
    using session_life_same find_SomeD [OF s(1)] by fastforce+
  then show ?thesis using s(2-4) t \<open>s' \<in> set (db_sessions db1)\<close>
    unfolding sound_caller_def touched_only_def by metis
qed

lemma assume_tenant_effect:
  assumes "distinct (map ss_id (db_sessions db))" "\<And>st. who = Some st \<Longrightarrow> sound_caller st db"
  shows "outcome_effect now db (assume_tenant slug ref now who db)"
proof (cases "\<exists>st target. who = Some st \<and> id_user_type (rx_identity st) = Some ''mssp'' \<and> assumed_tenant slug ref db = Inr target")
  case True
  then obtain st target where w: "who = Some st" "id_user_type (rx_identity st) = Some ''mssp''"
    "assumed_tenant slug ref db = Inr target" by blast
  have "staff_user (db_users db) (ss_user s)" if "s \<in> set (db_sessions db)" "ss_id s = rx_session st" for s
  proof -
    obtain q u where q: "q \<in> set (db_sessions db)" "ss_id q = rx_session st" "u \<in> set (db_users db)"
      "us_id u = ss_user q" "rx_identity st = identity_of u"
      using assms(2) [OF w(1)] by (auto simp: sound_caller_def)
    then have "q = s" using that assms(1) by (metis distinct_map inj_onD)
    then show ?thesis using q w(2) by (auto simp: staff_user_def identity_of_def)
  qed
  then have moves: "session_moves now (db_users db) (db_sessions db)
      (update_where (\<lambda>r. ss_id r = rx_session st) (\<lambda>r. r\<lparr> ss_context := target \<rparr>) (db_sessions db))"
    unfolding session_moves_def update_where_def
    by (auto simp: list_all2_conv_all_nth intro!: session_life.idle session_life.pin [OF session_life.idle])
  have "id_effect now db (pin_session (rx_session st) target db)"
    using moves by (simp add: id_effect_def cred_move_calm session_effect_moves)
  moreover have "id_effect now db (audit_id now ''user.impersonate'' a b c n (pin_session (rx_session st) target db))"
    if "n \<noteq> ''reason=bad_password''" for a b c n
    using moves that by (auto simp: id_effect_def session_effect_moves entry_defs intro!: cred_move_quiet1)
  ultimately have "id_effect now db (audit_pin now v p target (pin_session (rx_session st) target db))" for v p
    by (auto simp: audit_pin_def split: option.split)
  then show ?thesis using w by (auto simp: assume_tenant_def split: option.split)
next
  case False
  then show ?thesis by (auto simp: assume_tenant_def split: option.split sum.split)
qed

lemma outcome_effect_done [simp]: "outcome_effect now db (done_outcome out) = outcome_effect now db out"
  by (cases out) simp_all

lemma handle_request_effect:
  assumes "distinct (map ss_id (db_sessions db))" "fresh_rows req db" "\<And>st. who = Some st \<Longrightarrow> sound_caller st db"
  shows "outcome_effect now db (snd (handle_request hs rq req now lm who db))"
  using assms
  by (cases req)
    (simp_all add: login_effect logout_effect assume_tenant_effect password_change_effect create_mssp_user_effect
      update_mssp_user_effect deactivate_mssp_user_effect admin_reset_effect create_tenant_user_effect
      update_tenant_user_effect deactivate_tenant_user_effect reset_tenant_user_password_effect)

theorem serve_request_effect:
  assumes "distinct (map ss_id (db_sessions db))" "fresh_rows req db" "serve_request hs we rq req now lm db = (lm', db')"
  shows "id_effect now db db'"
proof -
  obtain g db1 where g: "session_middleware we rq now db = (g, db1)" by fastforce
  have t: "touched_only now db db1" using middleware_touches g assms(1) by blast
  have *: "id_effect now db (commit_outcome db (snd (handle_request hs rq req now lm who db1)))"
    if "\<And>st. who = Some st \<Longrightarrow> sound_caller st db1" for who
  proof -
    have "distinct (map ss_id (db_sessions db1))" using t assms(1) by (simp add: touched_only_def)
    then have "outcome_effect now db1 (snd (handle_request hs rq req now lm who db1))"
      using handle_request_effect touched_fresh [OF t assms(2)] that by blast
    then show ?thesis
      using touched_then_effect [OF t] by (auto simp: outcome_effect_def commit_outcome_def split: outcome.splits)
  qed
  show ?thesis
  proof (cases g)
    case (Known st)
    then have "sound_caller st db1" using known_sound_caller g assms(1) by blast
    then show ?thesis using * [of "Some st"] assms(3) g Known
      by (cases "handle_request hs rq req now lm (Some st) db1") (auto simp: serve_request_def)
  next
    case Anonymous
    then show ?thesis using * [of None] assms(3) g
      by (cases "handle_request hs rq req now lm None db1") (auto simp: serve_request_def)
  qed (use assms(3) g in \<open>auto simp: serve_request_def\<close>)
qed

end
