(* ===== verification/Id_Invariant.thy ===== *)
theory Id_Invariant
  imports Id_Plane_Correct
begin

text \<open>
  The invariant of the identity plane: identifiers are unique, the counter and the lock of a
  credential are the ones its audit trail dictates, and every session stands on a recorded sign-in of
  a user it is confined to.
\<close>

subsection \<open>Credentials\<close>

definition spaced :: "time list \<Rightarrow> bool" where
  "spaced ts \<longleftrightarrow> (\<forall>i. 9 \<le> i \<and> Suc i < length ts \<longrightarrow> ts ! i + LOCKOUT_DURATION \<le> ts ! Suc i)"

lemma spaced_Nil [simp]: "spaced []"
  by (simp add: spaced_def)

lemma spaced_snoc:
  assumes "spaced ts" "10 \<le> length ts \<Longrightarrow> last ts + LOCKOUT_DURATION \<le> now"
  shows "spaced (ts @ [now])"
  unfolding spaced_def
proof (intro allI impI)
  fix i assume i: "9 \<le> i \<and> Suc i < length (ts @ [now])"
  show "(ts @ [now]) ! i + LOCKOUT_DURATION \<le> (ts @ [now]) ! Suc i"
  proof (cases "Suc i < length ts")
    case True
    then show ?thesis using i assms(1) by (simp add: spaced_def nth_append)
  next
    case False
    then have l: "length ts = Suc i" using i by simp
    then have "last ts = ts ! i" by (cases ts rule: rev_cases) auto
    then show ?thesis using assms(2) i l by (simp add: nth_append)
  qed
qed

definition lock_of :: "time list \<Rightarrow> time option" where
  "lock_of ts = (if length ts < 10 then None else Some (last ts + LOCKOUT_DURATION))"

definition cred_ok :: "id_audit list \<Rightarrow> cred_row \<Rightarrow> bool" where
  "cred_ok es c \<longleftrightarrow> cd_failures c = int (length (streak (cd_user c) es)) \<and>
     cd_locked_until c = lock_of (streak (cd_user c) es)"

definition creds_ok :: "cred_row list \<times> id_audit list \<Rightarrow> bool" where
  "creds_ok ce \<longleftrightarrow> distinct (map cd_user (fst ce)) \<and> (\<forall>c\<in>set (fst ce). cred_ok (snd ce) c) \<and>
     (\<forall>u. u \<notin> cd_user ` set (fst ce) \<longrightarrow> streak u (snd ce) = []) \<and> (\<forall>u. spaced (streak u (snd ce)))"

lemma cd_user_count_failure [simp]: "cd_user (count_failure now c) = cd_user c"
  by (simp add: count_failure_def Let_def)

lemma map_update_cred:
  assumes "\<And>c. cd_user (f c) = cd_user c"
  shows "map cd_user (update_where (\<lambda>c. cd_user c = u) f cs) = map cd_user cs"
    "cd_user ` set (update_where (\<lambda>c. cd_user c = u) f cs) = cd_user ` set cs"
proof -
  show *: "map cd_user (update_where (\<lambda>c. cd_user c = u) f cs) = map cd_user cs"
    using assms by (simp add: update_where_map)
  show "cd_user ` set (update_where (\<lambda>c. cd_user c = u) f cs) = cd_user ` set cs"
    using * by (metis list.set_map)
qed

lemma count_failure_ok:
  assumes "cred_ok es c" "streak (cd_user c) es' = streak (cd_user c) es @ [now]"
  shows "cred_ok es' (count_failure now c)"
  using assms by (auto simp: cred_ok_def count_failure_def Let_def LOCKOUT_THRESHOLD_def lock_of_def)

lemma wrong_move_ok:
  assumes ok: "creds_ok (cs, es)" and c: "find (\<lambda>c. cd_user c = u) cs = Some c" "\<not> cred_locked now c"
    and qs: "\<forall>e\<in>set qs. quiet_entry e"
    and e: "wrong_entry u e" "\<not> reset_entry u e" "\<forall>v. v \<noteq> u \<longrightarrow> \<not> wrong_entry v e \<and> \<not> reset_entry v e" "ia_at e = now"
  shows "creds_ok (update_where (\<lambda>c. cd_user c = u) (count_failure now) cs, es @ qs @ [e])"
proof -
  have sv: "streak v (es @ qs @ [e]) = (if v = u then streak u es @ [now] else streak v es)" for v
    using e streak_quiet [OF qs] streak_snoc [of v "es @ qs" e] by auto
  have in_c: "c \<in> set cs" "cd_user c = u" using find_SomeD [OF c(1)] by auto
  then have one: "d = c" if "d \<in> set cs" "cd_user d = u" for d
    using that ok by (auto simp: creds_ok_def distinct_map dest: inj_onD)
  have okc: "cred_ok es c" using ok in_c by (simp add: creds_ok_def)
  have "last (streak u es) + LOCKOUT_DURATION \<le> now" if "10 \<le> length (streak u es)"
    using okc in_c(2) c(2) that by (auto simp: cred_ok_def lock_of_def cred_locked_def)
  then have sp: "spaced (streak v (es @ qs @ [e]))" for v
    using ok spaced_snoc [of "streak u es" now] by (auto simp: sv creds_ok_def)
  have "cred_ok (es @ qs @ [e]) (count_failure now c)"
    by (rule count_failure_ok [OF okc]) (simp add: sv in_c(2))
  moreover have "cred_ok (es @ qs @ [e]) d" if "d \<in> set cs" "cd_user d \<noteq> u" for d
    using ok that by (simp add: creds_ok_def cred_ok_def sv)
  ultimately have "\<forall>d\<in>set (update_where (\<lambda>c. cd_user c = u) (count_failure now) cs). cred_ok (es @ qs @ [e]) d"
    using one by (auto simp: set_update_where)
  then show ?thesis using ok sp in_c
    by (auto simp: creds_ok_def map_update_cred sv)
qed

lemma reset_streak:
  assumes "reset_entry u e" "\<forall>v. v \<noteq> u \<longrightarrow> \<not> wrong_entry v e \<and> \<not> reset_entry v e"
  shows "streak v (es @ [e]) = (if v = u then [] else streak v es)"
  using assms by (auto simp: streak_snoc)

lemma cred_move_ok: "cred_move now ce ce' \<Longrightarrow> creds_ok ce \<Longrightarrow> creds_ok ce'"
proof (induction rule: cred_move.induct)
  case (quiet qs cs es)
  then show ?case by (simp add: creds_ok_def cred_ok_def streak_quiet)
next
  case (wrong u cs c qs e es)
  then show ?case by (intro wrong_move_ok) auto
next
  case (reset f u e cs es)
  note sv = reset_streak [OF reset(2,3)]
  have cd: "\<And>c. cd_user (f c) = cd_user c" "\<And>c. cd_failures (f c) = 0" "\<And>c. cd_locked_until (f c) = None"
    using reset(1) by auto
  show ?case using reset(4)
    by (auto simp: creds_ok_def cred_ok_def sv map_update_cred cd set_update_where lock_of_def)
next
  case (first u cs c e es)
  note sv = reset_streak [OF first(5,6)]
  show ?case using first by (auto simp: creds_ok_def cred_ok_def sv lock_of_def)
next
  case (born u cs es c qs)
  have sv: "streak v (es @ qs) = streak v es" for v using streak_quiet born by blast
  show ?case using born by (auto simp: creds_ok_def cred_ok_def sv lock_of_def)
qed

subsection \<open>Sessions\<close>

definition session_ok :: "time \<Rightarrow> user_row list \<Rightarrow> id_audit list \<Rightarrow> session_row \<Rightarrow> bool" where
  "session_ok now us es s \<longleftrightarrow> ss_created s \<le> now \<and> ss_absolute s = ss_created s + ABSOLUTE_TTL \<and>
     (\<exists>u\<in>set us. us_id u = ss_user s \<and> (us_type u = ''tenant'' \<longrightarrow> ss_context s = us_tenant u)) \<and>
     (\<exists>e\<in>set es. ia_action e = ''auth.login.success'' \<and> ia_at e = ss_created s \<and> ia_actor e = Some (ss_user s))"

lemma session_life_ok:
  assumes "session_life now us s s'" "session_ok now us es s" "distinct (map us_id us)"
  shows "session_ok now us es s'"
  using assms
proof (induction rule: session_life.induct)
  case (touch s s')
  then show ?case by (auto simp: session_ok_def touch_session_def)
next
  case (pin s s' ctx)
  have "us_type u \<noteq> ''tenant''" if "u \<in> set us" "us_id u = ss_user s'" for u
  proof -
    obtain r where r: "r \<in> set us" "us_id r = ss_user s'" "us_type r = ''mssp''" using pin(2) by (auto simp: staff_user_def)
    then have "u = r" using that pin(5) by (metis distinct_map inj_onD)
    then show ?thesis using r(3) by simp
  qed
  then show ?case using pin by (auto simp: session_ok_def)
qed (auto simp: session_ok_def)

definition ids_ok :: "id_state \<Rightarrow> bool" where
  "ids_ok s \<longleftrightarrow> (case s of (now, lm, db) \<Rightarrow>
     distinct (map us_id (db_users db)) \<and> distinct (map ss_id (db_sessions db)) \<and> creds_ok (db_creds db, db_audit db) \<and>
     (\<forall>q\<in>set (db_sessions db). session_ok now (db_users db) (db_audit db) q))"

lemma cred_move_audit: "cred_move now ce ce' \<Longrightarrow> set (snd ce) \<subseteq> set (snd ce')"
  by (induction rule: cred_move.induct) auto

lemma user_moves_session_ok:
  assumes "session_ok now us es s" "user_moves us us'" "set es \<subseteq> set es'" "now \<le> later"
  shows "session_ok later us' es' s"
proof -
  obtain u where u: "u \<in> set us" "us_id u = ss_user s" "us_type u = ''tenant'' \<longrightarrow> ss_context s = us_tenant u"
    using assms(1) by (auto simp: session_ok_def)
  obtain v where "v \<in> set us'" "same_person u v" using user_moves_kept assms(2) u(1) by blast
  then have "\<exists>v\<in>set us'. us_id v = ss_user s \<and> (us_type v = ''tenant'' \<longrightarrow> ss_context s = us_tenant v)"
    using u by (auto simp: same_person_def)
  then show ?thesis using assms by (fastforce simp: session_ok_def)
qed

lemma id_effect_ok:
  assumes "ids_ok (now, lm, db)" "id_effect now db db'"
  shows "ids_ok (now, lm', db')"
proof -
  obtain mid new where m: "db_sessions db' = mid @ new" "session_moves now (db_users db) (db_sessions db) mid"
    "length new \<le> 1" "\<forall>s\<in>set new. born_session now db db' s"
    using assms(2) by (auto simp: id_effect_def session_effect_def)
  have au: "set (db_audit db) \<subseteq> set (db_audit db')" using cred_move_audit assms(2) by (fastforce simp: id_effect_def)
  have um: "user_moves (db_users db) (db_users db')" using assms(2) by (simp add: id_effect_def)
  have ids: "map ss_id mid = map ss_id (db_sessions db)" using session_moves_ids m(2) by blast
  have "session_ok now (db_users db') (db_audit db') s" if "s \<in> set mid" for s
  proof -
    obtain q where q: "q \<in> set (db_sessions db)" "session_life now (db_users db) q s"
      using session_moves_from m(2) \<open>s \<in> set mid\<close> by blast
    then have "session_ok now (db_users db) (db_audit db) s"
      using session_life_ok assms(1) by (auto simp: ids_ok_def)
    then show ?thesis using user_moves_session_ok um au by blast
  qed
  moreover have "session_ok now (db_users db') (db_audit db') s" if "s \<in> set new" for s
    using m(4) that by (fastforce simp: born_session_def session_ok_def)
  moreover have "distinct (map ss_id (mid @ new))"
  proof -
    have "\<forall>s\<in>set new. ss_id s \<notin> set (map ss_id mid)" using m(4) ids by (simp add: born_session_def)
    moreover have "distinct (map ss_id new)" using m(3) by (cases new) auto
    ultimately show ?thesis using ids assms(1) by (auto simp: ids_ok_def) (metis imageI)
  qed
  moreover have "creds_ok (db_creds db', db_audit db')"
    using cred_move_ok assms by (auto simp: ids_ok_def id_effect_def)
  moreover have "distinct (map us_id (db_users db'))" using user_moves_distinct um assms(1) by (auto simp: ids_ok_def)
  ultimately show ?thesis using m(1) by (auto simp: ids_ok_def)
qed

lemma id_step_ok: "id_step hs s s' \<Longrightarrow> ids_ok s \<Longrightarrow> ids_ok s'"
proof (induction rule: id_step.induct)
  case (tick now later lm db)
  then show ?case
    using user_moves_session_ok [OF _ user_moves_refl subset_refl] by (fastforce simp: ids_ok_def)
next
  case (request req db we rq now lm lm' db')
  then have "id_effect now db db'" using serve_request_effect by (auto simp: ids_ok_def)
  then show ?case using id_effect_ok request by blast
qed (auto simp: ids_ok_def)

lemma initial_ids_ok: "initial_ids s \<Longrightarrow> ids_ok s"
  by (auto simp: initial_ids_def ids_ok_def creds_ok_def cred_ok_def lock_of_def)

theorem reachable_ids_ok: "reachable_ids hs s \<Longrightarrow> ids_ok s"
proof -
  assume "reachable_ids hs s"
  then obtain s0 where "id_steps hs s0 s" "initial_ids s0" by (auto simp: reachable_ids_def)
  then show ?thesis by (induction rule: rtranclp_induct) (auto intro: initial_ids_ok id_step_ok)
qed

end
