(* ===== verification/Id_Changes.thy ===== *)
theory Id_Changes
  imports Id_Invariant
begin

text \<open>
  Which requests change the users, with what the handler checked first, and why the number of active
  administrators never drops to none.
\<close>

subsection \<open>Who changes whom\<close>

text \<open>The ways a request changes the users, with what the handler checked first.\<close>

inductive user_change :: "user_identity option \<Rightarrow> id_db \<Rightarrow> id_db \<Rightarrow> bool" for who db where
  none: "db_users db' = db_users db \<Longrightarrow> user_change who db db'"
| created: "\<lbrakk> who = Some i; id_user_type i = Some (user_type_of a); assert_role_assignable i role a = Inr ();
     db_users db' = db_users db @ [new_user u e name (user_type_of a) role t]; a = Tenant \<longrightarrow> t \<noteq> None \<rbrakk>
    \<Longrightarrow> user_change who db db'"
| patched: "\<lbrakk> who = Some i; id_user_type i = Some (user_type_of a); u \<in> set (db_users db); us_type u = user_type_of a;
     a = Tenant \<longrightarrow> t \<noteq> None \<and> us_tenant u \<in> {None, t}; a = Mssp \<longrightarrow> us_tenant u = None \<and> t = None;
     \<forall>r. pa_role p = Some r \<longrightarrow> assert_role_assignable i r a = Inr ();
     a = Mssp \<longrightarrow> assert_target_not_protected i (us_role u) = Inr ();
     guard_admin_floor a t (us_id u) (us_role (apply_user_patch p u)) (us_active (apply_user_patch p u)) (db_users db) = Inr ();
     db_users db' = update_where (\<lambda>r. us_id r = us_id u) (apply_user_patch p) (db_users db);
     us_role (apply_user_patch p u) \<noteq> us_role u \<or> us_active u \<and> \<not> us_active (apply_user_patch p u) \<longrightarrow>
       (\<forall>s\<in>set (db_sessions db'). ss_user s = us_id u \<longrightarrow> ss_revoked s \<noteq> None) \<rbrakk>
    \<Longrightarrow> user_change who db db'"

definition outcome_change :: "user_identity option \<Rightarrow> id_db \<Rightarrow> 'a outcome \<Rightarrow> bool" where
  "outcome_change who db out \<longleftrightarrow>
     (case out of Succeeds _ db' \<Rightarrow> user_change who db db' | Refuses _ \<Rightarrow> True | Records _ db' \<Rightarrow> user_change who db db')"

lemma outcome_change_simps [simp]:
  "outcome_change who db (Succeeds x db') = user_change who db db'"
  "outcome_change who db (Refuses e)"
  "outcome_change who db (Records e db') = user_change who db db'"
  by (simp_all add: outcome_change_def)

lemma insert_user_users: "insert_user hs u plain now db = Some db1 \<Longrightarrow> db_users db1 = db_users db @ [u]"
  by (auto simp: insert_user_def split: if_splits)

lemma mssp_guard_type: "mssp_guard (Some st) = Inr x \<Longrightarrow> id_user_type (rx_identity st) = Some (user_type_of Mssp)"
  by (auto simp: mssp_guard_def require_permission_def split: if_splits)

lemma tenant_guard_type: "tenant_guard (Some st) = Inr x \<Longrightarrow> id_user_type (rx_identity st) = Some (user_type_of Tenant)"
  by (auto simp: tenant_guard_def require_permission_def split: if_splits)

lemma insert_user_change:
  assumes "insert_user hs (new_user u e name (user_type_of a) role t) plain now db = Some db1"
    and "id_user_type i = Some (user_type_of a)" "assert_role_assignable i role a = Inr ()" "a = Tenant \<longrightarrow> t \<noteq> None"
  shows "user_change (Some i) db (audit_id now k x y z n db1)"
  by (rule user_change.created [OF refl assms(2,3) _ assms(4)]) (simp add: insert_user_users [OF assms(1)])

lemma user_type_of_simps: "''mssp'' = user_type_of Mssp" "''tenant'' = user_type_of Tenant"
  by (simp_all add: user_type_of_def)

lemma create_mssp_user_change:
  "outcome_change (map_option rx_identity who) db (create_mssp_user hs uid plain email role name now who db)"
  unfolding create_mssp_user_def guarded_def checked_def Let_def user_type_of_simps
  by (auto simp del: user_type_of_simps split: option.split sum.split
      intro!: insert_user_change [where a = Mssp] dest: mssp_guard_type)

lemma create_tenant_user_change:
  "outcome_change (map_option rx_identity who) db (create_tenant_user hs uid plain email role name now who db)"
  unfolding create_tenant_user_def guarded_def checked_def with_tenant_def Let_def user_type_of_simps
  by (auto split: option.split sum.split intro!: insert_user_change [where a = Tenant] dest: tenant_guard_type)

lemma revoke_all_revoked:
  assumes "s \<in> set (db_sessions (revoke_all_user_sessions u None now db))" "ss_user s = u"
  shows "ss_revoked s \<noteq> None"
proof -
  have "s \<in> (\<lambda>r. if ss_user r = u \<and> ss_revoked r = None \<and> Some (ss_id r) \<noteq> None then r\<lparr> ss_revoked := Some now \<rparr> else r) `
      set (db_sessions db)"
    using assms(1) by (simp add: revoke_all_user_sessions_def set_update_where)
  then obtain q where "s = (if ss_user q = u \<and> ss_revoked q = None \<and> Some (ss_id q) \<noteq> None
      then q\<lparr> ss_revoked := Some now \<rparr> else q)" by (rule imageE)
  then show ?thesis using assms(2) by (cases "ss_user q = u \<and> ss_revoked q = None") simp_all
qed

lemma mssp_target_D: "mssp_target uid db = Some u \<Longrightarrow> u \<in> set (db_users db) \<and> us_id u = uid \<and> in_audience Mssp None u"
  unfolding mssp_target_def by (drule find_SomeD) simp

lemma tenant_target_D:
  "tenant_target t uid db = Some u \<Longrightarrow> u \<in> set (db_users db) \<and> us_id u = uid \<and> us_type u = ''tenant'' \<and>
     us_tenant u \<in> {None, Some t}"
  unfolding tenant_target_def visible_user_def by (drule find_SomeD) auto

lemma deactivate_patch: "apply_user_patch \<lparr> pa_role = None, pa_name = None, pa_active = Some False \<rparr> = (\<lambda>r. r\<lparr> us_active := False \<rparr>)"
  by (auto simp: apply_user_patch_def)

lemma update_mssp_user_change:
  "outcome_change (map_option rx_identity who) db (update_mssp_user uid p now who db)"
proof (cases "update_mssp_user uid p now who db")
  case (Succeeds r db')
  then obtain st where st: "who = Some st" "mssp_guard (Some st) = Inr ()"
    by (auto simp: update_mssp_user_def guarded_def split: sum.splits option.splits)
  let ?i = "rx_identity st"
  obtain u where u: "mssp_target uid db = Some u" "\<forall>r. pa_role p = Some r \<longrightarrow> assert_role_assignable ?i r Mssp = Inr ()"
    using Succeeds st by (auto simp: update_mssp_user_def guarded_def checked_def split: sum.splits option.splits if_splits)
  have c: "assert_target_not_protected ?i (us_role u) = Inr ()"
    "guard_admin_floor Mssp None uid (us_role (apply_user_patch p u)) (us_active (apply_user_patch p u)) (db_users db) = Inr ()"
    "db' = audit_id now ''user.update'' (Some (id_user ?i)) None (Some uid) []
       (revoke_sessions_if_needed uid (pa_role p \<noteq> None \<and> us_role (apply_user_patch p u) \<noteq> us_role u)
          (\<not> us_active (apply_user_patch p u) \<and> us_active u) now (update_user uid (apply_user_patch p) db))"
    using Succeeds st u by (auto simp: update_mssp_user_def guarded_def checked_def final_state_def split: sum.splits option.splits if_splits)
  have "us_role (apply_user_patch p u) \<noteq> us_role u \<Longrightarrow> pa_role p \<noteq> None"
    by (cases "pa_role p") (auto simp: apply_user_patch_def)
  then have "user_change (Some ?i) db db'"
    using c u(2) mssp_target_D [OF u(1)] mssp_guard_type [OF st(2)]
    by (intro user_change.patched [where a = Mssp and t = None and u = u and p = p])
      (auto simp: in_audience_def revoke_sessions_if_needed_def dest: revoke_all_revoked)
  then show ?thesis using Succeeds st by simp
next
  case (Records e db')
  then show ?thesis by (auto simp: update_mssp_user_def guarded_def checked_def split: sum.splits option.splits if_splits)
qed simp

lemma deactivate_mssp_user_change:
  "outcome_change (map_option rx_identity who) db (deactivate_mssp_user uid now who db)"
proof (cases "deactivate_mssp_user uid now who db")
  case (Succeeds r db')
  let ?p = "\<lparr> pa_role = None, pa_name = None, pa_active = Some False \<rparr>"
  obtain st where st: "who = Some st" "mssp_guard (Some st) = Inr ()"
    using Succeeds by (auto simp: deactivate_mssp_user_def guarded_def split: sum.splits option.splits)
  obtain u where u: "mssp_target uid db = Some u"
    using Succeeds st by (auto simp: deactivate_mssp_user_def guarded_def checked_def split: sum.splits option.splits if_splits)
  have c: "assert_target_not_protected (rx_identity st) (us_role u) = Inr ()"
    "guard_admin_floor Mssp None uid (us_role u) False (db_users db) = Inr ()"
    "db_users db' = update_where (\<lambda>r. us_id r = uid) (apply_user_patch ?p) (db_users db)"
    "\<forall>s\<in>set (db_sessions db'). ss_user s = uid \<longrightarrow> ss_revoked s \<noteq> None"
    using Succeeds st u unfolding deactivate_patch
    by (auto simp: deactivate_mssp_user_def guarded_def checked_def revoke_sessions_if_needed_def dest: revoke_all_revoked
        split: sum.splits option.splits if_splits)
  then have "user_change (Some (rx_identity st)) db db'"
    using mssp_target_D [OF u] mssp_guard_type [OF st(2)]
    by (intro user_change.patched [where a = Mssp and t = None and u = u and p = ?p])
      (auto simp: in_audience_def user_type_of_def apply_user_patch_def)
  then show ?thesis using Succeeds st by simp
next
  case (Records e db')
  then show ?thesis by (auto simp: deactivate_mssp_user_def guarded_def checked_def split: sum.splits option.splits if_splits)
qed simp

lemma update_tenant_user_change:
  "outcome_change (map_option rx_identity who) db (update_tenant_user uid p now who db)"
proof (cases "update_tenant_user uid p now who db")
  case (Succeeds r db')
  then obtain st where st: "who = Some st" "tenant_guard (Some st) = Inr ()"
    by (auto simp: update_tenant_user_def guarded_def split: sum.splits option.splits)
  let ?i = "rx_identity st"
  obtain t where t: "id_tenant ?i = Some t" "\<forall>r. pa_role p = Some r \<longrightarrow> assert_role_assignable ?i r Tenant = Inr ()"
    using Succeeds st
    by (auto simp: update_tenant_user_def guarded_def checked_def with_tenant_def split: sum.splits option.splits if_splits)
  then obtain u where u: "tenant_target t uid db = Some u"
    using Succeeds st
    by (auto simp: update_tenant_user_def guarded_def checked_def with_tenant_def split: sum.splits option.splits if_splits)
  have c: "guard_admin_floor Tenant (Some t) uid (us_role (apply_user_patch p u)) (us_active (apply_user_patch p u)) (db_users db) = Inr ()"
    "db' = revoke_sessions_if_needed uid (pa_role p \<noteq> None \<and> us_role (apply_user_patch p u) \<noteq> us_role u)
          (\<not> us_active (apply_user_patch p u) \<and> us_active u) now
       (audit_id now ''user.update'' (Some (id_user ?i)) (Some t) (Some uid) [] (update_user uid (apply_user_patch p) db))"
    using Succeeds st t u
    by (auto simp: update_tenant_user_def guarded_def checked_def with_tenant_def final_state_def
        split: sum.splits option.splits if_splits)
  have "us_role (apply_user_patch p u) \<noteq> us_role u \<Longrightarrow> pa_role p \<noteq> None"
    by (cases "pa_role p") (auto simp: apply_user_patch_def)
  then have "user_change (Some ?i) db db'"
    using c t(2) tenant_target_D [OF u] tenant_guard_type [OF st(2)]
    by (intro user_change.patched [where a = Tenant and t = "Some t" and u = u and p = p])
      (auto simp: user_type_of_def revoke_sessions_if_needed_def dest: revoke_all_revoked)
  then show ?thesis using Succeeds st by simp
next
  case (Records e db')
  then show ?thesis
    by (auto simp: update_tenant_user_def guarded_def checked_def with_tenant_def split: sum.splits option.splits if_splits)
qed simp

lemma deactivate_tenant_user_change:
  "outcome_change (map_option rx_identity who) db (deactivate_tenant_user uid now who db)"
proof (cases "deactivate_tenant_user uid now who db")
  case (Succeeds r db')
  let ?p = "\<lparr> pa_role = None, pa_name = None, pa_active = Some False \<rparr>"
  obtain st where st: "who = Some st" "tenant_guard (Some st) = Inr ()"
    using Succeeds by (auto simp: deactivate_tenant_user_def guarded_def split: sum.splits option.splits)
  then obtain t where t: "id_tenant (rx_identity st) = Some t"
    using Succeeds by (auto simp: deactivate_tenant_user_def guarded_def with_tenant_def split: sum.splits option.splits if_splits)
  obtain u where u: "tenant_target t uid db = Some u"
    using Succeeds st t
    by (auto simp: deactivate_tenant_user_def guarded_def checked_def with_tenant_def split: sum.splits option.splits if_splits)
  have c: "guard_admin_floor Tenant (Some t) uid (us_role u) False (db_users db) = Inr ()"
    "db_users db' = update_where (\<lambda>r. us_id r = uid) (apply_user_patch ?p) (db_users db)"
    "\<forall>s\<in>set (db_sessions db'). ss_user s = uid \<longrightarrow> ss_revoked s \<noteq> None"
    using Succeeds st t u unfolding deactivate_patch
    by (auto simp: deactivate_tenant_user_def guarded_def checked_def with_tenant_def revoke_sessions_if_needed_def
        dest: revoke_all_revoked split: sum.splits option.splits if_splits)
  then have "user_change (Some (rx_identity st)) db db'"
    using tenant_target_D [OF u] tenant_guard_type [OF st(2)]
    by (intro user_change.patched [where a = Tenant and t = "Some t" and u = u and p = ?p])
      (auto simp: user_type_of_def apply_user_patch_def)
  then show ?thesis using Succeeds st by simp
next
  case (Records e db')
  then show ?thesis
    by (auto simp: deactivate_tenant_user_def guarded_def checked_def with_tenant_def split: sum.splits option.splits if_splits)
qed simp

lemma authenticate_users: "authenticate hs sid e pw ip ag now db = (r, n, db') \<Longrightarrow> db_users db' = db_users db"
  by (auto simp: authenticate_def Let_def create_session_def split: option.splits if_splits prod.splits bool.splits)

lemma login_change: "outcome_change w db (snd (login hs rq p sid now lm db))"
proof -
  obtain r n db1 where a: "authenticate hs sid (lg_email p) (lg_password p) (wr_ip rq) (wr_agent rq) now db = (r, n, db1)"
    by (metis prod_cases3)
  then have u: "db_users db1 = db_users db" by (rule authenticate_users)
  obtain ok lm1 where l: "limiter_hit (rate_key rq (lg_email p)) now lm = (ok, lm1)" by fastforce
  show ?thesis
  proof (cases r)
    case (Inl e)
    then show ?thesis using a l u by (cases e) (auto simp: login_def intro: user_change.none)
  next
    case (Inr x)
    then obtain s v must where x: "r = Inr (s, v, must)" by (metis prod_cases3)
    show ?thesis using a l u x
      by (cases "login_pin p s v db1") (auto simp: login_def intro!: user_change.none elim: login_pin_cases)
  qed
qed

lemma logout_change: "outcome_change w db (logout now who db)"
  by (auto simp: logout_def logout_session_def revoke_session_def split: option.split intro!: user_change.none)

lemma audit_pin_users [simp]: "db_users (audit_pin now v p tgt db) = db_users db"
  by (auto simp: audit_pin_def split: option.split)

lemma assume_tenant_change: "outcome_change w db (assume_tenant slug ref now who db)"
  by (auto simp: assume_tenant_def split: option.split sum.split intro!: user_change.none)

lemma change_password_users: "change_password hs u sid old new now db = (r, db') \<Longrightarrow> db_users db' = db_users db"
  by (simp add: change_password_def Let_def split: if_splits option.splits) auto

lemma password_change_change: "outcome_change w db (password_change hs old new now who db)"
  by (auto simp: password_change_def dest: change_password_users intro!: user_change.none
      split: option.split sum.split prod.split auth_error.split)

lemma admin_reset_password_users:
  "admin_reset_password hs actor u plain now lm db = (Inr pw, lm', db') \<Longrightarrow> db_users db' = db_users db"
  by (auto simp: admin_reset_password_def Let_def split: option.splits)

lemma admin_reset_change: "outcome_change w db (snd (admin_reset hs uid plain now lm who db))"
  by (auto simp: admin_reset_def dest: admin_reset_password_users intro!: user_change.none
      split: option.split sum.split prod.split)

lemma reset_tenant_user_password_change:
  "outcome_change w db (snd (reset_tenant_user_password internal hs uid plain now lm who db))"
  by (auto simp: reset_tenant_user_password_def dest: admin_reset_password_users intro!: user_change.none
      split: option.split sum.split prod.split)

lemma outcome_change_done [simp]: "outcome_change w db (done_outcome out) = outcome_change w db out"
  by (cases out) simp_all

lemma handle_request_change:
  "outcome_change (map_option rx_identity who) db (snd (handle_request hs rq req now lm who db))"
  by (cases req)
    (simp_all add: login_change logout_change assume_tenant_change password_change_change create_mssp_user_change
      update_mssp_user_change deactivate_mssp_user_change admin_reset_change create_tenant_user_change
      update_tenant_user_change deactivate_tenant_user_change reset_tenant_user_password_change user_change.none)

text \<open>Nothing but a request of a known caller changes the users.\<close>

lemma serve_request_change:
  assumes "serve_request hs we rq req now lm db = (lm', db')" "distinct (map ss_id (db_sessions db))"
  obtains "db_users db' = db_users db"
  | st db1 where "session_middleware we rq now db = (Known st, db1)" "db_users db1 = db_users db"
      "user_change (Some (rx_identity st)) db1 db'"
proof -
  obtain g db1 where g: "session_middleware we rq now db = (g, db1)" by fastforce
  then have u: "db_users db1 = db_users db" using middleware_touches assms(2) by (fastforce simp: touched_only_def)
  show ?thesis
  proof (cases g)
    case (Known st)
    let ?out = "snd (handle_request hs rq req now lm (Some st) db1)"
    have "db' = commit_outcome db ?out" using assms(1) g Known
      by (cases "handle_request hs rq req now lm (Some st) db1") (auto simp: serve_request_def)
    moreover have "outcome_change (Some (rx_identity st)) db1 ?out" using handle_request_change [of "Some st"] by simp
    ultimately show ?thesis using that g Known u
      by (cases ?out) (auto simp: outcome_change_def commit_outcome_def)
  next
    case Anonymous
    let ?out = "snd (handle_request hs rq req now lm None db1)"
    have d: "db' = commit_outcome db ?out" using assms(1) g Anonymous
      by (cases "handle_request hs rq req now lm None db1") (auto simp: serve_request_def)
    have "outcome_change None db1 ?out" using handle_request_change [of None] by simp
    then have "db_users (commit_outcome db1 ?out) = db_users db1"
      by (cases ?out) (auto simp: outcome_change_def commit_outcome_def elim: user_change.cases)
    then show ?thesis using that(1) d u by (cases ?out) (auto simp: commit_outcome_def)
  next
    case (Rejected e)
    then show ?thesis using that(1) assms(1) g by (auto simp: serve_request_def)
  qed
qed

lemma update_where_same_id:
  assumes "distinct (map us_id us)" "u \<in> set us" "v \<in> set (update_where (\<lambda>r. us_id r = k) f us)" "us_id v = us_id u"
    and "\<And>r. us_id (f r) = us_id r"
  shows "v = (if us_id u = k then f u else u)"
proof -
  have "v \<in> (\<lambda>r. if us_id r = k then f r else r) ` set us" using assms(3) by (simp only: set_update_where)
  then obtain r where r: "r \<in> set us" "v = (if us_id r = k then f r else r)" by blast
  then have "us_id r = us_id u" using assms(4,5) by (metis (full_types))
  then have "r = u" using distinct_map_eq [OF assms(1) r(1) assms(2)] by simp
  then show ?thesis using r(2) by simp
qed

lemma us_id_patch [simp]: "us_id (apply_user_patch p u) = us_id u"
  by (simp add: apply_user_patch_def)

subsection \<open>The admin floor\<close>

definition real_audience :: "audience \<Rightarrow> uid option \<Rightarrow> bool" where
  "real_audience a t \<longleftrightarrow> (case a of Mssp \<Rightarrow> t = None | Tenant \<Rightarrow> t \<noteq> None)"

definition floors_kept :: "user_row list \<Rightarrow> user_row list \<Rightarrow> bool" where
  "floors_kept us us' \<longleftrightarrow>
     (\<forall>a t. real_audience a t \<longrightarrow> active_admins a t us \<noteq> [] \<longrightarrow> active_admins a t us' \<noteq> []) \<and>
     (''platform_admin'' \<in> snd ` set (active_admins Mssp None us) \<longrightarrow>
      ''platform_admin'' \<in> snd ` set (active_admins Mssp None us'))"

lemma active_admins_iff:
  "x \<in> set (active_admins a t us) \<longleftrightarrow>
     (\<exists>u\<in>set us. us_active u \<and> us_role u \<in> set (admin_roles a) \<and> in_audience a t u \<and> x = (us_id u, us_role u))"
  by (auto simp: active_admins_def)

lemma floors_kept_superset:
  assumes "\<And>a t. real_audience a t \<Longrightarrow> set (active_admins a t us) \<subseteq> set (active_admins a t us')"
  shows "floors_kept us us'"
proof -
  have "active_admins a t us' \<noteq> []" if "real_audience a t" "active_admins a t us \<noteq> []" for a t
    using assms [OF that(1)] that(2) by (cases "active_admins a t us'") auto
  moreover have "set (active_admins Mssp None us) \<subseteq> set (active_admins Mssp None us')"
    by (rule assms) (simp add: real_audience_def)
  ultimately show ?thesis unfolding floors_kept_def by blast
qed

lemma set_dset:
  "distinct (map fst d) \<Longrightarrow> set (dset k v d) = insert (k, v) {x \<in> set d. fst x \<noteq> k}"
proof (induction d)
  case (Cons x d)
  obtain a b where x: "x = (a, b)" by fastforce
  show ?case
  proof (cases "k = a")
    case True
    then have "\<forall>y\<in>set d. fst y \<noteq> k" using Cons.prems x by force
    then show ?thesis using True x by auto
  qed (use Cons x in auto)
qed simp

lemma set_ddel: "x \<in> set (ddel k d) \<longleftrightarrow> x \<in> set d \<and> fst x \<noteq> k"
proof (induction d)
  case (Cons y d)
  then show ?case by (cases y; cases x) (simp, blast)
qed simp

lemma distinct_active_admins: "distinct (map us_id us) \<Longrightarrow> distinct (map fst (active_admins a t us))"
  by (simp add: active_admins_def comp_def distinct_map_filter)

lemma in_audience_patch [simp]: "in_audience a t (apply_user_patch p u) = in_audience a t u"
  by (simp add: in_audience_def apply_user_patch_def)

text \<open>The projection of the guard is an under-approximation of the administrators left.\<close>

lemma guard_projection:
  assumes "distinct (map us_id us)" "w \<in> set us" "in_audience a t w"
    and "us' = update_where (\<lambda>r. us_id r = us_id w) (apply_user_patch p) us"
    and "post = (if us_active (apply_user_patch p w) \<and> us_role (apply_user_patch p w) \<in> set (admin_roles a)
       then dset (us_id w) (us_role (apply_user_patch p w)) (active_admins a t us) else ddel (us_id w) (active_admins a t us))"
  shows "set post \<subseteq> set (active_admins a t us')"
proof
  fix x assume x: "x \<in> set post"
  have kept: "r \<in> set us'" if "r \<in> set us" "us_id r \<noteq> us_id w" for r
    using that unfolding assms(4) set_update_where by force
  have new: "apply_user_patch p w \<in> set us'" using assms(2) unfolding assms(4) set_update_where by force
  consider "x \<in> set (active_admins a t us)" "fst x \<noteq> us_id w"
    | "x = (us_id w, us_role (apply_user_patch p w))" "us_active (apply_user_patch p w)"
      "us_role (apply_user_patch p w) \<in> set (admin_roles a)"
    using x assms(5) set_dset [OF distinct_active_admins [OF assms(1)]] by (auto simp: set_ddel split: if_splits)
  then show "x \<in> set (active_admins a t us')"
  proof cases
    case 1
    then obtain r where "r \<in> set us" "us_active r" "us_role r \<in> set (admin_roles a)" "in_audience a t r"
      "x = (us_id r, us_role r)" by (auto simp: active_admins_iff)
    then show ?thesis using kept 1(2) by (auto simp: active_admins_iff)
  next
    case 2
    then show ?thesis using new assms(3) us_id_patch in_audience_patch unfolding active_admins_iff by metis
  qed
qed

lemma outside_audience_kept:
  assumes "distinct (map us_id us)" "w \<in> set us" "\<not> in_audience a t w"
  shows "set (active_admins a t us) \<subseteq> set (active_admins a t (update_where (\<lambda>r. us_id r = us_id w) f us))"
proof
  fix x assume "x \<in> set (active_admins a t us)"
  then obtain r where r: "r \<in> set us" "us_active r" "us_role r \<in> set (admin_roles a)" "in_audience a t r" "x = (us_id r, us_role r)"
    by (auto simp: active_admins_iff)
  then have "us_id r \<noteq> us_id w" using distinct_map_eq [OF assms(1) r(1) assms(2)] assms(3) by auto
  then have "r \<in> set (update_where (\<lambda>r. us_id r = us_id w) f us)" using r(1) unfolding set_update_where by force
  then show "x \<in> set (active_admins a t (update_where (\<lambda>r. us_id r = us_id w) f us))" using r by (auto simp: active_admins_iff)
qed

lemma user_change_floors:
  assumes "user_change who db db'" "distinct (map us_id (db_users db))"
  shows "floors_kept (db_users db) (db_users db')"
  using assms(1)
proof (cases rule: user_change.cases)
  case none
  then show ?thesis by (simp add: floors_kept_superset)
next
  case created
  then show ?thesis by (intro floors_kept_superset) (auto simp: active_admins_iff)
next
  case (patched i a w t p)
  note kept = outside_audience_kept [OF assms(2) patched(3), where f = "apply_user_patch p", folded patched(10)]
  show ?thesis
  proof (cases "in_audience a t w")
    case False
    have "\<not> in_audience b s w" if "real_audience b s" for b s
      using that False patched(4,5,6)
      by (cases a; cases b) (auto simp: in_audience_def user_type_of_def real_audience_def)
    then show ?thesis using kept by (intro floors_kept_superset) blast
  next
    case True
    let ?us = "db_users db" and ?us' = "db_users db'"
    define post where "post = (if us_active (apply_user_patch p w) \<and> us_role (apply_user_patch p w) \<in> set (admin_roles a)
       then dset (us_id w) (us_role (apply_user_patch p w)) (active_admins a t ?us) else ddel (us_id w) (active_admins a t ?us))"
    have sub: "set post \<subseteq> set (active_admins a t ?us')"
      by (rule guard_projection [OF assms(2) patched(3) True patched(10) post_def])
    have g: "active_admins a t ?us \<noteq> [] \<longrightarrow> post \<noteq> []"
      "a = Mssp \<longrightarrow> ''platform_admin'' \<in> snd ` set (active_admins a t ?us) \<longrightarrow> ''platform_admin'' \<in> snd ` set post"
      using patched(9) by (auto simp: guard_admin_floor_def Let_def post_def [symmetric] split: if_splits)
    have other: "set (active_admins b s ?us) \<subseteq> set (active_admins b s ?us')" if "(b, s) \<noteq> (a, t)" "real_audience b s" for b s
    proof (rule kept)
      show "\<not> in_audience b s w" using that True patched(5,6)
        by (cases a; cases b) (auto simp: in_audience_def user_type_of_def real_audience_def)
    qed
    have mine: "active_admins a t ?us \<noteq> [] \<longrightarrow> active_admins a t ?us' \<noteq> []"
      using g(1) sub by (metis set_empty subset_empty)
    have "active_admins b s ?us' \<noteq> []" if "real_audience b s" "active_admins b s ?us \<noteq> []" for b s
    proof (cases "(b, s) = (a, t)")
      case True
      then show ?thesis using mine that(2) by simp
    next
      case False
      then show ?thesis using other [OF False that(1)] that(2) by (cases "active_admins b s ?us'") auto
    qed
    moreover have "''platform_admin'' \<in> snd ` set (active_admins Mssp None ?us')"
      if "''platform_admin'' \<in> snd ` set (active_admins Mssp None ?us)"
    proof (cases "a = Mssp")
      case m: True
      then have "''platform_admin'' \<in> snd ` set post" using g(2) that patched(6) by simp
      moreover have "snd ` set post \<subseteq> snd ` set (active_admins a t ?us')" by (rule image_mono [OF sub])
      moreover have "t = None" using m patched(6) by simp
      ultimately show ?thesis using m by blast
    next
      case False
      then have "set (active_admins Mssp None ?us) \<subseteq> set (active_admins Mssp None ?us')"
        by (intro other) (simp_all add: real_audience_def)
      then show ?thesis using that by blast
    qed
    ultimately show ?thesis unfolding floors_kept_def by blast
  qed
qed

lemma id_step_floors:
  "id_step hs s s' \<Longrightarrow> ids_ok s \<Longrightarrow> floors_kept (db_users (snd (snd s))) (db_users (snd (snd s')))"
proof (induction rule: id_step.induct)
  case (request req db we rq now lm lm' db')
  then have d: "distinct (map us_id (db_users db))" "distinct (map ss_id (db_sessions db))" by (auto simp: ids_ok_def)
  from request(2) d(2) show ?case
  proof (cases rule: serve_request_change)
    case (2 st db1)
    have "floors_kept (db_users db1) (db_users db')" using user_change_floors [OF 2(3)] d(1) 2(2) by simp
    then show ?thesis using 2(2) by simp
  qed (simp add: floors_kept_superset)
qed (simp_all add: floors_kept_superset)

lemma floors_kept_trans: "floors_kept a b \<Longrightarrow> floors_kept b c \<Longrightarrow> floors_kept a c"
  by (simp add: floors_kept_def)

lemma id_steps_floors:
  assumes "id_steps hs s s'" "ids_ok s"
  shows "ids_ok s' \<and> floors_kept (db_users (snd (snd s))) (db_users (snd (snd s')))"
  using assms
proof (induction rule: rtranclp_induct)
  case (step y z)
  then show ?case using id_step_ok id_step_floors floors_kept_trans by blast
qed (simp add: floors_kept_superset)

end
