(* ===== verification/Id_Props.thy ===== *)
theory Id_Props
  imports Id_Changes
begin

text \<open>
  What the identity plane guarantees: whom a request is answered as, how fast passwords can be
  guessed, when a session ends for good, and who may touch the administrators.
\<close>

subsection \<open>Known requests\<close>

text \<open>
  Property C13. In every state the identity plane can reach, a request that the middleware
  answers as a known user passed the origin check, carries the identity of an active user, is
  confined to the change-password routes while that user must change the password, sees exactly
  the user's own tenant when it is a tenant user, and rests on an audited sign-in of that user
  less than twelve hours old.
\<close>

theorem known_request_sound:
  assumes "reachable_ids hs (now, lm, db)" "session_middleware we rq now db = (Known st, db1)"
  shows "request_origin_is_trusted we rq = Some True \<and>
    (\<exists>u\<in>set (db_users db). us_active u \<and> rx_identity st = identity_of u \<and>
       (must_change (us_id u) db \<longrightarrow> must_change_whitelisted (wr_method rq) (wr_path rq)) \<and>
       (us_type u = ''tenant'' \<longrightarrow> rx_current st = us_tenant u) \<and>
       (\<exists>e\<in>set (db_audit db). ia_action e = ''auth.login.success'' \<and> ia_actor e = Some (us_id u) \<and>
          ia_at e \<le> now \<and> now < ia_at e + ABSOLUTE_TTL))"
proof -
  obtain s u where k: "request_origin_is_trusted we rq = Some True"
    "find (\<lambda>s. ss_id s = rx_session st) (db_sessions db) = Some s" "session_live now s"
    "u \<in> set (db_users db)" "us_id u = ss_user s" "us_active u"
    "must_change (us_id u) db \<longrightarrow> must_change_whitelisted (wr_method rq) (wr_path rq)"
    "rx_identity st = identity_of u"
    "rx_current st = (if ss_context s = None \<and> us_type u = ''tenant'' then us_tenant u else ss_context s)"
    by (rule middleware_known [OF assms(2)]) blast
  have ok: "ids_ok (now, lm, db)" using reachable_ids_ok assms(1) .
  then have s: "session_ok now (db_users db) (db_audit db) s" using find_SomeD [OF k(2)] by (auto simp: ids_ok_def)
  then obtain v where v: "v \<in> set (db_users db)" "us_id v = ss_user s" "us_type v = ''tenant'' \<longrightarrow> ss_context s = us_tenant v"
    by (auto simp: session_ok_def)
  have "distinct (map us_id (db_users db))" using ok by (simp add: ids_ok_def)
  then have "v = u" using distinct_map_eq v(1,2) k(4,5) by metis
  then have pin: "us_type u = ''tenant'' \<longrightarrow> rx_current st = us_tenant u" using v(3) k(9) by auto
  have "\<exists>e\<in>set (db_audit db). ia_action e = ''auth.login.success'' \<and> ia_actor e = Some (us_id u) \<and>
      ia_at e \<le> now \<and> now < ia_at e + ABSOLUTE_TTL"
    using s k(3,5) by (auto simp: session_ok_def session_live_def)
  then show ?thesis using k(1,4,6,7,8) pin by blast
qed


subsection \<open>Ended sessions\<close>

definition ended_session :: "uid \<Rightarrow> time \<Rightarrow> id_db \<Rightarrow> bool" where
  "ended_session sid now db \<longleftrightarrow> sid \<in> ss_id ` set (db_sessions db) \<and>
     (\<forall>s\<in>set (db_sessions db). ss_id s = sid \<longrightarrow> \<not> session_live now s)"

lemma id_effect_ended:
  assumes "id_effect now db db'" "ended_session sid now db"
  shows "ended_session sid now db'"
proof -
  obtain mid new where m: "db_sessions db' = mid @ new" "session_moves now (db_users db) (db_sessions db) mid"
    "\<forall>s\<in>set new. born_session now db db' s"
    using assms(1) by (auto simp: id_effect_def session_effect_def)
  have ids: "map ss_id mid = map ss_id (db_sessions db)" using session_moves_ids m(2) by blast
  then have "sid \<in> ss_id ` set mid" using assms(2) unfolding ended_session_def by (metis list.set_map)
  moreover have "\<not> session_live now s'" if "s' \<in> set mid" "ss_id s' = sid" for s'
  proof -
    obtain s where s: "s \<in> set (db_sessions db)" "session_life now (db_users db) s s'"
      using session_moves_from m(2) \<open>s' \<in> set mid\<close> by blast
    then have "\<not> session_live now s" using assms(2) that(2) session_life_same by (fastforce simp: ended_session_def)
    then show ?thesis using session_life_dead [OF s(2)] by simp
  qed
  moreover have "ss_id s \<noteq> sid" if "s \<in> set new" for s
    using m(3) that assms(2) by (auto simp: born_session_def ended_session_def)
  ultimately show ?thesis using m(1) by (auto simp: ended_session_def)
qed

lemma id_step_ended:
  "id_step hs s s' \<Longrightarrow> ids_ok s \<Longrightarrow> (case s of (now, lm, db) \<Rightarrow> ended_session sid now db) \<Longrightarrow>
     (case s' of (now, lm, db) \<Rightarrow> ended_session sid now db)"
proof (induction rule: id_step.induct)
  case (request req db we rq now lm lm' db')
  then have "id_effect now db db'" using serve_request_effect by (auto simp: ids_ok_def)
  then show ?case using id_effect_ended request by blast
qed (auto simp: ended_session_def session_live_def)

lemma id_steps_ended:
  assumes "id_steps hs s s'" "ids_ok s" "(case s of (now, lm, db) \<Rightarrow> ended_session sid now db)"
  shows "ids_ok s' \<and> (case s' of (now, lm, db) \<Rightarrow> ended_session sid now db)"
  using assms by (induction rule: rtranclp_induct) (use id_step_ok id_step_ended in blast)+

text \<open>
  Property C15. A session that was revoked or has expired is dead in every later state: no
  request with its cookie is ever answered as a known user again.
\<close>

theorem ended_session_stays_ended:
  assumes "reachable_ids hs (now, lm, db)" "s \<in> set (db_sessions db)" "\<not> session_live now s"
    and "id_steps hs (now, lm, db) (later, lm', db')"
  shows "session_middleware we rq later db' = (g, db2) \<Longrightarrow> wr_cookie rq = SessionCookie (ss_id s) \<Longrightarrow> \<not> (\<exists>st. g = Known st)"
proof
  assume mw: "session_middleware we rq later db' = (g, db2)" "wr_cookie rq = SessionCookie (ss_id s)" "\<exists>st. g = Known st"
  have ok: "ids_ok (now, lm, db)" using reachable_ids_ok assms(1) .
  then have "distinct (map ss_id (db_sessions db))" by (simp add: ids_ok_def)
  then have "q = s" if "q \<in> set (db_sessions db)" "ss_id q = ss_id s" for q
    using distinct_map_eq that assms(2) by metis
  then have "ended_session (ss_id s) now db" using assms(2,3) by (auto simp: ended_session_def)
  then have e: "ended_session (ss_id s) later db'" using id_steps_ended [OF assms(4) ok] by simp
  obtain st where st: "session_middleware we rq later db' = (Known st, db2)" using mw by blast
  obtain q where "wr_cookie rq = SessionCookie (rx_session st)"
    "find (\<lambda>s. ss_id s = rx_session st) (db_sessions db') = Some q" "session_live later q"
    using middleware_known [OF st] by metis
  moreover have "q \<in> set (db_sessions db')" "ss_id q = rx_session st" using find_SomeD [OF calculation(2)] by auto
  ultimately show False using e mw(2) by (auto simp: ended_session_def)
qed

subsection \<open>Changing an account\<close>

text \<open>
  Property C16. Whichever request changes the role of a user or deactivates the user, all
  sessions of that user are revoked in the same transaction.
\<close>

theorem access_change_ends_sessions:
  assumes "reachable_ids hs (now, lm, db)" "fresh_rows req db" "serve_request hs we rq req now lm db = (lm', db')"
    and "u \<in> set (db_users db)" "v \<in> set (db_users db')" "us_id v = us_id u"
    and "us_role v \<noteq> us_role u \<or> us_active u \<and> \<not> us_active v"
  shows "\<forall>s\<in>set (db_sessions db'). ss_user s = us_id u \<longrightarrow> ss_revoked s \<noteq> None"
proof -
  have ok: "ids_ok (now, lm, db)" using reachable_ids_ok assms(1) .
  then have d: "distinct (map us_id (db_users db))" "distinct (map ss_id (db_sessions db))" by (auto simp: ids_ok_def)
  have "id_effect now db db'" using serve_request_effect [OF d(2) assms(2,3)] .
  then have d': "distinct (map us_id (db_users db'))" using user_moves_distinct d(1) by (auto simp: id_effect_def)
  have same: False if "v \<in> set (db_users db)"
    using distinct_map_eq [OF d(1) that assms(4,6)] assms(7) by auto
  from assms(3) d(2) show ?thesis
  proof (cases rule: serve_request_change)
    case (2 st db1)
    from 2(3) show ?thesis
    proof (cases rule: user_change.cases)
      case (created i a role k e name t)
      have "v \<noteq> new_user k e name (user_type_of a) role t \<Longrightarrow> v \<in> set (db_users db)"
        using assms(5) created(4) 2(2) by auto
      moreover have "k \<notin> us_id ` set (db_users db)"
        using d' created(4) 2(2) by (auto simp: new_user_def)
      moreover have "us_id u \<in> us_id ` set (db_users db)" using assms(4) by simp
      ultimately show ?thesis using same assms(6) new_user_id by metis
    next
      case (patched i a w t p)
      have "w \<in> set (db_users db)" using patched(3) 2(2) by simp
      have v: "v = (if us_id u = us_id w then apply_user_patch p u else u)"
        using update_where_same_id [OF d(1) assms(4)] assms(5,6) patched(10) 2(2) by simp
      then have "us_id u = us_id w" using assms(7) by (auto split: if_splits)
      then have "u = w" using distinct_map_eq [OF d(1) assms(4) \<open>w \<in> set (db_users db)\<close>] by simp
      then show ?thesis using v assms(7) patched(11) by simp
    qed (use assms(5) 2(2) same in simp)
  qed (use assms(5) same in simp)
qed

text \<open>
  Property C17. If a request changes the set of staff accounts with the role of a platform
  administrator, by creation, promotion, demotion, renaming or deactivation, then it was
  answered as an active platform administrator.
\<close>

theorem platform_admin_guarded:
  assumes "reachable_ids hs (now, lm, db)" "serve_request hs we rq req now lm db = (lm', db')"
    and "{u \<in> set (db_users db'). us_type u = ''mssp'' \<and> us_role u = ''platform_admin''}
       \<noteq> {u \<in> set (db_users db). us_type u = ''mssp'' \<and> us_role u = ''platform_admin''}"
  shows "\<exists>st db1. session_middleware we rq now db = (Known st, db1) \<and>
     (\<exists>a\<in>set (db_users db). us_active a \<and> rx_identity st = identity_of a \<and> us_type a = ''mssp'' \<and> us_role a = ''platform_admin'')"
proof -
  have d: "distinct (map us_id (db_users db))" "distinct (map ss_id (db_sessions db))"
    using reachable_ids_ok [OF assms(1)] by (auto simp: ids_ok_def)
  from assms(2) d(2) show ?thesis
  proof (cases rule: serve_request_change)
    case (2 st db1)
    have "id_user_type (rx_identity st) = Some ''mssp'' \<and> is_platform_admin (rx_identity st)"
      using 2(3)
    proof (cases rule: user_change.cases)
      case (created i a role k e name t)
      have "us_type (new_user k e name (user_type_of a) role t) = ''mssp'' \<and>
          us_role (new_user k e name (user_type_of a) role t) = ''platform_admin''"
        using assms(3) created(4) 2(2) by auto
      then have "a = Mssp" "role = ''platform_admin''" by (cases a; simp add: new_user_def user_type_of_def)+
      then show ?thesis using created by (auto simp: assert_role_assignable_def user_type_of_def split: if_splits)
    next
      case (patched i a w t p)
      let ?P = "\<lambda>u. us_type u = ''mssp'' \<and> us_role u = ''platform_admin''"
      have "w \<in> set (db_users db)" using patched(3) 2(2) by simp
      then have only: "r = w" if "r \<in> set (db_users db)" "us_id r = us_id w" for r
        using distinct_map_eq [OF d(1) that(1)] that(2) by simp
      have "?P w \<or> ?P (apply_user_patch p w)"
      proof (rule ccontr)
        assume no: "\<not> ?thesis"
        have "(u \<in> set (db_users db') \<and> ?P u) = (u \<in> set (db_users db) \<and> ?P u)" for u
          unfolding patched(10) 2(2) set_update_where using no only by (auto split: if_splits)
        then show False using assms(3) by blast
      qed
      moreover have "us_type (apply_user_patch p w) = us_type w" by (simp add: apply_user_patch_def)
      ultimately have a: "a = Mssp" using patched(4) by (cases a) (auto simp: user_type_of_def)
      have "is_platform_admin i"
        using \<open>?P w \<or> ?P (apply_user_patch p w)\<close> patched(7,8) a
        by (cases "pa_role p")
          (auto simp: assert_target_not_protected_def assert_role_assignable_def apply_user_patch_def split: if_splits)
      then show ?thesis using patched(1,2) a by (simp add: user_type_of_def)
    qed (use assms(3) 2(2) in simp)
    moreover obtain s a where "a \<in> set (db_users db)" "us_active a" "rx_identity st = identity_of a"
      by (rule middleware_known [OF 2(1)]) blast
    ultimately show ?thesis using 2(1) by (auto simp: identity_of_def is_platform_admin_def)
  qed (use assms(3) in simp)
qed

subsection \<open>The admin floor\<close>

text \<open>
  Property C18. No sequence of requests takes away the last active administrator of the staff or
  of a tenant, nor the last active platform administrator.
\<close>

theorem admin_floor_kept:
  assumes "reachable_ids hs (now, lm, db)" "id_steps hs (now, lm, db) (later, lm', db')"
  shows "(active_admins Mssp None (db_users db) \<noteq> [] \<longrightarrow> active_admins Mssp None (db_users db') \<noteq> []) \<and>
    (''platform_admin'' \<in> snd ` set (active_admins Mssp None (db_users db)) \<longrightarrow>
     ''platform_admin'' \<in> snd ` set (active_admins Mssp None (db_users db'))) \<and>
    (\<forall>t. active_admins Tenant (Some t) (db_users db) \<noteq> [] \<longrightarrow> active_admins Tenant (Some t) (db_users db') \<noteq> [])"
  using id_steps_floors [OF assms(2) reachable_ids_ok [OF assms(1)]]
  by (auto simp: floors_kept_def real_audience_def)

subsection \<open>An installation\<close>

text \<open>Two members of staff and a tenant administrator; the hash of a password is the password.\<close>

definition demo_hs :: hasher where
  "demo_hs = \<lparr> hs_matches = (\<lambda>p h. h = p), hs_outdated = (\<lambda>_. False), hs_hash = (\<lambda>p. p) \<rparr>"

definition demo_we :: web_env where
  "demo_we = \<lparr> we_origin = Some ''https://s'', we_base = None \<rparr>"

definition demo_rq :: "string \<Rightarrow> cookie \<Rightarrow> web_request" where
  "demo_rq m c = \<lparr> wr_method = m, wr_path = ''/x'', wr_cookie = c, wr_origin = Some ''https://s'', wr_referer = None,
     wr_ip = None, wr_agent = None \<rparr>"

definition demo_user :: "uid \<Rightarrow> string \<Rightarrow> string \<Rightarrow> string \<Rightarrow> uid option \<Rightarrow> user_row" where
  "demo_user i e typ role t = \<lparr> us_id = i, us_email = e, us_name = e, us_type = typ, us_role = role, us_tenant = t, us_active = True \<rparr>"

definition demo_cred :: "uid \<Rightarrow> string \<Rightarrow> cred_row" where
  "demo_cred i h = \<lparr> cd_user = i, cd_hash = h, cd_must_change = False, cd_updated = 0, cd_last_used = None,
     cd_failures = 0, cd_locked_until = None \<rparr>"

definition demo_ids0 :: id_db where
  "demo_ids0 = \<lparr> db_users = [demo_user 1 ''p@s'' ''mssp'' ''platform_admin'' None, demo_user 2 ''m@s'' ''mssp'' ''mssp_admin'' None,
       demo_user 3 ''t@s'' ''tenant'' ''tenant_admin'' (Some 7)],
     db_creds = [demo_cred 1 ''pw'', demo_cred 2 ''pw'', demo_cred 3 ''pw''], db_sessions = [], db_slugs = [(''acme'', 7)], db_audit = [] \<rparr>"

definition demo_go :: "web_request \<Rightarrow> id_request \<Rightarrow> time \<Rightarrow> limiter \<times> id_db \<Rightarrow> limiter \<times> id_db" where
  "demo_go rq req now s = serve_request demo_hs demo_we rq req now (fst s) (snd s)"

definition demo_login :: "string \<Rightarrow> string \<Rightarrow> uid \<Rightarrow> id_request" where
  "demo_login e pw sid = Login \<lparr> lg_email = e, lg_password = pw, lg_slug = None \<rparr> sid"

definition demo_guess :: "nat \<Rightarrow> limiter \<times> id_db \<Rightarrow> limiter \<times> id_db" where
  "demo_guess i s = serve_request (demo_hs\<lparr> hs_matches := \<lambda>_ _. False \<rparr>) demo_we (demo_rq ''POST'' NoCookie)
     (demo_login ''p@s'' ''no'' 1) (of_nat i * 900) (fst s) (snd s)"

definition demo_promote :: id_request where
  "demo_promote = UpdateStaff 2 \<lparr> pa_role = Some ''platform_admin'', pa_name = None, pa_active = None \<rparr>"

definition demo_s1 :: "limiter \<times> id_db" where
  "demo_s1 = demo_go (demo_rq ''POST'' NoCookie) (demo_login ''p@s'' ''pw'' 1) 0 ([], demo_ids0)"

definition demo_s2 :: "limiter \<times> id_db" where
  "demo_s2 = demo_go (demo_rq ''POST'' NoCookie) (demo_login ''m@s'' ''pw'' 2) 1 demo_s1"

definition demo_s3 :: "limiter \<times> id_db" where
  "demo_s3 = demo_go (demo_rq ''POST'' (SessionCookie 1)) demo_promote 2 demo_s2"

lemma reach_initial: "reachable_ids hs (0, [], demo_ids0)"
  unfolding reachable_ids_def
  by (rule exI [of _ "(0, [], demo_ids0)"]) (simp add: initial_ids_def demo_ids0_def demo_user_def demo_cred_def)

lemma steps_request:
  "now \<le> later \<Longrightarrow> fresh_rows req db \<Longrightarrow> id_steps hs (now, lm, db) (later, serve_request hs we rq req later lm db)"
  by (metis (no_types) id_step.request id_step.tick r_into_rtranclp rtranclp.rtrancl_into_rtrancl surj_pair)

lemma steps_go:
  "now \<le> later \<Longrightarrow> fresh_rows req (snd s) \<Longrightarrow> id_steps demo_hs (now, s) (later, demo_go rq req later s)"
  using steps_request [of now later req "snd s" demo_hs "fst s"] by (simp add: demo_go_def)

lemma reach_steps: "reachable_ids hs s \<Longrightarrow> id_steps hs s s' \<Longrightarrow> reachable_ids hs s'"
  unfolding reachable_ids_def by (metis rtranclp_trans)

lemma demo_chain_ids:
  "(let s1 = demo_go (demo_rq ''POST'' NoCookie) (demo_login ''p@s'' ''pw'' 1) 0 ([], demo_ids0);
        s2 = demo_go (demo_rq ''POST'' NoCookie) (demo_login ''m@s'' ''pw'' 2) 1 s1;
        s3 = demo_go (demo_rq ''POST'' (SessionCookie 1)) demo_promote 2 s2
    in (map ss_id (db_sessions (snd s1)), map (\<lambda>s. (ss_id s, ss_user s)) (db_sessions (snd s2)),
        map (\<lambda>u. (us_id u, us_type u, us_role u, us_active u)) (db_users (snd s2)),
        map (\<lambda>u. (us_id u, us_type u, us_role u, us_active u)) (db_users (snd s3)),
        map (\<lambda>s. (ss_id s, ss_revoked s)) (db_sessions (snd s3)))) =
   ([1], [(1, 1), (2, 2)],
    [(1, ''mssp'', ''platform_admin'', True), (2, ''mssp'', ''mssp_admin'', True), (3, ''tenant'', ''tenant_admin'', True)],
    [(1, ''mssp'', ''platform_admin'', True), (2, ''mssp'', ''platform_admin'', True), (3, ''tenant'', ''tenant_admin'', True)],
    [(1, None), (2, Some 2)])"
  by code_simp

lemma demo_values:
  "map ss_id (db_sessions (snd demo_s1)) = [1]"
  "map (\<lambda>s. (ss_id s, ss_user s)) (db_sessions (snd demo_s2)) = [(1, 1), (2, 2)]"
  "map (\<lambda>u. (us_id u, us_type u, us_role u, us_active u)) (db_users (snd demo_s2)) =
    [(1, ''mssp'', ''platform_admin'', True), (2, ''mssp'', ''mssp_admin'', True), (3, ''tenant'', ''tenant_admin'', True)]"
  "map (\<lambda>u. (us_id u, us_type u, us_role u, us_active u)) (db_users (snd demo_s3)) =
    [(1, ''mssp'', ''platform_admin'', True), (2, ''mssp'', ''platform_admin'', True), (3, ''tenant'', ''tenant_admin'', True)]"
  "map (\<lambda>s. (ss_id s, ss_revoked s)) (db_sessions (snd demo_s3)) = [(1, None), (2, Some 2)]"
  using demo_chain_ids unfolding Let_def demo_s1_def [symmetric] demo_s2_def [symmetric] demo_s3_def [symmetric] by simp_all

lemma reach_s1: "reachable_ids demo_hs (0, demo_s1)"
  unfolding demo_s1_def
  by (rule reach_steps [OF reach_initial steps_go]) (simp_all add: demo_login_def demo_ids0_def)

lemma steps_s2: "id_steps demo_hs (0, demo_s1) (1, demo_s2)"
  unfolding demo_s2_def
proof (rule steps_go)
  have "ss_id ` set (db_sessions (snd demo_s1)) = set [1]" using demo_values(1) by (metis list.set_map)
  then show "fresh_rows (demo_login ''m@s'' ''pw'' 2) (snd demo_s1)" by (simp add: demo_login_def)
qed simp

lemma reach_s2: "reachable_ids demo_hs (1, demo_s2)"
  by (rule reach_steps [OF reach_s1 steps_s2])

lemma fresh_promote: "fresh_rows demo_promote db"
  by (simp add: demo_promote_def)

lemma steps_s3: "id_steps demo_hs (1, demo_s2) (2, demo_s3)"
  unfolding demo_s3_def by (rule steps_go) (simp_all add: fresh_promote)

lemma reach_s3: "reachable_ids demo_hs (2, demo_s3)"
  by (rule reach_steps [OF reach_s2 steps_s3])

lemma demo_s2_rows:
  obtains u v w where "db_users (snd demo_s2) = [u, v, w]" "us_id v = 2" "us_type v = ''mssp''" "us_role v = ''mssp_admin''"
    "us_active v" "us_role u = ''platform_admin''"
proof -
  obtain u v w where r: "db_users (snd demo_s2) = [u, v, w]"
    using demo_values(3) by (auto simp: map_eq_Cons_conv)
  then show ?thesis using demo_values(3) that [OF r] by simp
qed

lemma demo_s3_rows:
  obtains u v w where "db_users (snd demo_s3) = [u, v, w]" "us_id v = 2" "us_type v = ''mssp''" "us_role v = ''platform_admin''"
    "us_active v"
proof -
  obtain u v w where r: "db_users (snd demo_s3) = [u, v, w]"
    using demo_values(4) by (auto simp: map_eq_Cons_conv)
  then show ?thesis using demo_values(4) that [OF r] by simp
qed

lemma demo_mw:
  "(case session_middleware demo_we (demo_rq ''GET'' (SessionCookie 2)) 1 (snd (demo_go (demo_rq ''POST'' NoCookie) (demo_login ''m@s'' ''pw'' 2) 1
      (demo_go (demo_rq ''POST'' NoCookie) (demo_login ''p@s'' ''pw'' 1) 0 ([], demo_ids0)))) of
     (Known st, _) \<Rightarrow> True | _ \<Rightarrow> False)"
  by code_simp

theorem known_request_sound_witness:
  "\<exists>st. reachable_ids demo_hs (1, demo_s2) \<and>
     fst (session_middleware demo_we (demo_rq ''GET'' (SessionCookie 2)) 1 (snd demo_s2)) = Known st \<and>
     (\<exists>u\<in>set (db_users (snd demo_s2)). us_active u \<and> rx_identity st = identity_of u)"
proof -
  obtain st d where "session_middleware demo_we (demo_rq ''GET'' (SessionCookie 2)) 1 (snd demo_s2) = (Known st, d)"
    using demo_mw unfolding demo_s1_def [symmetric] demo_s2_def [symmetric] by (auto split: prod.splits gate.splits)
  then show ?thesis
    using known_request_sound [of demo_hs 1 "fst demo_s2" "snd demo_s2" demo_we "demo_rq ''GET'' (SessionCookie 2)" st d] reach_s2
    by auto
qed

theorem access_change_ends_sessions_witness:
  "list_all (\<lambda>s. ss_revoked s \<noteq> None) (filter (\<lambda>s. ss_user s = 2) (db_sessions (snd demo_s3)))"
proof -
  obtain u v w where r: "db_users (snd demo_s2) = [u, v, w]" "us_id v = 2" "us_role v = ''mssp_admin''"
    by (rule demo_s2_rows)
  obtain u' v' w' where r': "db_users (snd demo_s3) = [u', v', w']" "us_id v' = 2" "us_role v' = ''platform_admin''"
    by (rule demo_s3_rows)
  have "id_steps demo_hs (1, demo_s2) (2, demo_s2)" using id_step.tick [of 1 2 demo_hs "fst demo_s2" "snd demo_s2"] by auto
  then have "reachable_ids demo_hs (2, fst demo_s2, snd demo_s2)" using reach_steps [OF reach_s2] by simp
  moreover have "serve_request demo_hs demo_we (demo_rq ''POST'' (SessionCookie 1)) demo_promote 2 (fst demo_s2) (snd demo_s2) =
      (fst demo_s3, snd demo_s3)" by (simp add: demo_s3_def demo_go_def)
  ultimately show ?thesis
    using access_change_ends_sessions [OF _ fresh_promote, of demo_hs 2 "fst demo_s2" "snd demo_s2" demo_we
        "demo_rq ''POST'' (SessionCookie 1)" "fst demo_s3" "snd demo_s3" v v'] r r' by (auto simp: list_all_iff)
qed

theorem platform_admin_guarded_witness:
  "\<exists>st db1. session_middleware demo_we (demo_rq ''POST'' (SessionCookie 1)) 2 (snd demo_s2) = (Known st, db1) \<and>
     id_role (rx_identity st) = Some ''platform_admin''"
proof -
  obtain u v w where r: "db_users (snd demo_s2) = [u, v, w]" "us_id v = 2" "us_role v = ''mssp_admin''"
    by (rule demo_s2_rows)
  obtain u' v' w' where r': "db_users (snd demo_s3) = [u', v', w']" "us_id v' = 2" "us_type v' = ''mssp''" "us_role v' = ''platform_admin''"
    by (rule demo_s3_rows)
  have ids: "map us_id (db_users (snd demo_s2)) = [1, 2, 3]"
    using arg_cong [OF demo_values(3), of "map fst"] by (simp add: comp_def)
  have "v' \<notin> set (db_users (snd demo_s2))" using r r' ids by auto
  then have diff: "{u \<in> set (db_users (snd demo_s3)). us_type u = ''mssp'' \<and> us_role u = ''platform_admin''}
       \<noteq> {u \<in> set (db_users (snd demo_s2)). us_type u = ''mssp'' \<and> us_role u = ''platform_admin''}"
    using r' by auto
  have "id_steps demo_hs (1, demo_s2) (2, demo_s2)" using id_step.tick [of 1 2 demo_hs "fst demo_s2" "snd demo_s2"] by auto
  then have "reachable_ids demo_hs (2, fst demo_s2, snd demo_s2)" using reach_steps [OF reach_s2] by simp
  moreover have "serve_request demo_hs demo_we (demo_rq ''POST'' (SessionCookie 1)) demo_promote 2 (fst demo_s2) (snd demo_s2) =
      (fst demo_s3, snd demo_s3)" by (simp add: demo_s3_def demo_go_def)
  ultimately show ?thesis
    using platform_admin_guarded [OF _ _ diff, of demo_hs 2 "fst demo_s2" demo_we
        "demo_rq ''POST'' (SessionCookie 1)" demo_promote "fst demo_s3"] by (auto simp: identity_of_def)
qed

theorem admin_floor_kept_witness: "active_admins Mssp None (db_users (snd demo_s3)) \<noteq> []"
proof -
  have "id_steps demo_hs (0, [], demo_ids0) (0, demo_s1)"
    unfolding demo_s1_def by (rule steps_go) (simp_all add: demo_login_def demo_ids0_def)
  then have "id_steps demo_hs (0, [], demo_ids0) (2, demo_s3)" using steps_s2 steps_s3 by (meson rtranclp_trans)
  then have "id_steps demo_hs (0, [], demo_ids0) (2, fst demo_s3, snd demo_s3)" by simp
  moreover have "active_admins Mssp None (db_users demo_ids0) \<noteq> []"
    by (simp add: active_admins_def demo_ids0_def demo_user_def in_audience_def user_type_of_def admin_roles_def)
  ultimately show ?thesis using admin_floor_kept [OF reach_initial] by blast
qed

theorem ended_session_stays_ended_witness:
  "\<not> (\<exists>st. fst (session_middleware demo_we (demo_rq ''GET'' (SessionCookie 2)) 2 (snd demo_s3)) = Known st)"
proof -
  obtain s t where "db_sessions (snd demo_s3) = [s, t]" "ss_id t = 2" "ss_revoked t = Some 2"
    using demo_values(5) by (auto simp: map_eq_Cons_conv)
  then have t: "t \<in> set (db_sessions (snd demo_s3))" "ss_id t = 2" "\<not> session_live 2 t"
    by (simp_all add: session_live_def)
  have "reachable_ids demo_hs (2, fst demo_s3, snd demo_s3)" using reach_s3 by simp
  from ended_session_stays_ended [OF this t(1,3) rtranclp.rtrancl_refl surjective_pairing, where we = demo_we and
      rq = "demo_rq ''GET'' (SessionCookie 2)"]
  show ?thesis using t(2) by (simp add: demo_rq_def)
qed

text \<open>Eleven wrong passwords, a quarter of an hour apart.\<close>

lemma demo_guess_sessions: "db_sessions (snd s) = [] \<Longrightarrow> db_sessions (snd (demo_guess i s)) = []"
proof -
  assume e: "db_sessions (snd s) = []"
  let ?hs = "demo_hs\<lparr> hs_matches := \<lambda>_ _. False \<rparr>" and ?p = "\<lparr> lg_email = ''p@s'', lg_password = ''no'', lg_slug = None \<rparr>"
  let ?rq = "demo_rq ''POST'' NoCookie"
  obtain ok lm1 where l: "limiter_hit (rate_key ?rq ''p@s'') (of_nat i * 900) (fst s) = (ok, lm1)" by fastforce
  obtain r n db1 where a: "authenticate ?hs 1 ''p@s'' ''no'' (wr_ip ?rq) (wr_agent ?rq) (of_nat i * 900) (snd s) = (r, n, db1)"
    by (metis prod_cases3)
  obtain err where r: "r = Inl err" using a authenticate_success [of ?hs] by (cases r) (auto, blast)
  have "db_sessions db1 = []" using a e unfolding r
    by (auto simp: authenticate_def Let_def split: option.splits if_splits prod.splits bool.splits)
  moreover have "session_middleware demo_we ?rq (of_nat i * 900) (snd s) = (Anonymous, snd s)"
    by (simp add: session_middleware_def request_origin_is_trusted_def demo_rq_def)
  ultimately show ?thesis using e a l r
    by (cases err) (auto simp: demo_guess_def serve_request_def demo_login_def login_def commit_outcome_def)
qed

definition demo_guesses :: "nat \<Rightarrow> limiter \<times> id_db" where
  "demo_guesses n = fold demo_guess [0..<n] ([], demo_ids0)"

lemma demo_guesses_Suc: "demo_guesses (Suc n) = demo_guess n (demo_guesses n)"
  by (simp add: demo_guesses_def)

lemma reach_guesses:
  "reachable_ids (demo_hs\<lparr> hs_matches := \<lambda>_ _. False \<rparr>) (of_nat (n - 1) * 900, demo_guesses n) \<and>
     db_sessions (snd (demo_guesses n)) = []"
proof (induction n)
  case 0
  then show ?case using reach_initial by (simp add: demo_guesses_def) (simp add: demo_ids0_def)
next
  case (Suc n)
  have "id_steps (demo_hs\<lparr> hs_matches := \<lambda>_ _. False \<rparr>) (of_nat (n - 1) * 900, fst (demo_guesses n), snd (demo_guesses n))
      (of_nat n * 900, demo_guess n (demo_guesses n))"
    unfolding demo_guess_def
    by (rule steps_request) (use Suc in \<open>auto simp: demo_login_def intro!: mult_right_mono\<close>)
  then show ?case using Suc reach_steps demo_guess_sessions by (simp add: demo_guesses_Suc) blast
qed


subsection \<open>The unaudited pin\<close>

text \<open>
  The sign-in of staff through the address of a tenant pins the session to that tenant, and the only audit entry is the one of the sign-in.
\<close>

theorem login_pin_unaudited:
  assumes "login hs rq p sid now lm db = (lm', Succeeds (s, must) db')" "env_text (lg_slug p) \<noteq> []"
    and "sid \<notin> ss_id ` set (db_sessions db)"
  shows "\<exists>t e q. map_of (db_slugs db) (env_text (lg_slug p)) = Some t \<and> db_audit db' = db_audit db @ [e] \<and>
    ia_action e = ''auth.login.success'' \<and> db_sessions db' = db_sessions db @ [q] \<and> ss_id q = sid \<and> ss_context q = Some t"
proof -
  obtain ok lm1 where l: "limiter_hit (rate_key rq (lg_email p)) now lm = (ok, lm1)" by fastforce
  obtain r n db1 where a: "authenticate hs sid (lg_email p) (lg_password p) (wr_ip rq) (wr_agent rq) now db = (r, n, db1)"
    by (metis prod_cases3)
  obtain s' u must' where x: "r = Inr (s', u, must')"
    using assms(1) a l by (cases r; cases ok) (auto simp: login_def split: auth_error.splits if_splits)
  obtain c fresh where k: "s' = sid" "u \<in> set (db_users db)" "us_active u" and db1:
      "db1 = audit_id now ''auth.login.success'' (Some (us_id u)) (us_tenant u) None []
       (create_session sid (us_id u) (if us_type u = ''tenant'' then us_tenant u else None) (wr_ip rq) (wr_agent rq) now
         (update_cred (us_id u) (sign_in now fresh) db))"
    by (rule authenticate_success [OF a [unfolded x]])
  have "login_pin p sid u db1 = Inr db'"
    using assms(1) a l x k(1) by (cases ok; cases "login_pin p sid u db1") (auto simp: login_def split: if_splits)
  then obtain t where t: "map_of (db_slugs db1) (env_text (lg_slug p)) = Some t" "db' = pin_session sid (Some t) db1"
    using assms(2) by (auto simp: login_pin_def split: option.splits if_splits)
  show ?thesis
    using t db1 update_fresh_session [OF assms(3)] by (simp add: create_session_def new_session_def)
qed

theorem login_pin_unaudited_witness:
  "ss_context (last (db_sessions (commit_outcome demo_ids0 (snd (login demo_hs (demo_rq ''POST'' NoCookie)
     \<lparr> lg_email = ''m@s'', lg_password = ''pw'', lg_slug = Some ''acme'' \<rparr> 1 0 [] demo_ids0))))) = Some 7"
proof -
  let ?p = "\<lparr> lg_email = ''m@s'', lg_password = ''pw'', lg_slug = Some ''acme'' \<rparr>"
  have "(case snd (login demo_hs (demo_rq ''POST'' NoCookie) ?p 1 0 [] demo_ids0) of Succeeds x db \<Rightarrow> True | _ \<Rightarrow> False)"
    by code_simp
  then obtain lm' s must db' where "login demo_hs (demo_rq ''POST'' NoCookie) ?p 1 0 [] demo_ids0 = (lm', Succeeds (s, must) db')"
    by (cases "login demo_hs (demo_rq ''POST'' NoCookie) ?p 1 0 [] demo_ids0") (auto split: outcome.splits)
  from this login_pin_unaudited [OF this] show ?thesis
    by (auto simp: commit_outcome_def env_text_def demo_ids0_def)
qed

end
