(* ===== verification/Spec2Isabelle.thy ===== *)
theory Spec2Isabelle
  imports Authz_Correct Conditions_Correct Guard_Correct Policy_Correct Authoring_Correct Budget_Correct Triage_Correct
    Ir_Plane_Props Ir_Plane_Refine Ir_Memo_Props Rs_Props Id_Props
begin

text \<open>
  A model of the decision core, the run plane, the response plane and the identity plane of the SocTalk
  security-operations platform, and the theorems that make it trustworthy. Paths are relative to \<open>src/soctalk/\<close>.

  The program. An alert starts a run. A LangGraph graph (\<open>graph/builder.py\<close>) resolves the triage
  policy that governs the alert, lets a supervisor model choose workers, gathers the
  deterministic evidence the policy requires, asks a verdict model for a decision and passes it
  through a deterministic guard. A run ends in a close, an escalation, a human review or a budget
  halt; the worker (\<open>runs_worker/main.py\<close>) turns the terminal state into a disposition and applies
  a last floor. Authorization evidence (change tickets, baselines, freezes, prohibitions) is
  evaluated by a pure engine (\<open>authorization/engine.py\<close>). Every model call is metered by the
  per-run budget (\<open>graph/budget.py\<close>). Operators author triage policies into an append-only
  revision store (\<open>triage_policy/authoring.py\<close>) from which the worker's files are rendered.
  Around the graph stands the control plane: ingest (\<open>core/ir/triage.py\<close>) coalesces, correlates,
  closes or promotes alerts; promotion creates a run (\<open>core/ir/runtime.py\<close>); workers claim runs
  under a lease, report their spend and complete them (\<open>core/api/worker_runs.py\<close>) within the daily
  ceilings of the tenant (\<open>core/cost.py\<close>); operators unlock runs that halted on their budget
  (\<open>core/api/run_budget.py\<close>) and analysts cancel, merge and detach (\<open>core/ir/labels.py\<close>). A completion
  matches response playbooks and queues their actions (\<open>response/dispatch.py\<close>); the executor
  (\<open>response/executor.py\<close>) drains the queue, fires what is autonomous and routes what is gated to a
  proposal (\<open>core/ir/runtime.py\<close>) that a human with the permission (\<open>core/tenancy/permissions.py\<close>) approves.
  Humans sign in with a password (\<open>core/auth/service.py\<close>); every request of theirs passes the session
  middleware (\<open>core/auth/middleware.py\<close>), and administrators manage the accounts
  (\<open>core/api/mssp_users.py\<close>, \<open>core/api/users.py\<close>).

  The theories, bottom up:
  \<^item> \<open>Prelude\<close>, \<open>PyValue\<close>, \<open>PyState\<close>, \<open>PyGlob\<close>: Python as the code uses it. A raising computation is
    an option; dynamic values are \<open>pyval\<close>; a state dictionary is an association list; truthiness,
    comparison, hashing, number and string conversions, \<open>fnmatch\<close>.
  \<^item> \<open>Authz_Model\<close>, \<open>Authz_Engine\<close>, \<open>Authz_Order\<close>, \<open>Authz_Correct\<close>: \<open>models/authorization.py\<close> and
    \<open>authorization/engine.py\<close>. The facts are records with the source's fields, evaluation is
    definition by definition. Theorems: the class does not depend on the order of facts, other
    tenants' facts are inert, coverage always rests on one record, compromise, freezes and
    prohibitions cannot be outweighed.
  \<^item> \<open>Conditions\<close>, \<open>Conditions_Correct\<close>: \<open>triage_policy/conditions.py\<close>, the guardrail expression
    language: accepted conditions are bounded and see only the declared contract.
  \<^item> \<open>Guard\<close>, \<open>Guard_Correct\<close>: \<open>triage_policy/guard.py\<close> and the signal parser of
    \<open>authorization/render.py\<close>: the guard only raises, its code edges cannot be authored away, shadow
    policies record what the live guard would do.
  \<^item> \<open>Policy_Model\<close>, \<open>Policy_Registry\<close>, \<open>Policy_Gate\<close>, \<open>Policy_Correct\<close>: \<open>triage_policy/models.py\<close>,
    \<open>registry.py\<close>, \<open>gate.py\<close>, \<open>operational.py\<close>, \<open>floor.py\<close>.
  \<^item> \<open>Revision_Store\<close>, \<open>Policy_Authoring\<close>, \<open>Authoring_Correct\<close>: the locale of an append-only revision
    table, its interpretation by \<open>triage_policy/authoring.py\<close>, and the store as an inductive step
    relation over interleaved author operations.
  \<^item> \<open>Pricing_Usage\<close>, \<open>Budget\<close>, \<open>Budget_Correct\<close>: \<open>core/pricing/usage.py\<close>, \<open>core/pricing/names.py\<close> and
    \<open>graph/budget.py\<close>; dollars are exact rationals extended by the infinities and NaN.
  \<^item> \<open>Triage_Nodes\<close>, \<open>Triage_Graph\<close>, \<open>Triage_Frame\<close>, \<open>Triage_Run\<close>, \<open>Triage_Correct\<close>: the graph's nodes
    (\<open>triage_policy/nodes.py\<close>, \<open>supervisor/node.py\<close>, \<open>supervisor/verdict.py\<close>, \<open>graph/hil.py\<close>,
    \<open>graph/close.py\<close>), its routing functions, the compiled graph as the inductive relation
    \<open>graph_step\<close> and the worker's reading of a terminal state. \<open>Triage_Frame\<close> states which keys a
    node writes, \<open>Triage_Run\<close> the invariant and the distance that decreases.
  \<^item> \<open>Ir_Policies\<close>, \<open>Ir_Store\<close>: policy layers and budget resolution (\<open>core/ir/policies.py\<close>), the
    tables as lists of rows with \<open>UPDATE\<close>, ordered \<open>SELECT\<close>, the idempotent event append and the
    audit log (\<open>core/ir/models.py\<close>, \<open>core/ir/events.py\<close>, \<open>core/observability/audit.py\<close>).
  \<^item> \<open>Ir_Cost\<close>, \<open>Ir_Correlation\<close>, \<open>Ir_Reviews\<close>: daily ceilings (\<open>core/cost.py\<close>), entity correlation,
    verdict memo and volume cap (\<open>core/ir/correlation.py\<close>, \<open>core/ir/memoization.py\<close>), replay beats,
    reopen fields and human reviews (\<open>core/ir/replay_events.py\<close>, \<open>core/ir/review_events.py\<close>).
  \<^item> \<open>Ir_Runs\<close>, \<open>Ir_Complete\<close>, \<open>Ir_Unlock\<close>, \<open>Ir_Labels\<close>, \<open>Ir_Triage\<close>: the handlers, one definition per
    operation, each a function from the store to a result and a new store or to a refusal.
  \<^item> \<open>Ir_Plane\<close>, \<open>Ir_Plane_Correct\<close>, \<open>Ir_Plane_Props\<close>, \<open>Ir_Plane_Refine\<close>: the handlers as the inductive
    relation \<open>run_step\<close>, read row by row as moves in the life of a run; the locale of a leased table
    and its interpretation on the run table; what holds in every reachable state, and the refinement of
    an abstract protocol of phases and leases.
  \<^item> \<open>Ir_Handler_Props\<close>, \<open>Ir_Ingest_Props\<close>, \<open>Ir_Memo_Props\<close>: what the single handlers promise, what
    ingest promises, and the verdict memo across the two.
  \<^item> \<open>Tn_Permissions\<close>: permission bundles and route guards (\<open>core/tenancy/permissions.py\<close>,
    \<open>core/tenancy/decorators.py\<close>).
  \<^item> \<open>Rs_Model\<close>, \<open>Rs_Dispatch\<close>, \<open>Rs_Executor\<close>: the response playbooks and their authoring store, a second
    interpretation of the revision table (\<open>response/models.py\<close>, \<open>registry.py\<close>, \<open>authoring.py\<close>), the
    envelope and the enqueue (\<open>envelope.py\<close>, \<open>dispatch.py\<close>), and the outbox, the proposals, the capability
    handlers and the human decision (\<open>executor.py\<close>, \<open>capabilities.py\<close>, \<open>core/ir/runtime.py\<close>,
    \<open>core/api/ir.py\<close>). Their \<open>_Correct\<close> theories describe each operation once.
  \<^item> \<open>Rs_Plane\<close>, \<open>Rs_Plane_Correct\<close>, \<open>Rs_Props\<close>: completion with dispatch, decision, executor turn and
    executor crash as the inductive relation \<open>action_step\<close> over the approvals given, the requests
    sent and the store; its invariant; what holds of every reachable state.
  \<^item> \<open>PyUrl\<close>, \<open>Id_Store\<close>, \<open>Id_Routes\<close>, \<open>Id_Admin\<close>: URL splitting as the standard library does it; users,
    passwords, sessions, the rate limiter and the sign-in service (\<open>core/auth/\<close>); the origin check, the
    middleware and the routes (\<open>core/api/auth.py\<close>); user administration with its shared guards
    (\<open>core/api/user_admin.py\<close>). The password hasher is a parameter.
  \<^item> \<open>Id_Plane\<close>, \<open>Id_Plane_Correct\<close>, \<open>Id_Invariant\<close>, \<open>Id_Changes\<close>, \<open>Id_Props\<close>: requests under the middleware,
    the clock and restarts as the inductive relation \<open>id_step\<close>; the effect of a request table by table;
    the invariant that ties counters and locks to the audit trail and sessions to recorded sign-ins;
    what changes an account, and what holds of every reachable state.

  Bounds. The graph needs no fuel: a run is a path of \<open>graph_step\<close>, and the distance measure
  bounds its length by 29, below the recursion limit of 50 the worker configures.

  Parameters. Model replies, worker results, the clock, JSON and YAML readers and encoders,
  directory listings and the policy-schema coercion of the validation library are arguments of
  the definitions that use them. So are, in the run plane, fresh identifiers, the digest behind
  signatures and fingerprints, time zones, the resolved prices of a new run, the answer of the
  engagement registry and the shadow score of routine authorization; in the response plane the URL
  parser, name resolution, the keyed digest, the reply of an endpoint and the rows other transactions hold; in
  the identity plane the password hasher and the fresh passwords.

  Transactions. A handler runs in one transaction and is one step; row locks and the advisory locks
  of claim and ingest are what makes that so. A statement fails only where the model says so, and
  the ledger write of a report, which the code guards against failing, succeeds.

  Not modelled. Prompts, logging, replay events and metrics carry no decision. The other HTTP
  handlers, SQL text, Helm and Kubernetes clients, the chat assistant and third-party clients are I/O.
  Float rounding is not modelled: finite arithmetic is exact. Characters are single bytes, and
  digit and case classes are the ASCII ones. Of the investigation runtime, the reducer, the scorer,
  campaigns and the entity graph are left out. The run plane records a response dispatch as the
  call it is; \<open>complete_and_dispatch\<close> of \<open>Rs_Plane\<close> performs it. \<open>transition_run\<close> is only reached for
  proposals of a run, which nothing creates, so no step uses it. An identifier's text is its decimal
  form, the digest behind a proposal's key is the text digested, and a request that left is recorded
  with its reply a parameter.
\<close>

end
